(* ===== verification/Prelude.thy ===== *)
theory Prelude
  imports Complex_Main "HOL-Library.AList" "HOL-Library.Sublist"
begin

text \<open>
  The prelude of the development: Python strings and the few operations of \<open>str\<close> the
  platform code uses, exceptions as values, and generic lemmas every component shares.

  A Python string is a list of characters. Isabelle's \<open>char\<close> has 256 values, read as the
  code points U+0000 to U+00FF, so the model covers strings of that range; white space
  and case mapping are those of Python on that range.
\<close>

named_theorems str_simps \<open>equations that evaluate string operations\<close>
named_theorems io_simps \<open>equations of the exception monad\<close>

section \<open>Exceptions as values\<close>

text \<open>
  The Python exceptions that the modelled code raises, catches or lets pass. \<open>ExternalErr\<close>
  stands for any exception class of a library or a service outside the repository.
\<close>

datatype exc =
    ValueError string
  | TypeError string
  | KeyError string
  | AttributeError string
  | OverflowError
  | RuntimeErr string
  | PermissionErr string
  | TenantAccessViolation (exc_tenant: string) (exc_caller: string) (exc_key: string)
  | ExternalErr string

type_synonym 'a res = "exc + 'a"

definition bind_res :: "'a res \<Rightarrow> ('a \<Rightarrow> 'b res) \<Rightarrow> 'b res" where
  "bind_res m f = (case m of Inl e \<Rightarrow> Inl e | Inr x \<Rightarrow> f x)"

text \<open>The results of a list, or the first exception.\<close>

fun map_res :: "('a \<Rightarrow> 'b res) \<Rightarrow> 'a list \<Rightarrow> 'b list res" where
  "map_res f [] = Inr []"
| "map_res f (x # xs) = bind_res (f x) (\<lambda>y. bind_res (map_res f xs) (\<lambda>ys. Inr (y # ys)))"

fun all_res :: "'a res list \<Rightarrow> 'a list res" where
  "all_res [] = Inr []"
| "all_res (r # rs) = bind_res r (\<lambda>x. bind_res (all_res rs) (\<lambda>xs. Inr (x # xs)))"

definition is_err :: "'a res \<Rightarrow> bool" where
  "is_err r = (case r of Inl _ \<Rightarrow> True | Inr _ \<Rightarrow> False)"

lemma bind_res_simps [simp, io_simps]:
  "bind_res (Inl e) f = Inl e"
  "bind_res (Inr x) f = f x"
  by (simp_all add: bind_res_def)

lemma is_err_simps [simp]: "is_err (Inl e)" "\<not> is_err (Inr x)"
  by (simp_all add: is_err_def)

lemma bind_res_eq_Inr:
  "bind_res m f = Inr y \<longleftrightarrow> (\<exists>x. m = Inr x \<and> f x = Inr y)"
  by (cases m) simp_all

lemma bind_res_eq_Inl:
  "bind_res m f = Inl e \<longleftrightarrow> m = Inl e \<or> (\<exists>x. m = Inr x \<and> f x = Inl e)"
  by (cases m) simp_all

text \<open>
  Code that talks to a service outside the repository is a function from the state of the
  world to a result and the next state; an exception keeps the effects made before it.
\<close>

type_synonym ('w, 'a) io = "'w \<Rightarrow> 'a res \<times> 'w"

definition io_return :: "'a \<Rightarrow> ('w, 'a) io" where
  "io_return x w = (Inr x, w)"

definition io_raise :: "exc \<Rightarrow> ('w, 'a) io" where
  "io_raise e w = (Inl e, w)"

definition io_bind :: "('w, 'a) io \<Rightarrow> ('a \<Rightarrow> ('w, 'b) io) \<Rightarrow> ('w, 'b) io" where
  "io_bind m f w = (case m w of (Inl e, w') \<Rightarrow> (Inl e, w') | (Inr x, w') \<Rightarrow> f x w')"

text \<open>\<open>try: m except: h\<close>, with the exception passed to the handler.\<close>

definition io_catch :: "('w, 'a) io \<Rightarrow> (exc \<Rightarrow> ('w, 'a) io) \<Rightarrow> ('w, 'a) io" where
  "io_catch m h w = (case m w of (Inl e, w') \<Rightarrow> h e w' | (Inr x, w') \<Rightarrow> (Inr x, w'))"

definition io_lift :: "'a res \<Rightarrow> ('w, 'a) io" where
  "io_lift r w = (r, w)"

lemma io_basic [simp, io_simps]:
  "io_return x w = (Inr x, w)"
  "io_raise e w = (Inl e, w)"
  "io_lift r w = (r, w)"
  by (simp_all add: io_return_def io_raise_def io_lift_def)

lemma io_bind_run:
  "io_bind m f w = (case m w of (Inl e, w') \<Rightarrow> (Inl e, w') | (Inr x, w') \<Rightarrow> f x w')"
  by (rule io_bind_def)

lemma io_bind_steps [simp, io_simps]:
  "io_bind (io_return x) f = f x"
  "io_bind (io_raise e) f = io_raise e"
  "io_bind (io_lift (Inr x)) f = f x"
  "io_bind (io_lift (Inl e)) f = io_raise e"
  by (simp_all add: fun_eq_iff io_bind_def)

lemma io_bind_eqI:
  "m w = (Inr x, w') \<Longrightarrow> io_bind m f w = f x w'"
  "m w = (Inl e, w') \<Longrightarrow> io_bind m f w = (Inl e, w')"
  by (simp_all add: io_bind_def)

lemma io_catch_eqI:
  "m w = (Inr x, w') \<Longrightarrow> io_catch m h w = (Inr x, w')"
  "m w = (Inl e, w') \<Longrightarrow> io_catch m h w = h e w'"
  by (simp_all add: io_catch_def)

text \<open>
  What holds after a computation, on every way it can end, with one introduction rule per constructor: a proof about
  a handler follows its code.
\<close>

definition io_post :: "('w, 'a) io \<Rightarrow> 'w \<Rightarrow> ('a res \<Rightarrow> 'w \<Rightarrow> bool) \<Rightarrow> bool" where
  "io_post m w Q = (case m w of (r, w') \<Rightarrow> Q r w')"

named_theorems io_post_intros \<open>rules that walk through a computation\<close>

lemma io_postD: "io_post m w Q \<Longrightarrow> m w = (r, w') \<Longrightarrow> Q r w'"
  by (simp add: io_post_def)

lemma io_postI: "(\<And>r w'. m w = (r, w') \<Longrightarrow> Q r w') \<Longrightarrow> io_post m w Q"
  by (cases "m w") (simp add: io_post_def)

lemma io_post_raise [io_post_intros]: "Q (Inl e) w \<Longrightarrow> io_post (io_raise e) w Q"
  by (simp add: io_post_def)

lemma io_post_return [io_post_intros]: "Q (Inr x) w \<Longrightarrow> io_post (io_return x) w Q"
  by (simp add: io_post_def)

lemma io_post_lift [io_post_intros]: "Q r w \<Longrightarrow> io_post (io_lift r) w Q"
  by (simp add: io_post_def)

lemma io_post_if [io_post_intros]:
  "(b \<Longrightarrow> io_post m w Q) \<Longrightarrow> (\<not> b \<Longrightarrow> io_post n w Q) \<Longrightarrow> io_post (if b then m else n) w Q"
  by simp

lemma io_post_lift_bind [io_post_intros]:
  "(\<And>e. r = Inl e \<Longrightarrow> Q (Inl e) w) \<Longrightarrow> (\<And>x. r = Inr x \<Longrightarrow> io_post (f x) w Q) \<Longrightarrow>
     io_post (io_bind (io_lift r) f) w Q"
  by (cases r) (simp_all add: io_post_raise)

lemma io_post_bind:
  "(\<And>e w'. m w = (Inl e, w') \<Longrightarrow> Q (Inl e) w') \<Longrightarrow> (\<And>x w'. m w = (Inr x, w') \<Longrightarrow> io_post (f x) w' Q) \<Longrightarrow>
     io_post (io_bind m f) w Q"
  by (cases "m w" rule: prod.exhaust; cases "fst (m w)") (auto simp: io_post_def io_bind_def)

lemma io_post_bind_eq: "m w = (Inr x, w') \<Longrightarrow> io_post (f x) w' Q \<Longrightarrow> io_post (io_bind m f) w Q"
  by (simp add: io_post_def io_bind_def)

lemma io_post_option [io_post_intros]:
  "(v = None \<Longrightarrow> io_post m w Q) \<Longrightarrow> (\<And>x. v = Some x \<Longrightarrow> io_post (f x) w Q) \<Longrightarrow>
     io_post (case v of None \<Rightarrow> m | Some x \<Rightarrow> f x) w Q"
  by (cases v) simp_all

lemma io_post_weaken: "io_post m w Q \<Longrightarrow> (\<And>r w'. Q r w' \<Longrightarrow> R r w') \<Longrightarrow> io_post m w R"
  by (auto simp: io_post_def)

text \<open>\<open>try: m except ...\<close> whose continuation differs between the outcomes.\<close>

definition io_try :: "('w, 'a) io \<Rightarrow> ('a res \<Rightarrow> ('w, 'b) io) \<Rightarrow> ('w, 'b) io" where
  "io_try m k w = (case m w of (r, w') \<Rightarrow> k r w')"

lemma io_post_try:
  "(\<And>r w'. m w = (r, w') \<Longrightarrow> io_post (k r) w' Q) \<Longrightarrow> io_post (io_try m k) w Q"
  by (cases "m w") (simp add: io_post_def io_try_def)

lemma io_bind_lift: "io_bind (io_lift (Inr x)) f = f x"
  by (simp add: fun_eq_iff io_bind_def io_lift_def)

lemma io_post_try_eq: "m w = (r, w') \<Longrightarrow> io_post (k r) w' Q \<Longrightarrow> io_post (io_try m k) w Q"
  by (simp add: io_post_def io_try_def)

text \<open>
  Code with a loop that may run for ever: its value is \<open>None\<close> then. \<open>loop_ends\<close> is the code without such a loop.
\<close>

type_synonym ('w, 'a) loop = "'w \<Rightarrow> ('a res \<times> 'w) option"

definition loop_ends :: "('w, 'a) io \<Rightarrow> ('w, 'a) loop" where
  "loop_ends m w = Some (m w)"

definition loop_bind :: "('w, 'a) loop \<Rightarrow> ('a \<Rightarrow> ('w, 'b) loop) \<Rightarrow> ('w, 'b) loop" where
  "loop_bind m f w =
     (case m w of
        None \<Rightarrow> None
      | Some (r, w') \<Rightarrow> (case r of Inl e \<Rightarrow> Some (Inl e, w') | Inr x \<Rightarrow> f x w'))"

definition loop_try :: "('w, 'a) loop \<Rightarrow> ('a res \<Rightarrow> ('w, 'b) loop) \<Rightarrow> ('w, 'b) loop" where
  "loop_try m k w = (case m w of None \<Rightarrow> None | Some (r, w') \<Rightarrow> k r w')"

text \<open>Code that keeps state of its own runs on that state and the world outside.\<close>

definition on_world :: "('w, 'a) io \<Rightarrow> ('c \<times> 'w, 'a) io" where
  "on_world m s = (case m (snd s) of (r, w) \<Rightarrow> (r, (fst s, w)))"

section \<open>Python strings\<close>

text \<open>\<open>str.isspace\<close> on U+0000 to U+00FF, the characters \<open>str.strip()\<close> removes.\<close>

definition py_space :: "char \<Rightarrow> bool" where
  "py_space c \<longleftrightarrow> c \<in> {CHR '' '', CHR 0x09, CHR 0x0A, CHR 0x0B, CHR 0x0C, CHR 0x0D,
     CHR 0x1C, CHR 0x1D, CHR 0x1E, CHR 0x1F, CHR 0x85, CHR 0xA0}"

definition py_lstrip :: "string \<Rightarrow> string" where
  "py_lstrip s = dropWhile py_space s"

definition py_rstrip :: "string \<Rightarrow> string" where
  "py_rstrip s = rev (dropWhile py_space (rev s))"

definition py_strip :: "string \<Rightarrow> string" where
  "py_strip s = py_rstrip (py_lstrip s)"

text \<open>\<open>str.strip(c)\<close> for one character.\<close>

definition py_strip_char :: "char \<Rightarrow> string \<Rightarrow> string" where
  "py_strip_char c s = rev (dropWhile (\<lambda>x. x = c) (rev (dropWhile (\<lambda>x. x = c) s)))"

definition py_rstrip_char :: "char \<Rightarrow> string \<Rightarrow> string" where
  "py_rstrip_char c s = rev (dropWhile (\<lambda>x. x = c) (rev s))"

definition code_point :: "char \<Rightarrow> nat" where
  "code_point c = of_char c"

definition py_lower_char :: "char \<Rightarrow> char" where
  "py_lower_char c =
     (let n = code_point c in
      if (65 \<le> n \<and> n \<le> 90) \<or> (192 \<le> n \<and> n \<le> 222 \<and> n \<noteq> 215) then char_of (n + 32) else c)"

text \<open>\<open>str.upper()\<close> on the letters of ASCII, the only ones the routes are compared on.\<close>

definition ascii_upper :: "char \<Rightarrow> char" where
  "ascii_upper c = (if 97 \<le> code_point c \<and> code_point c \<le> 122 then char_of (code_point c - 32) else c)"

definition py_lower :: "string \<Rightarrow> string" where
  "py_lower s = map py_lower_char s"

text \<open>
  \<open>str.upper\<close>; the sharp s becomes two letters. U+00B5 and U+00FF, whose upper case lies
  outside the modelled range, are left alone.
\<close>

definition py_upper_char :: "char \<Rightarrow> string" where
  "py_upper_char c =
     (let n = code_point c in
      if (97 \<le> n \<and> n \<le> 122) \<or> (224 \<le> n \<and> n \<le> 254 \<and> n \<noteq> 247) then [char_of (n - 32)]
      else if n = 223 then ''SS'' else [c])"

definition py_upper :: "string \<Rightarrow> string" where
  "py_upper s = concat (map py_upper_char s)"

definition starts_with :: "string \<Rightarrow> string \<Rightarrow> bool" where
  "starts_with s p \<longleftrightarrow> take (length p) s = p"

definition ends_with :: "string \<Rightarrow> string \<Rightarrow> bool" where
  "ends_with s p \<longleftrightarrow> starts_with (rev s) (rev p)"

definition remove_prefix :: "string \<Rightarrow> string \<Rightarrow> string" where
  "remove_prefix s p = (if starts_with s p then drop (length p) s else s)"

text \<open>\<open>sub in s\<close>.\<close>

fun str_contains :: "string \<Rightarrow> string \<Rightarrow> bool" where
  "str_contains [] p = (p = [])"
| "str_contains (c # cs) p = (starts_with (c # cs) p \<or> str_contains cs p)"

text \<open>\<open>s.split(sep)\<close> for a one-character separator.\<close>

fun split_on :: "char \<Rightarrow> string \<Rightarrow> string list" where
  "split_on sep [] = [[]]"
| "split_on sep (c # cs) =
     (if c = sep then [] # split_on sep cs
      else (case split_on sep cs of [] \<Rightarrow> [[c]] | p # ps \<Rightarrow> (c # p) # ps))"

text \<open>\<open>s.split(sep, n)\<close>: at most \<open>n\<close> splits.\<close>

fun split_max :: "char \<Rightarrow> nat \<Rightarrow> string \<Rightarrow> string list" where
  "split_max sep n [] = [[]]"
| "split_max sep 0 (c # cs) = [c # cs]"
| "split_max sep (Suc n) (c # cs) =
     (if c = sep then [] # split_max sep n cs
      else (case split_max sep (Suc n) cs of [] \<Rightarrow> [[c]] | p # ps \<Rightarrow> (c # p) # ps))"

fun str_join :: "string \<Rightarrow> string list \<Rightarrow> string" where
  "str_join sep [] = []"
| "str_join sep [x] = x"
| "str_join sep (x # y # ys) = x @ sep @ str_join sep (y # ys)"

section \<open>The environment of the process\<close>

type_synonym environ = "string \<Rightarrow> string option"

definition env_or :: "environ \<Rightarrow> string \<Rightarrow> string \<Rightarrow> string" where
  "env_or env k d = (case env k of None \<Rightarrow> d | Some v \<Rightarrow> v)"

text \<open>\<open>os.environ.get(k)\<close> used as a condition.\<close>

definition env_set :: "environ \<Rightarrow> string \<Rightarrow> string option" where
  "env_set env k = (case env k of None \<Rightarrow> None | Some v \<Rightarrow> if v = [] then None else Some v)"

section \<open>Decimal text\<close>

definition is_digit :: "char \<Rightarrow> bool" where
  "is_digit c \<longleftrightarrow> 48 \<le> code_point c \<and> code_point c \<le> 57"

definition digit_val :: "char \<Rightarrow> nat" where
  "digit_val c = code_point c - 48"

definition digit_char :: "nat \<Rightarrow> char" where
  "digit_char n = char_of (48 + n)"

fun show_nat :: "nat \<Rightarrow> string" where
  "show_nat n = (if n < 10 then [digit_char n] else show_nat (n div 10) @ [digit_char (n mod 10)])"

declare show_nat.simps [simp del]

definition show_int :: "int \<Rightarrow> string" where
  "show_int i = (if i < 0 then CHR ''-'' # show_nat (nat (- i)) else show_nat (nat i))"

text \<open>The digits of \<open>int(text)\<close>: single underscores may stand between digits.\<close>

fun parse_digits :: "bool \<Rightarrow> nat \<Rightarrow> string \<Rightarrow> nat option" where
  "parse_digits after acc [] = (if after then Some acc else None)"
| "parse_digits after acc (c # cs) =
     (if is_digit c then parse_digits True (10 * acc + digit_val c) cs
      else if c = CHR ''_'' \<and> after then parse_digits False acc cs
      else None)"

definition parse_int :: "string \<Rightarrow> int option" where
  "parse_int s =
     (case py_strip s of
        [] \<Rightarrow> None
      | c # cs \<Rightarrow>
          if c = CHR ''-'' then map_option (\<lambda>n. - int n) (parse_digits False 0 cs)
          else if c = CHR ''+'' then map_option int (parse_digits False 0 cs)
          else map_option int (parse_digits False 0 (c # cs)))"

section \<open>Lemmas on strings\<close>

lemma starts_with_iff: "starts_with s p \<longleftrightarrow> (\<exists>t. s = p @ t)"
  by (metis append_eq_conv_conj starts_with_def append_take_drop_id)

lemma starts_with_append [simp]: "starts_with (p @ s) p"
  by (simp add: starts_with_def)

lemma starts_with_Nil [simp, str_simps]: "starts_with s []"
  by (simp add: starts_with_def)

lemma starts_with_Nil_left [simp, str_simps]: "starts_with [] p \<longleftrightarrow> p = []"
  by (auto simp: starts_with_def)

lemma starts_with_Cons [simp, str_simps]:
  "starts_with (c # s) (d # p) \<longleftrightarrow> c = d \<and> starts_with s p"
  by (auto simp: starts_with_def)

lemma remove_prefix_append [simp]: "remove_prefix (p @ s) p = s"
  by (simp add: remove_prefix_def)

lemma starts_with_remove_prefix: "starts_with s p \<Longrightarrow> p @ remove_prefix s p = s"
  by (auto simp: starts_with_iff)

lemma ends_with_iff: "ends_with s p \<longleftrightarrow> (\<exists>t. s = t @ p)"
proof
  assume "ends_with s p"
  then obtain t where "rev s = rev p @ t" by (auto simp: ends_with_def starts_with_iff)
  then have "s = rev t @ p" by (metis rev_append rev_rev_ident)
  then show "\<exists>t. s = t @ p" ..
qed (auto simp: ends_with_def)

lemma split_on_not_Nil [simp]: "split_on sep s \<noteq> []"
  by (induction s) (auto split: list.splits)

lemma split_on_no_sep: "sep \<notin> set s \<Longrightarrow> split_on sep s = [s]"
  by (induction s) auto

lemma split_on_append:
  "sep \<notin> set a \<Longrightarrow> split_on sep (a @ sep # s) = a # split_on sep s"
  by (induction a) auto

lemma split_on_parts: "p \<in> set (split_on sep s) \<Longrightarrow> sep \<notin> set p"
proof (induction s arbitrary: p)
  case (Cons c s)
  obtain q qs where q: "split_on sep s = q # qs" by (cases "split_on sep s") auto
  with Cons.IH have "\<And>p. p \<in> set (q # qs) \<Longrightarrow> sep \<notin> set p" by simp
  with Cons.prems q show ?case by (auto split: if_splits)
qed simp

lemma join_split_on: "str_join [sep] (split_on sep s) = s"
proof (induction s)
  case (Cons c s)
  obtain q qs where q: "split_on sep s = q # qs" by (cases "split_on sep s") auto
  with Cons show ?case by (cases qs) auto
qed simp

lemma split_on_join:
  assumes "xs \<noteq> []" "\<forall>x \<in> set xs. sep \<notin> set x"
  shows "split_on sep (str_join [sep] xs) = xs"
  using assms
proof (induction xs rule: induct_list012)
  case (3 x y ys)
  then show ?case by (simp add: split_on_append)
qed (auto simp: split_on_no_sep)

lemma split_max_length: "length (split_max sep n s) \<le> Suc n"
  by (induction sep n s rule: split_max.induct) (auto split: list.splits)

lemma split_max_append:
  "sep \<notin> set a \<Longrightarrow> split_max sep (Suc n) (a @ sep # s) = a # split_max sep n s"
  by (induction a) auto

lemma split_max_zero [simp]: "split_max sep 0 s = [s]"
  by (cases s) auto

lemma split_max_no_sep: "sep \<notin> set s \<Longrightarrow> split_max sep n s = [s]"
  by (induction sep n s rule: split_max.induct) auto

lemma dropWhile_idem_head: "dropWhile P (dropWhile P xs) = dropWhile P xs"
  by (induction xs) auto

lemma py_lstrip_id: "s = [] \<or> \<not> py_space (hd s) \<Longrightarrow> py_lstrip s = s"
  by (cases s) (auto simp: py_lstrip_def)

lemma py_rstrip_id: "s = [] \<or> \<not> py_space (last s) \<Longrightarrow> py_rstrip s = s"
  by (cases s rule: rev_cases) (auto simp: py_rstrip_def)

lemma py_strip_id:
  "s = [] \<or> (\<not> py_space (hd s) \<and> \<not> py_space (last s)) \<Longrightarrow> py_strip s = s"
  by (auto simp: py_strip_def py_lstrip_id py_rstrip_id)

lemma py_strip_Nil [simp]: "py_strip [] = []"
  by (simp add: py_strip_id)

lemma hd_dropWhile_not: "dropWhile P xs \<noteq> [] \<Longrightarrow> \<not> P (hd (dropWhile P xs))"
  by (rule hd_dropWhile)

lemma py_strip_ends:
  assumes "py_strip s \<noteq> []"
  shows "\<not> py_space (hd (py_strip s))" "\<not> py_space (last (py_strip s))"
proof -
  let ?l = "dropWhile py_space s"
  let ?r = "dropWhile py_space (rev ?l)"
  have eq: "py_strip s = rev ?r" by (simp add: py_strip_def py_lstrip_def py_rstrip_def)
  with assms have ne: "?r \<noteq> []" by simp
  then show "\<not> py_space (last (py_strip s))" by (simp add: eq last_rev hd_dropWhile)
  have "\<exists>u. rev ?l = u @ ?r" by (metis takeWhile_dropWhile_id)
  then obtain u where "?l = rev ?r @ rev u" by (metis rev_append rev_rev_ident)
  moreover from ne have ne': "rev ?r \<noteq> []" by simp
  ultimately have "hd ?l = hd (rev ?r)" by (metis hd_append2)
  moreover have "?l \<noteq> []" using ne by (metis dropWhile.simps(1) rev.simps(1))
  ultimately show "\<not> py_space (hd (py_strip s))" by (metis eq hd_dropWhile)
qed

lemma py_strip_idem [simp]: "py_strip (py_strip s) = py_strip s"
  by (cases "py_strip s = []") (auto intro: py_strip_id dest: py_strip_ends)

lemma py_space_cases: "py_space c \<Longrightarrow> c \<in> {CHR '' '', CHR 0x09, CHR 0x0A, CHR 0x0B, CHR 0x0C, CHR 0x0D, CHR 0x1C, CHR 0x1D, CHR 0x1E, CHR 0x1F, CHR 0x85, CHR 0xA0}"
  by (simp add: py_space_def)

lemma code_point_less [simp]: "code_point c < 256"
  by (simp add: code_point_def)

lemma code_point_char_of [simp]: "n < 256 \<Longrightarrow> code_point (char_of n) = n"
  by (simp add: code_point_def)

lemma char_of_code_point: "char_of (code_point c) = c"
  by (simp add: code_point_def)

lemma code_point_inject: "code_point c = code_point d \<longleftrightarrow> c = d"
  by (simp add: code_point_def)

lemma py_lower_char_idem [simp]: "py_lower_char (py_lower_char c) = py_lower_char c"
  by (auto simp: py_lower_char_def Let_def)

lemma py_lower_idem [simp]: "py_lower (py_lower s) = py_lower s"
  by (simp add: py_lower_def)

lemma length_py_lower [simp]: "length (py_lower s) = length s"
  by (simp add: py_lower_def)

lemma digit_char_props:
  assumes "n < 10"
  shows "is_digit (digit_char n)" "digit_val (digit_char n) = n" "\<not> py_space (digit_char n)"
    "digit_char n \<noteq> CHR ''-''" "digit_char n \<noteq> CHR ''+''"
proof -
  have cp: "code_point (digit_char n) = 48 + n"
    using assms by (simp add: digit_char_def)
  then show "is_digit (digit_char n)" "digit_val (digit_char n) = n"
    using assms by (simp_all add: is_digit_def digit_val_def)
  have sp: "code_point c < 48 \<or> 57 < code_point c" if "py_space c" for c
    using that by (auto simp: py_space_def code_point_def)
  show "\<not> py_space (digit_char n)" using sp cp assms by fastforce
  show "digit_char n \<noteq> CHR ''-''" "digit_char n \<noteq> CHR ''+''"
    using cp by (auto simp: code_point_def)
qed

lemma show_nat_digits: "\<forall>c \<in> set (show_nat n). \<exists>d < 10. c = digit_char d"
proof (induction n rule: show_nat.induct)
  case (1 n)
  show ?case
  proof (cases "n < 10")
    case True
    then show ?thesis by (subst show_nat.simps) auto
  next
    case False
    have "\<exists>d < 10. digit_char (n mod 10) = digit_char d"
      by (rule exI[of _ "n mod 10"]) simp
    with False 1 show ?thesis by (simp add: show_nat.simps[of n])
  qed
qed

lemma show_nat_not_Nil [simp]: "show_nat n \<noteq> []"
  by (subst show_nat.simps) simp

lemma parse_digits_append:
  assumes "\<forall>c \<in> set ds. is_digit c" "ds \<noteq> []"
  shows "parse_digits b acc (ds @ s) = parse_digits True (foldl (\<lambda>a c. 10 * a + digit_val c) acc ds) s"
  using assms
proof (induction ds arbitrary: b acc)
  case (Cons c ds)
  show ?case
  proof (cases "ds = []")
    case False
    with Cons have "parse_digits True (10 * acc + digit_val c) (ds @ s) =
      parse_digits True (foldl (\<lambda>a c. 10 * a + digit_val c) (10 * acc + digit_val c) ds) s"
      by simp
    with Cons.prems show ?thesis by simp
  qed (use Cons.prems in simp)
qed simp

lemma foldl_show_nat:
  "foldl (\<lambda>a c. 10 * a + digit_val c) 0 (show_nat n) = n"
proof (induction n rule: show_nat.induct)
  case (1 n)
  show ?case
  proof (cases "n < 10")
    case True
    then show ?thesis by (subst show_nat.simps) (simp add: digit_char_props)
  next
    case False
    with 1 show ?thesis
      by (subst show_nat.simps) (simp add: digit_char_props mult.commute)
  qed
qed

lemma show_nat_all_digits: "\<forall>c \<in> set (show_nat n). is_digit c"
  using show_nat_digits digit_char_props(1) by metis

lemma parse_digits_show_nat: "parse_digits False 0 (show_nat n) = Some n"
  using parse_digits_append[OF show_nat_all_digits show_nat_not_Nil, of False 0 n "[]"]
  by (simp add: foldl_show_nat)

lemma show_nat_no_space: "c \<in> set (show_nat n) \<Longrightarrow> \<not> py_space c"
  using show_nat_digits digit_char_props(3) by metis

lemma show_nat_hd: "hd (show_nat n) \<noteq> CHR ''-'' \<and> hd (show_nat n) \<noteq> CHR ''+''"
proof -
  have "hd (show_nat n) \<in> set (show_nat n)" by simp
  with show_nat_digits[of n] obtain d where "d < 10" "hd (show_nat n) = digit_char d" by blast
  then show ?thesis using digit_char_props(4,5) by metis
qed

lemma show_nat_last_no_space: "\<not> py_space (last (show_nat n))"
  by (rule show_nat_no_space[of _ n]) simp

lemma show_nat_hd_no_space: "\<not> py_space (hd (show_nat n))"
  by (rule show_nat_no_space[of _ n]) simp

lemma parse_int_show_int [simp]: "parse_int (show_int i) = Some i"
proof (cases "i < 0")
  case True
  have "py_strip (CHR ''-'' # show_nat (nat (- i))) = CHR ''-'' # show_nat (nat (- i))"
    using show_nat_last_no_space[of "nat (- i)"] by (intro py_strip_id) (simp add: py_space_def)
  with True show ?thesis by (simp add: parse_int_def show_int_def parse_digits_show_nat)
next
  case False
  have "py_strip (show_nat (nat i)) = show_nat (nat i)"
    by (rule py_strip_id) (simp add: show_nat_last_no_space show_nat_hd_no_space)
  moreover obtain c cs where "show_nat (nat i) = c # cs" by (cases "show_nat (nat i)") auto
  ultimately show ?thesis
    using False show_nat_hd[of "nat i"] parse_digits_show_nat[of "nat i"]
    by (simp add: parse_int_def show_int_def)
qed

lemma show_int_not_Nil [simp]: "show_int i \<noteq> []"
  by (simp add: show_int_def)

lemma show_int_inject [simp]: "show_int i = show_int j \<longleftrightarrow> i = j"
  by (metis option.inject parse_int_show_int)

lemma py_space_code:
  "py_space c \<longleftrightarrow> code_point c \<in> {32, 9, 10, 11, 12, 13, 28, 29, 30, 31, 133, 160}"
proof
  assume "py_space c"
  then show "code_point c \<in> {32, 9, 10, 11, 12, 13, 28, 29, 30, 31, 133, 160}"
    by (auto simp: py_space_def code_point_def)
next
  assume "code_point c \<in> {32, 9, 10, 11, 12, 13, 28, 29, 30, 31, 133, 160}"
  moreover have "c = char_of (code_point c)" by (simp add: code_point_def)
  ultimately have "c \<in> char_of ` {32, 9, 10, 11, 12, 13, 28, 29, 30, 31, 133, 160 :: nat}" by blast
  moreover have "\<forall>n \<in> {32, 9, 10, 11, 12, 13, 28, 29, 30, 31, 133, 160 :: nat}. py_space (char_of n)"
    by code_simp
  ultimately show "py_space c" by blast
qed

lemma py_space_lower [simp]: "py_space (py_lower_char c) \<longleftrightarrow> py_space c"
  by (auto simp: py_space_code py_lower_char_def Let_def)

lemma py_strip_lower [simp]: "py_strip (py_lower s) = py_lower (py_strip s)"
  by (simp add: py_strip_def py_lstrip_def py_rstrip_def py_lower_def dropWhile_map comp_def rev_map)

section \<open>Order and sorting\<close>

text \<open>\<open>a <= b\<close> on strings.\<close>

fun str_le :: "string \<Rightarrow> string \<Rightarrow> bool" where
  "str_le [] t = True"
| "str_le (c # s) [] = False"
| "str_le (c # s) (d # t) = (code_point c < code_point d \<or> (c = d \<and> str_le s t))"

text \<open>Python's sort: stable, each element once.\<close>

fun insert_by :: "('a \<Rightarrow> 'a \<Rightarrow> bool) \<Rightarrow> 'a \<Rightarrow> 'a list \<Rightarrow> 'a list" where
  "insert_by le x [] = [x]"
| "insert_by le x (y # ys) = (if le x y then x # y # ys else y # insert_by le x ys)"

definition sort_by :: "('a \<Rightarrow> 'a \<Rightarrow> bool) \<Rightarrow> 'a list \<Rightarrow> 'a list" where
  "sort_by le xs = foldr (insert_by le) xs []"

lemma str_le_order:
  "str_le xs xs" "str_le xs ys \<Longrightarrow> str_le ys zs \<Longrightarrow> str_le xs zs" "str_le xs ys \<or> str_le ys xs"
proof -
  show "str_le xs xs" by (induction xs) auto
  show "str_le xs ys \<Longrightarrow> str_le ys zs \<Longrightarrow> str_le xs zs"
    by (induction xs ys arbitrary: zs rule: str_le.induct) (auto elim: str_le.elims)
  show "str_le xs ys \<or> str_le ys xs"
    by (induction xs ys rule: str_le.induct) (auto simp: code_point_def)
qed

lemma set_insert_by [simp]: "set (insert_by le x xs) = insert x (set xs)"
  by (induction xs) auto

lemma set_sort_by [simp]: "set (sort_by le xs) = set xs"
  by (induction xs) (auto simp: sort_by_def)

lemma length_sort_by [simp]: "length (sort_by le xs) = length xs"
proof -
  have "length (insert_by le x ys) = Suc (length ys)" for x ys by (induction ys) auto
  then show ?thesis by (induction xs) (auto simp: sort_by_def)
qed

lemma sorted_sort_by:
  assumes "\<And>a b c. le a b \<Longrightarrow> le b c \<Longrightarrow> le a c" and "\<And>a b. le a b \<or> le b a"
  shows "sorted_wrt le (sort_by le xs)"
proof -
  have "sorted_wrt le ys \<Longrightarrow> sorted_wrt le (insert_by le x ys)" for x ys
    by (induction ys) (use assms in \<open>auto, blast+\<close>)
  then show ?thesis by (induction xs) (auto simp: sort_by_def)
qed

end
