(* ===== verification/PyValue.thy ===== *)
theory PyValue
  imports Prelude
begin

text \<open>
  Python values as the handlers see them: what \<open>json.loads\<close> and the DynamoDB client
  return, with truth value, \<open>str\<close>, \<open>int\<close> and the dictionary operations, and the shared
  coercions of \<open>src/platform_utils.py\<close>.

  A dictionary is an association list in insertion order. A float is either a finite value,
  kept with the text \<open>str\<close> prints for it, or one of the three special values.
\<close>

datatype pyfloat = FFin rat string | FInf | FNegInf | FNan

datatype pyval =
    PNone
  | PBool bool
  | PInt int
  | PFloat pyfloat
  | PStr string
  | PList "pyval list"
  | PDict "(string \<times> pyval) list"

type_synonym pydict = "(string \<times> pyval) list"

section \<open>Dictionaries\<close>

definition dict_get :: "pydict \<Rightarrow> string \<Rightarrow> pyval option" where
  "dict_get d k = map_of d k"

text \<open>\<open>d.get(k, default)\<close>; without a default the value is \<open>None\<close>.\<close>

definition dget_or :: "pydict \<Rightarrow> string \<Rightarrow> pyval \<Rightarrow> pyval" where
  "dget_or d k v = (case map_of d k of None \<Rightarrow> v | Some x \<Rightarrow> x)"

abbreviation dget :: "pydict \<Rightarrow> string \<Rightarrow> pyval" where
  "dget d k \<equiv> dget_or d k PNone"

text \<open>\<open>d[k] = v\<close> and \<open>d.update(e)\<close>: an old key keeps its place, a new one goes last.\<close>

definition dset :: "string \<Rightarrow> 'a \<Rightarrow> (string \<times> 'a) list \<Rightarrow> (string \<times> 'a) list" where
  "dset k v d = AList.update k v d"

fun dupdate :: "(string \<times> 'a) list \<Rightarrow> (string \<times> 'a) list \<Rightarrow> (string \<times> 'a) list" where
  "dupdate d [] = d"
| "dupdate d ((k, v) # e) = dupdate (dset k v d) e"

text \<open>What every dictionary satisfies: no key twice.\<close>

definition dict_ok :: "(string \<times> 'a) list \<Rightarrow> bool" where
  "dict_ok d = distinct (map fst d)"

lemma map_of_dset: "map_of (dset k v d) = (map_of d)(k \<mapsto> v)"
  by (simp add: dset_def fun_eq_iff update_conv)

lemma map_of_dset_apply [simp]:
  "map_of (dset k v d) k' = (if k' = k then Some v else map_of d k')"
  by (simp add: map_of_dset)

lemma map_of_dupdate: "map_of (dupdate d e) k =
    (case map_of (rev e) k of Some v \<Rightarrow> Some v | None \<Rightarrow> map_of d k)"
  by (induction d e rule: dupdate.induct) (auto simp: map_add_def split: option.splits)

lemma set_keys_dset [simp]: "fst ` set (dset k v d) = insert k (fst ` set d)"
  by (simp add: dset_def dom_update)

lemma dict_ok_dset [intro, simp]: "dict_ok d \<Longrightarrow> dict_ok (dset k v d)"
  by (simp add: dict_ok_def dset_def distinct_update)

lemma dict_ok_dupdate [intro]: "dict_ok d \<Longrightarrow> dict_ok (dupdate d e)"
  by (induction d e rule: dupdate.induct) auto

lemma keys_dupdate: "fst ` set (dupdate d e) = fst ` set d \<union> fst ` set e"
  by (induction d e rule: dupdate.induct) auto

lemma in_dsetD: "(k', v') \<in> set (dset k v d) \<Longrightarrow> (k', v') = (k, v) \<or> (k', v') \<in> set d"
  by (induction d) (auto simp: dset_def split: if_splits)

section \<open>Truth and types\<close>

fun truthy :: "pyval \<Rightarrow> bool" where
  "truthy PNone = False"
| "truthy (PBool b) = b"
| "truthy (PInt i) = (i \<noteq> 0)"
| "truthy (PFloat (FFin r _)) = (r \<noteq> 0)"
| "truthy (PFloat _) = True"
| "truthy (PStr s) = (s \<noteq> [])"
| "truthy (PList xs) = (xs \<noteq> [])"
| "truthy (PDict d) = (d \<noteq> [])"

text \<open>\<open>a or b\<close>.\<close>

definition py_or :: "pyval \<Rightarrow> pyval \<Rightarrow> pyval" where
  "py_or a b = (if truthy a then a else b)"

fun is_dict :: "pyval \<Rightarrow> bool" where
  "is_dict (PDict d) = True" | "is_dict _ = False"

fun is_pstr :: "pyval \<Rightarrow> bool" where
  "is_pstr (PStr s) = True" | "is_pstr _ = False"

text \<open>\<open>isinstance(v, dict)\<close> with the dictionary it narrows to.\<close>

fun as_dict :: "pyval \<Rightarrow> pydict option" where
  "as_dict (PDict d) = Some d" | "as_dict _ = None"

fun as_list :: "pyval \<Rightarrow> pyval list option" where
  "as_list (PList xs) = Some xs" | "as_list _ = None"

text \<open>\<open>type(v).__name__\<close>.\<close>

fun type_name :: "pyval \<Rightarrow> string" where
  "type_name PNone = ''NoneType''"
| "type_name (PBool b) = ''bool''"
| "type_name (PInt i) = ''int''"
| "type_name (PFloat f) = ''float''"
| "type_name (PStr s) = ''str''"
| "type_name (PList xs) = ''list''"
| "type_name (PDict d) = ''dict''"

text \<open>\<open>v if isinstance(v, dict) else {}\<close>.\<close>

definition dict_or_empty :: "pyval \<Rightarrow> pydict" where
  "dict_or_empty v = (case as_dict v of Some d \<Rightarrow> d | None \<Rightarrow> [])"

section \<open>\<open>str\<close> and \<open>repr\<close>\<close>

fun float_text :: "pyfloat \<Rightarrow> string" where
  "float_text (FFin r t) = t"
| "float_text FInf = ''inf''"
| "float_text FNegInf = ''-inf''"
| "float_text FNan = ''nan''"

definition hex_digit :: "nat \<Rightarrow> char" where
  "hex_digit n = (if n < 10 then char_of (48 + n) else char_of (87 + n))"

definition repr_char :: "char \<Rightarrow> char \<Rightarrow> string" where
  "repr_char q c =
     (let n = code_point c in
      if c = q then [CHR 0x5C, c]
      else if n = 92 then [CHR 0x5C, CHR 0x5C]
      else if n = 10 then [CHR 0x5C, CHR ''n'']
      else if n = 13 then [CHR 0x5C, CHR ''r'']
      else if n = 9 then [CHR 0x5C, CHR ''t'']
      else if n < 32 \<or> (127 \<le> n \<and> n \<le> 160) \<or> n = 173
        then [CHR 0x5C, CHR ''x'', hex_digit (n div 16), hex_digit (n mod 16)]
      else [c])"

definition repr_str :: "string \<Rightarrow> string" where
  "repr_str s =
     (let q = (if CHR 0x27 \<in> set s \<and> CHR 0x22 \<notin> set s then CHR 0x22 else CHR 0x27)
      in q # concat (map (repr_char q) s) @ [q])"

fun py_repr :: "pyval \<Rightarrow> string" where
  "py_repr PNone = ''None''"
| "py_repr (PBool b) = (if b then ''True'' else ''False'')"
| "py_repr (PInt i) = show_int i"
| "py_repr (PFloat f) = float_text f"
| "py_repr (PStr s) = repr_str s"
| "py_repr (PList xs) = ''['' @ str_join '', '' (map py_repr xs) @ '']''"
| "py_repr (PDict d) =
     ''{'' @ str_join '', '' (map (\<lambda>(k, v). repr_str k @ '': '' @ py_repr v) d) @ ''}''"

definition py_str :: "pyval \<Rightarrow> string" where
  "py_str v = (case v of PStr s \<Rightarrow> s | _ \<Rightarrow> py_repr v)"

lemma py_str_simps [simp]:
  "py_str (PStr s) = s" "py_str (PInt i) = show_int i" "py_str PNone = ''None''"
  "py_str (PBool b) = (if b then ''True'' else ''False'')"
  by (simp_all add: py_str_def)

section \<open>\<open>int\<close>\<close>

definition trunc_rat :: "rat \<Rightarrow> int" where
  "trunc_rat r = (if 0 \<le> r then floor r else ceiling r)"

text \<open>
  \<open>int(v)\<close>: a text that is no number and a NaN raise \<open>ValueError\<close>, an infinite float
  \<open>OverflowError\<close>, anything that is neither text nor number \<open>TypeError\<close>.
\<close>

fun py_int :: "pyval \<Rightarrow> int res" where
  "py_int (PBool b) = Inr (if b then 1 else 0)"
| "py_int (PInt i) = Inr i"
| "py_int (PFloat (FFin r _)) = Inr (trunc_rat r)"
| "py_int (PFloat FNan) = Inl (ValueError ''cannot convert float NaN to integer'')"
| "py_int (PFloat _) = Inl OverflowError"
| "py_int (PStr s) =
     (case parse_int s of Some i \<Rightarrow> Inr i | None \<Rightarrow> Inl (ValueError ''invalid literal for int()''))"
| "py_int _ = Inl (TypeError ''int() argument'')"

section \<open>\<open>float\<close>\<close>

text \<open>Digits of a number text; single underscores may stand between them.\<close>

definition float_digits :: "string \<Rightarrow> string \<times> string" where
  "float_digits s =
     (let ds = takeWhile (\<lambda>c. is_digit c \<or> c = CHR ''_'') s in (ds, drop (length ds) s))"

definition digits_ok :: "string \<Rightarrow> bool" where
  "digits_ok ds \<longleftrightarrow> ds = [] \<or> (is_digit (hd ds) \<and> is_digit (last ds) \<and> \<not> str_contains ds ''__'')"

definition digits_num :: "string \<Rightarrow> nat" where
  "digits_num ds = foldl (\<lambda>a c. 10 * a + digit_val c) 0 (filter is_digit ds)"

definition float_sign :: "string \<Rightarrow> bool \<times> string" where
  "float_sign s =
     (case s of c # r \<Rightarrow> if c = CHR ''-'' then (True, r) else if c = CHR ''+'' then (False, r) else (False, s)
      | [] \<Rightarrow> (False, []))"

text \<open>\<open>float(text)\<close>, with the exact value of the literal (rounding to a double is not modelled).\<close>

definition parse_float :: "string \<Rightarrow> pyfloat option" where
  "parse_float text =
     (let s = py_strip text;
          (neg, r) = float_sign s;
          l = py_lower r
      in if l = ''inf'' \<or> l = ''infinity'' then Some (if neg then FNegInf else FInf)
         else if l = ''nan'' then Some FNan
         else
           (let (whole, r1) = float_digits r;
                (frac, r2) = (if starts_with r1 ''.'' then float_digits (tl r1) else ([], r1));
                (eneg, edigits, r3) =
                  (if starts_with r2 ''e'' \<or> starts_with r2 ''E''
                   then (case float_sign (tl r2) of (n, q) \<Rightarrow> (case float_digits q of (ds, rest) \<Rightarrow> (n, Some ds, rest)))
                   else (False, None, r2));
                m = of_nat (digits_num (whole @ frac)) / 10 ^ length (filter is_digit frac);
                e = (case edigits of None \<Rightarrow> 0 | Some ds \<Rightarrow> digits_num ds);
                v = (if eneg then m / 10 ^ e else m * 10 ^ e)
            in if digits_ok whole \<and> digits_ok frac \<and> (whole \<noteq> [] \<or> frac \<noteq> []) \<and> r3 = []
                  \<and> (case edigits of None \<Rightarrow> True | Some ds \<Rightarrow> ds \<noteq> [] \<and> digits_ok ds)
               then Some (FFin (if neg then - v else v) s) else None))"

fun py_float :: "pyval \<Rightarrow> pyfloat res" where
  "py_float (PBool b) = Inr (if b then FFin 1 ''1.0'' else FFin 0 ''0.0'')"
| "py_float (PInt i) = Inr (FFin (of_int i) (show_int i @ ''.0''))"
| "py_float (PFloat f) = Inr f"
| "py_float (PStr s) =
     (case parse_float s of Some f \<Rightarrow> Inr f | None \<Rightarrow> Inl (ValueError ''could not convert string to float''))"
| "py_float _ = Inl (TypeError ''float() argument'')"

section \<open>Iteration and hashing\<close>

text \<open>What \<open>for x in v\<close> yields: the elements of a list, the characters of a text, the keys of a dictionary.\<close>

fun py_iter :: "pyval \<Rightarrow> pyval list res" where
  "py_iter (PList xs) = Inr xs"
| "py_iter (PStr s) = Inr (map (\<lambda>c. PStr [c]) s)"
| "py_iter (PDict d) = Inr (map (\<lambda>(k, v). PStr k) d)"
| "py_iter _ = Inl (TypeError ''object is not iterable'')"

fun hashable :: "pyval \<Rightarrow> bool" where
  "hashable (PList xs) = False"
| "hashable (PDict d) = False"
| "hashable _ = True"

text \<open>\<open>frozenset(v)\<close>, as the list of its elements.\<close>

definition py_frozenset :: "pyval \<Rightarrow> pyval list res" where
  "py_frozenset v = bind_res (py_iter v)
     (\<lambda>xs. if list_all hashable xs then Inr xs else Inl (TypeError ''unhashable type''))"

text \<open>\<open>x in v\<close> for a text \<open>x\<close>: an element of a list, a part of a text, a key of a dictionary.\<close>

fun py_in :: "string \<Rightarrow> pyval \<Rightarrow> bool res" where
  "py_in x (PList xs) = Inr (PStr x \<in> set xs)"
| "py_in x (PStr s) = Inr (str_contains s x)"
| "py_in x (PDict d) = Inr (x \<in> fst ` set d)"
| "py_in x _ = Inl (TypeError ''argument is not iterable'')"

section \<open>\<open>src/platform_utils.py\<close>\<close>

definition coerce_optional_string :: "pyval \<Rightarrow> string option" where
  "coerce_optional_string v =
     (if v = PNone then None
      else (let text = py_strip (py_str v) in if text = [] then None else Some text))"

text \<open>\<open>except (TypeError, ValueError)\<close> lets the \<open>OverflowError\<close> of an infinite float pass.\<close>

definition coerce_optional_int :: "pyval \<Rightarrow> int option res" where
  "coerce_optional_int v =
     (if v = PNone then Inr None
      else (case py_int v of
              Inr i \<Rightarrow> Inr (Some i)
            | Inl (TypeError _) \<Rightarrow> Inr None
            | Inl (ValueError _) \<Rightarrow> Inr None
            | Inl e \<Rightarrow> Inl e))"

definition coerce_positive_int :: "pyval \<Rightarrow> int \<Rightarrow> int res" where
  "coerce_positive_int v dflt =
     (case coerce_optional_int v of
        Inl e \<Rightarrow> Inl e
      | Inr None \<Rightarrow> Inr dflt
      | Inr (Some i) \<Rightarrow> Inr (max 1 i))"

lemma coerce_optional_string_stripped:
  "coerce_optional_string v = Some s \<Longrightarrow> s \<noteq> [] \<and> py_strip s = s"
  by (auto simp: coerce_optional_string_def Let_def split: if_splits)

lemma coerce_optional_string_idem:
  "coerce_optional_string v = Some s \<Longrightarrow> coerce_optional_string (PStr s) = Some s"
  by (auto simp: coerce_optional_string_def Let_def split: if_splits)

lemma coerce_optional_string_PNone [simp]: "coerce_optional_string PNone = None"
  by (simp add: coerce_optional_string_def)

lemma coerce_optional_string_PStr:
  "coerce_optional_string (PStr s) = (if py_strip s = [] then None else Some (py_strip s))"
  by (simp add: coerce_optional_string_def)

lemma py_int_cases:
  obtains (is_int) i where "py_int v = Inr i"
    | (bad_value) m where "py_int v = Inl (ValueError m)"
    | (bad_type) m where "py_int v = Inl (TypeError m)"
    | (overflows) "py_int v = Inl OverflowError" "v = PFloat FInf \<or> v = PFloat FNegInf"
proof (cases v)
  case (PFloat f)
  then show ?thesis using that by (cases f) auto
next
  case (PStr s)
  then show ?thesis using that by (cases "parse_int s") auto
qed (use that in auto)

lemma coerce_optional_int_total:
  "v \<noteq> PFloat FInf \<Longrightarrow> v \<noteq> PFloat FNegInf \<Longrightarrow> \<exists>r. coerce_optional_int v = Inr r"
  by (cases v rule: py_int_cases) (auto simp: coerce_optional_int_def)

lemma coerce_positive_int_ge: "coerce_positive_int v d = Inr i \<Longrightarrow> 1 \<le> d \<Longrightarrow> 1 \<le> i"
  by (auto simp: coerce_positive_int_def split: sum.splits option.splits)

end
