(* ===== verification/Domains.thy ===== *)
theory Domains
  imports PyValue
begin

text \<open>
  The domain model of \<open>src/data-access-lib/src/data_access/domains/\<close>: tenants, agents and their
  release life cycle, audit records, and the tenant capability policy. Each dataclass is a
  record, each \<open>StrEnum\<close> a datatype with its \<open>value\<close> text and the constructor call
  \<open>Enum(text)\<close>, which is \<open>None\<close> where Python raises \<open>ValueError\<close>.
\<close>

section \<open>Tenants (\<open>tenant.py\<close>)\<close>

datatype tenant_tier = BASIC | STANDARD | PREMIUM

definition tier_value :: "tenant_tier \<Rightarrow> string" where
  "tier_value t = (case t of BASIC \<Rightarrow> ''basic'' | STANDARD \<Rightarrow> ''standard'' | PREMIUM \<Rightarrow> ''premium'')"

definition tier_of :: "string \<Rightarrow> tenant_tier option" where
  "tier_of s =
     (if s = ''basic'' then Some BASIC
      else if s = ''standard'' then Some STANDARD
      else if s = ''premium'' then Some PREMIUM else None)"

lemma tier_of_value [simp]: "tier_of (tier_value t) = Some t"
  by (cases t) (simp_all add: tier_of_def tier_value_def)

lemma tier_of_Some: "tier_of s = Some t \<longleftrightarrow> s = tier_value t"
  by (cases t) (auto simp: tier_of_def tier_value_def)

fun tier_rank :: "tenant_tier \<Rightarrow> nat" where
  "tier_rank BASIC = 0" | "tier_rank STANDARD = 1" | "tier_rank PREMIUM = 2"

instantiation tenant_tier :: linorder
begin
definition less_eq_tenant_tier :: "tenant_tier \<Rightarrow> tenant_tier \<Rightarrow> bool" where
  "less_eq_tenant_tier a b \<longleftrightarrow> tier_rank a \<le> tier_rank b"
definition less_tenant_tier :: "tenant_tier \<Rightarrow> tenant_tier \<Rightarrow> bool" where
  "less_tenant_tier a b \<longleftrightarrow> tier_rank a < tier_rank b"
instance
proof
  fix a b :: tenant_tier
  show "a \<le> b \<Longrightarrow> b \<le> a \<Longrightarrow> a = b"
    by (cases a; cases b) (simp_all add: less_eq_tenant_tier_def)
qed (auto simp: less_eq_tenant_tier_def less_tenant_tier_def)
end

datatype tenant_status = TENANT_ACTIVE | TENANT_SUSPENDED | TENANT_DELETED

definition tenant_status_value :: "tenant_status \<Rightarrow> string" where
  "tenant_status_value s =
     (case s of TENANT_ACTIVE \<Rightarrow> ''active'' | TENANT_SUSPENDED \<Rightarrow> ''suspended''
      | TENANT_DELETED \<Rightarrow> ''deleted'')"

definition tenant_status_of :: "string \<Rightarrow> tenant_status option" where
  "tenant_status_of s =
     (if s = ''active'' then Some TENANT_ACTIVE
      else if s = ''suspended'' then Some TENANT_SUSPENDED
      else if s = ''deleted'' then Some TENANT_DELETED else None)"

lemma tenant_status_of_Some: "tenant_status_of s = Some t \<longleftrightarrow> s = tenant_status_value t"
  by (cases t) (auto simp: tenant_status_of_def tenant_status_value_def)

datatype webhook_status = WEBHOOK_ACTIVE | WEBHOOK_DISABLED

datatype invite_status = INVITE_PENDING | INVITE_ACCEPTED | INVITE_EXPIRED | INVITE_REVOKED

record tenant_record =
  tr_tenant_id :: string
  tr_app_id :: string
  tr_display_name :: string
  tr_tier :: tenant_tier
  tr_status :: tenant_status
  tr_created_at :: string
  tr_updated_at :: string
  tr_owner_email :: string
  tr_owner_team :: string
  tr_account_id :: string
  tr_execution_role_arn :: "string option"
  tr_memory_store_arn :: "string option"
  tr_runtime_region :: "string option"
  tr_api_key_secret_arn :: "string option"
  tr_monthly_budget_usd :: "pyfloat option"

definition tenant_record_pk :: "tenant_record \<Rightarrow> string" where
  "tenant_record_pk r = ''TENANT#'' @ tr_tenant_id r"

definition tenant_record_sk :: "tenant_record \<Rightarrow> string" where
  "tenant_record_sk r = ''METADATA''"

record paginated_items =
  pi_items :: "pydict list"
  pi_last_key :: "pydict option"

record tenant_context =
  tc_tenant_id :: string
  tc_app_id :: string
  tc_tier :: tenant_tier
  tc_sub :: string

record webhook_record =
  wr_webhook_id :: string
  wr_tenant_id :: string
  wr_callback_url :: string
  wr_events :: "string list"
  wr_status :: webhook_status
  wr_created_at :: string
  wr_updated_at :: string
  wr_description :: "string option"
  wr_secret_arn :: "string option"

definition webhook_record_pk :: "webhook_record \<Rightarrow> string" where
  "webhook_record_pk r = ''TENANT#'' @ wr_tenant_id r"

definition webhook_record_sk :: "webhook_record \<Rightarrow> string" where
  "webhook_record_sk r = ''WEBHOOK#'' @ wr_webhook_id r"

record invite_record =
  ir_invite_id :: string
  ir_tenant_id :: string
  ir_email :: string
  ir_role :: string
  ir_status :: invite_status
  ir_created_at :: string
  ir_expires_at :: string
  ir_display_name :: "string option"

definition invite_record_pk :: "invite_record \<Rightarrow> string" where
  "invite_record_pk r = ''TENANT#'' @ ir_tenant_id r"

definition invite_record_sk :: "invite_record \<Rightarrow> string" where
  "invite_record_sk r = ''INVITE#'' @ ir_invite_id r"

section \<open>Agents (\<open>agent.py\<close>)\<close>

datatype invocation_mode = MODE_SYNC | MODE_STREAMING | MODE_ASYNC

datatype ag_ui_transport = AGUI_SSE | AGUI_WEBSOCKET

datatype agent_status =
    BUILT | DEPLOYED_STAGING | INTEGRATION_VERIFIED | EVALUATION_PASSED
  | APPROVED | PROMOTED | ROLLED_BACK | AGENT_FAILED

definition all_agent_statuses :: "agent_status list" where
  "all_agent_statuses = [BUILT, DEPLOYED_STAGING, INTEGRATION_VERIFIED, EVALUATION_PASSED,
     APPROVED, PROMOTED, ROLLED_BACK, AGENT_FAILED]"

fun agent_status_value :: "agent_status \<Rightarrow> string" where
  "agent_status_value BUILT = ''built''"
| "agent_status_value DEPLOYED_STAGING = ''deployed_staging''"
| "agent_status_value INTEGRATION_VERIFIED = ''integration_verified''"
| "agent_status_value EVALUATION_PASSED = ''evaluation_passed''"
| "agent_status_value APPROVED = ''approved''"
| "agent_status_value PROMOTED = ''promoted''"
| "agent_status_value ROLLED_BACK = ''rolled_back''"
| "agent_status_value AGENT_FAILED = ''failed''"

definition agent_status_of :: "string \<Rightarrow> agent_status option" where
  "agent_status_of s = find (\<lambda>t. agent_status_value t = s) all_agent_statuses"

definition legacy_agent_status_aliases :: "string \<Rightarrow> agent_status option" where
  "legacy_agent_status_aliases s =
     (if s = ''pending'' then Some BUILT
      else if s = ''released'' then Some PROMOTED
      else if s = ''rollback'' then Some ROLLED_BACK else None)"

definition registerable_agent_statuses :: "agent_status list" where
  "registerable_agent_statuses = [BUILT]"

definition invokable_agent_statuses :: "agent_status list" where
  "invokable_agent_statuses = [PROMOTED]"

fun agent_status_transitions :: "agent_status \<Rightarrow> agent_status list" where
  "agent_status_transitions BUILT = [DEPLOYED_STAGING, AGENT_FAILED]"
| "agent_status_transitions DEPLOYED_STAGING = [INTEGRATION_VERIFIED, AGENT_FAILED]"
| "agent_status_transitions INTEGRATION_VERIFIED = [EVALUATION_PASSED, AGENT_FAILED]"
| "agent_status_transitions EVALUATION_PASSED = [APPROVED, AGENT_FAILED]"
| "agent_status_transitions APPROVED = [PROMOTED, AGENT_FAILED]"
| "agent_status_transitions PROMOTED = [ROLLED_BACK]"
| "agent_status_transitions ROLLED_BACK = []"
| "agent_status_transitions AGENT_FAILED = []"

text \<open>
  The argument is an \<open>AgentStatus\<close>, a text or \<open>None\<close>; every failure is a \<open>ValueError\<close>.
\<close>

datatype status_arg = IsStatus agent_status | StatusText string | NoStatus

definition normalize_agent_status :: "status_arg \<Rightarrow> agent_status option \<Rightarrow> agent_status res" where
  "normalize_agent_status v dflt =
     (let missing = (case dflt of Some d \<Rightarrow> Inr d | None \<Rightarrow> Inl (ValueError ''status is required''))
      in case v of
        IsStatus s \<Rightarrow> Inr s
      | NoStatus \<Rightarrow> missing
      | StatusText t \<Rightarrow>
         (let normalized = py_lower (py_strip t) in
          if normalized = [] then missing
          else (case legacy_agent_status_aliases normalized of
                  Some s \<Rightarrow> Inr s
                | None \<Rightarrow>
                    (case agent_status_of normalized of
                       Some s \<Rightarrow> Inr s
                     | None \<Rightarrow> Inl (ValueError ''is not a valid AgentStatus'')))))"

definition is_invokable_agent_status :: "status_arg \<Rightarrow> bool res" where
  "is_invokable_agent_status v =
     (case normalize_agent_status v (Some PROMOTED) of
        Inl e \<Rightarrow> Inl e
      | Inr s \<Rightarrow> Inr (s \<in> set invokable_agent_statuses))"

record agent_ag_ui_config =
  agui_enabled :: bool
  agui_transport :: ag_ui_transport
  agui_endpoint :: "string option"

record agent_record =
  agent_name :: string
  agent_version :: string
  ar_owner_team :: string
  ar_tier_minimum :: tenant_tier
  ar_layer_hash :: string
  ar_layer_s3_key :: string
  ar_script_s3_key :: string
  ar_deployed_at :: string
  invocation_mode_of :: invocation_mode
  ar_streaming_enabled :: bool
  ar_status :: agent_status
  ar_approved_by :: "string option"
  ar_approved_at :: "string option"
  ar_release_notes :: "string option"
  ar_runtime_arn :: "string option"
  ar_model_id :: "string option"
  ar_estimated_duration_seconds :: "int option"
  ar_commit_sha :: "string option"
  ar_pipeline_url :: "string option"
  ar_job_id :: "string option"
  ar_runtime_endpoint_arn :: "string option"
  ar_runtime_endpoint_name :: "string option"
  ar_runtime_endpoint_version :: "string option"
  ar_evaluation_score :: "pyfloat option"
  ar_evaluation_report_url :: "string option"
  ar_rolled_back_by :: "string option"
  ar_rolled_back_at :: "string option"
  ar_ag_ui :: agent_ag_ui_config

definition agent_record_pk :: "agent_record \<Rightarrow> string" where
  "agent_record_pk r = ''AGENT#'' @ agent_name r"

definition agent_record_sk :: "agent_record \<Rightarrow> string" where
  "agent_record_sk r = ''VERSION#'' @ agent_version r"

lemma agent_status_of_value [simp]: "agent_status_of (agent_status_value s) = Some s"
  by (cases s) (simp_all add: agent_status_of_def all_agent_statuses_def)

lemma agent_status_of_Some: "agent_status_of x = Some s \<longleftrightarrow> x = agent_status_value s"
proof
  assume "agent_status_of x = Some s"
  then show "x = agent_status_value s"
    unfolding agent_status_of_def find_Some_iff by blast
qed simp

lemma agent_status_value_inject [simp]: "agent_status_value s = agent_status_value t \<longleftrightarrow> s = t"
  by (metis agent_status_of_value option.inject)

lemma agent_status_value_not_Nil [simp]: "agent_status_value s \<noteq> []"
  by (cases s) simp_all

lemma agent_status_value_no_alias [simp]: "legacy_agent_status_aliases (agent_status_value s) = None"
  by (cases s) (simp_all add: legacy_agent_status_aliases_def)

lemma agent_status_value_lower [simp]:
  "py_lower (py_strip (agent_status_value s)) = agent_status_value s"
proof -
  have "py_strip (agent_status_value s) = agent_status_value s"
    by (rule py_strip_id) (cases s; simp add: py_space_def)
  moreover have "py_lower (agent_status_value s) = agent_status_value s"
    by (cases s) (simp_all add: py_lower_def py_lower_char_def code_point_def Let_def)
  ultimately show ?thesis by simp
qed

lemma normalize_agent_status_value [simp]:
  "normalize_agent_status (StatusText (agent_status_value s)) d = Inr s"
  by (simp add: normalize_agent_status_def)

end
