(* ===== verification/Capability.thy ===== *)
theory Capability
  imports Domains
begin

text \<open>
  The tenant capability policy of \<open>domains/capability.py\<close>: which store owns a configuration
  area, the gradual rollout of a capability, and the deny-by-default decision with its kill
  switch. The digest is a parameter: a hash of the standard library's C code, of which the
  rollout uses the first four bytes of the result only.
\<close>

datatype configuration_store = STORE_APPCONFIG | STORE_SSM | STORE_DYNAMODB

definition appconfig_dynamic_capability_areas :: "string list" where
  "appconfig_dynamic_capability_areas =
     [''tier_feature_enablement'', ''capability_flags'', ''kill_switches'', ''model_availability'',
      ''tool_availability'', ''rollout_controls'']"

definition ssm_platform_parameter_areas :: "string list" where
  "ssm_platform_parameter_areas =
     [''runtime_region_parameters'', ''operational_failover_parameters'', ''service_endpoints'',
      ''appconfig_bootstrap'']"

definition dynamodb_tenant_metadata_areas :: "string list" where
  "dynamodb_tenant_metadata_areas =
     [''tenant_state'', ''tenant_resource_inventory'', ''tenant_identity_metadata'',
      ''tenant_budget_contracts'', ''invocation_audit'', ''job_tracking'', ''session_tracking'']"

definition configuration_store_for :: "string \<Rightarrow> configuration_store res" where
  "configuration_store_for area =
     (let normalized = py_lower (py_strip area) in
      if normalized \<in> set appconfig_dynamic_capability_areas then Inr STORE_APPCONFIG
      else if normalized \<in> set ssm_platform_parameter_areas then Inr STORE_SSM
      else if normalized \<in> set dynamodb_tenant_metadata_areas then Inr STORE_DYNAMODB
      else Inl (ValueError ''Unknown configuration area''))"

text \<open>
  The UTF-8 encoding of a text of the modelled range, and big-endian bytes as a number.
\<close>

definition utf8_char :: "char \<Rightarrow> nat list" where
  "utf8_char c = (let n = code_point c in if n < 128 then [n] else [192 + n div 64, 128 + n mod 64])"

definition utf8 :: "string \<Rightarrow> nat list" where
  "utf8 s = concat (map utf8_char s)"

definition big_endian :: "nat list \<Rightarrow> nat" where
  "big_endian bs = foldl (\<lambda>n b. 256 * n + b) 0 bs"

type_synonym digest = "nat list \<Rightarrow> nat list"

text \<open>
  A rollout percentage is any number the policy document holds, hence a rational; the allow
  list of tenants holds whatever values the document lists.
\<close>

record capability_rollout =
  cr_enabled :: bool
  cr_rollout_percentage :: rat
  cr_tier_allow_list :: "tenant_tier list"
  cr_tenant_allow_list :: "pyval list"

definition rollout_post_init :: "capability_rollout \<Rightarrow> capability_rollout res" where
  "rollout_post_init r =
     (if 0 \<le> cr_rollout_percentage r \<and> cr_rollout_percentage r \<le> 100 then Inr r
      else Inl (ValueError ''rollout_percentage must be between 0 and 100''))"

definition rollout_bucket :: "digest \<Rightarrow> string \<Rightarrow> nat" where
  "rollout_bucket sha256 normalized_tenant_id =
     big_endian (take 4 (sha256 (utf8 normalized_tenant_id))) mod 100"

text \<open>
  The tier is passed as text: a \<open>StrEnum\<close> member equals its text, and the request interceptor
  passes the claim of the token as it stands.
\<close>

definition is_enabled_for :: "digest \<Rightarrow> capability_rollout \<Rightarrow> string \<Rightarrow> string \<Rightarrow> bool" where
  "is_enabled_for sha256 r tenant_id tenant_tier =
     (if \<not> cr_enabled r then False
      else (let normalized = py_lower (py_strip tenant_id) in
        if PStr normalized \<in> set (cr_tenant_allow_list r) then True
        else if cr_tier_allow_list r \<noteq> [] \<and> tenant_tier \<notin> set (map tier_value (cr_tier_allow_list r)) then False
        else if cr_rollout_percentage r = 0 then False
        else if cr_rollout_percentage r = 100 then True
        else of_nat (rollout_bucket sha256 normalized) < cr_rollout_percentage r))"

record capability_policy =
  cp_schema_version :: string
  cp_capabilities :: "(string \<times> capability_rollout) list"
  cp_killed_capabilities :: "pyval list"
  cp_tpm_limits :: "(string \<times> (tenant_tier \<times> int) list) list"

definition safe_fallback :: capability_policy where
  "safe_fallback = \<lparr>cp_schema_version = ''2026-03-21'', cp_capabilities = [],
     cp_killed_capabilities = [], cp_tpm_limits = []\<rparr>"

definition is_enabled :: "digest \<Rightarrow> capability_policy \<Rightarrow> string \<Rightarrow> string \<Rightarrow> string \<Rightarrow> bool" where
  "is_enabled sha256 p capability tenant_id tenant_tier =
     (let normalized = py_lower (py_strip capability) in
      if normalized = [] then False
      else if PStr normalized \<in> set (cp_killed_capabilities p) then False
      else (case map_of (cp_capabilities p) normalized of
              None \<Rightarrow> False
            | Some r \<Rightarrow> is_enabled_for sha256 r tenant_id tenant_tier))"

definition get_tpm_limit :: "capability_policy \<Rightarrow> string \<Rightarrow> tenant_tier \<Rightarrow> int" where
  "get_tpm_limit p model_id tenant_tier =
     (case map_of (cp_tpm_limits p) model_id of
        None \<Rightarrow> 0
      | Some limits \<Rightarrow>
          (case map_of limits tenant_tier of None \<Rightarrow> 0 | Some l \<Rightarrow> l))"

section \<open>What the decision guarantees\<close>

lemma rollout_bucket_less: "rollout_bucket sha256 t < 100"
  by (simp add: rollout_bucket_def)

lemma safe_fallback_denies: "\<not> is_enabled sha256 safe_fallback c t tr"
  by (simp add: is_enabled_def safe_fallback_def Let_def)

lemma is_enabled_iff:
  "is_enabled sha256 p c t tr \<longleftrightarrow>
     py_lower (py_strip c) \<noteq> [] \<and> PStr (py_lower (py_strip c)) \<notin> set (cp_killed_capabilities p) \<and>
     (\<exists>r. map_of (cp_capabilities p) (py_lower (py_strip c)) = Some r \<and> is_enabled_for sha256 r t tr)"
  by (auto simp: is_enabled_def Let_def split: option.splits)

text \<open>
  Widening a rollout never takes a capability away: a tenant that has it at
  one percentage has it at every larger one, because its bucket is a function of its identifier.
\<close>

lemma rollout_monotone:
  assumes "is_enabled_for sha256 r t tr" and "cr_rollout_percentage r \<le> q" and "q \<le> 100"
    and "0 \<le> cr_rollout_percentage r"
  shows "is_enabled_for sha256 (r\<lparr>cr_rollout_percentage := q\<rparr>) t tr"
proof -
  have "of_nat (rollout_bucket sha256 (py_lower (py_strip t))) < (100::rat)"
    using rollout_bucket_less[of sha256 "py_lower (py_strip t)"] by simp
  then show ?thesis using assms by (auto simp: is_enabled_for_def Let_def split: if_splits)
qed

end
