(* ===== verification/CapabilityClient.thy ===== *)
theory CapabilityClient
  imports Capability
begin

text \<open>
  \<open>TenantCapabilityClient\<close> of \<open>client.py\<close>: it fetches the policy document from AppConfig, turns it
  into a policy, and keeps the last one it could read. AppConfig is a parameter: a function
  from the profile to the document or the exception.
\<close>

record cap_client =
  cc_application :: "string option"
  cc_environment :: "string option"
  cc_profile :: "string option"
  cc_provider :: "(string \<Rightarrow> pyval res) option"
  cc_last_known_good :: capability_policy

text \<open>\<open>x or os.environ.get(name)\<close> for optional texts: an empty text counts as missing.\<close>

definition opt_or :: "string option \<Rightarrow> string option \<Rightarrow> string option" where
  "opt_or a b = (case a of None \<Rightarrow> b | Some s \<Rightarrow> if s = [] then b else a)"

definition opt_truthy :: "string option \<Rightarrow> bool" where
  "opt_truthy a = (case a of None \<Rightarrow> False | Some s \<Rightarrow> s \<noteq> [])"

definition new_cap_client ::
  "(string \<Rightarrow> string option) \<Rightarrow> (string option \<Rightarrow> string option \<Rightarrow> string \<Rightarrow> pyval res) \<Rightarrow>
   string option \<Rightarrow> string option \<Rightarrow> string option \<Rightarrow> (string \<Rightarrow> pyval res) option \<Rightarrow> cap_client" where
  "new_cap_client env app_config_provider application environment profile provider =
     (let a = opt_or application (env ''APPCONFIG_APPLICATION_ID'');
          e = opt_or environment (env ''APPCONFIG_ENVIRONMENT_ID'');
          p = opt_or profile (env ''APPCONFIG_PROFILE_ID'')
      in \<lparr>cc_application = a, cc_environment = e, cc_profile = p,
          cc_provider = (case provider of
              Some f \<Rightarrow> Some f
            | None \<Rightarrow> if opt_truthy a \<and> opt_truthy e then Some (app_config_provider a e) else None),
          cc_last_known_good = safe_fallback\<rparr>)"

text \<open>\<open>TenantTier(t)\<close> for an arbitrary value.\<close>

definition tier_of_val :: "pyval \<Rightarrow> tenant_tier res" where
  "tier_of_val v =
     (case v of
        PStr s \<Rightarrow> (case tier_of s of Some t \<Rightarrow> Inr t | None \<Rightarrow> Inl (ValueError ''not a valid TenantTier''))
      | _ \<Rightarrow> Inl (ValueError ''not a valid TenantTier''))"

text \<open>
  The check \<open>0 <= rollout_percentage <= 100\<close> on an arbitrary value: a value that is no number
  raises \<open>TypeError\<close>, an infinite one or a NaN fails the comparison.
\<close>

definition percentage_of :: "pyval \<Rightarrow> rat res" where
  "percentage_of v =
     (case v of
        PInt i \<Rightarrow> Inr (of_int i)
      | PBool b \<Rightarrow> Inr (if b then 1 else 0)
      | PFloat (FFin r t) \<Rightarrow> Inr r
      | PFloat f \<Rightarrow> Inl (ValueError ''rollout_percentage must be between 0 and 100'')
      | _ \<Rightarrow> Inl (TypeError ''comparison not supported''))"

definition parse_rollout :: "pydict \<Rightarrow> capability_rollout res" where
  "parse_rollout d =
     bind_res (py_iter (dget_or d ''tier_allow_list'' (PList []))) (\<lambda>ts.
     bind_res (map_res tier_of_val ts) (\<lambda>tiers.
     bind_res (py_frozenset (dget_or d ''tenant_allow_list'' (PList []))) (\<lambda>tenants.
     bind_res (percentage_of (dget_or d ''rollout_percentage'' (PInt 100))) (\<lambda>pct.
       rollout_post_init
         \<lparr>cr_enabled = truthy (dget_or d ''enabled'' (PBool False)), cr_rollout_percentage = pct,
          cr_tier_allow_list = tiers, cr_tenant_allow_list = tenants\<rparr>))))"

text \<open>\<open>except (ValueError, TypeError)\<close>.\<close>

fun value_or_type_error :: "exc \<Rightarrow> bool" where
  "value_or_type_error (ValueError m) = True"
| "value_or_type_error (TypeError m) = True"
| "value_or_type_error e = False"

fun parse_capabilities :: "pydict \<Rightarrow> (string \<times> capability_rollout) list \<Rightarrow>
    (string \<times> capability_rollout) list res" where
  "parse_capabilities [] acc = Inr acc"
| "parse_capabilities ((name, v) # rest) acc =
     (case as_dict v of
        None \<Rightarrow> parse_capabilities rest acc
      | Some d \<Rightarrow>
          (case parse_rollout d of
             Inr r \<Rightarrow> parse_capabilities rest (dset name r acc)
           | Inl e \<Rightarrow> if value_or_type_error e then parse_capabilities rest acc else Inl e))"

definition parse_tier_limits :: "pydict \<Rightarrow> (tenant_tier \<times> int) list res" where
  "parse_tier_limits d =
     map_res (\<lambda>(k, v). bind_res (tier_of_val (PStr k)) (\<lambda>t. bind_res (py_int v) (\<lambda>i. Inr (t, i)))) d"

fun parse_tpm_limits :: "pydict \<Rightarrow> (string \<times> (tenant_tier \<times> int) list) list \<Rightarrow>
    (string \<times> (tenant_tier \<times> int) list) list res" where
  "parse_tpm_limits [] acc = Inr acc"
| "parse_tpm_limits ((model_id, v) # rest) acc =
     (case as_dict v of
        None \<Rightarrow> parse_tpm_limits rest acc
      | Some d \<Rightarrow>
          (case parse_tier_limits d of
             Inr l \<Rightarrow> parse_tpm_limits rest (dset model_id l acc)
           | Inl e \<Rightarrow> if value_or_type_error e then parse_tpm_limits rest acc else Inl e))"

text \<open>\<open>v.items()\<close>.\<close>

definition items_of :: "pyval \<Rightarrow> pydict res" where
  "items_of v = (case as_dict v of Some d \<Rightarrow> Inr d | None \<Rightarrow> Inl (AttributeError ''items''))"

definition parse_policy :: "pydict \<Rightarrow> capability_policy res" where
  "parse_policy raw =
     bind_res (items_of (dget_or raw ''capabilities'' (PDict []))) (\<lambda>cs.
     bind_res (parse_capabilities cs []) (\<lambda>capabilities.
     bind_res (items_of (dget_or raw ''tpm_limits'' (PDict []))) (\<lambda>ts.
     bind_res (parse_tpm_limits ts []) (\<lambda>tpm_limits.
     bind_res (py_frozenset (dget_or raw ''killed_capabilities'' (PList []))) (\<lambda>killed.
       Inr \<lparr>cp_schema_version = py_str (dget_or raw ''schema_version'' (PStr ''unknown'')),
            cp_capabilities = capabilities, cp_killed_capabilities = killed,
            cp_tpm_limits = tpm_limits\<rparr>)))))"

text \<open>\<open>fetch_policy\<close>: the policy and the client with its updated last known good one.\<close>

definition fetch_policy :: "cap_client \<Rightarrow> capability_policy \<times> cap_client" where
  "fetch_policy c =
     (case cc_provider c of
        None \<Rightarrow> (cc_last_known_good c, c)
      | Some get \<Rightarrow>
          if \<not> opt_truthy (cc_profile c) then (cc_last_known_good c, c)
          else (case get (the (cc_profile c)) of
                  Inl e \<Rightarrow> (cc_last_known_good c, c)
                | Inr raw \<Rightarrow>
                    (case as_dict raw of
                       None \<Rightarrow> (cc_last_known_good c, c)
                     | Some d \<Rightarrow>
                         (case parse_policy d of
                            Inl e \<Rightarrow> (cc_last_known_good c, c)
                          | Inr p \<Rightarrow> (p, c\<lparr>cc_last_known_good := p\<rparr>)))))"

section \<open>What a fetched policy satisfies\<close>

definition rollouts_ok :: "(string \<times> capability_rollout) list \<Rightarrow> bool" where
  "rollouts_ok d =
     list_all (\<lambda>(n, r). 0 \<le> cr_rollout_percentage r \<and> cr_rollout_percentage r \<le> 100) d"

definition policy_ok :: "capability_policy \<Rightarrow> bool" where
  "policy_ok p \<longleftrightarrow> rollouts_ok (cp_capabilities p)
     \<and> dict_ok (cp_capabilities p) \<and> dict_ok (cp_tpm_limits p)"

lemma rollout_post_init_Inr:
  "rollout_post_init r = Inr r' \<longleftrightarrow> r' = r \<and> 0 \<le> cr_rollout_percentage r \<and> cr_rollout_percentage r \<le> 100"
  by (auto simp: rollout_post_init_def)

lemma parse_rollout_range:
  "parse_rollout d = Inr r \<Longrightarrow> 0 \<le> cr_rollout_percentage r \<and> cr_rollout_percentage r \<le> 100"
  by (auto simp: parse_rollout_def bind_res_eq_Inr rollout_post_init_Inr)

lemma list_all_dset:
  "list_all P d \<Longrightarrow> P (k, v) \<Longrightarrow> list_all P (dset k v d)"
  by (induction d) (auto simp: dset_def)

lemma rollouts_ok_dset:
  "rollouts_ok d \<Longrightarrow> parse_rollout x = Inr r \<Longrightarrow> rollouts_ok (dset n r d)"
  unfolding rollouts_ok_def by (rule list_all_dset) (auto dest: parse_rollout_range)

lemma parse_capabilities_ok:
  assumes "parse_capabilities cs acc = Inr out" and "dict_ok acc" and "rollouts_ok acc"
  shows "dict_ok out \<and> rollouts_ok out"
  using assms
proof (induction cs acc rule: parse_capabilities.induct)
  case (2 name v rest acc)
  show ?case
  proof (cases "\<exists>d r. as_dict v = Some d \<and> parse_rollout d = Inr r")
    case True
    then obtain d r where "as_dict v = Some d" and "parse_rollout d = Inr r" by blast
    then show ?thesis using 2 by (simp add: rollouts_ok_dset)
  next
    case False
    then show ?thesis using 2 by (auto split: option.splits sum.splits if_splits)
  qed
qed simp

lemma parse_tpm_limits_ok:
  "parse_tpm_limits cs acc = Inr out \<Longrightarrow> dict_ok acc \<Longrightarrow> dict_ok out"
  by (induction cs acc rule: parse_tpm_limits.induct) (auto split: option.splits sum.splits if_splits)

lemma empty_ok [simp]: "dict_ok []" "rollouts_ok []"
  by (simp_all add: dict_ok_def rollouts_ok_def)

lemma parse_policy_ok: "parse_policy raw = Inr p \<Longrightarrow> policy_ok p"
  by (auto simp: parse_policy_def bind_res_eq_Inr policy_ok_def
      dest: parse_capabilities_ok parse_tpm_limits_ok)

lemma safe_fallback_ok: "policy_ok safe_fallback"
  by (simp add: policy_ok_def safe_fallback_def)

lemma fetch_policy_cases:
  obtains (kept) "fetch_policy c = (cc_last_known_good c, c)"
    | (parsed) get d p where "cc_provider c = Some get" "get (the (cc_profile c)) = Inr (PDict d)"
        "parse_policy d = Inr p" "fetch_policy c = (p, c\<lparr>cc_last_known_good := p\<rparr>)"
proof (cases "\<exists>get d p. cc_provider c = Some get \<and> opt_truthy (cc_profile c)
    \<and> get (the (cc_profile c)) = Inr (PDict d) \<and> parse_policy d = Inr p")
  case True
  then show ?thesis using parsed by (auto simp: fetch_policy_def)
next
  case False
  have "fetch_policy c = (cc_last_known_good c, c)"
    using False by (auto simp: fetch_policy_def split: option.splits sum.splits elim: as_dict.elims)
  then show ?thesis by (rule kept)
qed

lemma fetch_policy_lkg: "cc_last_known_good (snd (fetch_policy c)) = fst (fetch_policy c)"
  by (cases c rule: fetch_policy_cases) simp_all

lemma fetch_policy_ok: "policy_ok (cc_last_known_good c) \<Longrightarrow> policy_ok (fst (fetch_policy c))"
  by (cases c rule: fetch_policy_cases) (simp_all add: parse_policy_ok)

section \<open>Normalised names\<close>

definition normal_name :: "pyval \<Rightarrow> bool" where
  "normal_name v = (case v of PStr k \<Rightarrow> py_lower (py_strip k) = k | _ \<Rightarrow> False)"

text \<open>
  The kill switch compares the normalised name of the capability with the entries of
  the document as they stand, so an entry that is not already lower case and stripped never
  switches anything off: leaving all such entries out changes no decision.
\<close>

theorem kill_switch_needs_normal_names:
  "is_enabled sha256 (p\<lparr>cp_killed_capabilities := filter normal_name (cp_killed_capabilities p)\<rparr>) c t tr
     = is_enabled sha256 p c t tr"
proof -
  have "normal_name (PStr (py_lower (py_strip c)))" by (simp add: normal_name_def)
  then show ?thesis by (simp add: is_enabled_iff)
qed

text \<open>
  Property C30. Deny by default: a capability is granted only when the policy lists it, it is not
  killed, it is switched on, and the tenant is on its allow list or its tier is admitted and the
  tenant's bucket lies under the rollout percentage.
\<close>

theorem capability_granted_only_if:
  assumes "is_enabled sha256 p c t tr" and "policy_ok p"
  shows "\<exists>r. map_of (cp_capabilities p) (py_lower (py_strip c)) = Some r \<and> cr_enabled r
    \<and> PStr (py_lower (py_strip c)) \<notin> set (cp_killed_capabilities p)
    \<and> (PStr (py_lower (py_strip t)) \<in> set (cr_tenant_allow_list r)
       \<or> ((cr_tier_allow_list r = [] \<or> tr \<in> tier_value ` set (cr_tier_allow_list r))
          \<and> of_nat (rollout_bucket sha256 (py_lower (py_strip t))) < cr_rollout_percentage r))"
proof -
  from assms(1) obtain r where r: "map_of (cp_capabilities p) (py_lower (py_strip c)) = Some r"
    "is_enabled_for sha256 r t tr" "PStr (py_lower (py_strip c)) \<notin> set (cp_killed_capabilities p)"
    by (auto simp: is_enabled_iff)
  have "of_nat (rollout_bucket sha256 (py_lower (py_strip t))) < (100 :: rat)"
    using rollout_bucket_less[of sha256 "py_lower (py_strip t)"] by simp
  with r show ?thesis
    by (intro exI[of _ r]) (auto simp: is_enabled_for_def Let_def split: if_splits)
qed

definition sample_policy :: capability_policy where
  "sample_policy = \<lparr>cp_schema_version = ''1'',
     cp_capabilities = [(''tools.search'', \<lparr>cr_enabled = True, cr_rollout_percentage = 50,
        cr_tier_allow_list = [PREMIUM], cr_tenant_allow_list = [PStr ''acme'']\<rparr>)],
     cp_killed_capabilities = [PStr ''Tools.Search''], cp_tpm_limits = []\<rparr>"

theorem capability_granted_only_if_witness:
  "is_enabled (\<lambda>bs. [0, 0, 0, 7]) sample_policy '' Tools.Search '' ''Acme'' ''basic''
   \<and> (\<exists>r. map_of (cp_capabilities sample_policy) (py_lower (py_strip '' Tools.Search '')) = Some r \<and> cr_enabled r)"
proof -
  have e: "is_enabled (\<lambda>bs. [0, 0, 0, 7]) sample_policy '' Tools.Search '' ''Acme'' ''basic''"
    by code_simp
  have "policy_ok sample_policy" by code_simp
  from capability_granted_only_if[OF e this] e show ?thesis by blast
qed

section \<open>Serving the last known good policy\<close>

definition readable :: "pyval res \<Rightarrow> capability_policy option" where
  "readable ans =
     (case ans of
        Inl e \<Rightarrow> None
      | Inr v \<Rightarrow> (case as_dict v of
            None \<Rightarrow> None
          | Some d \<Rightarrow> (case parse_policy d of Inl e \<Rightarrow> None | Inr p \<Rightarrow> Some p)))"

text \<open>A client that fetches once for each answer AppConfig gives.\<close>

fun fetch_run :: "cap_client \<Rightarrow> pyval res list \<Rightarrow> cap_client" where
  "fetch_run c [] = c"
| "fetch_run c (a # as) = fetch_run (snd (fetch_policy (c\<lparr>cc_provider := Some (\<lambda>p. a)\<rparr>))) as"

text \<open>What it promises: the newest readable document, or the policy it started with.\<close>

fun newest_readable :: "capability_policy \<Rightarrow> pyval res list \<Rightarrow> capability_policy" where
  "newest_readable p [] = p"
| "newest_readable p (a # as) = newest_readable (case readable a of None \<Rightarrow> p | Some q \<Rightarrow> q) as"

lemma fetch_policy_readable:
  assumes "opt_truthy (cc_profile c)"
  shows "fetch_policy (c\<lparr>cc_provider := Some (\<lambda>p. a)\<rparr>) =
     (case readable a of
        None \<Rightarrow> (cc_last_known_good c, c\<lparr>cc_provider := Some (\<lambda>p. a)\<rparr>)
      | Some q \<Rightarrow> (q, c\<lparr>cc_provider := Some (\<lambda>p. a), cc_last_known_good := q\<rparr>))"
  using assms by (auto simp: fetch_policy_def readable_def split: sum.splits option.splits)

text \<open>
  Property C29. Refinement of the fetching loop: after any answers, failures and malformed documents
  included, the client holds the newest document it could read, and that policy is well formed.
\<close>

theorem fetch_run_newest_readable:
  assumes "opt_truthy (cc_profile c)" and "policy_ok (cc_last_known_good c)"
  shows "cc_last_known_good (fetch_run c answers) = newest_readable (cc_last_known_good c) answers
    \<and> policy_ok (newest_readable (cc_last_known_good c) answers)"
  using assms
proof (induction answers arbitrary: c)
  case (Cons a as)
  have "policy_ok (case readable a of None \<Rightarrow> cc_last_known_good c | Some q \<Rightarrow> q)"
    using Cons.prems(2) parse_policy_ok by (auto simp: readable_def split: sum.splits option.splits)
  with Cons.IH[of "snd (fetch_policy (c\<lparr>cc_provider := Some (\<lambda>p. a)\<rparr>))"] Cons.prems
  show ?case by (cases "readable a") (simp_all add: fetch_policy_readable)
qed simp

definition sample_client :: cap_client where
  "sample_client = new_cap_client (\<lambda>k. None) (\<lambda>a e p. Inl (ExternalErr ''unset'')) (Some ''app'')
     (Some ''env'') (Some ''profile'') None"

theorem fetch_run_newest_readable_witness:
  "cc_last_known_good (fetch_run sample_client [Inl (ExternalErr ''timeout'')]) = safe_fallback"
proof -
  have p: "opt_truthy (cc_profile sample_client)" by code_simp
  have k: "cc_last_known_good sample_client = safe_fallback"
    by (simp add: sample_client_def new_cap_client_def Let_def)
  with fetch_run_newest_readable[OF p, of "[Inl (ExternalErr ''timeout'')]"] safe_fallback_ok
  show ?thesis by (simp add: readable_def)
qed

end
