(* ===== verification/DataAccess.thy ===== *)
theory DataAccess
  imports Domains
begin

text \<open>
  The DynamoDB clients of \<open>src/data-access-lib/src/data_access/client.py\<close>: the shared plumbing of
  the base class, the tenant-scoped client that checks every partition key, the control-plane
  client that does not, and the pagination loops.

  AWS is a parameter: a record of operations on the state of the world. Logging and metrics
  go through it too, so the model shows in which order a violation is logged, counted and raised.
\<close>

section \<open>The AWS interface\<close>

text \<open>
  The conditions the code builds with \<open>Key(..).eq(..)\<close>, \<open>Attr(..).eq(..)\<close>, \<open>&\<close> and \<open>|\<close>; a condition the caller passes in is
  opaque. A keyword argument is a condition or a value.
\<close>

datatype condition =
    KeyEq string string
  | KeyBeginsWith string string
  | KeyBetween string string string
  | KeyGe string string
  | KeyLe string string
  | KeyGt string string
  | AttrEq string string
  | CondAnd condition condition
  | CondOr condition condition
  | OtherCond string

datatype kwarg = KwCond condition | KwVal pyval

type_synonym kwargs = "(string \<times> kwarg) list"

record metric_datum =
  mt_namespace :: string
  mt_name :: string
  mt_value :: int
  mt_dims :: "(string \<times> string) list"

record 'w aws =
  aw_get_item :: "string \<Rightarrow> kwargs \<Rightarrow> ('w, pydict option) io"
  aw_put_item :: "string \<Rightarrow> kwargs \<Rightarrow> ('w, unit) io"
  aw_update_item :: "string \<Rightarrow> kwargs \<Rightarrow> ('w, pydict) io"
  aw_delete_item :: "string \<Rightarrow> kwargs \<Rightarrow> ('w, unit) io"
  aw_query :: "string \<Rightarrow> kwargs \<Rightarrow> ('w, pydict list option \<times> pydict option) io"
  aw_scan :: "string \<Rightarrow> kwargs \<Rightarrow> ('w, pydict list option \<times> pydict option) io"
  aw_put_metric :: "metric_datum \<Rightarrow> ('w, unit) io"
  aw_log_error :: "string \<Rightarrow> 'w \<Rightarrow> 'w"

text \<open>The JWT library of the two verifiers: a signing key for a token, and the verified claims.\<close>

record ('w, 'k) jwt_lib =
  jl_signing_key :: "string \<Rightarrow> ('w, 'k) io"
  jl_decode :: "string \<Rightarrow> 'k \<Rightarrow> string option \<Rightarrow> string option \<Rightarrow> ('w, pydict) io"

section \<open>Reusing AWS clients\<close>

text \<open>
  The three client getters keep the client of the last credentials they saw:
  region, access key, secret key and session token.
\<close>

type_synonym aws_cache_key = "string \<times> string option \<times> string option \<times> string option"

definition aws_client_cache_key :: "string \<Rightarrow> (string \<Rightarrow> string option) \<Rightarrow> aws_cache_key" where
  "aws_client_cache_key region env =
     (region, env ''AWS_ACCESS_KEY_ID'', env ''AWS_SECRET_ACCESS_KEY'', env ''AWS_SESSION_TOKEN'')"

definition get_cached_client ::
  "(aws_cache_key \<Rightarrow> 'c) \<Rightarrow> aws_cache_key \<Rightarrow> 'c option \<times> aws_cache_key option \<Rightarrow>
     'c \<times> ('c option \<times> aws_cache_key option)" where
  "get_cached_client mk key st =
     (case st of
        (Some c, k) \<Rightarrow>
          if k \<noteq> Some key then (mk key, (Some (mk key), Some key)) else (c, st)
      | (None, k) \<Rightarrow> (mk key, (Some (mk key), Some key)))"

definition get_dynamodb_resource ::
  "(aws_cache_key \<Rightarrow> 'c) \<Rightarrow> aws_cache_key \<Rightarrow> 'c option \<times> aws_cache_key option \<Rightarrow>
     'c \<times> ('c option \<times> aws_cache_key option)" where
  "get_dynamodb_resource mk key st = get_cached_client mk key st"

definition get_s3_client ::
  "(aws_cache_key \<Rightarrow> 'c) \<Rightarrow> aws_cache_key \<Rightarrow> 'c option \<times> aws_cache_key option \<Rightarrow>
     'c \<times> ('c option \<times> aws_cache_key option)" where
  "get_s3_client mk key st = get_cached_client mk key st"

definition get_cloudwatch_client ::
  "(aws_cache_key \<Rightarrow> 'c) \<Rightarrow> aws_cache_key \<Rightarrow> 'c option \<times> aws_cache_key option \<Rightarrow>
     'c \<times> ('c option \<times> aws_cache_key option)" where
  "get_cloudwatch_client mk key st = get_cached_client mk key st"

text \<open>The cache holds a client only together with the credentials it was made for.\<close>

definition client_cache_ok :: "(aws_cache_key \<Rightarrow> 'c) \<Rightarrow> 'c option \<times> aws_cache_key option \<Rightarrow> bool" where
  "client_cache_ok mk st = (case st of (Some c, Some k) \<Rightarrow> c = mk k | (Some c, None) \<Rightarrow> False | (None, k) \<Rightarrow> True)"

lemma get_cached_client_correct:
  "client_cache_ok mk st \<Longrightarrow>
     fst (get_cached_client mk key st) = mk key \<and> client_cache_ok mk (snd (get_cached_client mk key st))"
  by (auto simp: get_cached_client_def client_cache_ok_def split: option.splits prod.splits)

section \<open>The base class\<close>

text \<open>
  \<open>_DynamoDBClientBase\<close> is a template: each operation first runs the key policy \<open>validate\<close> of
  the concrete client. A keyword given twice is Python's \<open>TypeError\<close>.
\<close>

definition base_get_item ::
  "(pydict \<Rightarrow> ('w, unit) io) \<Rightarrow> 'w aws \<Rightarrow> string \<Rightarrow> pydict \<Rightarrow> kwargs \<Rightarrow> ('w, pydict option) io" where
  "base_get_item validate sv table key extra =
     io_bind (validate key) (\<lambda>_.
       if ''Key'' \<in> fst ` set extra then io_raise (TypeError ''multiple values for keyword argument'')
       else aw_get_item sv table ((''Key'', KwVal (PDict key)) # extra))"

definition base_put_item ::
  "(pydict \<Rightarrow> ('w, unit) io) \<Rightarrow> 'w aws \<Rightarrow> string \<Rightarrow> pydict \<Rightarrow> string option \<Rightarrow> kwargs \<Rightarrow> ('w, unit) io" where
  "base_put_item validate sv table item condition_expression extra =
     io_bind (validate item) (\<lambda>_.
       let kwargs = [(''Item'', KwVal (PDict item))];
           kwargs = (case condition_expression of
                       None \<Rightarrow> kwargs
                     | Some c \<Rightarrow> if c = [] then kwargs else dset ''ConditionExpression'' (KwVal (PStr c)) kwargs);
           kwargs = dupdate kwargs extra
       in aw_put_item sv table kwargs)"

definition base_update_item ::
  "(pydict \<Rightarrow> ('w, unit) io) \<Rightarrow> 'w aws \<Rightarrow> string \<Rightarrow> pydict \<Rightarrow> string \<Rightarrow> pydict \<Rightarrow> pydict option \<Rightarrow>
     string option \<Rightarrow> ('w, pydict) io" where
  "base_update_item validate sv table key update_expression vals names condition_expression =
     io_bind (validate key) (\<lambda>_.
       let kwargs = [(''Key'', KwVal (PDict key)),
                     (''UpdateExpression'', KwVal (PStr update_expression)),
                     (''ExpressionAttributeValues'', KwVal (PDict vals)),
                     (''ReturnValues'', KwVal (PStr ''ALL_NEW''))];
           kwargs = (case names of
                       None \<Rightarrow> kwargs
                     | Some n \<Rightarrow> dset ''ExpressionAttributeNames'' (KwVal (PDict n)) kwargs);
           kwargs = (case condition_expression of
                       None \<Rightarrow> kwargs
                     | Some c \<Rightarrow> dset ''ConditionExpression'' (KwVal (PStr c)) kwargs)
       in aw_update_item sv table kwargs)"

definition base_delete_item ::
  "(pydict \<Rightarrow> ('w, unit) io) \<Rightarrow> 'w aws \<Rightarrow> string \<Rightarrow> pydict \<Rightarrow> kwargs \<Rightarrow> ('w, unit) io" where
  "base_delete_item validate sv table key extra =
     io_bind (validate key) (\<lambda>_.
       if ''Key'' \<in> fst ` set extra then io_raise (TypeError ''multiple values for keyword argument'')
       else aw_delete_item sv table ((''Key'', KwVal (PDict key)) # extra))"

section \<open>Tenant violations\<close>

definition emit_tenant_violation_metric :: "'w aws \<Rightarrow> string \<Rightarrow> string \<Rightarrow> ('w, unit) io" where
  "emit_tenant_violation_metric sv caller target =
     io_catch
       (aw_put_metric sv \<lparr>mt_namespace = ''platform/security'', mt_name = ''TenantAccessViolation'',
          mt_value = 1, mt_dims = [(''caller_tenant_id'', caller), (''target_tenant_id'', target)]\<rparr>)
       (\<lambda>e w. (Inr (), aw_log_error sv ''Failed to emit TenantAccessViolation metric'' w))"

definition raise_dynamo_violation ::
  "'w aws \<Rightarrow> tenant_context \<Rightarrow> string \<Rightarrow> string \<Rightarrow> ('w, 'a) io" where
  "raise_dynamo_violation sv ctx target attempted w =
     (let w1 = aw_log_error sv ''TenantAccessViolation: cross-tenant DynamoDB access attempt'' w;
          w2 = snd (emit_tenant_violation_metric sv (tc_tenant_id ctx) target w1)
      in (Inl (TenantAccessViolation target (tc_tenant_id ctx) attempted), w2))"

definition tenant_pk_prefix :: string where
  "tenant_pk_prefix = ''TENANT#''"

definition ts_validate_pk :: "'w aws \<Rightarrow> tenant_context \<Rightarrow> pydict \<Rightarrow> ('w, unit) io" where
  "ts_validate_pk sv ctx key =
     (case dget_or key ''PK'' (PStr '''') of
        PStr pk \<Rightarrow>
          if starts_with pk tenant_pk_prefix then
            (if pk \<noteq> tenant_pk_prefix @ tc_tenant_id ctx
             then raise_dynamo_violation sv ctx (remove_prefix pk tenant_pk_prefix) (py_repr (PDict key))
             else io_return ())
          else io_return ()
      | _ \<Rightarrow> io_return ())"

definition cp_validate_pk :: "pydict \<Rightarrow> ('w, unit) io" where
  "cp_validate_pk key = io_return ()"

section \<open>The tenant-scoped client\<close>

definition ts_get_item where
  "ts_get_item sv ctx = base_get_item (ts_validate_pk sv ctx) sv"

definition ts_put_item where
  "ts_put_item sv ctx = base_put_item (ts_validate_pk sv ctx) sv"

definition ts_update_item where
  "ts_update_item sv ctx = base_update_item (ts_validate_pk sv ctx) sv"

definition ts_delete_item where
  "ts_delete_item sv ctx = base_delete_item (ts_validate_pk sv ctx) sv"

record query_args =
  qa_sk :: "condition option"
  qa_filter :: "condition option"
  qa_index :: "string option"
  qa_limit :: "int option"
  qa_forward :: bool
  qa_start :: "pydict option"
  qa_extra :: kwargs

text \<open>\<open>if x is not None: kwargs[k] = x\<close>.\<close>

definition opt_kw :: "string \<Rightarrow> kwarg option \<Rightarrow> kwargs \<Rightarrow> kwargs" where
  "opt_kw k v kw = (case v of None \<Rightarrow> kw | Some x \<Rightarrow> dset k x kw)"

definition query_kwargs :: "condition \<Rightarrow> query_args \<Rightarrow> kwargs" where
  "query_kwargs key_condition q =
     (let kw = [(''KeyConditionExpression'', KwCond key_condition),
                (''ScanIndexForward'', KwVal (PBool (qa_forward q)))];
          kw = opt_kw ''FilterExpression'' (map_option KwCond (qa_filter q)) kw;
          kw = opt_kw ''IndexName'' (map_option (KwVal \<circ> PStr) (qa_index q)) kw;
          kw = opt_kw ''Limit'' (map_option (KwVal \<circ> PInt) (qa_limit q)) kw;
          kw = opt_kw ''ExclusiveStartKey'' (map_option (KwVal \<circ> PDict) (qa_start q)) kw
      in dupdate kw (qa_extra q))"

definition paginated :: "pydict list option \<times> pydict option \<Rightarrow> paginated_items" where
  "paginated r = \<lparr>pi_items = (case fst r of None \<Rightarrow> [] | Some xs \<Rightarrow> xs), pi_last_key = snd r\<rparr>"

definition ts_query :: "'w aws \<Rightarrow> tenant_context \<Rightarrow> string \<Rightarrow> query_args \<Rightarrow> ('w, paginated_items) io" where
  "ts_query sv ctx table q =
     (let pk_condition = KeyEq ''PK'' (tenant_pk_prefix @ tc_tenant_id ctx);
          key_condition = (case qa_sk q of None \<Rightarrow> pk_condition | Some c \<Rightarrow> CondAnd pk_condition c)
      in io_bind (aw_query sv table (query_kwargs key_condition q)) (\<lambda>r. io_return (paginated r)))"

text \<open>
  The loop of the \<open>_all\<close> operations. It may run for ever when the service keeps returning a
  key, so its value is an option; \<open>not exclusive_start_key\<close> stops it on \<open>None\<close> and on \<open>{}\<close>.
\<close>

definition no_more_pages :: "pydict option \<Rightarrow> bool" where
  "no_more_pages k = (case k of None \<Rightarrow> True | Some d \<Rightarrow> d = [])"

partial_function (option) page_loop ::
  "(pydict option \<Rightarrow> ('w, paginated_items) io) \<Rightarrow> pydict option \<Rightarrow> pydict list \<Rightarrow> 'w \<Rightarrow>
     (pydict list res \<times> 'w) option" where
  "page_loop fetch start items w =
     (case fetch start w of
        (Inl e, w') \<Rightarrow> Some (Inl e, w')
      | (Inr r, w') \<Rightarrow>
          if no_more_pages (pi_last_key r) then Some (Inr (items @ pi_items r), w')
          else page_loop fetch (pi_last_key r) (items @ pi_items r) w')"

definition ts_query_all :: "'w aws \<Rightarrow> tenant_context \<Rightarrow> string \<Rightarrow> condition option \<Rightarrow> condition option \<Rightarrow>
    string option \<Rightarrow> bool \<Rightarrow> 'w \<Rightarrow> (pydict list res \<times> 'w) option" where
  "ts_query_all sv ctx table sk flt index forward =
     page_loop (\<lambda>start. ts_query sv ctx table
        \<lparr>qa_sk = sk, qa_filter = flt, qa_index = index, qa_limit = None, qa_forward = forward,
         qa_start = start, qa_extra = []\<rparr>) None []"

definition ts_scan :: "string \<Rightarrow> ('w, paginated_items) io" where
  "ts_scan table = io_raise (RuntimeErr ''TenantScopedDynamoDB.scan is not permitted'')"

definition ts_scan_all :: "string \<Rightarrow> ('w, pydict list) io" where
  "ts_scan_all table = io_raise (RuntimeErr ''TenantScopedDynamoDB.scan_all is not permitted'')"

section \<open>The control-plane client\<close>

definition cp_get_item where
  "cp_get_item sv = base_get_item cp_validate_pk sv"

definition cp_query :: "'w aws \<Rightarrow> string \<Rightarrow> string option \<Rightarrow> condition option \<Rightarrow> query_args \<Rightarrow>
    ('w, paginated_items) io" where
  "cp_query sv table pk_value key_condition q =
     (case key_condition of
        Some c \<Rightarrow> io_bind (aw_query sv table (query_kwargs c q)) (\<lambda>r. io_return (paginated r))
      | None \<Rightarrow>
         (case pk_value of
            None \<Rightarrow> io_raise (ValueError ''ControlPlaneDynamoDB.query requires pk_value or key_condition'')
          | Some pk \<Rightarrow>
              (let c = KeyEq ''PK'' pk;
                   c = (case qa_sk q of None \<Rightarrow> c | Some s \<Rightarrow> CondAnd c s)
               in io_bind (aw_query sv table (query_kwargs c q)) (\<lambda>r. io_return (paginated r)))))"

definition cp_query_all :: "'w aws \<Rightarrow> string \<Rightarrow> string option \<Rightarrow> condition option \<Rightarrow> condition option \<Rightarrow>
    condition option \<Rightarrow> string option \<Rightarrow> bool \<Rightarrow> kwargs \<Rightarrow> 'w \<Rightarrow> (pydict list res \<times> 'w) option" where
  "cp_query_all sv table pk_value key_condition sk flt index forward extra =
     page_loop (\<lambda>start. cp_query sv table pk_value key_condition
        \<lparr>qa_sk = sk, qa_filter = flt, qa_index = index, qa_limit = None, qa_forward = forward,
         qa_start = start, qa_extra = extra\<rparr>) None []"

record scan_args =
  sa_filter :: "kwarg option"
  sa_limit :: "int option"
  sa_start :: "pydict option"
  sa_names :: "pydict option"
  sa_values :: "pydict option"

definition cp_scan :: "'w aws \<Rightarrow> string \<Rightarrow> scan_args \<Rightarrow> ('w, paginated_items) io" where
  "cp_scan sv table a =
     (let kw = [];
          kw = opt_kw ''FilterExpression'' (sa_filter a) kw;
          kw = opt_kw ''Limit'' (map_option (KwVal \<circ> PInt) (sa_limit a)) kw;
          kw = opt_kw ''ExclusiveStartKey'' (map_option (KwVal \<circ> PDict) (sa_start a)) kw;
          kw = opt_kw ''ExpressionAttributeNames'' (map_option (KwVal \<circ> PDict) (sa_names a)) kw;
          kw = opt_kw ''ExpressionAttributeValues'' (map_option (KwVal \<circ> PDict) (sa_values a)) kw
      in io_bind (aw_scan sv table kw) (\<lambda>r. io_return (paginated r)))"

definition cp_scan_all :: "'w aws \<Rightarrow> string \<Rightarrow> kwarg option \<Rightarrow> pydict option \<Rightarrow> pydict option \<Rightarrow>
    'w \<Rightarrow> (pydict list res \<times> 'w) option" where
  "cp_scan_all sv table flt names vals =
     page_loop (\<lambda>start. cp_scan sv table
        \<lparr>sa_filter = flt, sa_limit = None, sa_start = start, sa_names = names, sa_values = vals\<rparr>)
       None []"

section \<open>The key policy contract\<close>

text \<open>
  What every operation of the base class relies on: the policy either accepts a key and changes
  nothing, or raises. Both concrete clients provide it.
\<close>

locale key_policy =
  fixes validate :: "pydict \<Rightarrow> ('w, unit) io" and refused :: "pydict \<Rightarrow> bool"
  assumes accepts: "\<not> refused key \<Longrightarrow> validate key w = (Inr (), w)"
    and refuses: "refused key \<Longrightarrow> \<exists>e w'. validate key w = (Inl e, w')"
begin

lemma get_refused:
  "refused key \<Longrightarrow> validate key w = (Inl e, w') \<Longrightarrow> base_get_item validate sv t key ex w = (Inl e, w')"
  by (simp add: base_get_item_def io_bind_def)

lemma put_refused:
  "refused item \<Longrightarrow> validate item w = (Inl e, w') \<Longrightarrow> base_put_item validate sv t item c ex w = (Inl e, w')"
  by (simp add: base_put_item_def io_bind_def)

lemma update_refused:
  "refused key \<Longrightarrow> validate key w = (Inl e, w') \<Longrightarrow>
     base_update_item validate sv t key u vs ns c w = (Inl e, w')"
  by (simp add: base_update_item_def io_bind_def)

lemma delete_refused:
  "refused key \<Longrightarrow> validate key w = (Inl e, w') \<Longrightarrow> base_delete_item validate sv t key ex w = (Inl e, w')"
  by (simp add: base_delete_item_def io_bind_def)

lemma get_accepted:
  "\<not> refused key \<Longrightarrow> ''Key'' \<notin> fst ` set ex \<Longrightarrow>
     base_get_item validate sv t key ex w = aw_get_item sv t ((''Key'', KwVal (PDict key)) # ex) w"
  by (simp add: base_get_item_def io_bind_def accepts)

lemma delete_accepted:
  "\<not> refused key \<Longrightarrow> ''Key'' \<notin> fst ` set ex \<Longrightarrow>
     base_delete_item validate sv t key ex w = aw_delete_item sv t ((''Key'', KwVal (PDict key)) # ex) w"
  by (simp add: base_delete_item_def io_bind_def accepts)

lemma never_silently_refused:
  "refused key \<Longrightarrow> \<exists>e w'. base_get_item validate sv t key ex w = (Inl e, w')
     \<and> base_delete_item validate sv t key ex w = (Inl e, w')"
  using refuses[of key w] by (auto intro: get_refused delete_refused)

end

text \<open>The keys a tenant may not touch: a partition key of the \<open>TENANT#\<close> family that is not its own.\<close>

definition cross_tenant :: "tenant_context \<Rightarrow> pydict \<Rightarrow> bool" where
  "cross_tenant ctx key =
     (case dget_or key ''PK'' (PStr '''') of
        PStr pk \<Rightarrow> starts_with pk tenant_pk_prefix \<and> pk \<noteq> tenant_pk_prefix @ tc_tenant_id ctx
      | _ \<Rightarrow> False)"

definition target_tenant :: "pydict \<Rightarrow> string" where
  "target_tenant key =
     (case dget_or key ''PK'' (PStr '''') of PStr pk \<Rightarrow> remove_prefix pk tenant_pk_prefix | _ \<Rightarrow> [])"

lemma ts_validate_accepts: "\<not> cross_tenant ctx key \<Longrightarrow> ts_validate_pk sv ctx key = io_return ()"
  by (auto simp: ts_validate_pk_def cross_tenant_def split: pyval.splits)

lemma ts_validate_refuses:
  "cross_tenant ctx key \<Longrightarrow> ts_validate_pk sv ctx key =
     raise_dynamo_violation sv ctx (target_tenant key) (py_repr (PDict key))"
  by (auto simp: ts_validate_pk_def cross_tenant_def target_tenant_def split: pyval.splits)

interpretation tenant_policy: key_policy "ts_validate_pk sv ctx" "cross_tenant ctx"
  by unfold_locales (auto simp: ts_validate_accepts ts_validate_refuses raise_dynamo_violation_def Let_def)

interpretation control_policy: key_policy cp_validate_pk "\<lambda>key. False"
  by unfold_locales (simp_all add: cp_validate_pk_def)

text \<open>The world after a refused call: the error is logged, then the metric is emitted; nothing else.\<close>

definition violation_world :: "'w aws \<Rightarrow> tenant_context \<Rightarrow> pydict \<Rightarrow> 'w \<Rightarrow> 'w" where
  "violation_world sv ctx key w =
     snd (emit_tenant_violation_metric sv (tc_tenant_id ctx) (target_tenant key)
       (aw_log_error sv ''TenantAccessViolation: cross-tenant DynamoDB access attempt'' w))"

definition violation_exc :: "tenant_context \<Rightarrow> pydict \<Rightarrow> exc" where
  "violation_exc ctx key =
     TenantAccessViolation (target_tenant key) (tc_tenant_id ctx) (py_repr (PDict key))"

lemma ts_validate_violation:
  "cross_tenant ctx key \<Longrightarrow>
     ts_validate_pk sv ctx key w = (Inl (violation_exc ctx key), violation_world sv ctx key w)"
  by (simp add: ts_validate_refuses raise_dynamo_violation_def violation_world_def violation_exc_def Let_def)

lemma emit_metric_total: "fst (emit_tenant_violation_metric sv c t w) = Inr ()"
  by (auto simp: emit_tenant_violation_metric_def io_catch_def split: prod.splits sum.splits)

text \<open>
  Property C1. Tenant isolation on keyed operations: with a partition key of another tenant,
  each of get, put, update and delete raises \<open>TenantAccessViolation\<close> naming that tenant and the
  caller, and the only effects are the log entry and the metric, in this order: the table is
  never called.
\<close>

theorem ts_cross_tenant_blocked:
  assumes "cross_tenant ctx key"
  shows "ts_get_item sv ctx t key ex w = (Inl (violation_exc ctx key), violation_world sv ctx key w)
    \<and> ts_put_item sv ctx t key c ex w = (Inl (violation_exc ctx key), violation_world sv ctx key w)
    \<and> ts_update_item sv ctx t key u vs ns c w = (Inl (violation_exc ctx key), violation_world sv ctx key w)
    \<and> ts_delete_item sv ctx t key ex w = (Inl (violation_exc ctx key), violation_world sv ctx key w)"
  using assms
  by (simp add: ts_get_item_def ts_put_item_def ts_update_item_def ts_delete_item_def
        tenant_policy.get_refused tenant_policy.put_refused tenant_policy.update_refused
        tenant_policy.delete_refused ts_validate_violation)

section \<open>Isolation as independence of other tenants' data\<close>

definition pinned :: "tenant_context \<Rightarrow> kwargs \<Rightarrow> bool" where
  "pinned ctx kw =
     (case map_of kw ''KeyConditionExpression'' of
        Some (KwCond (KeyEq a v)) \<Rightarrow> a = ''PK'' \<and> v = tenant_pk_prefix @ tc_tenant_id ctx
      | Some (KwCond (CondAnd (KeyEq a v) c)) \<Rightarrow> a = ''PK'' \<and> v = tenant_pk_prefix @ tc_tenant_id ctx
      | _ \<Rightarrow> False)"

definition own_key :: "tenant_context \<Rightarrow> string \<Rightarrow> kwargs \<Rightarrow> bool" where
  "own_key ctx name kw =
     (case map_of kw name of Some (KwVal (PDict d)) \<Rightarrow> \<not> cross_tenant ctx d | _ \<Rightarrow> False)"

text \<open>
  Two services that give the same answers to every call that stays inside the tenant's
  partition (or outside the \<open>TENANT#\<close> family), whatever they hold for other tenants.
\<close>

definition agree_on_tenant :: "tenant_context \<Rightarrow> 'w aws \<Rightarrow> 'w aws \<Rightarrow> bool" where
  "agree_on_tenant ctx sv1 sv2 \<longleftrightarrow>
     (\<forall>t kw. own_key ctx ''Key'' kw \<longrightarrow>
        aw_get_item sv1 t kw = aw_get_item sv2 t kw \<and> aw_delete_item sv1 t kw = aw_delete_item sv2 t kw
        \<and> aw_update_item sv1 t kw = aw_update_item sv2 t kw) \<and>
     (\<forall>t kw. own_key ctx ''Item'' kw \<longrightarrow> aw_put_item sv1 t kw = aw_put_item sv2 t kw) \<and>
     (\<forall>t kw. pinned ctx kw \<longrightarrow> aw_query sv1 t kw = aw_query sv2 t kw) \<and>
     aw_put_metric sv1 = aw_put_metric sv2 \<and> aw_log_error sv1 = aw_log_error sv2"

lemma map_of_opt_kw [simp]:
  "map_of (opt_kw k v kw) k' = (if k' = k \<and> v \<noteq> None then v else map_of kw k')"
  by (auto simp: opt_kw_def split: option.splits)

lemma map_of_notin: "k \<notin> fst ` set xs \<Longrightarrow> map_of xs k = None"
  by (simp add: map_of_eq_None_iff)

lemma map_of_dupdate_notin: "k \<notin> fst ` set e \<Longrightarrow> map_of (dupdate d e) k = map_of d k"
proof -
  assume "k \<notin> fst ` set e"
  then have "map_of (rev e) k = None" by (simp add: map_of_eq_None_iff)
  then show ?thesis by (simp add: map_of_dupdate)
qed

lemma query_kwargs_condition:
  "''KeyConditionExpression'' \<notin> fst ` set (qa_extra q) \<Longrightarrow>
     map_of (query_kwargs c q) ''KeyConditionExpression'' = Some (KwCond c)"
  by (simp add: query_kwargs_def Let_def map_of_dupdate_notin)

lemma agree_emit:
  "aw_put_metric sv1 = aw_put_metric sv2 \<Longrightarrow> aw_log_error sv1 = aw_log_error sv2 \<Longrightarrow>
     emit_tenant_violation_metric sv1 c t = emit_tenant_violation_metric sv2 c t"
  by (simp add: emit_tenant_violation_metric_def)

lemma agree_violation:
  assumes "agree_on_tenant ctx (sv1 :: 'w aws) sv2"
  shows "ts_validate_pk sv1 ctx key = ts_validate_pk sv2 ctx key"
proof -
  have "(raise_dynamo_violation sv1 ctx a b w :: unit res \<times> 'w) = raise_dynamo_violation sv2 ctx a b w" for a b w
    using assms agree_emit[of sv1 sv2]
    by (simp add: agree_on_tenant_def raise_dynamo_violation_def Let_def)
  then have "(raise_dynamo_violation sv1 ctx a b :: ('w, unit) io) = raise_dynamo_violation sv2 ctx a b" for a b
    by (rule ext)
  then show ?thesis by (simp add: ts_validate_pk_def split: pyval.split)
qed

lemma ts_query_agree:
  assumes "agree_on_tenant ctx sv1 sv2" "''KeyConditionExpression'' \<notin> fst ` set (qa_extra q)"
  shows "ts_query sv1 ctx t q = ts_query sv2 ctx t q"
proof -
  have "pinned ctx (query_kwargs
      (case qa_sk q of None \<Rightarrow> KeyEq ''PK'' (tenant_pk_prefix @ tc_tenant_id ctx)
       | Some c \<Rightarrow> CondAnd (KeyEq ''PK'' (tenant_pk_prefix @ tc_tenant_id ctx)) c) q)"
    by (simp add: pinned_def query_kwargs_condition assms(2) split: option.split)
  with assms(1) show ?thesis by (simp add: ts_query_def agree_on_tenant_def Let_def)
qed

lemma ts_get_agree:
  assumes "agree_on_tenant ctx sv1 sv2"
  shows "ts_get_item sv1 ctx t key ex = ts_get_item sv2 ctx t key ex"
proof (cases "cross_tenant ctx key")
  case True
  with assms show ?thesis
    by (auto simp: fun_eq_iff ts_get_item_def base_get_item_def io_bind_def agree_violation
          ts_validate_violation[of ctx key])
next
  case False
  then have "own_key ctx ''Key'' ((''Key'', KwVal (PDict key)) # ex)" by (simp add: own_key_def)
  with assms False show ?thesis
    by (cases "''Key'' \<in> fst ` set ex")
      (auto simp: fun_eq_iff ts_get_item_def base_get_item_def ts_validate_accepts agree_on_tenant_def)
qed

lemma ts_delete_agree:
  assumes "agree_on_tenant ctx sv1 sv2"
  shows "ts_delete_item sv1 ctx t key ex = ts_delete_item sv2 ctx t key ex"
proof (cases "cross_tenant ctx key")
  case True
  with assms show ?thesis
    by (auto simp: fun_eq_iff ts_delete_item_def base_delete_item_def io_bind_def agree_violation
          ts_validate_violation[of ctx key])
next
  case False
  then have "own_key ctx ''Key'' ((''Key'', KwVal (PDict key)) # ex)" by (simp add: own_key_def)
  with assms False show ?thesis
    by (cases "''Key'' \<in> fst ` set ex")
      (auto simp: fun_eq_iff ts_delete_item_def base_delete_item_def ts_validate_accepts agree_on_tenant_def)
qed

lemma ts_update_agree:
  assumes "agree_on_tenant ctx sv1 sv2"
  shows "ts_update_item sv1 ctx t key u vs ns c = ts_update_item sv2 ctx t key u vs ns c"
proof (cases "cross_tenant ctx key")
  case True
  with assms show ?thesis
    by (auto simp: fun_eq_iff ts_update_item_def base_update_item_def io_bind_def agree_violation
          ts_validate_violation[of ctx key])
next
  case False
  with assms show ?thesis
    by (auto simp: ts_update_item_def base_update_item_def ts_validate_accepts agree_on_tenant_def
          own_key_def Let_def split: option.splits)
qed

lemma ts_put_agree:
  assumes "agree_on_tenant ctx sv1 sv2" "''Item'' \<notin> fst ` set ex"
  shows "ts_put_item sv1 ctx t item c ex = ts_put_item sv2 ctx t item c ex"
proof (cases "cross_tenant ctx item")
  case True
  with assms show ?thesis
    by (auto simp: fun_eq_iff ts_put_item_def base_put_item_def io_bind_def agree_violation
          ts_validate_violation[of ctx item])
next
  case False
  with assms show ?thesis
    by (auto simp: ts_put_item_def base_put_item_def ts_validate_accepts agree_on_tenant_def
          own_key_def map_of_dupdate_notin Let_def split: option.splits)
qed

lemma ts_query_all_agree:
  assumes "agree_on_tenant ctx sv1 sv2"
  shows "ts_query_all sv1 ctx t sk flt ix fw = ts_query_all sv2 ctx t sk flt ix fw"
  unfolding ts_query_all_def by (subst ts_query_agree[OF assms]) simp_all

text \<open>
  Property C3. Isolation end to end: whatever two AWS accounts hold for other tenants, a
  tenant-scoped client sees no difference between them, provided the caller does not pass
  the raw keywords \<open>Item\<close> or \<open>KeyConditionExpression\<close> through the \<open>extra_kwargs\<close>.
\<close>

theorem ts_isolation:
  assumes "agree_on_tenant ctx sv1 sv2"
    and "''Item'' \<notin> fst ` set ex" and "''KeyConditionExpression'' \<notin> fst ` set (qa_extra q)"
  shows "ts_get_item sv1 ctx t key ex = ts_get_item sv2 ctx t key ex
    \<and> ts_put_item sv1 ctx t item c ex = ts_put_item sv2 ctx t item c ex
    \<and> ts_update_item sv1 ctx t key u vs ns c = ts_update_item sv2 ctx t key u vs ns c
    \<and> ts_delete_item sv1 ctx t key ex = ts_delete_item sv2 ctx t key ex
    \<and> ts_query sv1 ctx t q = ts_query sv2 ctx t q
    \<and> ts_query_all sv1 ctx t sk flt ix fw = ts_query_all sv2 ctx t sk flt ix fw"
  using assms
  by (simp add: ts_get_agree ts_put_agree ts_update_agree ts_delete_agree ts_query_agree ts_query_all_agree)

section \<open>A service that records its calls\<close>

text \<open>
  For concrete runs: every call succeeds with an empty answer and is written to a trace, the
  newest entry first.
\<close>

datatype aws_call = Called string string kwargs | MetricEmitted metric_datum | LoggedError string

definition recording_aws :: "aws_call list aws" where
  "recording_aws = \<lparr>
     aw_get_item = (\<lambda>t kw w. (Inr None, Called ''get_item'' t kw # w)),
     aw_put_item = (\<lambda>t kw w. (Inr (), Called ''put_item'' t kw # w)),
     aw_update_item = (\<lambda>t kw w. (Inr [], Called ''update_item'' t kw # w)),
     aw_delete_item = (\<lambda>t kw w. (Inr (), Called ''delete_item'' t kw # w)),
     aw_query = (\<lambda>t kw w. (Inr (Some [], None), Called ''query'' t kw # w)),
     aw_scan = (\<lambda>t kw w. (Inr (Some [], None), Called ''scan'' t kw # w)),
     aw_put_metric = (\<lambda>m w. (Inr (), MetricEmitted m # w)),
     aw_log_error = (\<lambda>m w. LoggedError m # w)\<rparr>"

definition sample_ctx :: tenant_context where
  "sample_ctx = \<lparr>tc_tenant_id = ''acme'', tc_app_id = ''app'', tc_tier = BASIC, tc_sub = ''user''\<rparr>"

theorem ts_cross_tenant_blocked_witness:
  "cross_tenant sample_ctx [(''PK'', PStr ''TENANT#globex'')]
   \<and> fst (ts_get_item recording_aws sample_ctx ''tenants'' [(''PK'', PStr ''TENANT#globex'')] [] [])
     = Inl (violation_exc sample_ctx [(''PK'', PStr ''TENANT#globex'')])
   \<and> target_tenant [(''PK'', PStr ''TENANT#globex'')] = ''globex''"
proof -
  have c: "cross_tenant sample_ctx [(''PK'', PStr ''TENANT#globex'')]" by code_simp
  moreover have "target_tenant [(''PK'', PStr ''TENANT#globex'')] = ''globex''" by code_simp
  ultimately show ?thesis using ts_cross_tenant_blocked[OF c, of recording_aws "''tenants''" "[]" "[]"]
    by simp
qed

theorem ts_isolation_witness:
  "ts_query recording_aws sample_ctx ''jobs''
     \<lparr>qa_sk = None, qa_filter = None, qa_index = None, qa_limit = None, qa_forward = True,
      qa_start = None, qa_extra = []\<rparr>
   = ts_query (recording_aws\<lparr>aw_scan := (\<lambda>t kw w. (Inl (ExternalErr ''denied''), w))\<rparr>) sample_ctx ''jobs''
     \<lparr>qa_sk = None, qa_filter = None, qa_index = None, qa_limit = None, qa_forward = True,
      qa_start = None, qa_extra = []\<rparr>"
proof -
  have "agree_on_tenant sample_ctx recording_aws
      (recording_aws\<lparr>aw_scan := (\<lambda>t kw w. (Inl (ExternalErr ''denied''), w))\<rparr>)"
    by (simp add: agree_on_tenant_def)
  from ts_isolation[OF this, of "[]" "\<lparr>qa_sk = None, qa_filter = None, qa_index = None,
      qa_limit = None, qa_forward = True, qa_start = None, qa_extra = []\<rparr>" "''jobs''"]
  show ?thesis by simp
qed

text \<open>
  What \<open>extra_kwargs\<close> can do: they are merged last, so a caller that passes
  \<open>KeyConditionExpression\<close> replaces the pinned partition key of a tenant-scoped query, and one that
  passes \<open>Item\<close> replaces the item whose key was checked. The client sends what it was given.
\<close>

theorem ts_extra_kwargs_escape:
  "ts_query sv ctx t \<lparr>qa_sk = sk, qa_filter = None, qa_index = None, qa_limit = None,
       qa_forward = fw, qa_start = None, qa_extra = [(''KeyConditionExpression'', KwCond c)]\<rparr>
     = io_bind (aw_query sv t [(''KeyConditionExpression'', KwCond c), (''ScanIndexForward'', KwVal (PBool fw))])
         (\<lambda>r. io_return (paginated r))
   \<and> ts_put_item sv ctx t [(''PK'', PStr (tenant_pk_prefix @ tc_tenant_id ctx))] None [(''Item'', v)]
     = aw_put_item sv t [(''Item'', v)]"
proof
  show "ts_query sv ctx t \<lparr>qa_sk = sk, qa_filter = None, qa_index = None, qa_limit = None,
       qa_forward = fw, qa_start = None, qa_extra = [(''KeyConditionExpression'', KwCond c)]\<rparr>
     = io_bind (aw_query sv t [(''KeyConditionExpression'', KwCond c), (''ScanIndexForward'', KwVal (PBool fw))])
         (\<lambda>r. io_return (paginated r))"
    by (simp add: ts_query_def query_kwargs_def opt_kw_def dset_def Let_def)
  have "\<not> cross_tenant ctx [(''PK'', PStr (tenant_pk_prefix @ tc_tenant_id ctx))]"
    by (simp add: cross_tenant_def dget_or_def)
  then show "ts_put_item sv ctx t [(''PK'', PStr (tenant_pk_prefix @ tc_tenant_id ctx))] None [(''Item'', v)]
     = aw_put_item sv t [(''Item'', v)]"
    by (simp add: ts_put_item_def base_put_item_def ts_validate_accepts dset_def)
qed

section \<open>Pagination\<close>

text \<open>The pages a service hands out, from a start key to the page without a next key.\<close>

inductive page_chain ::
  "(pydict option \<Rightarrow> ('w, paginated_items) io) \<Rightarrow> pydict option \<Rightarrow> 'w \<Rightarrow> pydict list list \<Rightarrow> 'w \<Rightarrow> bool"
  for fetch where
    last_page: "fetch k w = (Inr r, w') \<Longrightarrow> no_more_pages (pi_last_key r) \<Longrightarrow>
      page_chain fetch k w [pi_items r] w'"
  | next_page: "fetch k w = (Inr r, w1) \<Longrightarrow> \<not> no_more_pages (pi_last_key r) \<Longrightarrow>
      page_chain fetch (pi_last_key r) w1 ps w' \<Longrightarrow> page_chain fetch k w (pi_items r # ps) w'"

inductive_cases page_chain_elim: "page_chain fetch k w ps w'"

lemma page_loop_of_chain:
  "page_chain fetch k w ps w' \<Longrightarrow> page_loop fetch k acc w = Some (Inr (acc @ concat ps), w')"
proof (induction arbitrary: acc rule: page_chain.induct)
  case (last_page k w r w')
  then show ?case by (simp add: page_loop.simps[of fetch k acc w])
next
  case (next_page k w r w1 ps w')
  then show ?case by (simp add: page_loop.simps[of fetch k acc w])
qed

lemma chain_of_page_loop:
  assumes "page_loop fetch k acc w = Some out"
  shows "\<forall>xs w'. out = (Inr xs, w') \<longrightarrow> (\<exists>ps. page_chain fetch k w ps w' \<and> xs = acc @ concat ps)"
proof (rule page_loop.raw_induct[where P = "\<lambda>f k acc w out. \<forall>xs w'. out = (Inr xs, w') \<longrightarrow>
    (\<exists>ps. page_chain f k w ps w' \<and> xs = acc @ concat ps)", OF _ assms], intro allI impI)
  fix loop f k acc w out xs w'
  assume IH: "\<And>f k acc w out. loop f k acc w = Some out \<Longrightarrow>
      \<forall>xs w'. out = (Inr xs, w') \<longrightarrow> (\<exists>ps. page_chain f k w ps w' \<and> xs = acc @ concat ps)"
    and run: "(case f k w of (Inl e, w') \<Rightarrow> Some (Inl e, w')
      | (Inr r, w') \<Rightarrow> if no_more_pages (pi_last_key r) then Some (Inr (acc @ pi_items r), w')
          else loop f (pi_last_key r) (acc @ pi_items r) w') = Some out"
    and out: "out = (Inr xs, w')"
  from run out obtain r w1 where fk: "f k w = (Inr r, w1)"
    by (auto split: prod.splits sum.splits)
  show "\<exists>ps. page_chain f k w ps w' \<and> xs = acc @ concat ps"
  proof (cases "no_more_pages (pi_last_key r)")
    case True
    with run out fk have "page_chain f k w [pi_items r] w'" "xs = acc @ pi_items r"
      by (auto intro: page_chain.last_page)
    then show ?thesis by (intro exI[of _ "[pi_items r]"]) simp
  next
    case False
    with run fk out have "loop f (pi_last_key r) (acc @ pi_items r) w1 = Some (Inr xs, w')" by simp
    from IH[OF this] obtain ps where "page_chain f (pi_last_key r) w1 ps w'"
      "xs = (acc @ pi_items r) @ concat ps" by auto
    with fk False show ?thesis by (intro exI[of _ "pi_items r # ps"]) (auto intro: page_chain.next_page)
  qed
qed

lemma page_loop_iff_chain:
  "page_loop fetch k acc w = Some (Inr xs, w') \<longleftrightarrow> (\<exists>ps. page_chain fetch k w ps w' \<and> xs = acc @ concat ps)"
proof
  assume "page_loop fetch k acc w = Some (Inr xs, w')"
  from chain_of_page_loop[OF this] show "\<exists>ps. page_chain fetch k w ps w' \<and> xs = acc @ concat ps"
    by simp
next
  assume "\<exists>ps. page_chain fetch k w ps w' \<and> xs = acc @ concat ps"
  then show "page_loop fetch k acc w = Some (Inr xs, w')"
    by (auto dest: page_loop_of_chain)
qed

lemma page_loop_terminates:
  assumes "\<And>k w r w'. fetch k w = (Inr r, w') \<Longrightarrow> \<not> no_more_pages (pi_last_key r) \<Longrightarrow>
      left (pi_last_key r) w' < (left k w :: nat)"
  shows "\<exists>out. page_loop fetch k acc w = Some out"
proof (induction "left k w" arbitrary: k w acc rule: less_induct)
  case less
  show ?case
  proof (cases "fetch k w")
    case (Pair x w')
    with less assms[of k w _ w'] show ?thesis
      by (cases x) (auto simp: page_loop.simps[of fetch k acc w])
  qed
qed

text \<open>
  Property C36. The paginated query of a tenant returns exactly the concatenation, in order, of the
  pages the service hands out from the start, following each \<open>LastEvaluatedKey\<close> until there is none.
\<close>

theorem ts_query_all_pages:
  "ts_query_all sv ctx t sk flt ix fw w = Some (Inr xs, w') \<longleftrightarrow>
     (\<exists>ps. page_chain (\<lambda>start. ts_query sv ctx t \<lparr>qa_sk = sk, qa_filter = flt, qa_index = ix,
        qa_limit = None, qa_forward = fw, qa_start = start, qa_extra = []\<rparr>) None w ps w'
      \<and> xs = concat ps)"
  by (simp add: ts_query_all_def page_loop_iff_chain)

lemma ts_query_run:
  "ts_query sv ctx t q w = (Inr r, w') \<Longrightarrow>
     \<exists>kw x. aw_query sv t kw w = (Inr x, w') \<and> pi_last_key r = snd x"
  by (auto simp: ts_query_def io_bind_def paginated_def Let_def split: prod.splits sum.splits)
    blast

lemma cp_query_run:
  "cp_query sv t pk kc q w = (Inr r, w') \<Longrightarrow>
     \<exists>kw x. aw_query sv t kw w = (Inr x, w') \<and> pi_last_key r = snd x"
  by (auto simp: cp_query_def io_bind_def paginated_def Let_def
      split: prod.splits sum.splits option.splits) blast+

lemma cp_scan_run:
  "cp_scan sv t a w = (Inr r, w') \<Longrightarrow> \<exists>kw x. aw_scan sv t kw w = (Inr x, w') \<and> pi_last_key r = snd x"
  by (auto simp: cp_scan_def io_bind_def paginated_def Let_def split: prod.splits sum.splits)
    blast


definition countdown_aws :: "nat aws" where
  "countdown_aws =
     (let page = (\<lambda>t kw w. (Inr (Some [[(''n'', PInt (int w))]],
                    if w = 0 then None else Some [(''PK'', PStr ''next'')]), w - 1))
      in \<lparr>aw_get_item = (\<lambda>t kw w. (Inr None, w)), aw_put_item = (\<lambda>t kw w. (Inr (), w)),
          aw_update_item = (\<lambda>t kw w. (Inr [], w)), aw_delete_item = (\<lambda>t kw w. (Inr (), w)),
          aw_query = page, aw_scan = page,
          aw_put_metric = (\<lambda>m w. (Inr (), w)), aw_log_error = (\<lambda>m w. w)\<rparr>)"


end
