(* ===== verification/ObjectStore.thy ===== *)
theory ObjectStore
  imports DataAccess
begin

text \<open>
  \<open>TenantScopedS3\<close> of \<open>client.py\<close>: every object key must lie under \<open>tenants/<tenant>/\<close>. S3 is a
  parameter like DynamoDB; the metric and the log are those of the AWS record.
\<close>

record list_response =
  lr_contents :: "pydict list option"
  lr_truncated :: bool
  lr_next_token :: "string option"

record 'w s3 =
  s3_get :: "string \<Rightarrow> string \<Rightarrow> ('w, pydict) io"
  s3_put :: "string \<Rightarrow> string \<Rightarrow> nat list \<Rightarrow> kwargs \<Rightarrow> ('w, unit) io"
  s3_delete :: "string \<Rightarrow> string \<Rightarrow> ('w, unit) io"
  s3_list :: "string \<Rightarrow> string \<Rightarrow> string option \<Rightarrow> ('w, list_response) io"
  s3_presign :: "string \<Rightarrow> string \<Rightarrow> string \<Rightarrow> int \<Rightarrow> ('w, string) io"

definition s3_tenant_dir :: string where
  "s3_tenant_dir = ''tenants/''"

definition s3_prefix :: "tenant_context \<Rightarrow> string" where
  "s3_prefix ctx = s3_tenant_dir @ tc_tenant_id ctx @ ''/''"

definition s3_raise_violation :: "'w aws \<Rightarrow> tenant_context \<Rightarrow> string \<Rightarrow> string \<Rightarrow> ('w, 'a) io" where
  "s3_raise_violation sv ctx target attempted w =
     (let w1 = aw_log_error sv ''TenantAccessViolation: cross-tenant S3 access attempt'' w;
          w2 = snd (emit_tenant_violation_metric sv (tc_tenant_id ctx) target w1)
      in (Inl (TenantAccessViolation target (tc_tenant_id ctx) attempted), w2))"

definition s3_validate_key :: "'w aws \<Rightarrow> tenant_context \<Rightarrow> string \<Rightarrow> ('w, unit) io" where
  "s3_validate_key sv ctx key =
     (if \<not> starts_with key (s3_prefix ctx) then
        (let target = (if starts_with key s3_tenant_dir
                       then (let parts = split_on CHR ''/'' key in
                             if 2 \<le> length parts then parts ! 1 else ''unknown'')
                       else ''unknown'')
         in s3_raise_violation sv ctx target key)
      else io_return ())"

definition s3_get_object :: "'w aws \<Rightarrow> 'w s3 \<Rightarrow> tenant_context \<Rightarrow> string \<Rightarrow> string \<Rightarrow> ('w, pydict) io" where
  "s3_get_object sv st ctx bucket key =
     io_bind (s3_validate_key sv ctx key) (\<lambda>_. s3_get st bucket key)"

definition s3_put_object ::
  "'w aws \<Rightarrow> 'w s3 \<Rightarrow> tenant_context \<Rightarrow> string \<Rightarrow> string \<Rightarrow> nat list \<Rightarrow> kwargs \<Rightarrow> ('w, unit) io" where
  "s3_put_object sv st ctx bucket key body extra =
     io_bind (s3_validate_key sv ctx key) (\<lambda>_.
       if (\<exists>k \<in> {''Bucket'', ''Key'', ''Body''}. k \<in> fst ` set extra)
       then io_raise (TypeError ''multiple values for keyword argument'')
       else s3_put st bucket key body extra)"

definition s3_delete_object :: "'w aws \<Rightarrow> 'w s3 \<Rightarrow> tenant_context \<Rightarrow> string \<Rightarrow> string \<Rightarrow> ('w, unit) io" where
  "s3_delete_object sv st ctx bucket key =
     io_bind (s3_validate_key sv ctx key) (\<lambda>_. s3_delete st bucket key)"

definition s3_generate_presigned_url ::
  "'w aws \<Rightarrow> 'w s3 \<Rightarrow> tenant_context \<Rightarrow> string \<Rightarrow> string \<Rightarrow> int \<Rightarrow> string \<Rightarrow> ('w, string) io" where
  "s3_generate_presigned_url sv st ctx bucket key expires_in client_method =
     io_bind (s3_validate_key sv ctx key) (\<lambda>_. s3_presign st client_method bucket key expires_in)"

text \<open>The continuation-token loop; a truncated page without a token is Python's \<open>KeyError\<close>.\<close>

partial_function (option) s3_list_loop ::
  "(string option \<Rightarrow> ('w, list_response) io) \<Rightarrow> string option \<Rightarrow> pydict list \<Rightarrow> 'w \<Rightarrow>
     (pydict list res \<times> 'w) option" where
  "s3_list_loop fetch token items w =
     (case fetch token w of
        (Inl e, w') \<Rightarrow> Some (Inl e, w')
      | (Inr r, w') \<Rightarrow>
          (let items' = items @ (case lr_contents r of None \<Rightarrow> [] | Some xs \<Rightarrow> xs) in
           if \<not> lr_truncated r then Some (Inr items', w')
           else (case lr_next_token r of
                   None \<Rightarrow> Some (Inl (KeyError ''NextContinuationToken''), w')
                 | Some t \<Rightarrow> s3_list_loop fetch (Some t) items' w')))"

definition s3_list_objects ::
  "'w s3 \<Rightarrow> tenant_context \<Rightarrow> string \<Rightarrow> string \<Rightarrow> 'w \<Rightarrow> (pydict list res \<times> 'w) option" where
  "s3_list_objects st ctx bucket sub_prefix =
     s3_list_loop (s3_list st bucket (s3_prefix ctx @ sub_prefix)) None []"

section \<open>Tenant prefixes\<close>

definition foreign_key :: "tenant_context \<Rightarrow> string \<Rightarrow> bool" where
  "foreign_key ctx key \<longleftrightarrow> \<not> starts_with key (s3_prefix ctx)"

definition s3_target :: "string \<Rightarrow> string" where
  "s3_target key =
     (if starts_with key s3_tenant_dir then split_on CHR ''/'' key ! 1 else ''unknown'')"

lemma split_on_tenant_dir:
  "starts_with key s3_tenant_dir \<Longrightarrow> 2 \<le> length (split_on CHR ''/'' key)"
  by (auto simp: starts_with_iff s3_tenant_dir_def Suc_le_eq split: list.splits)

lemma s3_validate_foreign:
  "foreign_key ctx key \<Longrightarrow> s3_validate_key sv ctx key = s3_raise_violation sv ctx (s3_target key) key"
  using split_on_tenant_dir[of key]
  by (auto simp: s3_validate_key_def foreign_key_def s3_target_def Let_def)

lemma s3_validate_own: "\<not> foreign_key ctx key \<Longrightarrow> s3_validate_key sv ctx key = io_return ()"
  by (simp add: s3_validate_key_def foreign_key_def)

definition s3_violation_world :: "'w aws \<Rightarrow> tenant_context \<Rightarrow> string \<Rightarrow> 'w \<Rightarrow> 'w" where
  "s3_violation_world sv ctx key w =
     snd (emit_tenant_violation_metric sv (tc_tenant_id ctx) (s3_target key)
       (aw_log_error sv ''TenantAccessViolation: cross-tenant S3 access attempt'' w))"

lemma s3_validate_violation:
  "foreign_key ctx key \<Longrightarrow> s3_validate_key sv ctx key w =
     (Inl (TenantAccessViolation (s3_target key) (tc_tenant_id ctx) key), s3_violation_world sv ctx key w)"
  by (simp add: s3_validate_foreign s3_raise_violation_def s3_violation_world_def Let_def)

lemma s3_target_other_tenant:
  assumes "key = s3_tenant_dir @ t @ ''/'' @ rest" and "CHR ''/'' \<notin> set t"
  shows "s3_target key = t"
proof -
  have "split_on CHR ''/'' key = ''tenants'' # split_on CHR ''/'' (t @ CHR ''/'' # rest)"
    using split_on_append[of "CHR ''/''" "''tenants''" "t @ CHR ''/'' # rest"]
    by (simp add: assms(1) s3_tenant_dir_def)
  with assms show ?thesis
    by (simp add: s3_target_def split_on_append)
qed

lemma prefix_slash_eq:
  assumes "CHR ''/'' \<notin> set a" "CHR ''/'' \<notin> set b" "a @ CHR ''/'' # x = b @ CHR ''/'' # y"
  shows "a = b"
  using assms
proof (induction a arbitrary: b)
  case Nil
  then show ?case by (cases b) auto
next
  case (Cons c a)
  then show ?case by (cases b) auto
qed

text \<open>
  Property C8. S3 isolation: outside the caller's prefix every keyed operation, the presigned URL
  included, raises the violation with the log entry and the metric as its only effects.
\<close>

theorem s3_cross_tenant_blocked:
  assumes "foreign_key ctx key"
  shows "s3_get_object sv st ctx b key w
      = (Inl (TenantAccessViolation (s3_target key) (tc_tenant_id ctx) key), s3_violation_world sv ctx key w)
    \<and> s3_put_object sv st ctx b key body ex w
      = (Inl (TenantAccessViolation (s3_target key) (tc_tenant_id ctx) key), s3_violation_world sv ctx key w)
    \<and> s3_delete_object sv st ctx b key w
      = (Inl (TenantAccessViolation (s3_target key) (tc_tenant_id ctx) key), s3_violation_world sv ctx key w)
    \<and> s3_generate_presigned_url sv st ctx b key secs m w
      = (Inl (TenantAccessViolation (s3_target key) (tc_tenant_id ctx) key), s3_violation_world sv ctx key w)"
  using assms
  by (simp add: s3_get_object_def s3_put_object_def s3_delete_object_def s3_generate_presigned_url_def
        io_bind_def s3_validate_violation)

theorem s3_cross_tenant_blocked_witness:
  "foreign_key sample_ctx ''tenants/globex/a.json'' \<and>
   fst (s3_delete_object recording_aws
     \<lparr>s3_get = (\<lambda>b k w. (Inr [], w)), s3_put = (\<lambda>b k x e w. (Inr (), w)),
      s3_delete = (\<lambda>b k w. (Inr (), w)),
      s3_list = (\<lambda>b p t w. (Inr \<lparr>lr_contents = None, lr_truncated = False, lr_next_token = None\<rparr>, w)),
      s3_presign = (\<lambda>m b k s w. (Inr [], w))\<rparr> sample_ctx ''bucket'' ''tenants/globex/a.json'' [])
   = Inl (TenantAccessViolation ''globex'' ''acme'' ''tenants/globex/a.json'')"
proof -
  have f: "foreign_key sample_ctx ''tenants/globex/a.json''" by code_simp
  have t: "s3_target ''tenants/globex/a.json'' = ''globex''" by code_simp
  have c: "tc_tenant_id sample_ctx = ''acme''" by (simp add: sample_ctx_def)
  show ?thesis using f s3_cross_tenant_blocked[OF f, where sv = recording_aws] by (simp add: t c)
qed

text \<open>
  No object key is open to two tenants: when their identifiers hold no slash,
  different tenants never pass the check on the same key.
\<close>

theorem s3_tenants_disjoint:
  assumes "\<not> foreign_key c1 key" and "\<not> foreign_key c2 key"
    and "CHR ''/'' \<notin> set (tc_tenant_id c1)" and "CHR ''/'' \<notin> set (tc_tenant_id c2)"
  shows "tc_tenant_id c1 = tc_tenant_id c2"
proof -
  from assms(1,2) obtain x y where "key = s3_prefix c1 @ x" "key = s3_prefix c2 @ y"
    unfolding foreign_key_def starts_with_iff by blast
  then have "tc_tenant_id c1 @ CHR ''/'' # x = tc_tenant_id c2 @ CHR ''/'' # y"
    by (simp add: s3_prefix_def)
  with assms(3,4) show ?thesis by (rule prefix_slash_eq)
qed

theorem s3_tenants_disjoint_witness:
  "\<not> foreign_key sample_ctx ''tenants/acme/x''
   \<and> tc_tenant_id sample_ctx = tc_tenant_id (sample_ctx\<lparr>tc_sub := ''other''\<rparr>)"
proof -
  have "\<not> foreign_key sample_ctx ''tenants/acme/x''"
    "\<not> foreign_key (sample_ctx\<lparr>tc_sub := ''other''\<rparr>) ''tenants/acme/x''"
    "CHR ''/'' \<notin> set (tc_tenant_id sample_ctx)"
    "CHR ''/'' \<notin> set (tc_tenant_id (sample_ctx\<lparr>tc_sub := ''other''\<rparr>))"
    by (code_simp)+
  with s3_tenants_disjoint show ?thesis by blast
qed

lemma s3_list_loop_terminates:
  assumes "\<And>k w r w' t. fetch k w = (Inr r, w') \<Longrightarrow> lr_truncated r \<Longrightarrow> lr_next_token r = Some t \<Longrightarrow>
      left (Some t) w' < (left k w :: nat)"
  shows "\<exists>out. s3_list_loop fetch k acc w = Some out"
proof (induction "left k w" arbitrary: k w acc rule: less_induct)
  case less
  show ?case
  proof (cases "fetch k w")
    case (Pair x w')
    with less assms[of k w _ w'] show ?thesis
      by (cases x) (auto simp: s3_list_loop.simps[of fetch k acc w] Let_def split: option.splits)
  qed
qed

end
