(* ===== verification/Audit_Records.thy ===== *)
theory Audit_Records
  imports Domains
begin

text \<open>
  The audit and bookkeeping records of \<open>domains/audit.py\<close>: invocations, jobs, sessions, tools,
  operation locks and billing summaries, with their time-to-live constants, the validation an
  invocation record runs when it is built, and the keys they are stored under.
\<close>

definition invocation_ttl_seconds :: int where
  "invocation_ttl_seconds = 90 * 24 * 60 * 60"

definition job_ttl_seconds :: int where
  "job_ttl_seconds = 7 * 24 * 60 * 60"

definition session_ttl_seconds :: int where
  "session_ttl_seconds = 24 * 60 * 60"

definition ops_lock_ttl_seconds :: int where
  "ops_lock_ttl_seconds = 5 * 60"

definition jitter_length :: nat where
  "jitter_length = 2"

datatype invocation_status = INV_SUCCESS | INV_ERROR | INV_TIMEOUT | INV_THROTTLED

datatype job_status = JOB_PENDING | JOB_RUNNING | JOB_COMPLETED | JOB_FAILED

datatype session_status = SESSION_ACTIVE | SESSION_COMPLETED | SESSION_EXPIRED

record invocation_record =
  inv_invocation_id :: string
  inv_tenant_id :: string
  inv_app_id :: string
  inv_agent_name :: string
  inv_agent_version :: string
  inv_session_id :: string
  inv_input_tokens :: int
  inv_output_tokens :: int
  inv_latency_ms :: int
  inv_status :: invocation_status
  inv_runtime_region :: string
  inv_invocation_mode :: invocation_mode
  inv_timestamp :: string
  inv_ttl :: int
  inv_jitter :: "string option"
  inv_error_code :: "string option"
  inv_job_id :: "string option"
  inv_ttft_ms :: "int option"

text \<open>\<open>__post_init__\<close>: the record, or the \<open>ValueError\<close> that stops its construction.\<close>

definition invocation_post_init :: "invocation_record \<Rightarrow> invocation_record res" where
  "invocation_post_init r =
     (if (\<exists>j. inv_jitter r = Some j \<and> length j \<noteq> jitter_length)
      then Inl (ValueError ''jitter must be exactly 2 characters'')
      else if (\<exists>t. inv_ttft_ms r = Some t \<and> t < 1)
      then Inl (ValueError ''ttft_ms must be a positive integer when present'')
      else Inr r)"

lemma invocation_post_init_code [code]:
  "invocation_post_init r =
     (if (case inv_jitter r of None \<Rightarrow> False | Some j \<Rightarrow> length j \<noteq> jitter_length)
      then Inl (ValueError ''jitter must be exactly 2 characters'')
      else if (case inv_ttft_ms r of None \<Rightarrow> False | Some t \<Rightarrow> t < 1)
      then Inl (ValueError ''ttft_ms must be a positive integer when present'')
      else Inr r)"
  by (auto simp: invocation_post_init_def split: option.splits)

definition invocation_pk :: "invocation_record \<Rightarrow> string" where
  "invocation_pk r = ''TENANT#'' @ inv_tenant_id r"

definition invocation_sk :: "invocation_record \<Rightarrow> string" where
  "invocation_sk r =
     (let base = ''INV#'' @ inv_timestamp r @ ''#'' @ inv_invocation_id r
      in case inv_jitter r of
           None \<Rightarrow> base
         | Some j \<Rightarrow> if j = [] then base else base @ ''#'' @ j)"

record job_record =
  jr_job_id :: string
  jr_tenant_id :: string
  jr_app_id :: string
  jr_agent_name :: string
  jr_status :: job_status
  jr_created_at :: string
  jr_ttl :: int
  jr_started_at :: "string option"
  jr_completed_at :: "string option"
  jr_result_s3_key :: "string option"
  jr_error_message :: "string option"
  jr_webhook_id :: "string option"
  jr_webhook_url :: "string option"
  jr_webhook_delivered :: bool
  jr_webhook_delivery_status :: "string option"
  jr_webhook_delivery_attempts :: int
  jr_webhook_delivery_error :: "string option"
  jr_webhook_last_attempt_at :: "string option"

definition job_pk :: "job_record \<Rightarrow> string" where
  "job_pk r = ''TENANT#'' @ jr_tenant_id r"

definition job_sk :: "job_record \<Rightarrow> string" where
  "job_sk r = ''JOB#'' @ jr_job_id r"

record session_record =
  sr_session_id :: string
  sr_tenant_id :: string
  sr_runtime_session_id :: string
  sr_agent_name :: string
  sr_started_at :: string
  sr_last_activity_at :: string
  sr_status :: session_status
  sr_ttl :: int

definition session_pk :: "session_record \<Rightarrow> string" where
  "session_pk r = ''TENANT#'' @ sr_tenant_id r"

definition session_sk :: "session_record \<Rightarrow> string" where
  "session_sk r = ''SESSION#'' @ sr_session_id r"

record tool_record =
  tl_tool_name :: string
  tl_tier_minimum :: tenant_tier
  tl_lambda_arn :: string
  tl_gateway_target_id :: string
  tl_enabled :: bool
  tl_tenant_id :: "string option"

definition tool_pk :: "tool_record \<Rightarrow> string" where
  "tool_pk r = ''TOOL#'' @ tl_tool_name r"

definition tool_sk :: "tool_record \<Rightarrow> string" where
  "tool_sk r =
     (case tl_tenant_id r of
        None \<Rightarrow> ''GLOBAL''
      | Some t \<Rightarrow> if t = [] then ''GLOBAL'' else ''TENANT#'' @ t)"

record ops_lock_record =
  ol_lock_name :: string
  ol_lock_id :: string
  ol_acquired_by :: string
  ol_acquired_at :: string
  ol_ttl :: int

definition ops_lock_pk :: "ops_lock_record \<Rightarrow> string" where
  "ops_lock_pk r = ''LOCK#'' @ ol_lock_name r"

definition ops_lock_sk :: "ops_lock_record \<Rightarrow> string" where
  "ops_lock_sk r = ''METADATA''"

record billing_summary_record =
  bs_tenant_id :: string
  bs_year_month :: string
  bs_total_input_tokens :: int
  bs_total_output_tokens :: int
  bs_total_cost_usd :: pyfloat
  bs_last_updated :: string

definition billing_summary_pk :: "billing_summary_record \<Rightarrow> string" where
  "billing_summary_pk r = ''TENANT#'' @ bs_tenant_id r"

definition billing_summary_sk :: "billing_summary_record \<Rightarrow> string" where
  "billing_summary_sk r = ''BILLING#'' @ bs_year_month r"

lemma invocation_post_init_Inr:
  "invocation_post_init r = Inr r' \<longleftrightarrow>
     r' = r \<and> (\<forall>j. inv_jitter r = Some j \<longrightarrow> length j = jitter_length)
     \<and> (\<forall>t. inv_ttft_ms r = Some t \<longrightarrow> 1 \<le> t)"
  by (auto simp: invocation_post_init_def not_less split: if_splits)

text \<open>
  The part of a sort key before an optional jitter does not depend on the jitter, so listings by
  time stay in time order.
\<close>

lemma invocation_sk_prefix:
  "starts_with (invocation_sk r) (''INV#'' @ inv_timestamp r)"
  by (auto simp: invocation_sk_def Let_def starts_with_iff split: option.splits)

end
