(* ===== verification/Resp.thy ===== *)
theory Resp
  imports PyValue
begin

text \<open>
  The RESP wire format of \<open>src/bridge/tpm_limiter.py\<close>: how commands to Valkey are encoded and how
  replies are read from a socket that delivers its bytes in arbitrary pieces.

  A byte string is a list of characters, one per byte. A socket is the list of pieces that
  \<open>recv\<close> still has to deliver; when it is empty the peer has closed the connection.
\<close>

definition crlf :: string where
  "crlf = [CHR 0x0D, CHR 0x0A]"

definition utf8_encode_char :: "char \<Rightarrow> string" where
  "utf8_encode_char c =
     (let n = code_point c in
      if n < 128 then [c] else [char_of (192 + n div 64), char_of (128 + n mod 64)])"

definition utf8_encode :: "string \<Rightarrow> string" where
  "utf8_encode s = concat (map utf8_encode_char s)"

text \<open>
  \<open>bytes.decode("utf-8")\<close> for texts of the modelled range; other input is a
  \<open>UnicodeDecodeError\<close>, which is a \<open>ValueError\<close>.
\<close>

fun utf8_decode :: "string \<Rightarrow> string res" where
  "utf8_decode [] = Inr []"
| "utf8_decode [c] =
     (if code_point c < 128 then Inr [c] else Inl (ValueError ''invalid start byte''))"
| "utf8_decode (c # d # s) =
     (if code_point c < 128 then bind_res (utf8_decode (d # s)) (\<lambda>r. Inr (c # r))
      else if code_point c \<in> {194, 195} \<and> 128 \<le> code_point d \<and> code_point d < 192
      then bind_res (utf8_decode s)
             (\<lambda>r. Inr (char_of ((code_point c - 192) * 64 + (code_point d - 128)) # r))
      else Inl (ValueError ''invalid start byte''))"

definition encode_resp_command :: "string list \<Rightarrow> string" where
  "encode_resp_command parts =
     CHR ''*'' # show_nat (length parts) @ crlf
     @ concat (map (\<lambda>part. let dat = utf8_encode part in
                      CHR 0x24 # show_nat (length dat) @ crlf @ dat @ crlf) parts)"

section \<open>Reading from the socket\<close>

type_synonym sock = "string list"

text \<open>\<open>sock.recv(n)\<close>: at most \<open>n\<close> bytes of the next piece, nothing at the end.\<close>

fun recv :: "nat \<Rightarrow> sock \<Rightarrow> string \<times> sock" where
  "recv n [] = ([], [])"
| "recv n (c # cs) =
     (if c = [] then recv n cs
      else (take n c, if length c \<le> n then cs else drop n c # cs))"

function read_exact_loop :: "nat \<Rightarrow> string \<Rightarrow> sock \<Rightarrow> string res \<times> sock" where
  "read_exact_loop n chunks s =
     (if length chunks < n then
        (case recv (n - length chunks) s of
           (chunk, s') \<Rightarrow>
             if chunk = [] then (Inl (RuntimeErr ''Valkey connection closed''), s')
             else read_exact_loop n (chunks @ chunk) s')
      else (Inr chunks, s))"
  by pat_completeness auto
termination
proof (relation "measure (\<lambda>(n, chunks, s). n - length chunks)")
  fix n and chunks xa :: string and s x y
  assume "length chunks < n" and "xa \<noteq> []"
  then show "((n, chunks @ xa, y), n, chunks, s) \<in> measure (\<lambda>(n, chunks, s). n - length chunks)"
    by (simp add: diff_less_mono2)
qed simp

declare read_exact_loop.simps [simp del]

definition read_exact :: "sock \<Rightarrow> nat \<Rightarrow> string res \<times> sock" where
  "read_exact s n = read_exact_loop n [] s"

definition bytes_left :: "sock \<Rightarrow> nat" where
  "bytes_left s = length (concat s)"

lemma recv_concat: "recv n s = (chunk, s') \<Longrightarrow> concat s = chunk @ concat s'"
  by (induction n s rule: recv.induct) (auto split: if_splits)

lemma recv_length: "recv n s = (chunk, s') \<Longrightarrow> length chunk \<le> n"
  by (induction n s rule: recv.induct) (auto split: if_splits)

lemma recv_empty: "recv n s = ([], s') \<Longrightarrow> 0 < n \<Longrightarrow> concat s = [] \<and> concat s' = []"
proof (induction n s rule: recv.induct)
  case (2 n c cs)
  then show ?case by (cases "c = []") simp_all
qed simp

text \<open>
  However the bytes arrive, the loop returns the next \<open>n\<close> of them, or fails when fewer are left.
\<close>

lemma read_exact_loop_enough:
  assumes "length chunks \<le> n" and "n - length chunks \<le> bytes_left s"
  shows "\<exists>s'. read_exact_loop n chunks s = (Inr (chunks @ take (n - length chunks) (concat s)), s')
    \<and> concat s' = drop (n - length chunks) (concat s)"
  using assms
proof (induction n chunks s rule: read_exact_loop.induct)
  case (1 n chunks s)
  show ?case
  proof (cases "length chunks < n")
    case True
    obtain chunk s1 where r: "recv (n - length chunks) s = (chunk, s1)" by fastforce
    have cc: "concat s = chunk @ concat s1" and le: "length chunk \<le> n - length chunks"
      using r by (auto dest: recv_concat recv_length)
    have "chunk \<noteq> []"
    proof
      assume "chunk = []"
      with r True have "concat s = []" by (simp add: recv_empty)
      with "1.prems"(2) True show False by (simp add: bytes_left_def)
    qed
    have "length (chunks @ chunk) \<le> n" using True le by simp
    moreover have "n - length (chunks @ chunk) \<le> bytes_left s1"
      using "1.prems"(2) cc by (simp add: bytes_left_def)
    ultimately obtain s' where
      "read_exact_loop n (chunks @ chunk) s1
         = (Inr ((chunks @ chunk) @ take (n - length (chunks @ chunk)) (concat s1)), s')"
      "concat s' = drop (n - length (chunks @ chunk)) (concat s1)"
      using "1.IH"[OF True r[symmetric] \<open>chunk \<noteq> []\<close>] by blast
    with True r \<open>chunk \<noteq> []\<close> cc le show ?thesis
      by (simp add: read_exact_loop.simps[of n chunks s])
  next
    case False
    with "1.prems" show ?thesis by (simp add: read_exact_loop.simps[of n chunks s])
  qed
qed

lemma read_exact_loop_short:
  assumes "length chunks \<le> n" and "bytes_left s < n - length chunks"
  shows "\<exists>s'. read_exact_loop n chunks s = (Inl (RuntimeErr ''Valkey connection closed''), s')
    \<and> concat s' = []"
  using assms
proof (induction n chunks s rule: read_exact_loop.induct)
  case (1 n chunks s)
  then have lt: "length chunks < n" by simp
  obtain chunk s1 where r: "recv (n - length chunks) s = (chunk, s1)" by fastforce
  have cc: "concat s = chunk @ concat s1" and le: "length chunk \<le> n - length chunks"
    using r by (auto dest: recv_concat recv_length)
  show ?case
  proof (cases "chunk = []")
    case True
    with lt r have "concat s1 = []" by (auto dest: recv_empty)
    with True lt r show ?thesis by (simp add: read_exact_loop.simps[of n chunks s])
  next
    case False
    moreover have "\<exists>s'. read_exact_loop n (chunks @ chunk) s1
        = (Inl (RuntimeErr ''Valkey connection closed''), s') \<and> concat s' = []"
      using "1.IH"[OF lt r[symmetric] False] "1.prems" cc le by (auto simp: bytes_left_def)
    ultimately show ?thesis using lt r by (simp add: read_exact_loop.simps[of n chunks s])
  qed
qed

lemma read_exact_cases:
  obtains (enough) s' where "n \<le> bytes_left s" "read_exact s n = (Inr (take n (concat s)), s')"
      "concat s' = drop n (concat s)"
    | (short) s' where "bytes_left s < n"
      "read_exact s n = (Inl (RuntimeErr ''Valkey connection closed''), s')" "concat s' = []"
proof (cases "n \<le> bytes_left s")
  case True
  then show ?thesis using enough read_exact_loop_enough[of "[]" n s] by (auto simp: read_exact_def)
next
  case False
  then show ?thesis using short read_exact_loop_short[of "[]" n s] by (auto simp: read_exact_def)
qed

lemma read_exact_Inr:
  "read_exact s n = (Inr b, s') \<Longrightarrow>
     b = take n (concat s) \<and> concat s' = drop n (concat s) \<and> n \<le> bytes_left s"
  by (cases n s rule: read_exact_cases) auto

lemma read_exact_Inr_left: "read_exact s n = (Inr b, s') \<Longrightarrow> bytes_left s' = bytes_left s - n"
  by (drule read_exact_Inr) (simp add: bytes_left_def)

lemma read_exact_append:
  assumes "concat s = b @ rest" "length b = n"
  shows "\<exists>s'. read_exact s n = (Inr b, s') \<and> concat s' = rest"
  using assms by (cases n s rule: read_exact_cases) (auto simp: bytes_left_def)

function read_line_loop :: "string \<Rightarrow> sock \<Rightarrow> string res \<times> sock" where
  "read_line_loop chunks s =
     (if ends_with chunks crlf then (Inr (take (length chunks - 2) chunks), s)
      else (case read_exact s 1 of
              (Inl e, s') \<Rightarrow> (Inl e, s')
            | (Inr b, s') \<Rightarrow> read_line_loop (chunks @ b) s'))"
  by pat_completeness auto
termination
proof (relation "measure (\<lambda>(chunks, s). bytes_left s)")
  fix chunks b :: string and s s' x
  assume "(x, s') = read_exact s 1" "x = Inr b"
  then have "read_exact s 1 = (Inr b, s')" by simp
  then have "bytes_left s' = bytes_left s - 1" "1 \<le> bytes_left s"
    by (auto dest: read_exact_Inr read_exact_Inr_left)
  then show "((chunks @ b, s'), chunks, s) \<in> measure (\<lambda>(chunks, s). bytes_left s)" by simp
qed simp

declare read_line_loop.simps [simp del]

definition read_line :: "sock \<Rightarrow> string res \<times> sock" where
  "read_line s = read_line_loop [] s"

lemma not_ends_crlf: "CHR 0x0A \<notin> set a \<Longrightarrow> \<not> ends_with a crlf"
  by (auto simp: ends_with_iff crlf_def)

lemma read_line_loop_spec:
  assumes "concat s = line @ crlf @ rest" and "CHR 0x0A \<notin> set (acc @ line)"
  shows "\<exists>s'. read_line_loop acc s = (Inr (acc @ line), s') \<and> concat s' = rest"
  using assms
proof (induction line arbitrary: acc s)
  case Nil
  have n1: "\<not> ends_with acc crlf" "\<not> ends_with (acc @ [CHR 0x0D]) crlf"
    using Nil.prems(2) by (auto intro!: not_ends_crlf)
  obtain s1 where s1: "read_exact s 1 = (Inr [CHR 0x0D], s1)" "concat s1 = CHR 0x0A # rest"
    using read_exact_append[of s "[CHR 0x0D]" "CHR 0x0A # rest" 1] Nil.prems(1)
    by (auto simp: crlf_def)
  obtain s2 where s2: "read_exact s1 1 = (Inr [CHR 0x0A], s2)" "concat s2 = rest"
    using read_exact_append[of s1 "[CHR 0x0A]" rest 1] s1(2) by auto
  have e: "ends_with (acc @ [CHR 0x0D, CHR 0x0A]) crlf" by (auto simp: ends_with_iff crlf_def)
  show ?case
    using n1 s1(1) s2 e
    by (simp add: read_line_loop.simps[of acc s] read_line_loop.simps[of _ s1] read_line_loop.simps[of _ s2])
next
  case (Cons c line)
  have n: "\<not> ends_with acc crlf" using Cons.prems(2) by (auto intro!: not_ends_crlf)
  obtain s1 where s1: "read_exact s 1 = (Inr [c], s1)" "concat s1 = line @ crlf @ rest"
    using read_exact_append[of s "[c]" "line @ crlf @ rest" 1] Cons.prems(1) by auto
  with Cons.IH[of s1 "acc @ [c]"] Cons.prems(2) n show ?case
    by (simp add: read_line_loop.simps[of acc s])
qed

lemma read_line_spec:
  "concat s = line @ crlf @ rest \<Longrightarrow> CHR 0x0A \<notin> set line \<Longrightarrow>
     \<exists>s'. read_line s = (Inr line, s') \<and> concat s' = rest"
  using read_line_loop_spec[of s line rest "[]"] by (simp add: read_line_def)

lemma read_line_loop_left: "read_line_loop acc s = (Inr l, s') \<Longrightarrow> bytes_left s' \<le> bytes_left s"
proof (induction acc s rule: read_line_loop.induct)
  case (1 chunks s)
  show ?case
  proof (cases "ends_with chunks crlf")
    case True
    with "1.prems" show ?thesis by (simp add: read_line_loop.simps[of chunks s])
  next
    case False
    with "1.prems" obtain b s1 where b: "read_exact s 1 = (Inr b, s1)"
      "read_line_loop (chunks @ b) s1 = (Inr l, s')"
      by (auto simp: read_line_loop.simps[of chunks s] split: prod.splits sum.splits)
    from "1.IH"[OF False b(1)[symmetric] refl b(2)] read_exact_Inr_left[OF b(1)] show ?thesis by simp
  qed
qed

lemma read_line_left: "read_line s = (Inr l, s') \<Longrightarrow> bytes_left s' \<le> bytes_left s"
  unfolding read_line_def by (rule read_line_loop_left)

section \<open>Replies\<close>

text \<open>
  \<open>_read_resp\<close> with fuel: each nested call spends one unit. \<open>read_resp_fuel_enough\<close> shows that
  twice the number of bytes left, plus one, always suffices.
\<close>

fun read_resp_fuel :: "nat \<Rightarrow> sock \<Rightarrow> (pyval res \<times> sock) option"
  and read_many_fuel :: "nat \<Rightarrow> nat \<Rightarrow> sock \<Rightarrow> (pyval list res \<times> sock) option" where
  "read_resp_fuel 0 s = None"
| "read_resp_fuel (Suc f) s =
     (case read_exact s 1 of
        (Inl e, s1) \<Rightarrow> Some (Inl e, s1)
      | (Inr p, s1) \<Rightarrow>
          if p \<in> {''+'', '':'', ''-'', [CHR 0x24], ''*''} then
            (case read_line s1 of
               (Inl e, s2) \<Rightarrow> Some (Inl e, s2)
             | (Inr l, s2) \<Rightarrow>
                 if p = ''+'' then Some (bind_res (utf8_decode l) (\<lambda>t. Inr (PStr t)), s2)
                 else if p = ''-'' then Some (bind_res (utf8_decode l) (\<lambda>t. Inl (RuntimeErr t)), s2)
                 else (case parse_int l of
                         None \<Rightarrow> Some (Inl (ValueError ''invalid literal for int()''), s2)
                       | Some n \<Rightarrow>
                           if p = '':'' then Some (Inr (PInt n), s2)
                           else if n < 0 then Some (Inr PNone, s2)
                           else if p = ''*'' then
                             (case read_many_fuel f (nat n) s2 of
                                None \<Rightarrow> None
                              | Some (r, s3) \<Rightarrow> Some (bind_res r (\<lambda>xs. Inr (PList xs)), s3))
                           else
                             (case read_exact s2 (nat n) of
                                (Inl e, s3) \<Rightarrow> Some (Inl e, s3)
                              | (Inr payload, s3) \<Rightarrow>
                                  (case read_exact s3 2 of
                                     (Inl e, s4) \<Rightarrow> Some (Inl e, s4)
                                   | (Inr _, s4) \<Rightarrow>
                                       Some (bind_res (utf8_decode payload) (\<lambda>t. Inr (PStr t)), s4)))))
          else Some (Inl (RuntimeErr ''Unsupported Valkey response prefix''), s1))"
| "read_many_fuel 0 n s = None"
| "read_many_fuel (Suc f) 0 s = Some (Inr [], s)"
| "read_many_fuel (Suc f) (Suc n) s =
     (case read_resp_fuel f s of
        None \<Rightarrow> None
      | Some (Inl e, s1) \<Rightarrow> Some (Inl e, s1)
      | Some (Inr x, s1) \<Rightarrow>
          (case read_many_fuel f n s1 of
             None \<Rightarrow> None
           | Some (r, s2) \<Rightarrow> Some (bind_res r (\<lambda>xs. Inr (x # xs)), s2)))"

definition read_resp :: "sock \<Rightarrow> pyval res \<times> sock" where
  "read_resp s = the (read_resp_fuel (2 * bytes_left s + 1) s)"

lemma read_fuel_left:
  "read_resp_fuel f s = Some (Inr v, s') \<Longrightarrow> bytes_left s' < bytes_left s"
  "read_many_fuel f n s = Some (Inr vs, s') \<Longrightarrow> bytes_left s' \<le> bytes_left s"
proof (induction f s and f n s arbitrary: v s' and vs s' rule: read_resp_fuel_read_many_fuel.induct)
  case (2 f s)
  from "2.prems" obtain p s1 where p: "read_exact s 1 = (Inr p, s1)"
    by (auto split: prod.splits sum.splits)
  then have b1: "bytes_left s1 < bytes_left s"
    using read_exact_Inr[OF p] read_exact_Inr_left[OF p] by simp
  from "2.prems" p obtain l s2 where l: "read_line s1 = (Inr l, s2)"
    by (auto split: prod.splits sum.splits if_splits)
  have b2: "bytes_left s2 \<le> bytes_left s1" by (rule read_line_left[OF l])
  have many: "bytes_left s3 \<le> bytes_left s2"
    if "read_many_fuel f (nat n) s2 = Some (Inr xs, s3)" "p = ''*''" "parse_int l = Some n" "\<not> n < 0"
    for s3 xs n
    using "2.IH"[OF p[symmetric] refl _ l[symmetric] refl _ _ that(3) _ that(4) that(2) that(1)] that(2)
    by simp
  from "2.prems" p l b1 b2 show ?case
    by (auto split: prod.splits sum.splits if_splits option.splits simp: bind_res_eq_Inr
        dest!: read_exact_Inr_left dest: many[THEN le_less_trans, OF _ _ _ _ le_less_trans])
next
  case (5 f n s)
  from "5.prems" obtain x s1 where x: "read_resp_fuel f s = Some (Inr x, s1)"
    by (auto split: option.splits prod.splits sum.splits)
  with "5.prems" obtain xs where "read_many_fuel f n s1 = Some (Inr xs, s')"
    by (auto split: option.splits prod.splits sum.splits simp: bind_res_eq_Inr)
  then have "bytes_left s' \<le> bytes_left s1" using "5.IH"(2)[OF x refl refl] by blast
  moreover have "bytes_left s1 < bytes_left s" using "5.IH"(1)[OF x] .
  ultimately show ?case by simp
qed auto

section \<open>Enough fuel, and independence of how the bytes arrive\<close>

lemma read_fuel_enough:
  "2 * bytes_left s < f \<Longrightarrow> read_resp_fuel f s \<noteq> None"
  "2 * bytes_left s + 1 < f \<Longrightarrow> read_many_fuel f n s \<noteq> None"
proof (induction f s and f n s rule: read_resp_fuel_read_many_fuel.induct)
  case (2 f s)
  show ?case
  proof
    assume none: "read_resp_fuel (Suc f) s = None"
    then obtain p s1 l s2 n where p: "read_exact s 1 = (Inr p, s1)" and l: "read_line s1 = (Inr l, s2)"
      and n: "parse_int l = Some n" "\<not> n < 0" "p = ''*''" and m: "read_many_fuel f (nat n) s2 = None"
      by (auto split: prod.splits sum.splits if_splits option.splits)
    have "bytes_left s1 < bytes_left s" using read_exact_Inr[OF p] read_exact_Inr_left[OF p] by simp
    moreover have "bytes_left s2 \<le> bytes_left s1" by (rule read_line_left[OF l])
    ultimately have "2 * bytes_left s2 + 1 < f" using "2.prems" by simp
    from "2.IH"[OF p[symmetric] refl _ l[symmetric] refl _ _ n(1) _ n(2) n(3) this] m n(3)
    show False by simp
  qed
next
  case (5 f n s)
  show ?case
  proof
    assume none: "read_many_fuel (Suc f) (Suc n) s = None"
    have "read_resp_fuel f s \<noteq> None" using "5.IH"(1) "5.prems" by simp
    with none obtain x s1 where x: "read_resp_fuel f s = Some (Inr x, s1)"
      and m: "read_many_fuel f n s1 = None"
      by (auto split: prod.splits sum.splits option.splits)
    have "bytes_left s1 < bytes_left s" by (rule read_fuel_left(1)[OF x])
    with "5.prems" have "2 * bytes_left s1 + 1 < f" by simp
    from "5.IH"(2)[OF x refl refl this] m show False by simp
  qed
qed auto

lemma read_fuel_Suc:
  "read_resp_fuel f s = Some r \<Longrightarrow> read_resp_fuel (Suc f) s = Some r"
  "read_many_fuel f n s = Some rs \<Longrightarrow> read_many_fuel (Suc f) n s = Some rs"
proof (induction f s and f n s arbitrary: r and rs rule: read_resp_fuel_read_many_fuel.induct)
  case (2 f s)
  obtain a s1 where p: "read_exact s 1 = (a, s1)" by fastforce
  show ?case
  proof (cases a)
    case (Inl e)
    with "2.prems" p show ?thesis by simp
  next
    case a: (Inr c)
    obtain b s2 where l: "read_line s1 = (b, s2)" by fastforce
    show ?thesis
    proof (cases b)
      case (Inl e)
      with "2.prems" p a l show ?thesis by (auto split: if_splits)
    next
      case b: (Inr d)
      have many: "read_many_fuel (Suc f) (nat n) s2 = Some q"
        if "read_many_fuel f (nat n) s2 = Some q" "c = ''*''" "parse_int d = Some n" "\<not> n < 0" for q n
        using "2.IH"[OF p[symmetric] a _ l[symmetric] b _ _ that(3) _ that(4) that(2) that(1)] that(2)
        by simp
      show ?thesis
      proof (cases "\<exists>n. c = ''*'' \<and> parse_int d = Some n \<and> \<not> n < 0")
        case True
        then obtain n where n: "c = ''*''" "parse_int d = Some n" "\<not> n < 0" by blast
        with "2.prems" p a l b obtain q where "read_many_fuel f (nat n) s2 = Some q"
          by (simp split: option.splits)
        with n "2.prems" p a l b many[of n q] show ?thesis by simp
      next
        case False
        with "2.prems" p a l b show ?thesis
          by (auto split: if_splits option.split option.splits)
      qed
    qed
  qed
next
  case (5 f n s)
  then obtain x s1 where x: "read_resp_fuel f s = Some (x, s1)"
    by (auto split: option.splits)
  have x': "read_resp_fuel (Suc f) s = Some (x, s1)" by (rule "5.IH"(1)[OF x])
  show ?case
  proof (cases x)
    case (Inl e)
    with "5.prems" x x' show ?thesis by (simp only: read_many_fuel.simps option.case prod.case sum.case)
  next
    case (Inr v)
    with "5.prems" x obtain q where q: "read_many_fuel f n s1 = Some q"
      by (auto split: option.splits)
    have "read_many_fuel (Suc f) n s1 = Some q" by (rule "5.IH"(2)[OF x refl Inr q])
    with "5.prems" x x' Inr q show ?thesis
      by (simp only: read_many_fuel.simps(3) option.case prod.case sum.case)
  qed
qed auto

lemma read_resp_fuel_mono: "read_resp_fuel f s = Some r \<Longrightarrow> f \<le> g \<Longrightarrow> read_resp_fuel g s = Some r"
  by (induction g) (auto simp del: read_resp_fuel.simps elim: le_SucE intro: read_fuel_Suc(1))

text \<open>The fuel of \<open>read_resp\<close> never runs out, and any fuel that gives a result gives its result.\<close>

lemma read_resp_fuel_enough: "read_resp_fuel (2 * bytes_left s + 1) s = Some (read_resp s)"
  using read_fuel_enough(1)[of s "2 * bytes_left s + 1"] by (simp add: read_resp_def del: read_resp_fuel.simps)

lemma read_resp_eqI: "read_resp_fuel f s = Some r \<Longrightarrow> read_resp s = r"
  using read_resp_fuel_mono[of f s r "max f (2 * bytes_left s + 1)"]
    read_resp_fuel_mono[OF read_resp_fuel_enough, of s "max f (2 * bytes_left s + 1)"]
  by (simp del: read_resp_fuel.simps)

text \<open>\<open>same_reply\<close>: the same result, and the same bytes still to come.\<close>

definition same_reply :: "'a res \<times> sock \<Rightarrow> 'a res \<times> sock \<Rightarrow> bool" where
  "same_reply r q \<longleftrightarrow> fst r = fst q \<and> concat (snd r) = concat (snd q)"

definition same_reply_opt :: "('a res \<times> sock) option \<Rightarrow> ('a res \<times> sock) option \<Rightarrow> bool" where
  "same_reply_opt r q = rel_option same_reply r q"

lemma same_reply_pair [simp]: "same_reply (a, s) (b, t) \<longleftrightarrow> a = b \<and> concat s = concat t"
  by (simp add: same_reply_def)

lemma read_exact_same:
  assumes "concat s = concat t"
  shows "same_reply (read_exact s n) (read_exact t n)"
proof (cases n s rule: read_exact_cases)
  case (enough s')
  with assms have "n \<le> bytes_left t" by (simp add: bytes_left_def)
  then show ?thesis using enough assms by (cases n t rule: read_exact_cases) auto
next
  case (short s')
  with assms have "bytes_left t < n" by (simp add: bytes_left_def)
  then obtain t' where "read_exact t n = (Inl (RuntimeErr ''Valkey connection closed''), t')"
    "concat t' = []" by (cases n t rule: read_exact_cases) auto
  with short show ?thesis by (simp del: concat_eq_Nil_conv)
qed

lemma read_line_loop_same:
  "concat s = concat t \<Longrightarrow> same_reply (read_line_loop acc s) (read_line_loop acc t)"
proof (induction acc s arbitrary: t rule: read_line_loop.induct)
  case (1 chunks s)
  show ?case
  proof (cases "ends_with chunks crlf")
    case True
    with "1.prems" show ?thesis by (simp add: read_line_loop.simps[of chunks])
  next
    case False
    obtain a s1 where s: "read_exact s 1 = (a, s1)" by fastforce
    obtain b t1 where t: "read_exact t 1 = (b, t1)" by fastforce
    have ab: "b = a" "concat s1 = concat t1" using read_exact_same[OF "1.prems", of 1] s t by simp_all
    show ?thesis
    proof (cases a)
      case (Inl e)
      with False s t ab show ?thesis by (simp add: read_line_loop.simps[of chunks])
    next
      case (Inr c)
      have "same_reply (read_line_loop (chunks @ c) s1) (read_line_loop (chunks @ c) t1)"
        by (rule "1.IH"[OF False s[symmetric] Inr ab(2)])
      with False s t ab Inr show ?thesis by (simp add: read_line_loop.simps[of chunks])
    qed
  qed
qed

lemma read_line_same: "concat s = concat t \<Longrightarrow> same_reply (read_line s) (read_line t)"
  unfolding read_line_def by (rule read_line_loop_same)

lemma read_fuel_same:
  "concat s = concat t \<Longrightarrow> same_reply_opt (read_resp_fuel f s) (read_resp_fuel f t)"
  "concat s = concat t \<Longrightarrow> same_reply_opt (read_many_fuel f n s) (read_many_fuel f n t)"
proof (induction f s and f n s arbitrary: t and t rule: read_resp_fuel_read_many_fuel.induct)
  case (2 f s)
  obtain a s1 where s: "read_exact s 1 = (a, s1)" by fastforce
  obtain a' t1 where t: "read_exact t 1 = (a', t1)" by fastforce
  have a': "a' = a" and c1: "concat s1 = concat t1"
    using read_exact_same[OF "2.prems", of 1] s t by simp_all
  obtain b s2 where ls: "read_line s1 = (b, s2)" by fastforce
  obtain b' t2 where lt: "read_line t1 = (b', t2)" by fastforce
  have b': "b' = b" and c2: "concat s2 = concat t2" using read_line_same[OF c1] ls lt by simp_all
  show ?case
  proof (cases "\<exists>c d n. a = Inr c \<and> b = Inr d \<and> parse_int d = Some n \<and> \<not> n < 0 \<and> c \<in> {''*'', [CHR 0x24]}")
    case False
    with s t ls lt a' b' c1 c2 show ?thesis
      by (auto simp: same_reply_opt_def split: sum.split option.split)
  next
    case True
    then obtain c d n where cd: "a = Inr c" "b = Inr d" "parse_int d = Some n" "\<not> n < 0"
      and c: "c \<in> {''*'', [CHR 0x24]}" by blast
    show ?thesis
    proof (cases "c = ''*''")
      case True
      have "same_reply_opt (read_many_fuel f (nat n) s2) (read_many_fuel f (nat n) t2)"
        using "2.IH"[OF s[symmetric] cd(1) _ ls[symmetric] cd(2) _ _ cd(3) _ cd(4) True c2] True by simp
      with True s t ls lt a' b' cd show ?thesis
        by (auto simp: same_reply_opt_def same_reply_def rel_option_iff split: option.splits)
    next
      case False
      obtain p s3 where p: "read_exact s2 (nat n) = (p, s3)" by fastforce
      obtain p' t3 where p': "read_exact t2 (nat n) = (p', t3)" by fastforce
      have pp: "p' = p" and c3: "concat s3 = concat t3"
        using read_exact_same[OF c2, of "nat n"] p p' by simp_all
      obtain q s4 where q: "read_exact s3 2 = (q, s4)" by fastforce
      obtain q' t4 where q': "read_exact t3 2 = (q', t4)" by fastforce
      have qq: "q' = q" and c4: "concat s4 = concat t4"
        using read_exact_same[OF c3, of 2] q q' by simp_all
      from False c s t ls lt a' b' cd p p' q q' pp qq c3 c4 show ?thesis
        by (auto simp: same_reply_opt_def split: sum.split)
    qed
  qed
next
  case (5 f n s)
  have r: "same_reply_opt (read_resp_fuel f s) (read_resp_fuel f t)" by (rule "5.IH"(1)[OF "5.prems"])
  show ?case
  proof (cases "\<exists>x s1. read_resp_fuel f s = Some (Inr x, s1)")
    case False
    with r show ?thesis
      by (auto simp: same_reply_opt_def same_reply_def rel_option_iff split: option.splits sum.splits)
  next
    case True
    then obtain x s1 where x: "read_resp_fuel f s = Some (Inr x, s1)" by blast
    with r obtain t1 where y: "read_resp_fuel f t = Some (Inr x, t1)" "concat s1 = concat t1"
      by (auto simp: same_reply_opt_def same_reply_def rel_option_iff split: option.splits)
    have "same_reply_opt (read_many_fuel f n s1) (read_many_fuel f n t1)"
      by (rule "5.IH"(2)[OF x refl refl y(2)])
    with x y show ?thesis
      by (auto simp: same_reply_opt_def same_reply_def rel_option_iff split: option.splits)
  qed
qed (auto simp: same_reply_opt_def)

text \<open>
  How TCP cuts the reply into pieces does not matter: two connections that deliver the
  same bytes give the same reply (or the same error) and leave the same bytes unread.
\<close>

theorem read_resp_same:
  assumes "concat s = concat t"
  shows "same_reply (read_resp s) (read_resp t)"
proof -
  have "bytes_left s = bytes_left t" using assms by (simp add: bytes_left_def)
  with read_fuel_same(1)[OF assms, of "2 * bytes_left s + 1"] read_resp_fuel_enough[of s]
    read_resp_fuel_enough[of t]
  show ?thesis by (simp add: same_reply_opt_def del: read_resp_fuel.simps)
qed

theorem read_resp_same_witness:
  "same_reply (read_resp [''+O'', ''K'' @ crlf, '':1'']) (read_resp [''+OK'' @ crlf @ '':1''])"
  by (rule read_resp_same) (simp add: crlf_def)

section \<open>Commands read back\<close>

lemma utf8_decode_append_char:
  "utf8_decode (utf8_encode_char c @ s) = bind_res (utf8_decode s) (\<lambda>r. Inr (c # r))"
proof (cases "code_point c < 128")
  case True
  then show ?thesis by (cases s) (simp_all add: utf8_encode_char_def)
next
  case False
  define n where "n = code_point c"
  have n: "128 \<le> n" "n < 256" using False code_point_less[of c] by (simp_all add: n_def)
  have d: "n div 64 \<in> {2, 3}" using n by auto
  have "(n div 64) * 64 + n mod 64 = n" by simp
  then have "char_of ((n div 64) * 64 + n mod 64) = c" by (simp add: n_def char_of_code_point)
  moreover have "code_point (char_of (192 + n div 64)) = 192 + n div 64"
    "code_point (char_of (128 + n mod 64)) = 128 + n mod 64"
    using d by (auto intro!: code_point_char_of)
  moreover have "n mod 64 < 64" by simp
  ultimately show ?thesis
    using False d by (auto simp: utf8_encode_char_def Let_def simp flip: n_def)
qed

lemma utf8_roundtrip: "utf8_decode (utf8_encode s) = Inr s"
proof (induction s)
  case (Cons c s)
  then show ?case by (simp add: utf8_encode_def utf8_decode_append_char)
qed (simp add: utf8_encode_def)

lemma show_nat_no_lf: "CHR 0x0A \<notin> set (show_nat n)"
  using show_nat_no_space[of "CHR 0x0A" n] by (auto simp: py_space_def)

lemma parse_int_show_nat: "parse_int (show_nat n) = Some (int n)"
  using parse_int_show_int[of "int n"] by (simp add: show_int_def)

definition resp_bulk :: "string \<Rightarrow> string" where
  "resp_bulk part = CHR 0x24 # show_nat (length (utf8_encode part)) @ crlf @ utf8_encode part @ crlf"

lemma encode_resp_command_eq:
  "encode_resp_command parts = CHR ''*'' # show_nat (length parts) @ crlf @ concat (map resp_bulk parts)"
  by (simp add: encode_resp_command_def resp_bulk_def Let_def cong: map_cong)

lemma read_bulk:
  assumes "concat s = resp_bulk part @ rest"
  shows "\<exists>s'. read_resp_fuel (Suc f) s = Some (Inr (PStr part), s') \<and> concat s' = rest"
proof -
  let ?d = "utf8_encode part"
  obtain s1 where 1: "read_exact s 1 = (Inr [CHR 0x24], s1)"
    "concat s1 = show_nat (length ?d) @ crlf @ ?d @ crlf @ rest"
    using read_exact_append[of s "[CHR 0x24]" _ 1] assms by (auto simp: resp_bulk_def)
  obtain s2 where 2: "read_line s1 = (Inr (show_nat (length ?d)), s2)" "concat s2 = ?d @ crlf @ rest"
    using read_line_spec[OF 1(2) show_nat_no_lf] by auto
  obtain s3 where 3: "read_exact s2 (length ?d) = (Inr ?d, s3)" "concat s3 = crlf @ rest"
    using read_exact_append[OF 2(2) refl] by auto
  obtain s4 where 4: "read_exact s3 2 = (Inr crlf, s4)" "concat s4 = rest"
    using read_exact_append[OF 3(2), of 2] by (auto simp: crlf_def)
  show ?thesis using 1 2 3 4 by (simp add: parse_int_show_nat utf8_roundtrip)
qed

lemma read_bulks:
  assumes "concat s = concat (map resp_bulk parts) @ rest" and "length parts < f"
  shows "\<exists>s'. read_many_fuel f (length parts) s = Some (Inr (map PStr parts), s') \<and> concat s' = rest"
  using assms
proof (induction parts arbitrary: s f)
  case Nil
  then obtain g where "f = Suc g" by (cases f) auto
  with Nil show ?case by simp
next
  case (Cons part parts)
  define g where "g = f - 2"
  have g: "f = Suc (Suc g)" "length parts < Suc g" using Cons.prems(2) by (simp_all add: g_def)
  obtain s1 where 1: "read_resp_fuel (Suc g) s = Some (Inr (PStr part), s1)"
    "concat s1 = concat (map resp_bulk parts) @ rest"
    using read_bulk[of s part _ g] Cons.prems(1) by fastforce
  obtain s2 where "read_many_fuel (Suc g) (length parts) s1 = Some (Inr (map PStr parts), s2)"
    "concat s2 = rest"
    using Cons.IH[OF 1(2) g(2)] by blast
  with 1 g show ?case by (simp del: read_resp_fuel.simps)
qed

text \<open>
  Property C28. What \<open>_encode_resp_command\<close> writes is a RESP array of bulk strings that
  \<open>_read_resp\<close> reads back exactly, whatever the bytes of the arguments are and however they arrive,
  leaving what follows unread: no argument can smuggle a second command into the stream.
\<close>

theorem resp_command_roundtrip:
  assumes "concat s = encode_resp_command parts @ rest"
  shows "\<exists>s'. read_resp s = (Inr (PList (map PStr parts)), s') \<and> concat s' = rest"
proof -
  let ?f = "length parts + 1"
  obtain s1 where 1: "read_exact s 1 = (Inr ''*'', s1)"
    "concat s1 = show_nat (length parts) @ crlf @ concat (map resp_bulk parts) @ rest"
    using read_exact_append[of s "''*''" _ 1] assms by (auto simp: encode_resp_command_eq)
  obtain s2 where 2: "read_line s1 = (Inr (show_nat (length parts)), s2)"
    "concat s2 = concat (map resp_bulk parts) @ rest"
    using read_line_spec[OF 1(2) show_nat_no_lf] by auto
  obtain s3 where 3: "read_many_fuel ?f (length parts) s2 = Some (Inr (map PStr parts), s3)"
    "concat s3 = rest"
    using read_bulks[OF 2(2), of ?f] by auto
  have "read_resp_fuel (Suc ?f) s = Some (Inr (PList (map PStr parts)), s3)"
    using 1 2 3 by (simp add: parse_int_show_nat)
  then have "read_resp s = (Inr (PList (map PStr parts)), s3)" by (rule read_resp_eqI)
  with 3(2) show ?thesis by blast
qed

theorem resp_command_roundtrip_witness:
  "\<exists>s'. read_resp [encode_resp_command [''GET'', ''k'']] = (Inr (PList (map PStr [''GET'', ''k''])), s')
     \<and> concat s' = []"
  by (rule resp_command_roundtrip) simp

end
