(* ===== verification/Json.thy ===== *)
theory Json
  imports PyValue
begin

text \<open>
  \<open>json.loads\<close> and \<open>json.dumps\<close> of the Python library, on the values of \<open>PyValue\<close>: the decoder with
  its strict strings, escapes, number grammar and the three non-standard constants, and the encoder
  with the default separators and \<open>ensure_ascii\<close>. A float keeps its exact decimal value and
  the text of its literal (rounding to a double is not modelled); an escape above \<open>\u00ff\<close> is
  outside the modelled characters and is reported as a decode error.
\<close>

datatype 'a parsed = POk 'a string | PBad | PNoFuel

fun parsed_bind :: "'a parsed \<Rightarrow> ('a \<Rightarrow> string \<Rightarrow> 'b parsed) \<Rightarrow> 'b parsed" where
  "parsed_bind (POk x r) f = f x r"
| "parsed_bind PBad f = PBad"
| "parsed_bind PNoFuel f = PNoFuel"

definition json_space :: "char \<Rightarrow> bool" where
  "json_space c \<longleftrightarrow> c = CHR '' '' \<or> c = CHR 0x09 \<or> c = CHR 0x0A \<or> c = CHR 0x0D"

definition skip_ws :: "string \<Rightarrow> string" where
  "skip_ws s = dropWhile json_space s"

lemma length_skip_ws: "length (skip_ws s) \<le> length s"
  by (simp add: skip_ws_def length_dropWhile_le)

definition hex_val :: "char \<Rightarrow> nat option" where
  "hex_val c =
     (let n = code_point c in
      if 48 \<le> n \<and> n \<le> 57 then Some (n - 48)
      else if 97 \<le> n \<and> n \<le> 102 then Some (n - 87)
      else if 65 \<le> n \<and> n \<le> 70 then Some (n - 55)
      else None)"

definition simple_escape :: "char \<Rightarrow> char option" where
  "simple_escape c =
     (if c = CHR 0x22 \<or> c = CHR 0x5C \<or> c = CHR ''/'' then Some c
      else if c = CHR ''b'' then Some (CHR 0x08)
      else if c = CHR ''f'' then Some (CHR 0x0C)
      else if c = CHR ''n'' then Some (CHR 0x0A)
      else if c = CHR ''r'' then Some (CHR 0x0D)
      else if c = CHR ''t'' then Some (CHR 0x09)
      else None)"

text \<open>The character an escape stands for, from the text after the backslash.\<close>

definition json_escape :: "string \<Rightarrow> (char \<times> string) option" where
  "json_escape s =
     (case s of
        [] \<Rightarrow> None
      | e # s1 \<Rightarrow>
          (case simple_escape e of
             Some d \<Rightarrow> Some (d, s1)
           | None \<Rightarrow>
               if e \<noteq> CHR ''u'' then None
               else (case s1 of
                       h1 # h2 # h3 # h4 # s2 \<Rightarrow>
                         (case (hex_val h1, hex_val h2, hex_val h3, hex_val h4) of
                            (Some 0, Some 0, Some a, Some b) \<Rightarrow> Some (char_of (16 * a + b), s2)
                          | _ \<Rightarrow> None)
                     | _ \<Rightarrow> None)))"

lemma json_escape_shorter: "json_escape s = Some (d, r) \<Longrightarrow> length r < length s"
  by (auto simp: json_escape_def split: list.splits option.splits if_splits nat.splits)

text \<open>The rest of a string literal, after the opening quote.\<close>

function json_string :: "string \<Rightarrow> string \<Rightarrow> string parsed" where
  "json_string acc [] = PBad"
| "json_string acc (c # s) =
     (if c = CHR 0x22 then POk acc s
      else if code_point c < 32 then PBad
      else if c \<noteq> CHR 0x5C then json_string (acc @ [c]) s
      else (case json_escape s of
              None \<Rightarrow> PBad
            | Some (d, r) \<Rightarrow> json_string (acc @ [d]) r))"
  by pat_completeness auto
termination
  by (relation "measure (\<lambda>(acc, s). length s)") (auto dest!: json_escape_shorter)

fun digits_val :: "string \<Rightarrow> nat" where
  "digits_val s = foldl (\<lambda>a c. 10 * a + digit_val c) 0 s"

text \<open>
  Numbers: an optional sign, \<open>0\<close> or digits not starting with \<open>0\<close>, then a fraction and an exponent;
  a number with neither is an \<open>int\<close>.
\<close>

definition json_frac :: "string \<Rightarrow> string \<times> string" where
  "json_frac s =
     (case s of
        c # r \<Rightarrow> if c = CHR ''.'' \<and> takeWhile is_digit r \<noteq> []
                   then (takeWhile is_digit r, dropWhile is_digit r) else ([], s)
      | [] \<Rightarrow> ([], s))"

definition json_exp :: "string \<Rightarrow> int option \<times> string" where
  "json_exp s =
     (case s of
        c # r \<Rightarrow>
          if c = CHR ''e'' \<or> c = CHR ''E'' then
            (let (sgn, r1) = (case r of
                                d # q \<Rightarrow> if d = CHR ''-'' then (-1, q)
                                          else if d = CHR ''+'' then (1, q) else (1, r)
                              | [] \<Rightarrow> (1, r));
                 ds = takeWhile is_digit r1
             in if ds = [] then (None, s) else (Some (sgn * int (digits_val ds)), dropWhile is_digit r1))
          else (None, s)
      | [] \<Rightarrow> (None, s))"

definition json_number :: "string \<Rightarrow> pyval parsed" where
  "json_number s =
     (let (neg, r) = (case s of c # q \<Rightarrow> if c = CHR ''-'' then (True, q) else (False, s)
                              | [] \<Rightarrow> (False, s));
          ds = (case r of
                  c # q \<Rightarrow> if c = CHR ''0'' then ''0'' else takeWhile is_digit r
                | [] \<Rightarrow> []);
          r1 = drop (length ds) r;
          (frac, r2) = json_frac r1;
          (ex, r3) = json_exp r2;
          sign = (if neg then -1 else 1)
      in if ds = [] then PBad
         else if frac = [] \<and> ex = None then POk (PInt (sign * int (digits_val ds))) r1
         else (let m = of_int sign
                         * (of_nat (digits_val (ds @ frac)) / 10 ^ length frac);
                   e = (case ex of None \<Rightarrow> 0 | Some i \<Rightarrow> i);
                   v = (if 0 \<le> e then m * 10 ^ nat e else m / 10 ^ nat (- e))
               in POk (PFloat (FFin v (take (length s - length r3) s))) r3))"

fun json_value :: "nat \<Rightarrow> string \<Rightarrow> pyval parsed"
  and json_members :: "nat \<Rightarrow> pydict \<Rightarrow> string \<Rightarrow> pyval parsed"
  and json_elements :: "nat \<Rightarrow> pyval list \<Rightarrow> string \<Rightarrow> pyval parsed" where
  "json_value 0 s = PNoFuel"
| "json_value (Suc f) [] = PBad"
| "json_value (Suc f) (c # r) =
     (let s = c # r in
      if c = CHR 0x22 then parsed_bind (json_string [] r) (\<lambda>t r'. POk (PStr t) r')
      else if c = CHR 0x7B then
        (if starts_with (skip_ws r) [CHR 0x7D] then POk (PDict []) (tl (skip_ws r))
         else json_members f [] (skip_ws r))
      else if c = CHR ''['' then
        (if starts_with (skip_ws r) '']'' then POk (PList []) (tl (skip_ws r))
         else json_elements f [] (skip_ws r))
      else if starts_with s ''null'' then POk PNone (drop 4 s)
      else if starts_with s ''true'' then POk (PBool True) (drop 4 s)
      else if starts_with s ''false'' then POk (PBool False) (drop 5 s)
      else if starts_with s ''NaN'' then POk (PFloat FNan) (drop 3 s)
      else if starts_with s ''Infinity'' then POk (PFloat FInf) (drop 8 s)
      else if starts_with s ''-Infinity'' then POk (PFloat FNegInf) (drop 9 s)
      else json_number s)"
| "json_members 0 d s = PNoFuel"
| "json_members (Suc f) d s =
     (if \<not> starts_with s [CHR 0x22] then PBad
      else parsed_bind (json_string [] (tl s)) (\<lambda>k r.
        if \<not> starts_with (skip_ws r) '':'' then PBad
        else parsed_bind (json_value f (skip_ws (tl (skip_ws r)))) (\<lambda>v r2.
          let d' = dset k v d; r3 = skip_ws r2 in
          if starts_with r3 [CHR 0x7D] then POk (PDict d') (tl r3)
          else if starts_with r3 '','' then json_members f d' (skip_ws (tl r3))
          else PBad)))"
| "json_elements 0 xs s = PNoFuel"
| "json_elements (Suc f) xs s =
     parsed_bind (json_value f s) (\<lambda>v r2.
       let xs' = xs @ [v]; r3 = skip_ws r2 in
       if starts_with r3 '']'' then POk (PList xs') (tl r3)
       else if starts_with r3 '','' then json_elements f xs' (skip_ws (tl r3))
       else PBad)"

definition json_error :: exc where
  "json_error = ValueError ''JSONDecodeError''"

definition json_loads :: "string \<Rightarrow> pyval res" where
  "json_loads s =
     (case json_value (2 * length s + 1) (skip_ws s) of
        POk v r \<Rightarrow> if skip_ws r = [] then Inr v else Inl json_error
      | _ \<Rightarrow> Inl json_error)"

section \<open>Encoding\<close>

definition json_escape_char :: "char \<Rightarrow> string" where
  "json_escape_char c =
     (let n = code_point c in
      if n = 34 then [CHR 0x5C, c]
      else if n = 92 then [CHR 0x5C, c]
      else if n = 10 then [CHR 0x5C, CHR ''n'']
      else if n = 13 then [CHR 0x5C, CHR ''r'']
      else if n = 9 then [CHR 0x5C, CHR ''t'']
      else if n = 12 then [CHR 0x5C, CHR ''f'']
      else if n = 8 then [CHR 0x5C, CHR ''b'']
      else if 32 \<le> n \<and> n \<le> 126 then [c]
      else [CHR 0x5C, CHR ''u'', CHR ''0'', CHR ''0'', hex_digit (n div 16), hex_digit (n mod 16)])"

definition json_quote :: "string \<Rightarrow> string" where
  "json_quote s = [CHR 0x22] @ concat (map json_escape_char s) @ [CHR 0x22]"

fun json_float :: "pyfloat \<Rightarrow> string" where
  "json_float (FFin r t) = t"
| "json_float FInf = ''Infinity''"
| "json_float FNegInf = ''-Infinity''"
| "json_float FNan = ''NaN''"

fun json_dumps :: "pyval \<Rightarrow> string" where
  "json_dumps PNone = ''null''"
| "json_dumps (PBool b) = (if b then ''true'' else ''false'')"
| "json_dumps (PInt i) = show_int i"
| "json_dumps (PFloat f) = json_float f"
| "json_dumps (PStr s) = json_quote s"
| "json_dumps (PList xs) = ''['' @ str_join '', '' (map json_dumps xs) @ '']''"
| "json_dumps (PDict d) =
     [CHR 0x7B] @ str_join '', '' (map (\<lambda>(k, v). json_quote k @ '': '' @ json_dumps v) d) @ [CHR 0x7D]"

text \<open>\<open>json.dumps(d, sort_keys=True, separators=(",", ":"))\<close>.\<close>

fun insert_key :: "string \<times> 'a \<Rightarrow> (string \<times> 'a) list \<Rightarrow> (string \<times> 'a) list" where
  "insert_key e [] = [e]"
| "insert_key e (f # fs) = (if str_le (fst e) (fst f) then e # f # fs else f # insert_key e fs)"

definition sort_keys :: "(string \<times> 'a) list \<Rightarrow> (string \<times> 'a) list" where
  "sort_keys d = foldr insert_key d []"

fun json_compact :: "pyval \<Rightarrow> string" where
  "json_compact (PList xs) = ''['' @ str_join '','' (map json_compact xs) @ '']''"
| "json_compact (PDict d) =
     [CHR 0x7B] @ str_join '','' (map (\<lambda>(k, t). json_quote k @ '':'' @ t)
       (sort_keys (map (\<lambda>(k, v). (k, json_compact v)) d))) @ [CHR 0x7D]"
| "json_compact v = json_dumps v"

section \<open>The fuel is enough\<close>

lemma json_string_shorter: "json_string acc s = POk t r \<Longrightarrow> length r < length s"
  by (induction acc s rule: json_string.induct)
    (fastforce dest: json_escape_shorter split: if_splits option.splits)+

lemma json_string_fuel: "json_string acc s \<noteq> PNoFuel"
proof (induction acc s rule: json_string.induct)
  case (2 acc c s)
  then show ?case by (simp split: option.split prod.split)
qed simp

lemma length_dropWhile_le': "length xs \<le> n \<Longrightarrow> length (dropWhile P xs) \<le> n"
  by (rule order_trans[OF length_dropWhile_le])

lemma json_frac_shorter: "json_frac s = (t, r) \<Longrightarrow> length r \<le> length s"
  by (auto simp: json_frac_def intro!: length_dropWhile_le' split: list.splits if_splits)

lemma json_exp_shorter: "json_exp s = (t, r) \<Longrightarrow> length r \<le> length s"
  by (auto simp: json_exp_def Let_def intro!: length_dropWhile_le'
      split: list.splits if_splits prod.splits)

lemma json_number_shorter: "json_number s = POk v r \<Longrightarrow> length r < length s"
proof -
  assume num: "json_number s = POk v r"
  obtain neg q where q: "(case s of c # q \<Rightarrow> if c = CHR ''-'' then (True, q) else (False, s)
                              | [] \<Rightarrow> (False, s)) = (neg, q)" by fastforce
  then have lq: "length q \<le> length s" by (auto split: list.splits if_splits)
  define ds where "ds = (case q of c # p \<Rightarrow> if c = CHR ''0'' then ''0'' else takeWhile is_digit q
                                 | [] \<Rightarrow> [])"
  obtain frac r2 where fr: "json_frac (drop (length ds) q) = (frac, r2)" by fastforce
  obtain ex r3 where ex: "json_exp r2 = (ex, r3)" by fastforce
  have ne: "ds \<noteq> []" using num q by (auto simp: json_number_def ds_def[symmetric] Let_def split: prod.splits)
  then have "q \<noteq> []" by (auto simp: ds_def)
  with ne have ld: "length (drop (length ds) q) < length q" by simp
  have "r = drop (length ds) q \<or> r = r3"
    using num q fr ex ne by (auto simp: json_number_def ds_def[symmetric] Let_def split: if_splits)
  with ld lq json_frac_shorter[OF fr] json_exp_shorter[OF ex] show ?thesis by auto
qed

lemma json_number_fuel: "json_number s \<noteq> PNoFuel"
  by (simp add: json_number_def Let_def split: prod.splits)

lemma parsed_bind_POk:
  "parsed_bind m f = POk y q \<longleftrightarrow> (\<exists>x r. m = POk x r \<and> f x r = POk y q)"
  by (cases m) auto

lemma parsed_bind_fuel:
  "parsed_bind m f = PNoFuel \<longleftrightarrow> m = PNoFuel \<or> (\<exists>x r. m = POk x r \<and> f x r = PNoFuel)"
  by (cases m) auto

lemma tl_shorter: "starts_with r (c # t) \<Longrightarrow> length (tl r) < length r"
  by (cases r) (auto simp: starts_with_iff)

lemma tl_skip_ws: "length (tl (skip_ws r)) \<le> length r"
  using length_skip_ws[of r] by simp

lemma skip_tl_skip: "length (skip_ws (tl (skip_ws r))) \<le> length r"
  using length_skip_ws[of "tl (skip_ws r)"] tl_skip_ws[of r] by simp

lemma json_shorter:
  "json_value f s = POk v r \<Longrightarrow> length r < length s"
  "json_members f d s = POk v r \<Longrightarrow> length r < length s"
  "json_elements f xs s = POk v r \<Longrightarrow> length r < length s"
proof (induction f s and f d s and f xs s arbitrary: v r and v r and v r
    rule: json_value_json_members_json_elements.induct)
  case (3 f c q)
  have tl: "length (tl (skip_ws q)) < length (c # q)" using tl_skip_ws[of q] by simp
  have sk: "length r < length (skip_ws q) \<Longrightarrow> length r < length (c # q)"
    using length_skip_ws[of q] by simp
  from "3.prems" "3.IH" tl sk json_number_shorter[of "c # q" v r] show ?case
    by (auto simp: Let_def parsed_bind_POk less_SucI dest: json_string_shorter split: if_splits)
next
  case (5 f d s)
  then obtain k r1 v1 r2 where st: "starts_with s [CHR 0x22]" "starts_with (skip_ws r1) '':''"
    and k: "json_string [] (tl s) = POk k r1"
    and v1: "json_value f (skip_ws (tl (skip_ws r1))) = POk v1 r2"
    by (auto simp: parsed_bind_POk split: if_splits)
  have "length r1 < length s" using json_string_shorter[OF k] by simp
  moreover have "length r2 < length (skip_ws (tl (skip_ws r1)))"
    using "5.IH"(1)[of r1 v1 r2] st v1 by simp
  ultimately have r2: "length r2 < length s" using skip_tl_skip[of r1] by simp
  from "5.prems" k v1 st have "r = tl (skip_ws r2) \<or>
      (\<not> starts_with (skip_ws r2) [CHR 0x7D] \<and> starts_with (skip_ws r2) '','' \<and>
       json_members f (dset k v1 d) (skip_ws (tl (skip_ws r2))) = POk v r)"
    by (auto simp: Let_def split: if_splits)
  then show ?case
    using "5.IH"(2)[of r1 "dset k v1 d" k v1 "skip_ws r2" r2 v r] st r2 skip_tl_skip[of r2] tl_skip_ws[of r2]
    by auto
next
  case (7 f xs s)
  then obtain v1 r2 where v1: "json_value f s = POk v1 r2"
    by (auto simp: parsed_bind_POk)
  have r2: "length r2 < length s" by (rule "7.IH"(1)[OF v1])
  from "7.prems" v1 have "r = tl (skip_ws r2) \<or>
      (\<not> starts_with (skip_ws r2) '']'' \<and> starts_with (skip_ws r2) '','' \<and>
       json_elements f (xs @ [v1]) (skip_ws (tl (skip_ws r2))) = POk v r)"
    by (auto simp: Let_def split: if_splits)
  then show ?case
    using "7.IH"(2)[of "xs @ [v1]" v1 "skip_ws r2" r2 v r] r2 skip_tl_skip[of r2] tl_skip_ws[of r2]
    by auto
qed auto

lemma json_fuel:
  "2 * length s < f \<Longrightarrow> json_value f s \<noteq> PNoFuel"
  "2 * length s + 1 < f \<Longrightarrow> json_members f d s \<noteq> PNoFuel"
  "2 * length s + 1 < f \<Longrightarrow> json_elements f xs s \<noteq> PNoFuel"
proof (induction f s and f d s and f xs s rule: json_value_json_members_json_elements.induct)
  case (3 f c q)
  have "2 * length (skip_ws q) + 1 < f" using "3.prems" length_skip_ws[of q] by simp
  with "3.IH" show ?case
    by (auto simp: Let_def parsed_bind_fuel json_string_fuel json_number_fuel)
next
  case (5 f d s)
  show ?case
  proof
    assume none: "json_members (Suc f) d s = PNoFuel"
    then obtain k r1 where st: "starts_with s [CHR 0x22]" "starts_with (skip_ws r1) '':''"
      and k: "json_string [] (tl s) = POk k r1"
      by (auto simp: parsed_bind_fuel json_string_fuel split: if_splits)
    have r1: "length r1 < length s" using json_string_shorter[OF k] by simp
    then have fv: "json_value f (skip_ws (tl (skip_ws r1))) \<noteq> PNoFuel"
      using "5.IH"(1)[of r1] st skip_tl_skip[of r1] "5.prems" by simp
    with none k st obtain v1 r2 where v1: "json_value f (skip_ws (tl (skip_ws r1))) = POk v1 r2"
      and c: "\<not> starts_with (skip_ws r2) [CHR 0x7D]" "starts_with (skip_ws r2) '',''"
      and m: "json_members f (dset k v1 d) (skip_ws (tl (skip_ws r2))) = PNoFuel"
      by (auto simp: parsed_bind_fuel Let_def split: if_splits)
    have "length r2 < length r1" using json_shorter(1)[OF v1] skip_tl_skip[of r1] by simp
    then have "2 * length (skip_ws (tl (skip_ws r2))) + 1 < f"
      using r1 skip_tl_skip[of r2] "5.prems" by simp
    then show False using "5.IH"(2)[of r1 "dset k v1 d" k v1 "skip_ws r2" r2] st c m by simp
  qed
next
  case (7 f xs s)
  show ?case
  proof
    assume none: "json_elements (Suc f) xs s = PNoFuel"
    have "json_value f s \<noteq> PNoFuel" using "7.IH"(1) "7.prems" by simp
    with none obtain v1 r2 where v1: "json_value f s = POk v1 r2"
      and c: "\<not> starts_with (skip_ws r2) '']''" "starts_with (skip_ws r2) '',''"
      and m: "json_elements f (xs @ [v1]) (skip_ws (tl (skip_ws r2))) = PNoFuel"
      by (auto simp: parsed_bind_fuel Let_def split: if_splits)
    have "2 * length (skip_ws (tl (skip_ws r2))) + 1 < f"
      using json_shorter(1)[OF v1] skip_tl_skip[of r2] "7.prems" by simp
    then show False using "7.IH"(2)[of "xs @ [v1]" v1 "skip_ws r2" r2] c m by simp
  qed
qed auto

text \<open>So every decode error of \<open>json_loads\<close> is one of the text, never of the fuel.\<close>

lemma json_loads_fuel: "json_value (2 * length s + 1) (skip_ws s) \<noteq> PNoFuel"
  using length_skip_ws[of s] by (intro json_fuel(1)) simp

lemma json_loads_err: "json_loads s = Inl e \<Longrightarrow> e = json_error"
  by (auto simp: json_loads_def split: parsed.splits if_splits)

end
