(* ===== verification/TpmLimiter.thy ===== *)
theory TpmLimiter
  imports Resp Json Capability DataAccess
begin

text \<open>
  The tokens-per-minute limiter of \<open>src/bridge/tpm_limiter.py\<close>: the RESP client of the counters, the
  fixed one-minute window, the check before and the correction after a request, and
  the log-only recorder. The network, the metric service and the log are parameters. The script that runs
  inside Valkey is the subject of \<open>TpmWindow\<close>.
\<close>

definition window_seconds :: int where "window_seconds = 60"
definition counter_ttl_seconds :: int where "counter_ttl_seconds = 90"
definition chars_per_token_estimate :: nat where "chars_per_token_estimate = 4"
definition default_valkey_port :: int where "default_valkey_port = 6379"

record rate_limit_result =
  rl_allowed :: bool
  rl_limit :: int
  rl_used :: int
  rl_reset_seconds :: int

text \<open>The \<open>CounterClient\<close> protocol.\<close>

record 'w counter_client =
  cc_increment_windows :: "string \<Rightarrow> int \<Rightarrow> string \<Rightarrow> int \<Rightarrow> int \<Rightarrow> ('w, int) io"
  cc_check_and_increment :: "string \<Rightarrow> int \<Rightarrow> int \<Rightarrow> int \<Rightarrow> ('w, int \<times> bool) io"
  cc_correct_usage :: "string \<Rightarrow> int \<Rightarrow> int \<Rightarrow> ('w, int) io"

record token_usage =
  tu_input_tokens :: int
  tu_output_tokens :: int
  tu_model_id :: "string option"

definition total_tokens :: "token_usage \<Rightarrow> int" where
  "total_tokens u = max 0 (tu_input_tokens u) + max 0 (tu_output_tokens u)"

record tpm_counter_result =
  tr_actual_tokens :: int
  tr_estimated_tokens :: int
  tr_window_expiry :: int
  tr_window_usage :: int
  tr_model_id :: string
  tr_skipped :: bool

section \<open>Windows and keys\<close>

definition window_expiry :: "rat \<Rightarrow> int" where
  "window_expiry now = ((trunc_rat now div window_seconds) + 1) * window_seconds"

definition counter_key :: "string \<Rightarrow> string \<Rightarrow> string \<Rightarrow> int \<Rightarrow> string" where
  "counter_key tenant_id model_id counter_name expiry =
     ''LIMITER/'' @ tenant_id @ '':'' @ model_id @ '':'' @ counter_name @ ''/'' @ show_int expiry"

text \<open>\<open>now or time.time()\<close>.\<close>

definition now_or :: "rat option \<Rightarrow> rat \<Rightarrow> rat" where
  "now_or now clock = (case now of None \<Rightarrow> clock | Some t \<Rightarrow> if t = 0 then clock else t)"

definition metric_model_id :: "string option \<Rightarrow> agent_record \<Rightarrow> string" where
  "metric_model_id model_id agent =
     (case model_id of
        None \<Rightarrow> agent_name agent
      | Some m \<Rightarrow> if m \<noteq> [] \<and> py_strip m \<noteq> [] then py_strip m else agent_name agent)"

definition estimate_tokens_from_prompt :: "string \<Rightarrow> int" where
  "estimate_tokens_from_prompt prompt =
     (if prompt = [] then 0
      else ceiling (of_nat (length prompt) / of_nat chars_per_token_estimate :: rat))"

section \<open>Reading the usage an agent reports\<close>

text \<open>\<open>OverflowError\<close>, the error of an infinite float, is not among the exceptions caught.\<close>

definition tpm_coerce_int :: "pyval \<Rightarrow> int res" where
  "tpm_coerce_int v =
     (case py_int v of
        Inr i \<Rightarrow> Inr (max 0 i)
      | Inl (TypeError _) \<Rightarrow> Inr 0
      | Inl (ValueError _) \<Rightarrow> Inr 0
      | Inl e \<Rightarrow> Inl e)"

definition no_usage :: token_usage where
  "no_usage = \<lparr>tu_input_tokens = 0, tu_output_tokens = 0, tu_model_id = None\<rparr>"

definition extract_token_usage :: "string \<Rightarrow> token_usage res" where
  "extract_token_usage body_text =
     (case json_loads body_text of
        Inl e \<Rightarrow> Inr no_usage
      | Inr loaded \<Rightarrow>
          (case as_dict loaded of
             None \<Rightarrow> Inr no_usage
           | Some payload \<Rightarrow>
               let usage = (case as_dict (dget payload ''usage'') of Some u \<Rightarrow> u | None \<Rightarrow> payload)
               in bind_res (tpm_coerce_int (dget_or usage ''inputTokens'' (dget usage ''input_tokens''))) (\<lambda>inp.
                  bind_res (tpm_coerce_int (dget_or usage ''outputTokens'' (dget usage ''output_tokens''))) (\<lambda>out.
                  bind_res (if inp = 0 \<and> out = 0
                            then tpm_coerce_int (dget_or usage ''totalTokens'' (dget usage ''total_tokens''))
                            else Inr out) (\<lambda>out.
                  let mid = dget_or payload ''modelId'' (dget payload ''model_id'') in
                  Inr \<lparr>tu_input_tokens = inp, tu_output_tokens = out,
                       tu_model_id = (if mid = PNone then None else Some (py_str mid))\<rparr>)))))"

section \<open>The socket client\<close>

record valkey_endpoint =
  ve_host :: string
  ve_port :: int
  ve_use_tls :: bool
  ve_timeout_seconds :: rat

text \<open>
  \<open>vk_exchange\<close> opens a connection (with TLS or not), sends the bytes and returns the socket to read
  from.
\<close>

record 'w tpm_services =
  vk_exchange :: "valkey_endpoint \<Rightarrow> string \<Rightarrow> ('w, sock) io"
  vk_put_metric :: "metric_datum \<Rightarrow> ('w, unit) io"
  vk_log :: "string \<Rightarrow> 'w \<Rightarrow> 'w"

definition vk_execute :: "'w tpm_services \<Rightarrow> valkey_endpoint \<Rightarrow> string list \<Rightarrow> ('w, pyval) io" where
  "vk_execute sv ep parts =
     io_bind (vk_exchange sv ep (encode_resp_command parts)) (\<lambda>s. io_lift (fst (read_resp s)))"

text \<open>The replies to \<open>MULTI\<close> and to each queued command are read and dropped; \<open>EXEC\<close> answers with an array.\<close>

fun skip_replies :: "nat \<Rightarrow> sock \<Rightarrow> unit res \<times> sock" where
  "skip_replies 0 s = (Inr (), s)"
| "skip_replies (Suc n) s =
     (case read_resp s of (Inl e, s') \<Rightarrow> (Inl e, s') | (Inr _, s') \<Rightarrow> skip_replies n s')"

definition read_transaction_response :: "sock \<Rightarrow> nat \<Rightarrow> pyval list res" where
  "read_transaction_response s command_count =
     (case skip_replies (Suc command_count) s of
        (Inl e, _) \<Rightarrow> Inl e
      | (Inr _, s') \<Rightarrow>
          (case fst (read_resp s') of
             Inl e \<Rightarrow> Inl e
           | Inr v \<Rightarrow> (case as_list v of
                         None \<Rightarrow> Inl (RuntimeErr ''Valkey EXEC did not return an array'')
                       | Some xs \<Rightarrow> Inr xs)))"

definition vk_execute_transaction ::
  "'w tpm_services \<Rightarrow> valkey_endpoint \<Rightarrow> string list list \<Rightarrow> ('w, pyval list) io" where
  "vk_execute_transaction sv ep commands =
     io_bind (vk_exchange sv ep
                (concat ([encode_resp_command [''MULTI'']] @ map encode_resp_command commands
                         @ [encode_resp_command [''EXEC'']])))
       (\<lambda>s. io_lift (read_transaction_response s (length commands)))"

definition socket_incrby :: "'w tpm_services \<Rightarrow> valkey_endpoint \<Rightarrow> string \<Rightarrow> int \<Rightarrow> ('w, int) io" where
  "socket_incrby sv ep key amount =
     io_bind (vk_execute sv ep [''INCRBY'', key, show_int amount]) (\<lambda>r. io_lift (py_int r))"

definition socket_expire :: "'w tpm_services \<Rightarrow> valkey_endpoint \<Rightarrow> string \<Rightarrow> int \<Rightarrow> ('w, unit) io" where
  "socket_expire sv ep key seconds =
     io_bind (vk_execute sv ep [''EXPIRE'', key, show_int seconds]) (\<lambda>_. io_return ())"

definition socket_increment_windows ::
  "'w tpm_services \<Rightarrow> valkey_endpoint \<Rightarrow> string \<Rightarrow> int \<Rightarrow> string \<Rightarrow> int \<Rightarrow> int \<Rightarrow> ('w, int) io" where
  "socket_increment_windows sv ep actual_key actual_tokens estimated_key estimated_tokens ttl =
     io_bind (vk_execute_transaction sv ep
                [[''INCRBY'', actual_key, show_int actual_tokens],
                 [''EXPIRE'', actual_key, show_int ttl],
                 [''INCRBY'', estimated_key, show_int estimated_tokens],
                 [''EXPIRE'', estimated_key, show_int ttl]])
       (\<lambda>results. case results of
                    [] \<Rightarrow> io_raise (RuntimeErr ''Valkey transaction returned no results'')
                  | r # _ \<Rightarrow> io_lift (py_int r))"

text \<open>The text of the script sent with \<open>EVAL\<close> is an argument here; \<open>TpmWindow\<close> gives its meaning.\<close>

definition socket_check_and_increment ::
  "string \<Rightarrow> 'w tpm_services \<Rightarrow> valkey_endpoint \<Rightarrow> string \<Rightarrow> int \<Rightarrow> int \<Rightarrow> int \<Rightarrow> ('w, int \<times> bool) io" where
  "socket_check_and_increment script sv ep key limit estimate ttl =
     io_bind (vk_execute sv ep [''EVAL'', script, ''1'', key, show_int limit, show_int estimate, show_int ttl])
       (\<lambda>result. case result of
                   PList (a # b # _) \<Rightarrow> io_bind (io_lift (py_int a)) (\<lambda>u. io_return (u, truthy b))
                 | _ \<Rightarrow> io_raise (RuntimeErr (''Valkey EVAL returned malformed result: '' @ py_str result)))"

definition socket_correct_usage ::
  "'w tpm_services \<Rightarrow> valkey_endpoint \<Rightarrow> string \<Rightarrow> int \<Rightarrow> int \<Rightarrow> ('w, int) io" where
  "socket_correct_usage sv ep key estimate actual =
     (let diff = actual - estimate in
      if diff = 0 then io_return 0
      else io_bind (vk_execute sv ep [''INCRBY'', key, show_int diff]) (\<lambda>r. io_lift (py_int r)))"

definition socket_client :: "string \<Rightarrow> 'w tpm_services \<Rightarrow> valkey_endpoint \<Rightarrow> 'w counter_client" where
  "socket_client script sv ep =
     \<lparr>cc_increment_windows = socket_increment_windows sv ep,
      cc_check_and_increment = socket_check_and_increment script sv ep,
      cc_correct_usage = socket_correct_usage sv ep\<rparr>"

section \<open>The endpoint\<close>

text \<open>
  What \<open>urlparse\<close> gives for the endpoint: the scheme and the network location. Of the library's rules the
  bracketed IPv6 forms are kept to their splitting (the address inside is not validated).
\<close>

definition scheme_char :: "char \<Rightarrow> bool" where
  "scheme_char c \<longleftrightarrow>
     (let n = code_point c in
      (48 \<le> n \<and> n \<le> 57) \<or> (65 \<le> n \<and> n \<le> 90) \<or> (97 \<le> n \<and> n \<le> 122) \<or> c \<in> set ''+-.'')"

definition ascii_letter :: "char \<Rightarrow> bool" where
  "ascii_letter c \<longleftrightarrow> (let n = code_point c in (65 \<le> n \<and> n \<le> 90) \<or> (97 \<le> n \<and> n \<le> 122))"

text \<open>The texts before and after the first \<open>c\<close>, as \<open>s.partition(c)\<close> gives them.\<close>

definition partition_at :: "char \<Rightarrow> string \<Rightarrow> string \<times> bool \<times> string" where
  "partition_at c s =
     (let a = takeWhile (\<lambda>x. x \<noteq> c) s in
      if c \<in> set s then (a, True, drop (length a + 1) s) else (s, False, []))"

text \<open>\<open>s.rpartition(c)\<close>, of which only the last part is used.\<close>

definition after_last :: "char \<Rightarrow> string \<Rightarrow> string" where
  "after_last c s = rev (takeWhile (\<lambda>x. x \<noteq> c) (rev s))"

definition url_scheme :: "string \<Rightarrow> string \<times> string" where
  "url_scheme url =
     (case partition_at (CHR '':'') url of
        (pre, found, rest) \<Rightarrow>
          if found \<and> pre \<noteq> [] \<and> ascii_letter (hd pre) \<and> list_all scheme_char pre
          then (py_lower pre, rest) else ([], url))"

definition url_netloc :: "string \<Rightarrow> string" where
  "url_netloc rest =
     (if starts_with rest ''//'' then takeWhile (\<lambda>c. c \<notin> set ''/?#'') (drop 2 rest) else [])"

definition url_hostinfo :: "string \<Rightarrow> string \<times> string" where
  "url_hostinfo netloc =
     (let hostinfo = after_last (CHR ''@'') netloc in
      case partition_at (CHR ''['') hostinfo of
        (_, True, bracketed) \<Rightarrow>
          (case partition_at (CHR '']'') bracketed of
             (hostname, _, after) \<Rightarrow> (hostname, snd (snd (partition_at (CHR '':'') after))))
      | (_, False, _) \<Rightarrow>
          (case partition_at (CHR '':'') hostinfo of (hostname, _, port) \<Rightarrow> (hostname, port)))"

definition url_port :: "string \<Rightarrow> int option res" where
  "url_port port =
     (if port = [] then Inr None
      else if list_all is_digit port
      then (let n = int (digits_val port) in
            if n \<le> 65535 then Inr (Some n) else Inl (ValueError ''Port out of range 0-65535''))
      else Inl (ValueError ''Port could not be cast to integer value''))"

text \<open>\<open>parsed.port or DEFAULT_VALKEY_PORT\<close>: port 0 counts as no port.\<close>

definition parse_endpoint :: "string \<Rightarrow> valkey_endpoint res" where
  "parse_endpoint endpoint =
     (let stripped = py_strip endpoint;
          val = (if str_contains stripped ''://'' then stripped else ''rediss://'' @ stripped);
          url = filter (\<lambda>c. c \<notin> {CHR 0x09, CHR 0x0A, CHR 0x0D})
                  (dropWhile (\<lambda>c. code_point c \<le> 32) val);
          (scheme, rest) = url_scheme url;
          netloc = url_netloc rest;
          (hostname, port) = url_hostinfo netloc
      in if (CHR ''['' \<in> set netloc) \<noteq> (CHR '']'' \<in> set netloc) then Inl (ValueError ''Invalid IPv6 URL'')
         else if hostname = [] then Inl (ValueError ''Valkey endpoint host is missing'')
         else bind_res (url_port port) (\<lambda>p.
           Inr \<lparr>ve_host = py_lower hostname,
                ve_port = (case p of None \<Rightarrow> default_valkey_port
                           | Some n \<Rightarrow> if n = 0 then default_valkey_port else n),
                ve_use_tls = (scheme \<noteq> ''redis''), ve_timeout_seconds = 3 / 4\<rparr>))"

text \<open>\<open>settings.bridge.valkey_endpoint\<close> is an argument.\<close>

definition default_counter_client ::
  "string \<Rightarrow> 'w tpm_services \<Rightarrow> string option \<Rightarrow> 'w counter_client option res" where
  "default_counter_client script sv endpoint =
     (case endpoint of
        None \<Rightarrow> Inr None
      | Some e \<Rightarrow>
          if e = [] then Inr None
          else bind_res (parse_endpoint e) (\<lambda>ep. Inr (Some (socket_client script sv ep))))"

text \<open>\<open>counter_client or _default_counter_client()\<close>; a client object is always true.\<close>

definition client_or_default ::
  "'w counter_client option \<Rightarrow> 'w counter_client option res \<Rightarrow> 'w counter_client option res" where
  "client_or_default given dflt = (case given of Some c \<Rightarrow> Inr (Some c) | None \<Rightarrow> dflt)"

section \<open>The check before a request\<close>

definition rate_limit_ok :: "int \<Rightarrow> int \<Rightarrow> int \<Rightarrow> rate_limit_result" where
  "rate_limit_ok limit used reset_seconds =
     \<lparr>rl_allowed = True, rl_limit = limit, rl_used = used, rl_reset_seconds = reset_seconds\<rparr>"

definition perform_pre_request_check ::
  "'w tpm_services \<Rightarrow> 'w counter_client option res \<Rightarrow> rat \<Rightarrow> tenant_context \<Rightarrow> agent_record \<Rightarrow> string \<Rightarrow>
     capability_policy option \<Rightarrow> 'w counter_client option \<Rightarrow> rat option \<Rightarrow> ('w, rate_limit_result) io" where
  "perform_pre_request_check sv dflt clock ctx agent prompt policy given now =
     (let model_id = metric_model_id None agent;
          tpm_limit = (case policy of None \<Rightarrow> 0 | Some p \<Rightarrow> get_tpm_limit p model_id (tc_tier ctx));
          estimate = estimate_tokens_from_prompt prompt;
          now_val = now_or now clock;
          expiry = window_expiry now_val;
          reset_seconds = expiry - trunc_rat now_val;
          key = counter_key (tc_tenant_id ctx) model_id ''tpm'' expiry
      in if tpm_limit \<le> 0 then
           io_bind (io_lift (client_or_default given dflt)) (\<lambda>client.
             case client of
               None \<Rightarrow> io_return (rate_limit_ok (-1) estimate reset_seconds)
             | Some c \<Rightarrow>
                 io_catch
                   (io_bind (cc_check_and_increment c key 0 estimate counter_ttl_seconds)
                      (\<lambda>(used, _). io_return (rate_limit_ok (-1) used reset_seconds)))
                   (\<lambda>_. io_return (rate_limit_ok (-1) estimate reset_seconds)))
         else
           io_catch
             (io_bind (io_lift (client_or_default given dflt)) (\<lambda>client.
                case client of
                  None \<Rightarrow> io_return (rate_limit_ok tpm_limit estimate reset_seconds)
                | Some c \<Rightarrow>
                    io_bind (cc_check_and_increment c key tpm_limit estimate counter_ttl_seconds)
                      (\<lambda>(used, success). io_return
                         \<lparr>rl_allowed = success, rl_limit = tpm_limit, rl_used = used,
                          rl_reset_seconds = reset_seconds\<rparr>)))
             (\<lambda>_ w. (Inr (rate_limit_ok tpm_limit estimate reset_seconds), vk_log sv ''valkey_unavailable'' w)))"

section \<open>The correction after a response\<close>

definition perform_post_request_correction ::
  "'w tpm_services \<Rightarrow> 'w counter_client option res \<Rightarrow> rat \<Rightarrow> tenant_context \<Rightarrow> agent_record \<Rightarrow> int \<Rightarrow> int \<Rightarrow>
     'w counter_client option \<Rightarrow> rat option \<Rightarrow> ('w, int) io" where
  "perform_post_request_correction sv dflt clock ctx agent estimate actual given now =
     (if invocation_mode_of agent = MODE_STREAMING then io_return actual
      else
        (let model_id = metric_model_id None agent;
             expiry = window_expiry (now_or now clock);
             key = counter_key (tc_tenant_id ctx) model_id ''tpm'' expiry
         in io_catch
              (io_bind (io_lift (client_or_default given dflt)) (\<lambda>client.
                 case client of
                   None \<Rightarrow> io_return actual
                 | Some c \<Rightarrow> cc_correct_usage c key estimate actual))
              (\<lambda>_ w. (Inr actual, vk_log sv ''valkey_unavailable'' w))))"

section \<open>\<open>TokenLimiter\<close>\<close>

text \<open>
  The wrapper with the client kept in the object. Its default client is made before the \<open>try\<close> block, so
  a malformed endpoint raises.
\<close>

definition limiter_redis ::
  "'w counter_client option \<Rightarrow> 'w counter_client option res \<Rightarrow> 'w counter_client option res" where
  "limiter_redis self_client dflt = client_or_default self_client dflt"

definition limiter_check_and_increment ::
  "'w tpm_services \<Rightarrow> 'w counter_client option \<Rightarrow> 'w counter_client option res \<Rightarrow> rat \<Rightarrow>
     string \<Rightarrow> string \<Rightarrow> int \<Rightarrow> int \<Rightarrow> ('w, rate_limit_result) io" where
  "limiter_check_and_increment sv self_client dflt now_val tenant_id model_id limit estimate =
     (let expiry = window_expiry now_val;
          reset_seconds = expiry - trunc_rat now_val;
          key = counter_key tenant_id model_id ''tpm'' expiry;
          shown = (if limit > 0 then limit else -1)
      in io_bind (io_lift (client_or_default self_client dflt)) (\<lambda>client.
           case client of
             None \<Rightarrow> io_return (rate_limit_ok shown estimate reset_seconds)
           | Some c \<Rightarrow>
               io_catch
                 (io_bind (cc_check_and_increment c key limit estimate counter_ttl_seconds)
                    (\<lambda>(used, success). io_return
                       \<lparr>rl_allowed = success, rl_limit = shown, rl_used = used,
                        rl_reset_seconds = reset_seconds\<rparr>))
                 (\<lambda>_ w. (Inr (rate_limit_ok shown estimate reset_seconds), vk_log sv ''valkey_unavailable'' w))))"

definition limiter_correct_usage ::
  "'w tpm_services \<Rightarrow> 'w counter_client option \<Rightarrow> 'w counter_client option res \<Rightarrow> rat \<Rightarrow>
     string \<Rightarrow> string \<Rightarrow> int \<Rightarrow> int \<Rightarrow> ('w, int) io" where
  "limiter_correct_usage sv self_client dflt now tenant_id model_id estimate actual =
     (let key = counter_key tenant_id model_id ''tpm'' (window_expiry now)
      in io_bind (io_lift (client_or_default self_client dflt)) (\<lambda>client.
           case client of
             None \<Rightarrow> io_return actual
           | Some c \<Rightarrow> io_catch (cc_correct_usage c key estimate actual)
               (\<lambda>_ w. (Inr actual, vk_log sv ''valkey_unavailable'' w))))"

section \<open>The log-only recorder and the response headers\<close>

definition emit_tpm_metric ::
  "'w tpm_services \<Rightarrow> tenant_context \<Rightarrow> agent_record \<Rightarrow> string \<Rightarrow> int \<Rightarrow> ('w, unit) io" where
  "emit_tpm_metric sv ctx agent model_id usage =
     io_catch
       (vk_put_metric sv \<lparr>mt_namespace = ''Platform/Bridge'', mt_name = ''gen_ai.tpm_window_usage'',
          mt_value = usage,
          mt_dims = [(''TenantId'', tc_tenant_id ctx), (''AppId'', tc_app_id ctx), (''ModelId'', model_id),
                     (''AgentName'', agent_name agent)]\<rparr>)
       (\<lambda>_ w. (Inr (), vk_log sv ''Failed to emit TPM metric'' w))"

definition log_valkey_unavailable :: "'w tpm_services \<Rightarrow> 'w \<Rightarrow> 'w" where
  "log_valkey_unavailable sv w = vk_log sv ''valkey_unavailable'' w"

definition log_counter_skipped :: "'w tpm_services \<Rightarrow> 'w \<Rightarrow> 'w" where
  "log_counter_skipped sv w = vk_log sv ''tpm_counter_skipped'' w"

definition record_log_only_tpm ::
  "'w tpm_services \<Rightarrow> 'w counter_client option res \<Rightarrow> rat \<Rightarrow> tenant_context \<Rightarrow> agent_record \<Rightarrow> int \<Rightarrow> int \<Rightarrow>
     string option \<Rightarrow> 'w counter_client option \<Rightarrow> rat option \<Rightarrow> ('w, tpm_counter_result) io" where
  "record_log_only_tpm sv dflt clock ctx agent actual_tokens estimated_tokens model_id given now =
     (let model = metric_model_id model_id agent;
          actual = max 0 actual_tokens;
          estimated = max 0 estimated_tokens;
          expiry = window_expiry (now_or now clock);
          actual_key = counter_key (tc_tenant_id ctx) model ''tpm'' expiry;
          estimated_key = counter_key (tc_tenant_id ctx) model ''tpm_estimated'' expiry;
          outcome = (\<lambda>usage skipped. \<lparr>tr_actual_tokens = actual, tr_estimated_tokens = estimated,
             tr_window_expiry = expiry, tr_window_usage = usage, tr_model_id = model, tr_skipped = skipped\<rparr>)
      in io_bind
           (io_catch
              (io_bind (io_lift (client_or_default given dflt)) (\<lambda>client.
                 case client of
                   None \<Rightarrow> (\<lambda>w. (Inr None, log_counter_skipped sv w))
                 | Some c \<Rightarrow>
                     io_bind (cc_increment_windows c actual_key actual estimated_key estimated counter_ttl_seconds)
                       (\<lambda>usage. io_return (Some usage))))
              (\<lambda>_ w. (Inr None, log_counter_skipped sv (log_valkey_unavailable sv w))))
           (\<lambda>usage. case usage of
                       None \<Rightarrow> io_return (outcome 0 True)
                     | Some u \<Rightarrow>
                         io_bind (emit_tpm_metric sv ctx agent model u)
                           (\<lambda>_ w. (Inr (outcome u False), vk_log sv ''tpm_counter_recorded'' w))))"

definition limit_text :: "int option \<Rightarrow> string" where
  "limit_text l = (case l of None \<Rightarrow> ''unlimited'' | Some n \<Rightarrow> if 0 < n then show_int n else ''unlimited'')"

definition build_rate_limit_headers ::
  "rat \<Rightarrow> tpm_counter_result option \<Rightarrow> int option \<Rightarrow> int option \<Rightarrow> int \<Rightarrow> rat option \<Rightarrow> (string \<times> string) list" where
  "build_rate_limit_headers clock tpm_result tpm_limit rpm_limit rpm_used now =
     (let (used_tpm, reset_ts) =
            (case tpm_result of
               Some r \<Rightarrow> if \<not> tr_skipped r then (show_int (tr_window_usage r), show_int (tr_window_expiry r))
                         else (''0'', show_int (window_expiry (now_or now clock)))
             | None \<Rightarrow> (''0'', show_int (window_expiry (now_or now clock))))
      in [(''x-ratelimit-limit-tpm'', limit_text tpm_limit),
          (''x-ratelimit-used-tpm'', used_tpm),
          (''x-ratelimit-limit-rpm'', limit_text rpm_limit),
          (''x-ratelimit-used-rpm'', show_int rpm_used),
          (''x-ratelimit-reset'', reset_ts)])"

section \<open>What the limiter guarantees\<close>

lemma trunc_rat_nonneg: "0 \<le> t \<Longrightarrow> trunc_rat t = floor t"
  by (simp add: trunc_rat_def)

lemma window_expiry_bounds:
  assumes "0 \<le> now"
  shows "window_expiry now - trunc_rat now \<in> {1..60}" "window_expiry now mod 60 = 0"
proof -
  show "window_expiry now - trunc_rat now \<in> {1..60}"
    unfolding window_expiry_def window_seconds_def atLeastAtMost_iff by presburger
  show "window_expiry now mod 60 = 0" by (simp add: window_expiry_def window_seconds_def)
qed

lemma window_expiry_eq:
  "window_expiry s = window_expiry t \<longleftrightarrow> trunc_rat s div 60 = trunc_rat t div 60"
  by (simp add: window_expiry_def window_seconds_def)

lemma now_or_nonneg: "0 \<le> clock \<Longrightarrow> now = None \<or> 0 \<le> the now \<Longrightarrow> 0 \<le> now_or now clock"
  by (auto simp: now_or_def split: option.splits)

text \<open>What the check asks the counter client for.\<close>

definition checked_limit :: "capability_policy option \<Rightarrow> tenant_context \<Rightarrow> agent_record \<Rightarrow> int" where
  "checked_limit policy ctx agent =
     (case policy of None \<Rightarrow> 0 | Some p \<Rightarrow> get_tpm_limit p (agent_name agent) (tc_tier ctx))"

definition checked_key :: "rat \<Rightarrow> rat option \<Rightarrow> tenant_context \<Rightarrow> agent_record \<Rightarrow> string" where
  "checked_key clock now ctx agent =
     counter_key (tc_tenant_id ctx) (agent_name agent) ''tpm'' (window_expiry (now_or now clock))"

lemma metric_model_id_None [simp]: "metric_model_id None agent = agent_name agent"
  by (simp add: metric_model_id_def)

lemma pre_check_limited:
  assumes "0 < checked_limit policy ctx agent"
  shows "\<exists>r w'. perform_pre_request_check sv dflt clock ctx agent prompt policy given now w = (Inr r, w')
     \<and> rl_limit r = checked_limit policy ctx agent
     \<and> rl_reset_seconds r = window_expiry (now_or now clock) - trunc_rat (now_or now clock)
     \<and> (rl_allowed r \<or>
        (\<exists>c. client_or_default given dflt = Inr (Some c) \<and>
             cc_check_and_increment c (checked_key clock now ctx agent) (checked_limit policy ctx agent)
               (estimate_tokens_from_prompt prompt) counter_ttl_seconds w = (Inr (rl_used r, False), w')))"
proof -
  have lim: "(case policy of None \<Rightarrow> 0 | Some p \<Rightarrow> get_tpm_limit p (agent_name agent) (tc_tier ctx))
    = checked_limit policy ctx agent" by (simp add: checked_limit_def)
  let ?chk = "\<lambda>c. cc_check_and_increment c (checked_key clock now ctx agent) (checked_limit policy ctx agent)
               (estimate_tokens_from_prompt prompt) counter_ttl_seconds w"
  show ?thesis
  proof (cases "\<exists>c. client_or_default given dflt = Inr (Some c)")
    case True
    then obtain c where c: "client_or_default given dflt = Inr (Some c)" by blast
    obtain a w1 where a: "?chk c = (a, w1)" by fastforce
    show ?thesis
    proof (cases a)
      case (Inl e)
      with a c assms show ?thesis
        by (simp add: perform_pre_request_check_def Let_def lim io_catch_def io_bind_def rate_limit_ok_def
            flip: checked_key_def)
    next
      case (Inr p)
      with a c assms show ?thesis
        by (cases p) (simp add: perform_pre_request_check_def Let_def lim io_catch_def io_bind_def
            flip: checked_key_def)
    qed
  next
    case False
    with assms show ?thesis
      by (auto simp: perform_pre_request_check_def Let_def lim io_catch_def io_bind_def rate_limit_ok_def
          split: sum.split option.split)
  qed
qed

text \<open>
  For a tenant with a limit, the check before a request never raises, always reports a reset
  one to sixty seconds away, and refuses only when the counter itself answered that the limit is
  reached: whatever goes wrong with Valkey, the request is let through.
\<close>

theorem pre_check_fails_open:
  assumes "0 < checked_limit policy ctx agent" and "0 \<le> now_or now clock"
  shows "\<exists>r w'. perform_pre_request_check sv dflt clock ctx agent prompt policy given now w = (Inr r, w')
     \<and> rl_reset_seconds r \<in> {1..60}
     \<and> (rl_allowed r \<or>
        (\<exists>c. client_or_default given dflt = Inr (Some c) \<and>
             cc_check_and_increment c (checked_key clock now ctx agent) (checked_limit policy ctx agent)
               (estimate_tokens_from_prompt prompt) counter_ttl_seconds w = (Inr (rl_used r, False), w')))"
  using pre_check_limited[OF assms(1), of sv dflt clock prompt given now w]
    window_expiry_bounds(1)[OF assms(2)] by metis

definition sample_agent :: agent_record where
  "sample_agent =
     \<lparr>agent_name = ''echo'', agent_version = ''1.0.0'', ar_owner_team = ''team'', ar_tier_minimum = BASIC,
      ar_layer_hash = ''h'', ar_layer_s3_key = ''l'', ar_script_s3_key = ''s'', ar_deployed_at = ''t'',
      invocation_mode_of = MODE_SYNC, ar_streaming_enabled = False, ar_status = PROMOTED,
      ar_approved_by = None, ar_approved_at = None, ar_release_notes = None, ar_runtime_arn = None,
      ar_model_id = None, ar_estimated_duration_seconds = None, ar_commit_sha = None,
      ar_pipeline_url = None, ar_job_id = None, ar_runtime_endpoint_arn = None,
      ar_runtime_endpoint_name = None, ar_runtime_endpoint_version = None, ar_evaluation_score = None,
      ar_evaluation_report_url = None, ar_rolled_back_by = None, ar_rolled_back_at = None,
      ar_ag_ui = \<lparr>agui_enabled = False, agui_transport = AGUI_SSE, agui_endpoint = None\<rparr>\<rparr>"

text \<open>
  An unlimited tenant does not enjoy the same protection: when the endpoint setting is
  malformed, its check raises before the \<open>try\<close> block is entered, although nothing would have been limited.
\<close>

theorem unlimited_check_raises_on_bad_endpoint:
  assumes "checked_limit policy ctx agent \<le> 0"
  shows "perform_pre_request_check sv (default_counter_client script sv (Some ''redis://:6379'')) clock ctx agent
           prompt policy None now w
         = (Inl (ValueError ''Valkey endpoint host is missing''), w)"
proof -
  have "parse_endpoint ''redis://:6379'' = Inl (ValueError ''Valkey endpoint host is missing'')"
    by code_simp
  then have "client_or_default None (default_counter_client script sv (Some ''redis://:6379''))
      = Inl (ValueError ''Valkey endpoint host is missing'')"
    by (simp add: client_or_default_def default_counter_client_def)
  with assms show ?thesis
    by (simp add: perform_pre_request_check_def checked_limit_def Let_def io_bind_def split: option.splits)
qed

definition tpm_sample_policy :: capability_policy where
  "tpm_sample_policy = safe_fallback\<lparr>cp_tpm_limits := [(''echo'', [(BASIC, 10)])]\<rparr>"

definition dead_services :: "string list tpm_services" where
  "dead_services = \<lparr>vk_exchange = (\<lambda>ep s. io_raise (ExternalErr ''timeout'')),
     vk_put_metric = (\<lambda>m. io_return ()), vk_log = (\<lambda>m w. w @ [m])\<rparr>"

definition dead_client :: "string list counter_client" where
  "dead_client = socket_client [] dead_services
     \<lparr>ve_host = ''valkey'', ve_port = 6379, ve_use_tls = True, ve_timeout_seconds = 3 / 4\<rparr>"

theorem pre_check_fails_open_witness:
  "\<exists>r w'. perform_pre_request_check dead_services (Inr None) 100 sample_ctx sample_agent ''hi''
            (Some tpm_sample_policy) (Some dead_client) None [] = (Inr r, w')
     \<and> rl_reset_seconds r \<in> {1..60}
     \<and> (rl_allowed r \<or>
        (\<exists>c. client_or_default (Some dead_client) (Inr None) = Inr (Some c) \<and>
             cc_check_and_increment c (checked_key 100 None sample_ctx sample_agent)
               (checked_limit (Some tpm_sample_policy) sample_ctx sample_agent)
               (estimate_tokens_from_prompt ''hi'') counter_ttl_seconds [] = (Inr (rl_used r, False), w')))"
  by (rule pre_check_fails_open)
    (simp_all add: checked_limit_def tpm_sample_policy_def sample_ctx_def sample_agent_def get_tpm_limit_def
      now_or_def)

theorem unlimited_check_raises_on_bad_endpoint_witness:
  "checked_limit None sample_ctx sample_agent = 0
   \<and> perform_pre_request_check dead_services (default_counter_client [] dead_services (Some ''redis://:6379''))
       100 sample_ctx sample_agent ''hi'' None None None []
     = (Inl (ValueError ''Valkey endpoint host is missing''), [])"
proof -
  have "checked_limit None sample_ctx sample_agent = 0" by (simp add: checked_limit_def)
  then show ?thesis by (simp add: unlimited_check_raises_on_bad_endpoint)
qed

section \<open>Counters of different tenants\<close>

lemma no_slash_show_int: "CHR ''/'' \<notin> set (show_int i)"
proof -
  have "CHR ''/'' \<notin> set (show_nat n)" for n
    using show_nat_all_digits[of n] by (auto simp: is_digit_def code_point_def)
  then show ?thesis by (simp add: show_int_def)
qed

text \<open>
  Two counter keys are equal only for the same tenant and the same window, provided tenant
  ids have no colon: whatever model names a tenant uses, it can neither read nor spend the
  budget of another, and a budget never leaks into the next minute.
\<close>

theorem counter_keys_separate:
  assumes "CHR '':'' \<notin> set t1" and "CHR '':'' \<notin> set t2"
    and "counter_key t1 m1 c1 e1 = counter_key t2 m2 c2 e2"
  shows "t1 = t2 \<and> e1 = e2"
proof -
  have eq: "t1 @ '':'' @ m1 @ '':'' @ c1 @ ''/'' @ show_int e1
      = t2 @ '':'' @ m2 @ '':'' @ c2 @ ''/'' @ show_int e2"
    using assms(3) by (simp add: counter_key_def)
  have pre: "takeWhile (\<lambda>c. c \<noteq> CHR '':'') (t @ CHR '':'' # r) = t" if "CHR '':'' \<notin> set t" for t r
    using that by (induction t) auto
  have "t1 = t2" using arg_cong[OF eq, of "takeWhile (\<lambda>c. c \<noteq> CHR '':'')"] assms(1,2) by (simp add: pre)
  moreover have last: "after_last (CHR ''/'') (p @ CHR ''/'' # q) = q" if "CHR ''/'' \<notin> set q" for p q
  proof -
    have "\<forall>c \<in> set (rev q). c \<noteq> CHR ''/''" using that by auto
    then have "takeWhile (\<lambda>c. c \<noteq> CHR ''/'') (rev q) = rev q" by (simp add: takeWhile_eq_all_conv)
    then show ?thesis by (simp add: after_last_def takeWhile_tail takeWhile_append)
  qed
  have "after_last (CHR ''/'') ((t1 @ '':'' @ m1 @ '':'' @ c1) @ CHR ''/'' # show_int e1)
      = after_last (CHR ''/'') ((t2 @ '':'' @ m2 @ '':'' @ c2) @ CHR ''/'' # show_int e2)"
    using eq by simp
  then have "e1 = e2" by (simp only: last[OF no_slash_show_int] show_int_inject)
  ultimately show ?thesis by simp
qed

theorem counter_keys_separate_witness:
  "counter_key ''acme'' ''m:1'' ''tpm'' 120 = counter_key ''acme'' ''m'' ''1:tpm'' 120
   \<and> ''acme'' = ''acme'' \<and> (120 :: int) = 120"
  using counter_keys_separate[of "''acme''" "''acme''" "''m:1''" "''tpm''" 120 "''m''" "''1:tpm''" 120]
  by (simp add: counter_key_def)

section \<open>Reported usage\<close>

lemma tpm_coerce_int_nonneg: "tpm_coerce_int v = Inr i \<Longrightarrow> 0 \<le> i"
  by (cases v rule: py_int_cases) (auto simp: tpm_coerce_int_def)

lemma tpm_coerce_int_err: "tpm_coerce_int v = Inl e \<Longrightarrow> e = OverflowError"
  by (cases v rule: py_int_cases) (auto simp: tpm_coerce_int_def)

text \<open>
  Whatever text an agent returns, the usage read from it is never negative, and the only
  exception that leaves the function is \<open>OverflowError\<close>.
\<close>

theorem extract_usage_cases:
  "(\<exists>u. extract_token_usage body = Inr u \<and> 0 \<le> tu_input_tokens u \<and> 0 \<le> tu_output_tokens u
        \<and> total_tokens u = tu_input_tokens u + tu_output_tokens u)
   \<or> extract_token_usage body = Inl OverflowError"
proof (cases "extract_token_usage body")
  case (Inl e)
  then have "e = OverflowError"
    by (auto simp: extract_token_usage_def Let_def bind_res_eq_Inl split: sum.splits option.splits if_splits
        dest: tpm_coerce_int_err)
  with Inl show ?thesis by simp
next
  case (Inr u)
  then have "0 \<le> tu_input_tokens u \<and> 0 \<le> tu_output_tokens u"
    by (auto simp: extract_token_usage_def no_usage_def Let_def bind_res_eq_Inr
        split: sum.splits option.splits if_splits dest!: tpm_coerce_int_nonneg)
  with Inr show ?thesis by (simp add: total_tokens_def)
qed

text \<open>
  That exception is reachable: \<open>json.loads\<close> accepts the constant \<open>Infinity\<close>, and a reply
  that reports it as its token count makes the function raise instead of counting zero.
\<close>

theorem infinite_usage_raises:
  "extract_token_usage
     (CHR 0x7B # [CHR 0x22] @ ''inputTokens'' @ [CHR 0x22] @ '': Infinity'' @ [CHR 0x7D]) = Inl OverflowError"
  by code_simp

end
