(* ===== verification/TpmWindow.thy ===== *)
theory TpmWindow
  imports TpmLimiter
begin

text \<open>
  The script \<open>PRE_REQUEST_LUA\<close> of \<open>src/bridge/tpm_limiter.py\<close>, which runs inside Valkey, and what it
  and the correction do to the counter of one window.

  The three Valkey commands it calls are the interface \<open>valkey\<close>, with their documented behaviour as laws;
  the limiter's contract is the interface \<open>window_counter\<close>, which the script implements over any \<open>valkey\<close>.
  Counters are kept in the range where Lua's numbers are exact.
\<close>

record 's valkey_ops =
  rd_get :: "'s \<Rightarrow> string \<Rightarrow> int option"
  rd_ttl :: "'s \<Rightarrow> string \<Rightarrow> int option"
  rd_incrby :: "string \<Rightarrow> int \<Rightarrow> 's \<Rightarrow> int \<times> 's"
  rd_expire :: "string \<Rightarrow> int \<Rightarrow> 's \<Rightarrow> 's"

definition lua_exact :: "int \<Rightarrow> bool" where
  "lua_exact n \<longleftrightarrow> - (2 ^ 53) < n \<and> n < 2 ^ 53"

definition counter_value :: "'s valkey_ops \<Rightarrow> 's \<Rightarrow> string \<Rightarrow> int" where
  "counter_value r s k = (case rd_get r s k of None \<Rightarrow> 0 | Some v \<Rightarrow> v)"

definition lua_pre_request ::
  "'s valkey_ops \<Rightarrow> string \<Rightarrow> int \<Rightarrow> int \<Rightarrow> int \<Rightarrow> 's \<Rightarrow> (int \<times> bool) \<times> 's" where
  "lua_pre_request r key limit estimate expiry s =
     (let current = rd_get r s key in
      if limit > 0 \<and> current \<noteq> None \<and> the current + estimate > limit then ((the current, False), s)
      else
        (case rd_incrby r key estimate s of
           (new_val, s1) \<Rightarrow>
             ((new_val, True), if new_val = estimate then rd_expire r key expiry s1 else s1)))"

text \<open>\<open>correct_usage\<close> of the socket client, as it acts on the counters.\<close>

definition window_correct :: "'s valkey_ops \<Rightarrow> string \<Rightarrow> int \<Rightarrow> int \<Rightarrow> 's \<Rightarrow> int \<times> 's" where
  "window_correct r key estimate actual s =
     (let diff = actual - estimate in if diff = 0 then (0, s) else rd_incrby r key diff s)"

section \<open>The interfaces\<close>

locale valkey =
  fixes r :: "'s valkey_ops"
  assumes incrby_value: "lua_exact (counter_value r s k + n) \<Longrightarrow> fst (rd_incrby r k n s) = counter_value r s k + n"
    and incrby_get: "lua_exact (counter_value r s k + n) \<Longrightarrow>
      rd_get r (snd (rd_incrby r k n s)) k' = (if k' = k then Some (counter_value r s k + n) else rd_get r s k')"
    and incrby_ttl: "lua_exact (counter_value r s k + n) \<Longrightarrow>
      rd_ttl r (snd (rd_incrby r k n s)) k' = rd_ttl r s k'"
    and expire_get: "0 < t \<Longrightarrow> rd_get r (rd_expire r k t s) k' = rd_get r s k'"
    and expire_ttl: "0 < t \<Longrightarrow> rd_ttl r (rd_expire r k t s) k'
      = (if k' = k \<and> rd_get r s k \<noteq> None then Some t else rd_ttl r s k')"

text \<open>
  What the limiter relies on: \<open>check\<close> admits or refuses; an admitted estimate is counted, a refused one
  is not; a correction moves the counter by the difference. \<open>used\<close> is the counter, \<open>fresh\<close> holds while the
  window has no counter yet.
\<close>

locale window_counter =
  fixes used :: "'s \<Rightarrow> string \<Rightarrow> int"
    and fresh :: "'s \<Rightarrow> string \<Rightarrow> bool"
    and check :: "string \<Rightarrow> int \<Rightarrow> int \<Rightarrow> 's \<Rightarrow> (int \<times> bool) \<times> 's"
    and correct :: "string \<Rightarrow> int \<Rightarrow> int \<Rightarrow> 's \<Rightarrow> 's"
  assumes check_admits: "lua_exact (used s k + e) \<Longrightarrow>
      snd (fst (check k l e s)) \<longleftrightarrow> l \<le> 0 \<or> fresh s k \<or> used s k + e \<le> l"
    and check_counts: "lua_exact (used s k + e) \<Longrightarrow> used (snd (check k l e s)) k'
      = (if k' = k \<and> snd (fst (check k l e s)) then used s k + e else used s k')"
    and check_reports: "lua_exact (used s k + e) \<Longrightarrow> fst (fst (check k l e s)) = used (snd (check k l e s)) k"
    and correct_moves: "lua_exact (used s k + (a - e)) \<Longrightarrow>
      used (correct k e a s) k' = (if k' = k then used s k + (a - e) else used s k')"
    and fresh_zero: "fresh s k \<Longrightarrow> used s k = 0"
begin

text \<open>A window whose first request fits stays within its limit through every check.\<close>

lemma check_keeps_limit:
  assumes "lua_exact (used s k + e)" and "0 < l" and "used s k \<le> l" and "fresh s k \<Longrightarrow> e \<le> l"
  shows "used (snd (check k l e s)) k \<le> l"
  using assms check_admits[of s k e l] check_counts[of s k e l k] fresh_zero[of s k] by auto

lemma check_then_correct:
  assumes "lua_exact (used s k + e)" and "lua_exact (used s k + a)" and "snd (fst (check k l e s))"
  shows "used (correct k e a (snd (check k l e s))) k = used s k + a"
  using assms check_counts[of s k e l k]
    correct_moves[of "snd (check k l e s)" k a e k] by simp

text \<open>A series of requests, each checked with its estimate.\<close>

lemma check_series_keeps_limit:
  assumes "0 < l" and "lua_exact l" and "\<forall>e \<in> set es. 0 \<le> e \<and> e \<le> l \<and> lua_exact (l + e)"
    and "0 \<le> used s k" and "used s k \<le> l"
  shows "0 \<le> used (fold (\<lambda>e s. snd (check k l e s)) es s) k
    \<and> used (fold (\<lambda>e s. snd (check k l e s)) es s) k \<le> l"
  using assms(3-5)
proof (induction es arbitrary: s)
  case (Cons e es)
  have ex: "lua_exact (used s k + e)" using Cons.prems by (auto simp: lua_exact_def)
  have "used (snd (check k l e s)) k \<le> l"
    using ex assms(1) Cons.prems by (intro check_keeps_limit) auto
  moreover have "0 \<le> used (snd (check k l e s)) k"
    using check_counts[OF ex, of l k] Cons.prems by auto
  ultimately show ?case using Cons by simp
qed simp

end

section \<open>The script implements the contract\<close>

definition lua_fresh :: "'s valkey_ops \<Rightarrow> 's \<Rightarrow> string \<Rightarrow> bool" where
  "lua_fresh r s k \<longleftrightarrow> rd_get r s k = None"

context valkey
begin

lemma lua_admits:
  "snd (fst (lua_pre_request r k l e t s)) \<longleftrightarrow> l \<le> 0 \<or> lua_fresh r s k \<or> counter_value r s k + e \<le> l"
  by (auto simp: lua_pre_request_def Let_def lua_fresh_def counter_value_def split: prod.splits option.splits)

lemma lua_refused: "\<not> snd (fst (lua_pre_request r k l e t s)) \<Longrightarrow> snd (lua_pre_request r k l e t s) = s"
  by (auto simp: lua_pre_request_def Let_def split: prod.splits if_splits)

lemma lua_admitted_get:
  assumes "lua_exact (counter_value r s k + e)" and "0 < t" and "snd (fst (lua_pre_request r k l e t s))"
  shows "rd_get r (snd (lua_pre_request r k l e t s)) k'
    = (if k' = k then Some (counter_value r s k + e) else rd_get r s k')"
  using assms incrby_get[OF assms(1), of k'] expire_get[OF assms(2)]
  by (auto simp: lua_pre_request_def Let_def split: prod.splits if_splits)

lemma lua_reports:
  assumes "lua_exact (counter_value r s k + e)" and "0 < t"
  shows "fst (fst (lua_pre_request r k l e t s)) = counter_value r (snd (lua_pre_request r k l e t s)) k"
  using incrby_get[OF assms(1), of k] incrby_value[OF assms(1)] expire_get[OF assms(2)]
  by (auto simp: lua_pre_request_def Let_def counter_value_def split: prod.splits if_splits)

lemma window_correct_get:
  assumes "lua_exact (counter_value r s k + (a - e))"
  shows "counter_value r (snd (window_correct r k e a s)) k'
    = (if k' = k then counter_value r s k + (a - e) else counter_value r s k')"
  using incrby_get[OF assms] by (auto simp: window_correct_def Let_def counter_value_def)

text \<open>Only a check that lands exactly on its own estimate sets the expiry.\<close>

lemma lua_ttl:
  assumes "lua_exact (counter_value r s k + e)" and "0 < t" and "snd (fst (lua_pre_request r k l e t s))"
  shows "rd_ttl r (snd (lua_pre_request r k l e t s)) k
    = (if counter_value r s k = 0 then Some t else rd_ttl r s k)"
  using assms incrby_get[OF assms(1), of k] incrby_value[OF assms(1)] incrby_ttl[OF assms(1), of k]
    expire_ttl[OF assms(2)]
  by (auto simp: lua_pre_request_def Let_def split: prod.splits if_splits)

lemma correct_ttl:
  assumes "lua_exact (counter_value r s k + (a - e))"
  shows "rd_ttl r (snd (window_correct r k e a s)) k = rd_ttl r s k"
  using incrby_ttl[OF assms] by (simp add: window_correct_def Let_def)

end

sublocale valkey \<subseteq> lua: window_counter "counter_value r" "lua_fresh r"
  "\<lambda>k l e. lua_pre_request r k l e counter_ttl_seconds" "\<lambda>k e a s. snd (window_correct r k e a s)"
proof
  fix s k e l k'
  assume ex: "lua_exact (counter_value r s k + e)"
  show "snd (fst (lua_pre_request r k l e counter_ttl_seconds s))
      = (l \<le> 0 \<or> lua_fresh r s k \<or> counter_value r s k + e \<le> l)" by (rule lua_admits)
  show "counter_value r (snd (lua_pre_request r k l e counter_ttl_seconds s)) k'
      = (if k' = k \<and> snd (fst (lua_pre_request r k l e counter_ttl_seconds s))
         then counter_value r s k + e else counter_value r s k')"
    using lua_admitted_get[OF ex, of counter_ttl_seconds l k'] lua_refused[of k l e counter_ttl_seconds s]
    by (cases "snd (fst (lua_pre_request r k l e counter_ttl_seconds s))")
      (auto simp: counter_value_def counter_ttl_seconds_def)
  show "fst (fst (lua_pre_request r k l e counter_ttl_seconds s))
      = counter_value r (snd (lua_pre_request r k l e counter_ttl_seconds s)) k"
    by (rule lua_reports[OF ex]) (simp add: counter_ttl_seconds_def)
next
  fix s k a e k'
  assume "lua_exact (counter_value r s k + (a - e))"
  then show "counter_value r (snd (window_correct r k e a s)) k'
      = (if k' = k then counter_value r s k + (a - e) else counter_value r s k')"
    by (rule window_correct_get)
next
  fix s k
  assume "lua_fresh r s k"
  then show "counter_value r s k = 0" by (simp add: lua_fresh_def counter_value_def)
qed

context valkey
begin

text \<open>The facts of the contract, over the script.\<close>

lemmas script_series_keeps_limit = lua.check_series_keeps_limit
lemmas script_admits = lua.check_admits
lemmas script_counts = lua.check_counts
lemmas script_correct_moves = lua.correct_moves

end

section \<open>Counters as a map\<close>

text \<open>Valkey's counters as a map from keys to a value and the seconds it has left, if any.\<close>

definition map_valkey :: "(string \<Rightarrow> (int \<times> int option) option) valkey_ops" where
  "map_valkey =
     \<lparr>rd_get = (\<lambda>s k. map_option fst (s k)),
      rd_ttl = (\<lambda>s k. case s k of None \<Rightarrow> None | Some (v, t) \<Rightarrow> t),
      rd_incrby = (\<lambda>k n s. case s k of
          None \<Rightarrow> (n, s(k \<mapsto> (n, None)))
        | Some (v, t) \<Rightarrow> (v + n, s(k \<mapsto> (v + n, t)))),
      rd_expire = (\<lambda>k t s. case s k of None \<Rightarrow> s | Some (v, _) \<Rightarrow> s(k \<mapsto> (v, Some t)))\<rparr>"

interpretation map_valkey: valkey map_valkey
  by unfold_locales (auto simp: map_valkey_def counter_value_def split: option.splits)

section \<open>The budget of a window\<close>

text \<open>The requests of one window, each asking for its estimate.\<close>

definition check_series :: "'s valkey_ops \<Rightarrow> string \<Rightarrow> int \<Rightarrow> int list \<Rightarrow> 's \<Rightarrow> 's" where
  "check_series r key limit estimates s =
     fold (\<lambda>e s. snd (lua_pre_request r key limit e counter_ttl_seconds s)) estimates s"

text \<open>
  Property C15. However many requests ask in one window, the counter never passes the limit, as long as
  no single estimate is larger than the limit itself.
\<close>

theorem tpm_budget_respected:
  assumes "valkey r" and "0 < limit" and "lua_exact limit"
    and "\<forall>e \<in> set es. 0 \<le> e \<and> e \<le> limit \<and> lua_exact (limit + e)"
    and "0 \<le> counter_value r s key" and "counter_value r s key \<le> limit"
  shows "0 \<le> counter_value r (check_series r key limit es s) key
    \<and> counter_value r (check_series r key limit es s) key \<le> limit"
  unfolding check_series_def by (rule valkey.script_series_keeps_limit[OF assms])

theorem tpm_budget_respected_witness:
  "counter_value map_valkey (check_series map_valkey ''k'' 10 [4, 5, 3] Map.empty) ''k'' \<le> 10"
  using tpm_budget_respected[OF map_valkey.valkey_axioms, of 10 "[4, 5, 3]" Map.empty "''k''"]
  by (simp add: lua_exact_def counter_value_def map_valkey_def)

text \<open>
  That restriction is needed: the script compares only when the key exists, so the first
  request of a window is admitted and counted whatever its size.
\<close>

theorem first_request_bypasses_limit:
  assumes "valkey r" and "rd_get r s key = None" and "lua_exact estimate"
  shows "snd (fst (lua_pre_request r key limit estimate counter_ttl_seconds s))
    \<and> counter_value r (snd (lua_pre_request r key limit estimate counter_ttl_seconds s)) key = estimate"
proof -
  have f: "lua_fresh r s key" and z: "counter_value r s key = 0"
    using assms(2) by (simp_all add: lua_fresh_def counter_value_def)
  have ex: "lua_exact (counter_value r s key + estimate)" using assms(3) z by simp
  show ?thesis
    using valkey.script_admits[OF assms(1) ex, of limit] valkey.script_counts[OF assms(1) ex, of limit key] f z
    by simp
qed

theorem first_request_bypasses_limit_witness:
  "snd (fst (lua_pre_request map_valkey ''k'' 10 5000 counter_ttl_seconds Map.empty))
    \<and> counter_value map_valkey (snd (lua_pre_request map_valkey ''k'' 10 5000 counter_ttl_seconds Map.empty)) ''k'' = 5000"
  by (rule first_request_bypasses_limit[OF map_valkey.valkey_axioms]) (simp_all add: map_valkey_def lua_exact_def)

text \<open>
  An admitted request whose estimate is later corrected leaves exactly its actual usage in
  the counter, and no other counter is touched.
\<close>

theorem correction_settles:
  assumes "valkey r" and "lua_exact (counter_value r s key + estimate)" and "lua_exact (counter_value r s key + actual)"
    and "snd (fst (lua_pre_request r key limit estimate counter_ttl_seconds s))"
  shows "counter_value r (snd (window_correct r key estimate actual
            (snd (lua_pre_request r key limit estimate counter_ttl_seconds s)))) k
    = (if k = key then counter_value r s key + actual else counter_value r s k)"
proof -
  let ?s1 = "snd (lua_pre_request r key limit estimate counter_ttl_seconds s)"
  have c: "counter_value r ?s1 j = (if j = key then counter_value r s key + estimate else counter_value r s j)" for j
    using valkey.script_counts[OF assms(1,2), of limit j] assms(4) by simp
  then have "lua_exact (counter_value r ?s1 key + (actual - estimate))" using assms(3) by simp
  then show ?thesis using valkey.script_correct_moves[OF assms(1), of ?s1 key actual estimate k] c by simp
qed

theorem correction_settles_witness:
  "counter_value map_valkey (snd (window_correct map_valkey ''k'' 8 3
     (snd (lua_pre_request map_valkey ''k'' 10 8 counter_ttl_seconds Map.empty)))) ''k'' = 3"
  using correction_settles[OF map_valkey.valkey_axioms, of Map.empty "''k''" 8 3 10 "''k''"]
  by (simp add: lua_exact_def counter_value_def map_valkey_def lua_pre_request_def Let_def)

text \<open>
  A correction that arrives after its window's counter is gone makes a counter without an
  expiry, and no later check of that key gives it one: the key stays in Valkey for ever.
\<close>

theorem late_correction_leaks_key:
  assumes "valkey r" and "rd_get r s key = None" and "rd_ttl r s key = None"
    and "lua_exact (actual - estimate)" and "actual \<noteq> estimate"
    and "lua_exact (actual - estimate + e)"
  shows "rd_get r (snd (window_correct r key estimate actual s)) key = Some (actual - estimate)
    \<and> rd_ttl r (snd (lua_pre_request r key limit e counter_ttl_seconds
                 (snd (window_correct r key estimate actual s)))) key = None"
proof -
  let ?s1 = "snd (window_correct r key estimate actual s)"
  have z: "counter_value r s key = 0" using assms(2) by (simp add: counter_value_def)
  have d: "rd_get r ?s1 key = Some (actual - estimate)"
    using valkey.incrby_get[OF assms(1), of s key "actual - estimate" key] assms(4,5) z
    by (simp add: window_correct_def Let_def)
  have t: "rd_ttl r ?s1 key = None"
    using valkey.correct_ttl[OF assms(1), of s key actual estimate] assms(3,4) z by simp
  have v: "counter_value r ?s1 key = actual - estimate" using d by (simp add: counter_value_def)
  have "rd_ttl r (snd (lua_pre_request r key limit e counter_ttl_seconds ?s1)) key = None"
    using valkey.lua_ttl[OF assms(1), of ?s1 key e counter_ttl_seconds limit]
      valkey.lua_refused[OF assms(1), of key limit e counter_ttl_seconds ?s1] v t assms(5,6)
    by (cases "snd (fst (lua_pre_request r key limit e counter_ttl_seconds ?s1))")
      (auto simp: counter_ttl_seconds_def)
  with d show ?thesis by simp
qed

theorem late_correction_leaks_key_witness:
  "rd_get map_valkey (snd (window_correct map_valkey ''k'' 8 3 Map.empty)) ''k'' = Some (- 5)
    \<and> rd_ttl map_valkey (snd (lua_pre_request map_valkey ''k'' 10 7 counter_ttl_seconds
                 (snd (window_correct map_valkey ''k'' 8 3 Map.empty)))) ''k'' = None"
  using late_correction_leaks_key[OF map_valkey.valkey_axioms, of Map.empty "''k''" 3 8 7 10]
  by (simp add: map_valkey_def lua_exact_def)

end
