(* ===== verification/Calendar.thy ===== *)
theory Calendar
  imports Prelude
begin

text \<open>
  Dates of the proleptic Gregorian calendar as \<open>datetime\<close> computes them: the day number of a date, the date
  of a day number, and the ISO text \<open>platform_utils.iso_utc\<close> writes. A moment is a number of seconds since
  1970-01-01 UTC.
\<close>

definition leap_year :: "int \<Rightarrow> bool" where
  "leap_year y \<longleftrightarrow> 4 dvd y \<and> (\<not> 100 dvd y \<or> 400 dvd y)"

definition month_lengths :: "int \<Rightarrow> int list" where
  "month_lengths y = [31, if leap_year y then 29 else 28, 31, 30, 31, 30, 31, 31, 30, 31, 30, 31]"

text \<open>Days from 1970-01-01 to a date.\<close>

definition epoch_days :: "int \<Rightarrow> int \<Rightarrow> int \<Rightarrow> int" where
  "epoch_days y m d =
     (let p = y - 1 in
      p * 365 + p div 4 - p div 100 + p div 400 + sum_list (take (nat (m - 1)) (month_lengths y))
        + d - 719163)"

text \<open>The month and day of a day of the year, counted from 0.\<close>

fun split_month :: "int \<Rightarrow> int list \<Rightarrow> int \<Rightarrow> int \<times> int" where
  "split_month m [] n = (m, n + 1)"
| "split_month m (l # ls) n = (if n < l then (m, n + 1) else split_month (m + 1) ls (n - l))"

text \<open>The date of a day number since 1970-01-01, by cycles of 400, 100, 4 and 1 years.\<close>

definition date_of_days :: "int \<Rightarrow> int \<times> int \<times> int" where
  "date_of_days days =
     (let n = days + 719162;
          n400 = n div 146097; n = n mod 146097;
          n100 = n div 36524; n = n mod 36524;
          n4 = n div 1461; n = n mod 1461;
          n1 = n div 365; n = n mod 365;
          year = n400 * 400 + n100 * 100 + n4 * 4 + n1 + 1
      in if n1 = 4 \<or> n100 = 4 then (year - 1, 12, 31)
         else (case split_month 1 (month_lengths year) n of (m, d) \<Rightarrow> (year, m, d)))"

definition pad_int :: "nat \<Rightarrow> int \<Rightarrow> string" where
  "pad_int w n = replicate (w - length (show_int n)) (CHR ''0'') @ show_int n"

text \<open>\<open>strftime("%Y%m%d")\<close> and \<open>strftime("%Y-%m")\<close> of a moment.\<close>

definition compact_date :: "rat \<Rightarrow> string" where
  "compact_date t =
     (case date_of_days (floor t div 86400) of (y, m, d) \<Rightarrow> pad_int 4 y @ pad_int 2 m @ pad_int 2 d)"

definition year_month_of :: "rat \<Rightarrow> string" where
  "year_month_of t =
     (case date_of_days (floor t div 86400) of (y, m, d) \<Rightarrow> pad_int 4 y @ ''-'' @ pad_int 2 m)"

definition clock_text :: "int \<Rightarrow> string" where
  "clock_text s = pad_int 2 (s div 3600) @ '':'' @ pad_int 2 (s div 60 mod 60) @ '':'' @ pad_int 2 (s mod 60)"

definition date_text :: "int \<Rightarrow> string" where
  "date_text days =
     (case date_of_days days of (y, m, d) \<Rightarrow> pad_int 4 y @ ''-'' @ pad_int 2 m @ ''-'' @ pad_int 2 d)"

definition iso_utc :: "rat \<Rightarrow> string" where
  "iso_utc t = (let s = floor t in date_text (s div 86400) @ ''T'' @ clock_text (s mod 86400) @ ''Z'')"

text \<open>\<open>datetime.isoformat()\<close> of a moment of UTC: microseconds only when there are some.\<close>

definition isoformat_utc :: "rat \<Rightarrow> string" where
  "isoformat_utc t =
     (let s = floor t; micros = floor ((t - of_int s) * 1000000) in
      date_text (s div 86400) @ ''T'' @ clock_text (s mod 86400)
      @ (if micros = 0 then [] else ''.'' @ pad_int 6 micros) @ ''+00:00'')"

end
