(* ===== verification/SigV4.thy ===== *)
theory SigV4
  imports DataAccess Calendar
begin

text \<open>
  The machine-caller half of the authoriser, \<open>src/authoriser/sigv4_service.py\<close>: reading the
  Authorization header and the date, and resolving the calling role to the tenant that owns it, with the
  in-memory cache of bindings. The iteration order of a Python set is the argument \<open>so\<close>.
\<close>

definition ascii_alnum :: "char \<Rightarrow> bool" where
  "ascii_alnum c \<longleftrightarrow>
     (let n = code_point c in (48 \<le> n \<and> n \<le> 57) \<or> (65 \<le> n \<and> n \<le> 90) \<or> (97 \<le> n \<and> n \<le> 122))"

section \<open>The caller's role\<close>

text \<open>The text up to a separator that must follow it, not empty: \<open>[^/]+/\<close>.\<close>

definition take_segment :: "char \<Rightarrow> string \<Rightarrow> (string \<times> string) option" where
  "take_segment sep s =
     (let a = takeWhile (\<lambda>c. c \<noteq> sep) s in
      if a \<noteq> [] \<and> length a < length s then Some (a, drop (length a + 1) s) else None)"

text \<open>\<open>arn:aws:sts::<account>:assumed-role/<role>/<session>\<close>, the account and the role of it.\<close>

definition match_assumed_role :: "string \<Rightarrow> (string \<times> string) option" where
  "match_assumed_role arn =
     (if \<not> starts_with arn ''arn:aws:sts::'' then None
      else (let r = drop 13 arn; account = take 12 r; r2 = drop 12 r in
            if length account \<noteq> 12 \<or> \<not> list_all is_digit account then None
            else if \<not> starts_with r2 '':assumed-role/'' then None
            else (case take_segment (CHR ''/'') (drop 14 r2) of
                    None \<Rightarrow> None
                  | Some (role, session) \<Rightarrow>
                      if session \<noteq> [] \<and> CHR ''/'' \<notin> set session then Some (account, role) else None)))"

definition sigv4_caller_role_arns :: "string \<Rightarrow> string list" where
  "sigv4_caller_role_arns caller_arn =
     (case match_assumed_role caller_arn of
        None \<Rightarrow> [caller_arn]
      | Some (account, role) \<Rightarrow> [caller_arn, ''arn:aws:iam::'' @ account @ '':role/'' @ role])"

section \<open>Headers\<close>

fun normalise_header_items :: "pydict \<Rightarrow> (string \<times> string) list \<Rightarrow> (string \<times> string) list" where
  "normalise_header_items [] acc = acc"
| "normalise_header_items ((raw_key, raw_value) # rest) acc =
     (let key = py_lower (py_strip raw_key);
          val = (if raw_value = PNone then [] else py_strip (py_str raw_value))
      in normalise_header_items rest (if key \<noteq> [] then dset key val acc else acc))"

definition normalise_headers :: "pydict \<Rightarrow> (string \<times> string) list" where
  "normalise_headers event =
     (case as_dict (py_or (dget event ''headers'') (PDict [])) of
        None \<Rightarrow> []
      | Some raw \<Rightarrow> normalise_header_items raw [])"

definition header_or :: "(string \<times> string) list \<Rightarrow> string \<Rightarrow> string \<Rightarrow> string" where
  "header_or headers k d = (case map_of headers k of None \<Rightarrow> d | Some v \<Rightarrow> v)"

section \<open>The Authorization header\<close>

record sigv4_parsed =
  sp_access_key :: string
  sp_date :: string
  sp_region :: string
  sp_service :: string
  sp_signed_headers :: "string list"

definition is_signature :: "string \<Rightarrow> bool" where
  "is_signature s \<longleftrightarrow> length s = 64 \<and> list_all (\<lambda>c. is_digit c \<or> c \<in> set ''abcdef'') s"

definition is_access_key :: "string \<Rightarrow> bool" where
  "is_access_key s \<longleftrightarrow> 16 \<le> length s \<and> length s \<le> 128 \<and>
     list_all (\<lambda>c. is_digit c \<or> (65 \<le> code_point c \<and> code_point c \<le> 90)) s"

fun parse_auth_pieces :: "string list \<Rightarrow> (string \<times> string) list \<Rightarrow> (string \<times> string) list" where
  "parse_auth_pieces [] acc = acc"
| "parse_auth_pieces (piece # rest) acc =
     (if CHR ''='' \<notin> set piece then parse_auth_pieces rest acc
      else (case split_max (CHR ''='') 1 piece of
              [k, v] \<Rightarrow> parse_auth_pieces rest (dset (py_strip k) (py_strip v) acc)
            | _ \<Rightarrow> parse_auth_pieces rest acc))"

definition required_signed_headers :: "string list" where
  "required_signed_headers = [''host'', ''x-amz-date'', ''x-tenant-id'']"

definition parse_sigv4_authorization :: "string \<Rightarrow> sigv4_parsed option" where
  "parse_sigv4_authorization auth_header =
     (if \<not> starts_with auth_header ''AWS4-HMAC-SHA256 '' then None
      else
       (let payload = py_strip (remove_prefix auth_header ''AWS4-HMAC-SHA256 '');
            pieces = map py_strip (filter (\<lambda>p. py_strip p \<noteq> []) (split_on (CHR '','') payload));
            parsed = parse_auth_pieces pieces [];
            credential = header_or parsed ''Credential'' [];
            signed_headers = header_or parsed ''SignedHeaders'' [];
            signature = header_or parsed ''Signature'' []
        in if credential = [] \<or> signed_headers = [] \<or> signature = [] then None
           else if \<not> is_signature (py_lower signature) then None
           else (case split_on (CHR ''/'') credential of
                   [access_key, date, region, service, terminator] \<Rightarrow>
                     if \<not> is_access_key access_key then None
                     else if terminator \<noteq> ''aws4_request'' then None
                     else if region = [] \<or> service = [] then None
                     else
                       (let hs = map (\<lambda>h. py_lower (py_strip h))
                                   (filter (\<lambda>h. py_strip h \<noteq> []) (split_on (CHR '';'') signed_headers))
                        in if \<not> list_all (\<lambda>h. h \<in> set hs) required_signed_headers then None
                           else Some \<lparr>sp_access_key = access_key, sp_date = date, sp_region = region,
                                      sp_service = service, sp_signed_headers = hs\<rparr>)
                 | _ \<Rightarrow> None)))"

section \<open>The date\<close>

text \<open>
  \<open>datetime.strptime(value, "%Y%m%dT%H%M%SZ")\<close>. The library turns the format into a regular expression
  whose fields may be shorter than two digits, tried in this order with backtracking; letters match in either case. A field
  parser lists its possible readings.
\<close>

definition two_digits :: "(int \<Rightarrow> bool) \<Rightarrow> string \<Rightarrow> (int \<times> string) list" where
  "two_digits ok s =
     (case s of
        a # b # r \<Rightarrow> if is_digit a \<and> is_digit b \<and> ok (10 * int (digit_val a) + int (digit_val b))
                      then [(10 * int (digit_val a) + int (digit_val b), r)] else []
      | _ \<Rightarrow> [])"

definition one_digit :: "(int \<Rightarrow> bool) \<Rightarrow> string \<Rightarrow> (int \<times> string) list" where
  "one_digit ok s =
     (case s of a # r \<Rightarrow> if is_digit a \<and> ok (int (digit_val a)) then [(int (digit_val a), r)] else [] | [] \<Rightarrow> [])"

definition field_year :: "string \<Rightarrow> (int \<times> string) list" where
  "field_year s =
     (if 4 \<le> length s \<and> list_all is_digit (take 4 s)
      then [(foldl (\<lambda>a c. 10 * a + int (digit_val c)) 0 (take 4 s), drop 4 s)] else [])"

definition field_month :: "string \<Rightarrow> (int \<times> string) list" where
  "field_month s = two_digits (\<lambda>n. 1 \<le> n \<and> n \<le> 12) s @ one_digit (\<lambda>n. 1 \<le> n) s"

definition field_day :: "string \<Rightarrow> (int \<times> string) list" where
  "field_day s = two_digits (\<lambda>n. 1 \<le> n \<and> n \<le> 31) s @ one_digit (\<lambda>n. 1 \<le> n) s
     @ (case s of c # r \<Rightarrow> if c = CHR '' '' then one_digit (\<lambda>n. 1 \<le> n) r else [] | [] \<Rightarrow> [])"

definition field_hour :: "string \<Rightarrow> (int \<times> string) list" where
  "field_hour s = two_digits (\<lambda>n. n \<le> 23) s @ one_digit (\<lambda>n. True) s"

definition field_minute :: "string \<Rightarrow> (int \<times> string) list" where
  "field_minute s = two_digits (\<lambda>n. n \<le> 59) s @ one_digit (\<lambda>n. True) s"

definition field_second :: "string \<Rightarrow> (int \<times> string) list" where
  "field_second s = two_digits (\<lambda>n. n \<le> 61) s @ one_digit (\<lambda>n. True) s"

definition field_letter :: "char \<Rightarrow> string \<Rightarrow> string list" where
  "field_letter c s = (case s of d # r \<Rightarrow> if py_lower_char d = c then [r] else [] | [] \<Rightarrow> [])"

definition amz_date_readings :: "string \<Rightarrow> (int \<times> int \<times> int \<times> int \<times> int \<times> int) list" where
  "amz_date_readings s =
     concat (map (\<lambda>(y, s). concat (map (\<lambda>(mo, s). concat (map (\<lambda>(d, s).
       concat (map (\<lambda>s. concat (map (\<lambda>(h, s). concat (map (\<lambda>(mi, s). concat (map (\<lambda>(sec, s).
         map (\<lambda>s. (y, mo, d, h, mi, sec)) (filter (\<lambda>s. s = []) (field_letter (CHR ''z'') s)))
       (field_second s))) (field_minute s))) (field_hour s))) (field_letter (CHR ''t'') s)))
     (field_day s))) (field_month s))) (field_year s))"

definition parse_amz_date :: "string \<Rightarrow> int option" where
  "parse_amz_date s =
     (case amz_date_readings s of
        [] \<Rightarrow> None
      | (y, mo, d, h, mi, sec) # _ \<Rightarrow>
          if 1 \<le> y \<and> d \<le> month_lengths y ! nat (mo - 1) \<and> sec \<le> 59
          then Some (epoch_days y mo d * 86400 + h * 3600 + mi * 60 + sec) else None)"

definition is_valid_sigv4_timestamp :: "rat \<Rightarrow> int \<Rightarrow> string \<Rightarrow> bool" where
  "is_valid_sigv4_timestamp now max_clock_skew_seconds val =
     (case parse_amz_date val of
        None \<Rightarrow> False
      | Some ts \<Rightarrow> \<bar>now - of_int ts\<bar> \<le> of_int max_clock_skew_seconds)"

section \<open>The tenant a role belongs to\<close>

definition normalise_tier :: "string \<Rightarrow> string" where
  "normalise_tier val =
     (if val = [] then ''basic''
      else (let candidate = py_lower (py_strip val) in
            if candidate \<in> {''basic'', ''standard'', ''premium''} then candidate else ''basic''))"

record tenant_binding =
  tb_tenant_id :: string
  tb_app_id :: string
  tb_tier :: string

type_synonym binding_cache = "(string \<times> (tenant_binding \<times> rat)) list"

text \<open>The first live entry of the candidates; dead entries met on the way are deleted.\<close>

fun cached_binding :: "rat \<Rightarrow> string list \<Rightarrow> binding_cache \<Rightarrow> tenant_binding option \<times> binding_cache" where
  "cached_binding now [] cache = (None, cache)"
| "cached_binding now (arn # arns) cache =
     (case map_of cache arn of
        None \<Rightarrow> cached_binding now arns cache
      | Some (b, expiry) \<Rightarrow>
          if now < expiry then (Some b, cache)
          else cached_binding now arns (AList.delete arn cache))"

definition first_text :: "pydict \<Rightarrow> string \<Rightarrow> string \<Rightarrow> string" where
  "first_text item k1 k2 = py_strip (py_str (py_or (py_or (dget item k1) (dget item k2)) (PStr [])))"

definition binding_of_item :: "pydict \<Rightarrow> tenant_binding" where
  "binding_of_item item =
     \<lparr>tb_tenant_id = first_text item ''tenantId'' ''tenant_id'',
      tb_app_id = first_text item ''appId'' ''app_id'',
      tb_tier = normalise_tier (py_str (py_or (dget item ''tier'') (PStr ''basic'')))\<rparr>"

fun bind_index_items ::
  "'w aws \<Rightarrow> string \<Rightarrow> rat \<Rightarrow> int \<Rightarrow> string \<Rightarrow> pydict list \<Rightarrow> (string \<times> tenant_binding) list \<Rightarrow>
     (binding_cache \<times> 'w, (string \<times> tenant_binding) list) io" where
  "bind_index_items sv table now ttl role_arn [] matches = io_return matches"
| "bind_index_items sv table now ttl role_arn (index_item # rest) matches =
     (case (dict_get index_item ''PK'', dict_get index_item ''SK'') of
        (Some pk, Some sk) \<Rightarrow>
          io_bind (on_world (cp_get_item sv table [(''PK'', pk), (''SK'', sk)]
                     [(''ProjectionExpression'', KwVal (PStr ''tenantId, tenant_id, appId, app_id, tier''))]))
            (\<lambda>item. case item of
                None \<Rightarrow> bind_index_items sv table now ttl role_arn rest matches
              | Some it \<Rightarrow>
                  if it = [] then bind_index_items sv table now ttl role_arn rest matches
                  else (let b = binding_of_item it in
                        if tb_tenant_id b \<noteq> [] then
                          (\<lambda>s. bind_index_items sv table now ttl role_arn rest (dset (tb_tenant_id b) b matches)
                                 (dset role_arn (b, now + of_int ttl) (fst s), snd s))
                        else bind_index_items sv table now ttl role_arn rest matches))
      | _ \<Rightarrow> io_raise (KeyError ''PK''))"

fun bind_roles ::
  "'w aws \<Rightarrow> string \<Rightarrow> rat \<Rightarrow> int \<Rightarrow> string list \<Rightarrow> (string \<times> tenant_binding) list \<Rightarrow>
     (binding_cache \<times> 'w, (string \<times> tenant_binding) list) io" where
  "bind_roles sv table now ttl [] matches = io_return matches"
| "bind_roles sv table now ttl (role_arn # rest) matches =
     io_bind (on_world (cp_query sv table None (Some (KeyEq ''executionRoleArn'' role_arn))
                \<lparr>qa_sk = None, qa_filter = None, qa_index = Some ''gsi-execution-role-arn'', qa_limit = None,
                 qa_forward = True, qa_start = None,
                 qa_extra = [(''ProjectionExpression'', KwVal (PStr ''PK, SK''))]\<rparr>))
       (\<lambda>response. io_bind (bind_index_items sv table now ttl role_arn (pi_items response) matches)
          (\<lambda>matches. bind_roles sv table now ttl rest matches))"

definition unique_binding :: "(string \<times> tenant_binding) list \<Rightarrow> tenant_binding option" where
  "unique_binding matches = (case matches of [(_, b)] \<Rightarrow> Some b | _ \<Rightarrow> None)"

definition resolve_sigv4_tenant_binding ::
  "'w aws \<Rightarrow> (string list \<Rightarrow> string list) \<Rightarrow> string option \<Rightarrow> int \<Rightarrow> rat \<Rightarrow> string \<Rightarrow>
     (binding_cache \<times> 'w, tenant_binding option) io" where
  "resolve_sigv4_tenant_binding sv so tenants_table ttl now caller_arn s =
     (case tenants_table of
        None \<Rightarrow> (Inr None, s)
      | Some table \<Rightarrow>
          if table = [] then (Inr None, s)
          else
            (let arns = so (sigv4_caller_role_arns caller_arn) in
             case cached_binding now arns (fst s) of
               (Some b, cache) \<Rightarrow> (Inr (Some b), (cache, snd s))
             | (None, cache) \<Rightarrow>
                 io_catch
                   (io_bind (bind_roles sv table now ttl arns []) (\<lambda>matches. io_return (unique_binding matches)))
                   (\<lambda>_. io_return None) (cache, snd s)))"

end
