(* ===== verification/GatewayRequest.thy ===== *)
theory GatewayRequest
  imports Json Capability DataAccess
begin

text \<open>
  The REQUEST interceptor of \<open>gateway/interceptors\<close>: reading the gateway's event
  (\<open>request_adapter\<close>), the tool policy (\<open>request_tools\<close>, \<open>request_tier\<close>), the scoped token (\<open>request_token\<close>), the
  pipeline (\<open>request_pipeline\<close>), the idempotency key and the entry point (\<open>request_interceptor\<close>).
  The JWT library, DynamoDB, the secret store, the capability policy and the idempotency wrapper are parameters.
\<close>

section \<open>Reading the event\<close>

fun gw_get_header :: "(string \<times> string) list \<Rightarrow> string \<Rightarrow> string option" where
  "gw_get_header [] key = None"
| "gw_get_header ((k, v) # hs) key = (if py_lower k = py_lower key then Some v else gw_get_header hs key)"

definition normalized_headers :: "pyval \<Rightarrow> (string \<times> string) list" where
  "normalized_headers headers =
     (case as_dict headers of None \<Rightarrow> [] | Some d \<Rightarrow> map (\<lambda>(k, v). (k, py_str v)) d)"

definition parse_body :: "pyval \<Rightarrow> pydict" where
  "parse_body body =
     (case body of
        PDict d \<Rightarrow> d
      | PStr s \<Rightarrow> (case json_loads s of Inl e \<Rightarrow> [] | Inr v \<Rightarrow> dict_or_empty v)
      | _ \<Rightarrow> [])"

definition header_dict :: "(string \<times> string) list \<Rightarrow> pyval" where
  "header_dict hs = PDict (map (\<lambda>(k, v). (k, PStr v)) hs)"

definition build_interceptor_response :: "pydict \<Rightarrow> pydict option \<Rightarrow> pydict" where
  "build_interceptor_response req resp =
     [(''interceptorOutputVersion'', PStr ''1.0''),
      (''mcp'', PDict ((''transformedGatewayRequest'', PDict req) #
         (case resp of None \<Rightarrow> [] | Some r \<Rightarrow> [(''transformedGatewayResponse'', PDict r)])))]"

definition error_response :: "pydict \<Rightarrow> pyval \<Rightarrow> int \<Rightarrow> int \<Rightarrow> string \<Rightarrow> pydict" where
  "error_response gateway_request request_id status_code code message =
     build_interceptor_response
       [(''body'', PDict (parse_body (dget gateway_request ''body''))),
        (''headers'', header_dict (normalized_headers (dget_or gateway_request ''headers'' (PDict []))))]
       (Some [(''statusCode'', PInt status_code),
              (''body'', PDict [(''jsonrpc'', PStr ''2.0''), (''id'', request_id),
                 (''error'', PDict [(''code'', PInt code), (''message'', PStr message)])])])"

text \<open>What an answer of the interceptor says: pass the request on, or answer in its place.\<close>

definition out_mcp :: "pydict \<Rightarrow> pydict" where
  "out_mcp out = dict_or_empty (dget out ''mcp'')"

definition is_forward :: "pydict \<Rightarrow> bool" where
  "is_forward out \<longleftrightarrow> dict_get (out_mcp out) ''transformedGatewayResponse'' = None"

definition out_headers :: "pydict \<Rightarrow> pydict" where
  "out_headers out =
     dict_or_empty (dget (dict_or_empty (dget (out_mcp out) ''transformedGatewayRequest'')) ''headers'')"

section \<open>Tools\<close>

definition extract_tool_name :: "string \<Rightarrow> pydict \<Rightarrow> string option" where
  "extract_tool_name meth body =
     (if meth \<noteq> ''tools/call'' then None
      else (case as_dict (dget_or body ''params'' (PDict [])) of
              None \<Rightarrow> None
            | Some params \<Rightarrow>
                (let name = py_or (dget params ''name'') (dget params ''toolName'') in
                 if truthy name then Some (py_str name) else None)))"

text \<open>
  A record of the tenant or, failing that, the global one is the authority; it counts only when enabled.
\<close>

fun first_record ::
  "'w aws \<Rightarrow> string \<Rightarrow> string \<Rightarrow> string list \<Rightarrow> ('w, pydict option) io" where
  "first_record sv table tool_name [] = io_return None"
| "first_record sv table tool_name (sk # sks) =
     io_bind (cp_get_item sv table [(''PK'', PStr (''TOOL#'' @ tool_name)), (''SK'', PStr sk)]
                [(''ConsistentRead'', KwVal (PBool True))])
       (\<lambda>item. case item of
           None \<Rightarrow> first_record sv table tool_name sks
         | Some it \<Rightarrow> if it = [] then first_record sv table tool_name sks else io_return (Some it))"

definition record_enabled :: "pydict \<Rightarrow> bool" where
  "record_enabled r = truthy (dget_or r ''enabled'' (PBool False))"

definition get_tool_record :: "'w aws \<Rightarrow> string \<Rightarrow> string \<Rightarrow> string \<Rightarrow> ('w, pydict option) io" where
  "get_tool_record sv table tool_name tenant_id =
     io_bind (first_record sv table tool_name [''TENANT#'' @ tenant_id, ''GLOBAL''])
       (\<lambda>item. io_return (case item of None \<Rightarrow> None | Some it \<Rightarrow> if record_enabled it then Some it else None))"

text \<open>The older lookup of \<open>request_tier\<close>, no longer called: a disabled record of the tenant falls through.\<close>

fun first_enabled ::
  "'w aws \<Rightarrow> string \<Rightarrow> string \<Rightarrow> string list \<Rightarrow> ('w, pydict option) io" where
  "first_enabled sv table tool_name [] = io_return None"
| "first_enabled sv table tool_name (sk # sks) =
     io_bind (cp_get_item sv table [(''PK'', PStr (''TOOL#'' @ tool_name)), (''SK'', PStr sk)]
                [(''ConsistentRead'', KwVal (PBool True))])
       (\<lambda>item. case item of
           None \<Rightarrow> first_enabled sv table tool_name sks
         | Some it \<Rightarrow> if it \<noteq> [] \<and> record_enabled it then io_return (Some it)
                      else first_enabled sv table tool_name sks)"

definition tier_get_tool_record :: "'w aws \<Rightarrow> string \<Rightarrow> string \<Rightarrow> string \<Rightarrow> ('w, pydict option) io" where
  "tier_get_tool_record sv table tool_name tenant_id =
     first_enabled sv table tool_name [''TENANT#'' @ tenant_id, ''GLOBAL'']"

definition tier_order :: "(string \<times> int) list" where
  "tier_order = [(''basic'', 0), (''standard'', 1), (''premium'', 2)]"

definition rank_or :: "int \<Rightarrow> string \<Rightarrow> int" where
  "rank_or d t = (case map_of tier_order t of None \<Rightarrow> d | Some n \<Rightarrow> n)"

definition is_tier_allowed :: "string \<Rightarrow> string \<Rightarrow> bool" where
  "is_tier_allowed tenant_tier minimum_tier \<longleftrightarrow> rank_or (-1) tenant_tier \<ge> rank_or 100 minimum_tier"

definition extract_minimum_tier :: "pydict \<Rightarrow> string" where
  "extract_minimum_tier r =
     (let minimum = dget r ''tierMinimum'';
          minimum = (if minimum = PNone then dget r ''tier_minimum'' else minimum)
      in if minimum = PNone then ''basic'' else py_str minimum)"

text \<open>\<open>get_capability_policy()\<close> is the argument \<open>policy\<close>; \<open>None\<close> when AppConfig is not configured.\<close>

definition validate_tool_access ::
  "'w aws \<Rightarrow> digest \<Rightarrow> string \<Rightarrow> ('w, capability_policy option) io \<Rightarrow> string \<Rightarrow> pydict \<Rightarrow> pydict \<Rightarrow> pyval \<Rightarrow>
     string \<Rightarrow> string \<Rightarrow> ('w, string option \<times> pydict option) io" where
  "validate_tool_access sv sha256 table policy meth body gateway_request request_id tenant_id tier =
     (if meth \<noteq> ''tools/call'' then io_return (extract_tool_name meth body, None)
      else
        (case extract_tool_name meth body of
           None \<Rightarrow> io_return (None, Some (error_response gateway_request request_id 400 (-32600)
                     ''tools/call missing params.name''))
         | Some tool_name \<Rightarrow>
             io_bind
               (io_catch (io_bind (get_tool_record sv table tool_name tenant_id) (\<lambda>r. io_return (Some r)))
                  (\<lambda>_. io_return None))
               (\<lambda>found. case found of
                   None \<Rightarrow> io_return (Some tool_name, Some (error_response gateway_request request_id 500 (-32603)
                       ''Failed to resolve tool policy''))
                 | Some None \<Rightarrow> io_return (Some tool_name, Some (error_response gateway_request request_id 403 (-32003)
                       ''Tool is unavailable for this tenant''))
                 | Some (Some tool_record) \<Rightarrow>
                     io_bind policy (\<lambda>cp.
                       if (case cp of None \<Rightarrow> False
                           | Some p \<Rightarrow> \<not> is_enabled sha256 p (''tools.'' @ tool_name) tenant_id tier)
                       then io_return (Some tool_name, Some (error_response gateway_request request_id 403 (-32003)
                              ([CHR ''T'', CHR ''o'', CHR ''o'', CHR ''l'', CHR '' '', CHR 0x27] @ tool_name
                               @ CHR 0x27 # '' is not enabled for this tenant'')))
                       else if \<not> is_tier_allowed tier (extract_minimum_tier tool_record)
                       then io_return (Some tool_name, Some (error_response gateway_request request_id 403 (-32003)
                              ''Tenant tier is insufficient for this tool''))
                       else io_return (Some tool_name, None)))))"

section \<open>The scoped token\<close>

definition scoped_token_ttl_seconds :: "environ \<Rightarrow> int" where
  "scoped_token_ttl_seconds env =
     (case env ''SCOPED_TOKEN_TTL_SECONDS'' of
        None \<Rightarrow> 300
      | Some raw_value \<Rightarrow>
          (case coerce_positive_int (PStr raw_value) 300 of
             Inl e \<Rightarrow> 300
           | Inr parsed \<Rightarrow> if show_int parsed \<noteq> py_strip raw_value then 300 else parsed))"

text \<open>The older parser of \<open>request_token\<close>, which clamps instead of refusing.\<close>

definition token_scoped_token_ttl_seconds :: "string option \<Rightarrow> int" where
  "token_scoped_token_ttl_seconds v =
     (let raw_value = (case v of None \<Rightarrow> ''300'' | Some s \<Rightarrow> if s = [] then ''300'' else s) in
      case parse_int raw_value of None \<Rightarrow> 300 | Some ttl \<Rightarrow> max 1 ttl)"

text \<open>
  The signing key with its five-minute cache. The cache is the state next to the world; the secret store
  and the hash of the local fallback are parameters.
\<close>

type_synonym key_cache = "string option \<times> rat"

definition fallback_signing_key :: "(string \<Rightarrow> string) \<Rightarrow> environ \<Rightarrow> string" where
  "fallback_signing_key sha_hex env =
     sha_hex (str_join ''|'' [env_or env ''AWS_LAMBDA_FUNCTION_NAME'' ''gateway-request-interceptor'',
                              env_or env ''AWS_REGION'' [], env_or env ''SCOPED_TOKEN_ISSUER'' ''platform-gateway''])"

definition get_scoped_token_signing_key ::
  "(string \<Rightarrow> ('w, pyval) io) \<Rightarrow> (string \<Rightarrow> string) \<Rightarrow> environ \<Rightarrow> rat \<Rightarrow> (key_cache \<times> 'w, string) io" where
  "get_scoped_token_signing_key get_secret sha_hex env now s =
     (let platform_env = env_or env ''PLATFORM_ENV'' ''prod'';
          finish = (\<lambda>s. if platform_env \<noteq> ''local''
             then (Inl (RuntimeErr ''SCOPED_TOKEN_SIGNING_KEY must be configured in production''), s)
             else (Inr (fallback_signing_key sha_hex env), s))
      in case (env_set env ''SCOPED_TOKEN_SIGNING_KEY'', platform_env = ''local'') of
           (Some explicit, True) \<Rightarrow> (Inr explicit, s)
         | _ \<Rightarrow>
           (case env_set env ''SCOPED_TOKEN_SIGNING_KEY_SECRET_ARN'' of
              None \<Rightarrow> finish s
            | Some arn \<Rightarrow>
                (case fst s of
                   (cached, expiry) \<Rightarrow>
                     (if (case cached of None \<Rightarrow> False | Some k \<Rightarrow> k \<noteq> []) \<and> now < expiry
                      then (Inr (the cached), s)
                      else (case get_secret arn (snd s) of
                              (Inr (PStr v), w) \<Rightarrow>
                                if v \<noteq> [] then (Inr v, ((Some v, now + 300), w)) else finish (fst s, w)
                            | (_, w) \<Rightarrow> finish (fst s, w))))))"

definition scoped_claims ::
  "string \<Rightarrow> int \<Rightarrow> int \<Rightarrow> string \<Rightarrow> string \<Rightarrow> string \<Rightarrow> string \<Rightarrow> string \<Rightarrow> string \<Rightarrow> string option \<Rightarrow> pyval \<Rightarrow> pydict" where
  "scoped_claims issuer now ttl jti tenant_id app_id tier acting_sub scope_tool session_id request_id =
     [(''iss'', PStr issuer), (''aud'', PStr (''tool:'' @ scope_tool)), (''iat'', PInt now), (''exp'', PInt (now + ttl)),
      (''jti'', PStr jti), (''tenantid'', PStr tenant_id), (''appid'', PStr app_id), (''tier'', PStr tier),
      (''acting_sub'', PStr acting_sub), (''scope_tool'', PStr scope_tool),
      (''mcp_session_id'', (case session_id of None \<Rightarrow> PNone | Some i \<Rightarrow> PStr i)),
      (''mcp_request_id'', PStr (py_str request_id))]"

section \<open>The pipeline\<close>

text \<open>
  What the interceptor uses of its surroundings: \<open>gw_encode claims key\<close> is \<open>jwt.encode\<close>, \<open>gw_uuid\<close> a fresh
  identifier, \<open>gw_idempotent key body\<close> the idempotency wrapper.
\<close>

record ('w, 'k) gateway =
  gw_aws :: "'w aws"
  gw_jwt :: "('w, 'k) jwt_lib"
  gw_env :: environ
  gw_has_jwk :: bool
  gw_policy :: "('w, capability_policy option) io"
  gw_sha :: digest
  gw_get_secret :: "string \<Rightarrow> ('w, pyval) io"
  gw_sha_hex :: "string \<Rightarrow> string"
  gw_encode :: "pydict \<Rightarrow> string \<Rightarrow> string"
  gw_uuid :: string
  gw_now :: rat
  gw_idempotent :: "string \<Rightarrow> (key_cache \<times> 'w, pydict) io \<Rightarrow> (key_cache \<times> 'w, pydict) io"

definition validate_bearer_token :: "('w, 'k) gateway \<Rightarrow> string \<Rightarrow> ('w, pydict option) io" where
  "validate_bearer_token g token =
     (case (env_set (gw_env g) ''ENTRA_AUDIENCE'', env_set (gw_env g) ''ENTRA_ISSUER'') of
        (Some audience, Some issuer) \<Rightarrow>
          if \<not> gw_has_jwk g then io_return None
          else io_bind (jl_signing_key (gw_jwt g) token) (\<lambda>key.
               io_bind (jl_decode (gw_jwt g) token key (Some audience) (Some issuer)) (\<lambda>payload.
               io_return (Some payload)))
      | _ \<Rightarrow> io_return None)"

definition issue_scoped_token ::
  "('w, 'k) gateway \<Rightarrow> string \<Rightarrow> string \<Rightarrow> string \<Rightarrow> string \<Rightarrow> string \<Rightarrow> string option \<Rightarrow> pyval \<Rightarrow>
     (key_cache \<times> 'w, string) io" where
  "issue_scoped_token g tenant_id app_id tier acting_sub scope_tool session_id request_id =
     io_bind (get_scoped_token_signing_key (gw_get_secret g) (gw_sha_hex g) (gw_env g) (gw_now g)) (\<lambda>key.
       io_return (gw_encode g
         (scoped_claims (env_or (gw_env g) ''SCOPED_TOKEN_ISSUER'' ''platform-gateway'') (trunc_rat (gw_now g))
            (scoped_token_ttl_seconds (gw_env g)) (gw_uuid g) tenant_id app_id tier acting_sub scope_tool
            session_id request_id) key))"

definition platform_diagnostics_tools :: "string list" where
  "platform_diagnostics_tools =
     [''get_platform_health'', ''get_tenant_status'', ''get_recent_errors'', ''get_runbook_guidance'']"

definition platform_diagnostics_roles :: "string list" where
  "platform_diagnostics_roles = [''Platform.Admin'', ''Platform.Operator'']"

definition roles_from_payload :: "pydict \<Rightarrow> string list" where
  "roles_from_payload payload =
     (case dget_or payload ''roles'' (PList []) of
        PStr r \<Rightarrow> [r]
      | PList rs \<Rightarrow> map py_str rs
      | _ \<Rightarrow> [])"

definition effective_tenant_id :: "string \<Rightarrow> string option \<Rightarrow> string list \<Rightarrow> string" where
  "effective_tenant_id tenant_id tool_name roles =
     (if (case tool_name of None \<Rightarrow> False | Some n \<Rightarrow> n \<in> set platform_diagnostics_tools)
         \<and> (\<exists>r \<in> set roles. r \<in> set platform_diagnostics_roles)
      then ''platform'' else tenant_id)"

definition safe_header_value :: "string \<Rightarrow> string \<Rightarrow> string res" where
  "safe_header_value name val =
     (if CHR 0x0D \<in> set val \<or> CHR 0x0A \<in> set val
      then Inl (ValueError (''Invalid newline in injected header '' @ name)) else Inr val)"

definition injected_headers :: "string \<Rightarrow> string \<Rightarrow> string \<Rightarrow> string \<Rightarrow> string \<Rightarrow> (string \<times> string) list res" where
  "injected_headers token tenant_id app_id tier acting_sub =
     bind_res (safe_header_value ''Authorization'' token) (\<lambda>a.
     bind_res (safe_header_value ''x-tenant-id'' tenant_id) (\<lambda>b.
     bind_res (safe_header_value ''x-app-id'' app_id) (\<lambda>c.
     bind_res (safe_header_value ''x-tier'' tier) (\<lambda>d.
     bind_res (safe_header_value ''x-acting-sub'' acting_sub) (\<lambda>e.
     Inr [(''Authorization'', ''Bearer '' @ a), (''x-tenant-id'', b), (''x-app-id'', c), (''x-tier'', d),
          (''x-acting-sub'', e)])))))"

definition transformed_headers :: "(string \<times> string) list \<Rightarrow> (string \<times> string) list \<Rightarrow> (string \<times> string) list" where
  "transformed_headers request_headers injected =
     dupdate (filter (\<lambda>(k, v). py_lower k \<noteq> ''authorization'') request_headers) injected"

definition event_gateway_request :: "pydict \<Rightarrow> pydict" where
  "event_gateway_request event =
     dict_or_empty (dget_or (dict_or_empty (dget_or event ''mcp'' (PDict []))) ''gatewayRequest'' (PDict []))"

text \<open>Everything after the token has been verified.\<close>

definition authorise_request ::
  "('w, 'k) gateway \<Rightarrow> pydict \<Rightarrow> pydict \<Rightarrow> (key_cache \<times> 'w, pydict) io" where
  "authorise_request g gateway_request payload =
     (let request_body = parse_body (dget gateway_request ''body'');
          request_headers = normalized_headers (dget_or gateway_request ''headers'' (PDict []));
          jsonrpc_id = dget request_body ''id'';
          tenant_id = py_str (py_or (dget payload ''tenantid'') (PStr []));
          app_id = py_str (py_or (dget payload ''appid'') (PStr []));
          tier = py_str (py_or (dget payload ''tier'') (PStr ''basic''));
          acting_sub = py_str (py_or (dget payload ''sub'') (PStr ''unknown''));
          refuse = (\<lambda>message. io_return (error_response gateway_request jsonrpc_id 401 (-32001) message))
      in if tenant_id = [] \<or> app_id = [] then refuse ''Missing tenant context in token''
         else
          (let meth = py_str (py_or (dget request_body ''method'') (PStr []));
               effective = effective_tenant_id tenant_id (extract_tool_name meth request_body)
                             (roles_from_payload payload)
           in io_bind (on_world (validate_tool_access (gw_aws g) (gw_sha g)
                         (env_or (gw_env g) ''TOOLS_TABLE'' ''platform-tools'') (gw_policy g)
                         meth request_body gateway_request jsonrpc_id effective tier))
                (\<lambda>(tool_name, tool_error). case tool_error of
                    Some err \<Rightarrow> io_return err
                  | None \<Rightarrow>
                      io_bind (issue_scoped_token g effective app_id tier acting_sub
                                 (case tool_name of None \<Rightarrow> meth | Some n \<Rightarrow> if n = [] then meth else n)
                                 (gw_get_header request_headers ''Mcp-Session-Id'') jsonrpc_id)
                        (\<lambda>scoped_token.
                           case injected_headers scoped_token effective app_id tier acting_sub of
                             Inl e \<Rightarrow> refuse ''Invalid tenant context in token''
                           | Inr injected \<Rightarrow>
                               io_return (build_interceptor_response
                                 (dset ''body'' (PDict request_body)
                                   (dset ''headers'' (header_dict (transformed_headers request_headers injected))
                                     gateway_request))
                                 None)))))"

definition process_request :: "('w, 'k) gateway \<Rightarrow> pydict \<Rightarrow> (key_cache \<times> 'w, pydict) io" where
  "process_request g event =
     (let gateway_request = event_gateway_request event;
          jsonrpc_id = dget (parse_body (dget gateway_request ''body'')) ''id'';
          request_headers = normalized_headers (dget_or gateway_request ''headers'' (PDict []));
          refuse = (\<lambda>message. io_return (error_response gateway_request jsonrpc_id 401 (-32001) message))
      in case gw_get_header request_headers ''Authorization'' of
           None \<Rightarrow> refuse ''Missing or invalid Bearer token''
         | Some authorization \<Rightarrow>
             if \<not> starts_with authorization ''Bearer '' then refuse ''Missing or invalid Bearer token''
             else
               io_bind
                 (io_catch
                    (io_bind (on_world (validate_bearer_token g (split_max (CHR '' '') 1 authorization ! 1)))
                       (\<lambda>p. io_return (case p of Some payload \<Rightarrow> Inr payload
                                        | None \<Rightarrow> Inl ''Bearer token validation failed'')))
                    (\<lambda>e. io_return (Inl (if e = ExternalErr ''ExpiredSignatureError'' then ''Bearer token expired''
                                          else ''Bearer token validation failed''))))
                 (\<lambda>outcome. case outcome of
                     Inl message \<Rightarrow> refuse message
                   | Inr payload \<Rightarrow> authorise_request g gateway_request payload))"

section \<open>Idempotency and the entry point\<close>

definition build_idempotency_key :: "(string \<times> string) list \<Rightarrow> pydict \<Rightarrow> string option" where
  "build_idempotency_key headers body =
     (let session_id = (case gw_get_header headers ''Mcp-Session-Id'' of None \<Rightarrow> [] | Some s \<Rightarrow> s);
          request_id = dget body ''id''
      in if session_id = [] \<or> request_id = PNone then None
         else Some (session_id @ '':'' @ py_str request_id))"

definition request_handler :: "('w, 'k) gateway \<Rightarrow> pydict \<Rightarrow> (key_cache \<times> 'w, pydict) io" where
  "request_handler g event =
     (case as_dict (dget_or event ''mcp'' (PDict [])) of
        None \<Rightarrow> io_return (error_response [] PNone 400 (-32600) ''Invalid interceptor input'')
      | Some mcp \<Rightarrow>
          (case as_dict (dget_or mcp ''gatewayRequest'' (PDict [])) of
             None \<Rightarrow> io_return (error_response [] PNone 400 (-32600) ''Invalid gateway request'')
           | Some gateway_request \<Rightarrow>
               (let request_body = parse_body (dget gateway_request ''body'');
                    request_headers = normalized_headers (dget_or gateway_request ''headers'' (PDict []))
                in case (env_set (gw_env g) ''IDEMPOTENCY_TABLE'', build_idempotency_key request_headers request_body) of
                     (Some table, Some key) \<Rightarrow> gw_idempotent g key (process_request g event)
                   | _ \<Rightarrow> process_request g event)))"

section \<open>What a forwarded request is\<close>

lemma dict_get_Cons: "dict_get ((k, v) # d) k' = (if k' = k then Some v else dict_get d k')"
  by (simp add: dict_get_def)

lemma dget_or_Cons': "dget_or ((k, v) # d) k' x = (if k' = k then v else dget_or d k' x)"
  by (simp add: dget_or_def)

lemma dget_dset: "dget_or (dset k v d) k' x = (if k' = k then v else dget_or d k' x)"
  by (simp add: dget_or_def)

lemma dict_or_empty_PDict [simp]: "dict_or_empty (PDict d) = d"
  by (simp add: dict_or_empty_def)

lemma out_mcp_build:
  "out_mcp (build_interceptor_response req resp) = (''transformedGatewayRequest'', PDict req) #
     (case resp of None \<Rightarrow> [] | Some r \<Rightarrow> [(''transformedGatewayResponse'', PDict r)])"
  by (simp add: out_mcp_def build_interceptor_response_def dget_or_Cons')

lemma is_forward_build: "is_forward (build_interceptor_response req resp) \<longleftrightarrow> resp = None"
  by (cases resp) (simp_all add: is_forward_def out_mcp_build dict_get_Cons, simp_all add: dict_get_def)

lemma error_response_not_forward [simp]: "\<not> is_forward (error_response gr i st c m)"
  by (simp add: error_response_def is_forward_build)

lemma out_headers_build:
  "out_headers (build_interceptor_response (dset ''body'' b (dset ''headers'' (header_dict hs) gr)) None)
     = map (\<lambda>(k, v). (k, PStr v)) hs"
  by (simp add: out_headers_def out_mcp_build dget_or_Cons' dget_dset header_dict_def)

text \<open>The claims as the interceptor reads them.\<close>

definition claim_text :: "pydict \<Rightarrow> string \<Rightarrow> string \<Rightarrow> string" where
  "claim_text payload k d = py_str (py_or (dget payload k) (PStr d))"

definition request_body_of :: "pydict \<Rightarrow> pydict" where
  "request_body_of gr = parse_body (dget gr ''body'')"

definition request_method :: "pydict \<Rightarrow> string" where
  "request_method gr = py_str (py_or (dget (request_body_of gr) ''method'') (PStr []))"

definition acting_tenant :: "pydict \<Rightarrow> pydict \<Rightarrow> string" where
  "acting_tenant gr payload =
     effective_tenant_id (claim_text payload ''tenantid'' [])
       (extract_tool_name (request_method gr) (request_body_of gr)) (roles_from_payload payload)"

definition request_headers_of :: "pydict \<Rightarrow> (string \<times> string) list" where
  "request_headers_of gr = normalized_headers (dget_or gr ''headers'' (PDict []))"

text \<open>The two ends of the tool check.\<close>

definition tool_admitted ::
  "'w aws \<Rightarrow> digest \<Rightarrow> string \<Rightarrow> ('w, capability_policy option) io \<Rightarrow> string \<Rightarrow> string \<Rightarrow> string \<Rightarrow> 'w \<Rightarrow> 'w \<Rightarrow> bool" where
  "tool_admitted sv sha256 table policy tool_name tenant_id tier w w' \<longleftrightarrow>
     (\<exists>rec w1 cp. get_tool_record sv table tool_name tenant_id w = (Inr (Some rec), w1)
        \<and> policy w1 = (Inr cp, w')
        \<and> (case cp of None \<Rightarrow> True | Some p \<Rightarrow> is_enabled sha256 p (''tools.'' @ tool_name) tenant_id tier)
        \<and> is_tier_allowed tier (extract_minimum_tier rec))"

lemma validate_tool_access_call:
  assumes "validate_tool_access sv sha256 table policy ''tools/call'' body gr i tenant_id tier w = (Inr (tn, te), w')"
  shows "(te = None \<and> (\<exists>n. tn = Some n \<and> extract_tool_name ''tools/call'' body = Some n
             \<and> tool_admitted sv sha256 table policy n tenant_id tier w w'))
       \<or> (\<exists>err. te = Some err \<and> \<not> is_forward err)"
proof (cases "extract_tool_name ''tools/call'' body")
  case None
  with assms show ?thesis by (auto simp: validate_tool_access_def)
next
  case (Some n)
  obtain r w1 where r: "get_tool_record sv table n tenant_id w = (r, w1)" by fastforce
  show ?thesis
  proof (cases "\<exists>rec. r = Inr (Some rec)")
    case False
    with assms Some r show ?thesis
      by (cases r) (auto simp: validate_tool_access_def io_bind_def io_catch_def)
  next
    case True
    then obtain rec where rec: "r = Inr (Some rec)" by blast
    obtain c w2 where c: "policy w1 = (c, w2)" by fastforce
    obtain cp where cp: "c = Inr cp"
      using assms Some r rec c by (cases c) (auto simp: validate_tool_access_def io_bind_def io_catch_def)
    define off where "off \<longleftrightarrow> (case cp of None \<Rightarrow> False
      | Some p \<Rightarrow> \<not> is_enabled sha256 p (''tools.'' @ n) tenant_id tier)"
    have offs: "(case cp of None \<Rightarrow> True | Some p \<Rightarrow> is_enabled sha256 p (''tools.'' @ n) tenant_id tier) \<longleftrightarrow> \<not> off"
      by (simp add: off_def split: option.split)
    from assms Some r rec c cp
    have "(tn, te, w') = (if off then (Some n, Some (error_response gr i 403 (-32003)
                              ([CHR ''T'', CHR ''o'', CHR ''o'', CHR ''l'', CHR '' '', CHR 0x27] @ n
                               @ CHR 0x27 # '' is not enabled for this tenant'')), w2)
        else if \<not> is_tier_allowed tier (extract_minimum_tier rec)
        then (Some n, Some (error_response gr i 403 (-32003) ''Tenant tier is insufficient for this tool''), w2)
        else (Some n, None, w2))"
      by (simp add: validate_tool_access_def io_bind_def io_catch_def off_def split: if_splits)
    then show ?thesis using Some r rec c cp offs by (auto simp: tool_admitted_def split: if_splits)
  qed
qed

lemma validate_tool_access_err:
  assumes "validate_tool_access sv sha256 table policy meth body gr i tenant_id tier w = (Inr (tn, Some err), w')"
  shows "\<not> is_forward err"
proof (cases "meth = ''tools/call''")
  case True
  with validate_tool_access_call assms show ?thesis by fastforce
qed (use assms in \<open>simp add: validate_tool_access_def\<close>)

lemma authorise_forward:
  fixes g :: "('w, 'k) gateway"
  assumes "authorise_request g gr payload s = (Inr out, s')" and "is_forward out"
  shows "\<exists>tn s1 token injected.
      claim_text payload ''tenantid'' [] \<noteq> [] \<and> claim_text payload ''appid'' [] \<noteq> []
    \<and> on_world (validate_tool_access (gw_aws g) (gw_sha g)
                  (env_or (gw_env g) ''TOOLS_TABLE'' ''platform-tools'') (gw_policy g)
                  (request_method gr) (request_body_of gr) gr (dget (request_body_of gr) ''id'')
                  (acting_tenant gr payload) (claim_text payload ''tier'' ''basic'')) s = (Inr (tn, None), s1)
    \<and> issue_scoped_token g (acting_tenant gr payload) (claim_text payload ''appid'' [])
         (claim_text payload ''tier'' ''basic'') (claim_text payload ''sub'' ''unknown'')
         (case tn of None \<Rightarrow> request_method gr | Some n \<Rightarrow> if n = [] then request_method gr else n)
         (gw_get_header (request_headers_of gr) ''Mcp-Session-Id'') (dget (request_body_of gr) ''id'') s1
       = (Inr token, s')
    \<and> injected_headers token (acting_tenant gr payload) (claim_text payload ''appid'' [])
         (claim_text payload ''tier'' ''basic'') (claim_text payload ''sub'' ''unknown'') = Inr injected
    \<and> out_headers out = map (\<lambda>(k, v). (k, PStr v)) (transformed_headers (request_headers_of gr) injected)"
proof -
  define v :: "(key_cache \<times> 'w, string option \<times> pydict option) io" where "v = on_world (validate_tool_access (gw_aws g) (gw_sha g)
                  (env_or (gw_env g) ''TOOLS_TABLE'' ''platform-tools'') (gw_policy g)
                  (request_method gr) (request_body_of gr) gr (dget (request_body_of gr) ''id'')
                  (acting_tenant gr payload) (claim_text payload ''tier'' ''basic''))"
  define iss where "iss = (\<lambda>tn. issue_scoped_token g (acting_tenant gr payload) (claim_text payload ''appid'' [])
         (claim_text payload ''tier'' ''basic'') (claim_text payload ''sub'' ''unknown'')
         (case tn of None \<Rightarrow> request_method gr | Some n \<Rightarrow> if n = [] then request_method gr else n)
         (gw_get_header (request_headers_of gr) ''Mcp-Session-Id'') (dget (request_body_of gr) ''id''))"
  define inj where "inj = (\<lambda>token. injected_headers token (acting_tenant gr payload) (claim_text payload ''appid'' [])
         (claim_text payload ''tier'' ''basic'') (claim_text payload ''sub'' ''unknown''))"
  define err where "err = (\<lambda>m. error_response gr (dget (request_body_of gr) ''id'') 401 (-32001) m)"
  define fwd where "fwd = (\<lambda>injected. build_interceptor_response
                  (dset ''body'' (PDict (request_body_of gr))
                    (dset ''headers'' (header_dict (transformed_headers (request_headers_of gr) injected)) gr)) None)"
  have "authorise_request g gr payload =
      (if claim_text payload ''tenantid'' [] = [] \<or> claim_text payload ''appid'' [] = []
       then io_return (err ''Missing tenant context in token'')
       else io_bind v (\<lambda>(tn, tool_error). case tool_error of Some err \<Rightarrow> io_return err
          | None \<Rightarrow> io_bind (iss tn) (\<lambda>token. case inj token of
                Inl e \<Rightarrow> io_return (err ''Invalid tenant context in token'')
              | Inr injected \<Rightarrow> io_return (fwd injected))))"
    unfolding authorise_request_def Let_def claim_text_def request_body_of_def request_method_def
      acting_tenant_def request_headers_of_def v_def iss_def inj_def err_def fwd_def by (rule refl)
  with assms(1) have run: "(if claim_text payload ''tenantid'' [] = [] \<or> claim_text payload ''appid'' [] = []
       then io_return (err ''Missing tenant context in token'')
       else io_bind v (\<lambda>(tn, tool_error). case tool_error of Some err \<Rightarrow> io_return err
          | None \<Rightarrow> io_bind (iss tn) (\<lambda>token. case inj token of
                Inl e \<Rightarrow> io_return (err ''Invalid tenant context in token'')
              | Inr injected \<Rightarrow> io_return (fwd injected)))) s = (Inr out, s')" by simp
  have nerr: "out \<noteq> err m" for m using assms(2) by (auto simp: err_def)
  have ids: "claim_text payload ''tenantid'' [] \<noteq> []" "claim_text payload ''appid'' [] \<noteq> []"
    using run nerr by (auto split: if_splits)
  obtain r s1 where v: "v s = (r, s1)" by (metis surj_pair)
  obtain tn te where r: "r = Inr (tn, te)"
    using run ids v by (cases r) (auto simp: io_bind_def)
  have te: "te = None"
  proof (rule ccontr)
    assume "te \<noteq> None"
    then obtain e where te: "te = Some e" by blast
    with run ids v r have "out = e" by (simp add: io_bind_def)
    moreover have "\<not> is_forward e"
      using v r te validate_tool_access_err by (fastforce simp: v_def on_world_def split: prod.splits)
    ultimately show False using assms(2) by simp
  qed
  obtain tk s2 where i: "iss tn s1 = (tk, s2)" by (metis surj_pair)
  obtain token where tk: "tk = Inr token"
    using run ids v r te i by (cases tk) (auto simp: io_bind_def)
  obtain injected where inj: "inj token = Inr injected"
    using run ids v r te i tk nerr by (cases "inj token") (auto simp: io_bind_def)
  from run ids v r te i tk inj have "s' = s2" and out: "out = fwd injected"
    by (simp_all add: io_bind_def)
  have "out_headers out = map (\<lambda>(k, v). (k, PStr v)) (transformed_headers (request_headers_of gr) injected)"
    by (simp add: out fwd_def out_headers_build)
  with ids v[unfolded r te v_def] i[unfolded tk iss_def] inj[unfolded inj_def] \<open>s' = s2\<close> show ?thesis
    by blast
qed

lemma process_forward:
  assumes "process_request g event s = (Inr out, s')" and "is_forward out"
  shows "\<exists>auth payload s1.
      gw_get_header (request_headers_of (event_gateway_request event)) ''Authorization'' = Some auth
    \<and> starts_with auth ''Bearer ''
    \<and> on_world (validate_bearer_token g (split_max (CHR '' '') 1 auth ! 1)) s = (Inr (Some payload), s1)
    \<and> authorise_request g (event_gateway_request event) payload s1 = (Inr out, s')"
proof -
  let ?gr = "event_gateway_request event"
  let ?err = "\<lambda>m. error_response ?gr (dget (request_body_of ?gr) ''id'') 401 (-32001) m"
  have nerr: "out \<noteq> ?err m" for m using assms(2) by auto
  obtain auth where a: "gw_get_header (request_headers_of ?gr) ''Authorization'' = Some auth"
    using assms(1) nerr by (cases "gw_get_header (request_headers_of ?gr) ''Authorization''")
      (auto simp: process_request_def Let_def request_headers_of_def request_body_of_def)
  have b: "starts_with auth ''Bearer ''"
    using assms(1) nerr a by (auto simp: process_request_def Let_def request_headers_of_def request_body_of_def
        split: if_splits)
  obtain r s1 where v: "on_world (validate_bearer_token g (split_max (CHR '' '') 1 auth ! 1)) s = (r, s1)"
    by (metis surj_pair)
  obtain payload where p: "r = Inr (Some payload)"
  proof (cases r)
    case (Inl e)
    with assms(1) nerr a b v show ?thesis
      by (auto simp: process_request_def Let_def request_headers_of_def request_body_of_def io_bind_def io_catch_def
          simp del: split_paired_Ex split: if_splits)
  next
    case (Inr q)
    with assms(1) nerr a b v that show ?thesis
      by (cases q) (auto simp: process_request_def Let_def request_headers_of_def request_body_of_def
          io_bind_def io_catch_def)
  qed
  from assms(1) a b v p have "authorise_request g ?gr payload s1 = (Inr out, s')"
    by (simp add: process_request_def Let_def request_headers_of_def request_body_of_def
          io_bind_def io_catch_def)
  with a b v p show ?thesis by blast
qed

lemma injected_headers_eq:
  "injected_headers token t a ti su = Inr ih \<Longrightarrow>
     ih = [(''Authorization'', ''Bearer '' @ token), (''x-tenant-id'', t), (''x-app-id'', a), (''x-tier'', ti),
            (''x-acting-sub'', su)]
   \<and> (\<forall>c \<in> set (token @ t @ a @ ti @ su). c \<noteq> CHR 0x0D \<and> c \<noteq> CHR 0x0A)"
  by (auto simp: injected_headers_def safe_header_value_def bind_res_eq_Inr split: if_splits)

lemma map_of_dupdate_distinct:
  "distinct (map fst e) \<Longrightarrow> map_of (dupdate d e) k = (case map_of e k of Some v \<Rightarrow> Some v | None \<Rightarrow> map_of d k)"
proof (induction d e rule: dupdate.induct)
  case (2 d k' v e)
  have IH: "map_of (dupdate (dset k' v d) e) k
      = (case map_of e k of Some v \<Rightarrow> Some v | None \<Rightarrow> map_of (dset k' v d) k)" using 2 by simp
  show ?case
  proof (cases "k = k'")
    case True
    with "2.prems" have "map_of e k = None" by (simp add: map_of_eq_None_iff)
    with True IH show ?thesis by simp
  next
    case False
    with IH show ?thesis by (simp split: option.split)
  qed
qed simp

lemma transformed_headers_get:
  "distinct (map fst ih) \<Longrightarrow> map_of (transformed_headers hs ih) k =
     (case map_of ih k of Some v \<Rightarrow> Some v
      | None \<Rightarrow> map_of (filter (\<lambda>(k, v). py_lower k \<noteq> ''authorization'') hs) k)"
  by (simp add: transformed_headers_def map_of_dupdate_distinct)

lemma transformed_headers_auth:
  assumes "(k, x) \<in> set (transformed_headers hs [(''Authorization'', v), (''x-tenant-id'', t), (''x-app-id'', a),
      (''x-tier'', ti), (''x-acting-sub'', su)])" and "py_lower k = ''authorization''"
  shows "k = ''Authorization'' \<and> x = v"
proof -
  have low: "py_lower ''x-tenant-id'' \<noteq> ''authorization''" "py_lower ''x-app-id'' \<noteq> ''authorization''"
    "py_lower ''x-tier'' \<noteq> ''authorization''" "py_lower ''x-acting-sub'' \<noteq> ''authorization''"
    by code_simp+
  with assms show ?thesis by (auto simp: transformed_headers_def dest!: in_dsetD)
qed

lemma dget_map_PStr:
  "dget (map (\<lambda>(k, v). (k, PStr v)) hs) k = (case map_of hs k of None \<Rightarrow> PNone | Some v \<Rightarrow> PStr v)"
  by (induction hs) (auto simp: dget_or_def)



text \<open>
  The interceptor replaces headers by their exact names only: a header of the caller whose
  name differs from an injected one in letter case, such as \<open>X-Tenant-Id\<close>, is passed on beside it with the
  caller's value.
\<close>

theorem case_variant_header_survives:
  fixes g :: "('w, 'k) gateway"
  assumes "process_request g event s = (Inr out, s')" and "is_forward out"
    and "map_of (request_headers_of (event_gateway_request event)) ''X-Tenant-Id'' = Some v"
  shows "dget (out_headers out) ''X-Tenant-Id'' = PStr v"
proof -
  let ?gr = "event_gateway_request event"
  from process_forward[OF assms(1,2)] obtain payload s1
    where run: "authorise_request g ?gr payload s1 = (Inr out, s')" by blast
  from authorise_forward[OF run assms(2)] obtain token injected where
    inj: "injected_headers token (acting_tenant ?gr payload) (claim_text payload ''appid'' [])
         (claim_text payload ''tier'' ''basic'') (claim_text payload ''sub'' ''unknown'') = Inr injected"
    and out: "out_headers out = map (\<lambda>(k, v). (k, PStr v)) (transformed_headers (request_headers_of ?gr) injected)"
    by blast
  have low: "py_lower ''X-Tenant-Id'' \<noteq> ''authorization''" by code_simp
  have filt: "map_of (filter (\<lambda>(k, v). py_lower k \<noteq> ''authorization'') hs) ''X-Tenant-Id'' = map_of hs ''X-Tenant-Id''" for hs
    using low by (induction hs) auto
  show ?thesis
    using injected_headers_eq[OF inj] assms(3) by (simp add: out dget_map_PStr transformed_headers_get filt)
qed

text \<open>
  A request acts for the platform tenant only if the token says so, or it calls one of the four
  diagnostics tools and the token holds one of the two operator roles as a whole role, not as a part of one.
\<close>

theorem platform_only_for_operators:
  assumes "acting_tenant gr payload = ''platform''"
  shows "claim_text payload ''tenantid'' [] = ''platform''
    \<or> (request_method gr = ''tools/call''
       \<and> (\<exists>tool \<in> set platform_diagnostics_tools. extract_tool_name ''tools/call'' (request_body_of gr) = Some tool)
       \<and> (\<exists>r \<in> set (roles_from_payload payload). r = ''Platform.Admin'' \<or> r = ''Platform.Operator''))"
proof (cases "claim_text payload ''tenantid'' [] = ''platform''")
  case False
  with assms obtain n where n: "extract_tool_name (request_method gr) (request_body_of gr) = Some n"
    "n \<in> set platform_diagnostics_tools"
    and r: "\<exists>r \<in> set (roles_from_payload payload). r \<in> set platform_diagnostics_roles"
    by (auto simp: acting_tenant_def effective_tenant_id_def split: if_splits option.splits)
  from n(1) have "request_method gr = ''tools/call''" by (simp add: extract_tool_name_def split: if_splits)
  with n r show ?thesis by (auto simp: platform_diagnostics_roles_def)
qed simp

section \<open>Signing keys\<close>

text \<open>
  Outside the local environment a scoped token is signed only with a key of the secret store: one
  read now, or one that a store read put into the cache less than five minutes ago. Neither the environment
  variable nor the derived fallback is ever used, and an expired key is not reused when the store fails.
\<close>

theorem production_keys_from_store:
  assumes "env_or env ''PLATFORM_ENV'' ''prod'' \<noteq> ''local''"
    and "get_scoped_token_signing_key get_secret sha_hex env now s = (Inr key, s')"
  shows "\<exists>arn. env_set env ''SCOPED_TOKEN_SIGNING_KEY_SECRET_ARN'' = Some arn \<and> key \<noteq> [] \<and>
    ((fst (fst s) = Some key \<and> now < snd (fst s) \<and> s' = s)
     \<or> (\<exists>w. get_secret arn (snd s) = (Inr (PStr key), w) \<and> s' = ((Some key, now + 300), w)))"
  using assms
  by (auto simp: get_scoped_token_signing_key_def Let_def split: option.splits prod.splits sum.splits pyval.splits if_splits)

theorem production_keys_from_store_witness:
  "\<exists>arn. env_set [''SCOPED_TOKEN_SIGNING_KEY_SECRET_ARN'' \<mapsto> ''arn''] ''SCOPED_TOKEN_SIGNING_KEY_SECRET_ARN'' = Some arn
     \<and> ''k'' \<noteq> [] \<and>
    ((None = Some ''k'' \<and> (5 :: rat) < 0 \<and> ((Some ''k'', 305), ()) = ((None, 0), ()))
     \<or> (\<exists>w. (\<lambda>a. io_return (PStr ''k'')) arn () = (Inr (PStr ''k''), w)
            \<and> ((Some ''k'', 305), ()) = ((Some ''k'', 5 + 300 :: rat), w)))"
proof -
  let ?env = "[''SCOPED_TOKEN_SIGNING_KEY_SECRET_ARN'' \<mapsto> ''arn'']"
  have e: "env_or ?env ''PLATFORM_ENV'' ''prod'' \<noteq> ''local''" by (simp add: env_or_def)
  have r: "get_scoped_token_signing_key (\<lambda>a. io_return (PStr ''k'')) id ?env 5 ((None, 0), ()) = (Inr ''k'', ((Some ''k'', 305), ()))"
    by (simp add: get_scoped_token_signing_key_def env_or_def env_set_def)
  from production_keys_from_store[OF e r] show ?thesis by simp
qed

section \<open>Replays\<close>

text \<open>What the idempotency wrapper documents: a key it has a stored result for gives that result, and the body is not run.\<close>

definition has_stored :: "('w, 'k) gateway \<Rightarrow> string \<Rightarrow> pydict \<Rightarrow> key_cache \<times> 'w \<Rightarrow> bool" where
  "has_stored g key stored s \<longleftrightarrow> (\<forall>body. gw_idempotent g key body s = (Inr stored, s))"

text \<open>
  The stored result of a request is replayed before any token is looked at: whoever sends the same session
  and request identifiers, with any token or none, is passed on with the credentials issued to the first
  caller.
\<close>

theorem replay_skips_authentication:
  assumes "env_set (gw_env g) ''IDEMPOTENCY_TABLE'' = Some table"
    and "gw_get_header headers ''Mcp-Session-Id'' = Some session" and "session \<noteq> []"
    and "dget body ''id'' \<noteq> PNone"
    and "has_stored g (session @ '':'' @ py_str (dget body ''id'')) stored s"
  shows "request_handler g [(''mcp'', PDict [(''gatewayRequest'',
            PDict [(''headers'', header_dict headers), (''body'', PDict body)])])] s = (Inr stored, s)"
proof -
  have h: "normalized_headers (header_dict headers) = headers"
    by (simp add: normalized_headers_def header_dict_def comp_def case_prod_beta)
  show ?thesis using assms
    by (simp add: request_handler_def dget_or_Cons' parse_body_def Let_def h build_idempotency_key_def has_stored_def)
qed

section \<open>A concrete gateway\<close>

definition gw_store :: "nat aws" where
  "gw_store =
     \<lparr>aw_get_item = (\<lambda>t kw. case kw of
          (_, KwVal (PDict [(_, PStr pk), (_, PStr sk)])) # _ \<Rightarrow>
            io_return (if pk = ''TOOL#search'' \<and> sk = ''GLOBAL''
              then Some [(''enabled'', PBool True), (''tierMinimum'', PStr ''standard'')]
              else if pk = ''TOOL#search'' \<and> sk = ''TENANT#globex'' then Some [(''enabled'', PBool False)]
              else None)
        | _ \<Rightarrow> io_return None),
      aw_put_item = (\<lambda>t kw. io_return ()), aw_update_item = (\<lambda>t kw. io_return []),
      aw_delete_item = (\<lambda>t kw. io_return ()), aw_query = (\<lambda>t kw. io_return (None, None)),
      aw_scan = (\<lambda>t kw. io_return (None, None)), aw_put_metric = (\<lambda>m. io_return ()),
      aw_log_error = (\<lambda>m w. Suc w)\<rparr>"

definition gw_sample_env :: environ where
  "gw_sample_env = map_of [(''ENTRA_AUDIENCE'', ''api''), (''ENTRA_ISSUER'', ''entra''), (''PLATFORM_ENV'', ''local''),
     (''SCOPED_TOKEN_SIGNING_KEY'', ''k''), (''IDEMPOTENCY_TABLE'', ''idem'')]"

definition gw_sample :: "(nat, string) gateway" where
  "gw_sample =
     \<lparr>gw_aws = gw_store,
      gw_jwt = \<lparr>jl_signing_key = (\<lambda>t. io_return ''key''),
        jl_decode = (\<lambda>t k a i. if t = ''good'' then io_return
          [(''tenantid'', PStr ''acme''), (''appid'', PStr ''app''), (''tier'', PStr ''premium'')]
          else io_raise (ExternalErr ''InvalidTokenError''))\<rparr>,
      gw_env = gw_sample_env, gw_has_jwk = True, gw_policy = io_return None, gw_sha = (\<lambda>b. b),
      gw_get_secret = (\<lambda>a. io_return PNone), gw_sha_hex = (\<lambda>s. s), gw_encode = (\<lambda>c k. ''scoped''), gw_uuid = ''u'',
      gw_now = 100,
      gw_idempotent = (\<lambda>key body s. if key = ''s:1'' then (Inr [(''stored'', PStr ''result'')], s) else body s)\<rparr>"

definition gw_event :: pydict where
  "gw_event =
     [(''mcp'', PDict [(''gatewayRequest'', PDict
        [(''headers'', PDict [(''authorization'', PStr ''Bearer good''), (''X-Tenant-Id'', PStr ''victim'')]),
         (''body'', PDict [(''method'', PStr ''tools/call''), (''params'', PDict [(''name'', PStr ''search'')])])])])]"

lemma gw_sample_run:
  obtains out s' where "process_request gw_sample gw_event ((None, 0), 0) = (Inr out, s')" "is_forward out"
proof -
  obtain r s' where run: "process_request gw_sample gw_event ((None, 0), 0) = (r, s')" by (metis surj_pair)
  have "(case fst (process_request gw_sample gw_event ((None, 0), 0)) of Inl _ \<Rightarrow> False | Inr out \<Rightarrow> is_forward out)"
    by code_simp
  with run obtain out where "r = Inr out" "is_forward out" by (cases r) auto
  with run that show ?thesis by blast
qed



theorem case_variant_header_survives_witness:
  "\<exists>out s'. process_request gw_sample gw_event ((None, 0), 0) = (Inr out, s')
     \<and> dget (out_headers out) ''X-Tenant-Id'' = PStr ''victim''"
proof -
  obtain out s' where r: "process_request gw_sample gw_event ((None, 0), 0) = (Inr out, s')" "is_forward out"
    by (rule gw_sample_run)
  have "map_of (request_headers_of (event_gateway_request gw_event)) ''X-Tenant-Id'' = Some ''victim''" by code_simp
  from case_variant_header_survives[OF r this] r show ?thesis by blast
qed

theorem platform_only_for_operators_witness:
  "acting_tenant [(''body'', PDict [(''method'', PStr ''tools/call''),
        (''params'', PDict [(''name'', PStr ''get_recent_errors'')])])]
      [(''tenantid'', PStr ''acme''), (''roles'', PStr ''Platform.Admin'')] = ''platform''
   \<and> (\<exists>r \<in> set (roles_from_payload [(''tenantid'', PStr ''acme''), (''roles'', PStr ''Platform.Admin'')]).
        r = ''Platform.Admin'' \<or> r = ''Platform.Operator'')"
proof -
  let ?gr = "[(''body'', PDict [(''method'', PStr ''tools/call''),
        (''params'', PDict [(''name'', PStr ''get_recent_errors'')])])]"
  let ?p = "[(''tenantid'', PStr ''acme''), (''roles'', PStr ''Platform.Admin'')]"
  have "acting_tenant ?gr ?p = ''platform''" by code_simp
  moreover have "claim_text ?p ''tenantid'' [] \<noteq> ''platform''" by code_simp
  ultimately show ?thesis using platform_only_for_operators[of ?gr ?p] by blast
qed

theorem replay_skips_authentication_witness:
  "request_handler gw_sample [(''mcp'', PDict [(''gatewayRequest'',
            PDict [(''headers'', header_dict [(''mcp-session-id'', ''s'')]), (''body'', PDict [(''id'', PInt 1)])])])]
     ((None, 0), 0) = (Inr [(''stored'', PStr ''result'')], ((None, 0), 0))"
proof (rule replay_skips_authentication)
  show "env_set (gw_env gw_sample) ''IDEMPOTENCY_TABLE'' = Some ''idem''" by code_simp
  show "gw_get_header [(''mcp-session-id'', ''s'')] ''Mcp-Session-Id'' = Some ''s''" by code_simp
  show "''s'' \<noteq> []" by simp
  show "dget [(''id'', PInt 1)] ''id'' \<noteq> PNone" by code_simp
  have "''s'' @ '':'' @ py_str (dget [(''id'', PInt 1)] ''id'') = ''s:1''" by code_simp
  then show "has_stored gw_sample (''s'' @ '':'' @ py_str (dget [(''id'', PInt 1)] ''id'')) [(''stored'', PStr ''result'')]
      ((None, 0), 0)"
    by (simp add: has_stored_def gw_sample_def)
qed

end
