(* ===== verification/GatewayResponse.thy ===== *)
theory GatewayResponse
  imports GatewayRequest
begin

text \<open>
  The RESPONSE interceptor of \<open>gateway/interceptors\<close>: filtering a tool listing by tier (\<open>response_tools\<close>),
  redacting personal data (\<open>response_redaction\<close>) and the entry point with its cache of patterns
  (\<open>response_interceptor\<close>). The regular expression engine is a parameter: compiling a pattern gives a value or fails, and a compiled
  pattern substitutes its matches; so are the parameter store and DynamoDB.
\<close>

section \<open>Redaction\<close>

definition default_pii_pattern_strings :: "string list" where
  "default_pii_pattern_strings =
     [''[a-zA-Z0-9_.+-]+@[a-zA-Z0-9-]+'' @ CHR 0x5C # ''.[a-zA-Z0-9-.]+'',
      ''[A-CEGHJ-PR-TW-Z][A-CEGHJ-NPR-TW-Z]'' @ CHR 0x5C # ''s*'' @ CHR 0x5C # ''d{2}'' @ CHR 0x5C # ''s*'' @ CHR 0x5C #
        ''d{2}'' @ CHR 0x5C # ''s*'' @ CHR 0x5C # ''d{2}'' @ CHR 0x5C # ''s*[A-D]'',
      CHR 0x5C # ''d{3}'' @ CHR 0x5C # ''s*'' @ CHR 0x5C # ''d{3}'' @ CHR 0x5C # ''s*'' @ CHR 0x5C # ''d{4}'',
      CHR 0x5C # ''d{2}-'' @ CHR 0x5C # ''d{2}-'' @ CHR 0x5C # ''d{2}'',
      CHR 0x5C # ''b'' @ CHR 0x5C # ''d{8}'' @ CHR 0x5C # ''b'']"

definition compile_patterns :: "(string \<Rightarrow> 'p option) \<Rightarrow> string list \<Rightarrow> 'p list" where
  "compile_patterns re_compile patterns = List.map_filter re_compile patterns"

definition parse_patterns :: "pyval \<Rightarrow> string list res" where
  "parse_patterns raw_patterns =
     (if \<not> truthy raw_patterns then Inr []
      else (case raw_patterns of
              PStr s \<Rightarrow>
                bind_res (json_loads s) (\<lambda>decoded.
                  Inr (case decoded of
                         PDict d \<Rightarrow> List.map_filter (\<lambda>(k, v). case v of PStr p \<Rightarrow> Some p | _ \<Rightarrow> None) d
                       | PList xs \<Rightarrow> List.map_filter (\<lambda>v. case v of PStr p \<Rightarrow> Some p | _ \<Rightarrow> None) xs
                       | _ \<Rightarrow> []))
            | _ \<Rightarrow> Inl (TypeError ''the JSON object must be str'')))"

definition default_patterns :: "(string \<Rightarrow> 'p option) \<Rightarrow> 'p list" where
  "default_patterns re_compile = compile_patterns re_compile default_pii_pattern_strings"

definition load_patterns :: "(string \<Rightarrow> 'p option) \<Rightarrow> pydict \<Rightarrow> 'p list res" where
  "load_patterns re_compile response =
     (case as_dict (dget_or response ''Parameter'' (PDict [])) of
        None \<Rightarrow> Inl (AttributeError ''get'')
      | Some p \<Rightarrow>
          bind_res (parse_patterns (dget p ''Value'')) (\<lambda>strings.
            let compiled = compile_patterns re_compile strings in
            Inr (if compiled \<noteq> [] then compiled else default_patterns re_compile)))"

definition redact_text :: "('p \<Rightarrow> string \<Rightarrow> string \<Rightarrow> string) \<Rightarrow> 'p list \<Rightarrow> string \<Rightarrow> string \<Rightarrow> string" where
  "redact_text re_sub patterns token s = fold (\<lambda>p s. re_sub p token s) patterns s"

fun redact_pii :: "(string \<Rightarrow> string) \<Rightarrow> pyval \<Rightarrow> pyval" where
  "redact_pii red (PStr s) = PStr (red s)"
| "redact_pii red (PDict d) = PDict (map (\<lambda>(k, v). (k, redact_pii red v)) d)"
| "redact_pii red (PList xs) = PList (map (redact_pii red) xs)"
| "redact_pii red v = v"

section \<open>Tiers of listed tools\<close>

definition is_tier_sufficient :: "tenant_tier \<Rightarrow> tenant_tier \<Rightarrow> bool" where
  "is_tier_sufficient current required \<longleftrightarrow> tier_rank required \<le> tier_rank current"

definition parse_tier :: "pyval \<Rightarrow> tenant_tier" where
  "parse_tier v = (case tier_of (py_lower (py_str v)) of Some t \<Rightarrow> t | None \<Rightarrow> BASIC)"

text \<open>The first record of the candidates, read through the tenant-scoped client; unlike the request side, no consistent read.\<close>

fun listed_record :: "'w aws \<Rightarrow> tenant_context \<Rightarrow> string \<Rightarrow> string \<Rightarrow> string list \<Rightarrow> ('w, pydict option) io" where
  "listed_record sv ctx table tool_name [] = io_return None"
| "listed_record sv ctx table tool_name (sk # sks) =
     io_bind (ts_get_item sv ctx table [(''PK'', PStr (''TOOL#'' @ tool_name)), (''SK'', PStr sk)] [])
       (\<lambda>item. case item of
           None \<Rightarrow> listed_record sv ctx table tool_name sks
         | Some it \<Rightarrow> if it = [] then listed_record sv ctx table tool_name sks else io_return (Some it))"

definition payload_tier :: "pydict \<Rightarrow> tenant_tier" where
  "payload_tier tool =
     (let t = py_or (dget tool ''tierMinimum'') (dget tool ''tier_minimum'')
      in if t \<noteq> PNone then parse_tier t else BASIC)"

text \<open>\<open>db\<close> says whether the registry client could be made; \<open>None\<close> as a result hides the tool.\<close>

definition resolve_tool_minimum_tier ::
  "'w aws \<Rightarrow> bool \<Rightarrow> string \<Rightarrow> tenant_context \<Rightarrow> pydict \<Rightarrow> ('w, tenant_tier option) io" where
  "resolve_tool_minimum_tier sv db table ctx tool =
     (let tool_name = dget tool ''name'' in
      if truthy tool_name \<and> db then
        io_bind
          (io_catch
             (io_bind (listed_record sv ctx table (py_str tool_name) [''TENANT#'' @ tc_tenant_id ctx, ''GLOBAL''])
                (\<lambda>r. io_return (case r of
                    None \<Rightarrow> None
                  | Some record \<Rightarrow> Some (if \<not> record_enabled record then None
                                          else Some (parse_tier (dget record ''tier_minimum''))))))
             (\<lambda>_. io_return None))
          (\<lambda>r. io_return (case r of None \<Rightarrow> Some (payload_tier tool) | Some answer \<Rightarrow> answer))
      else io_return (Some (payload_tier tool)))"

fun filter_tool_list ::
  "'w aws \<Rightarrow> bool \<Rightarrow> string \<Rightarrow> tenant_context \<Rightarrow> pyval list \<Rightarrow> ('w, pyval list) io" where
  "filter_tool_list sv db table ctx [] = io_return []"
| "filter_tool_list sv db table ctx (t # ts) =
     (case as_dict t of
        None \<Rightarrow> io_bind (filter_tool_list sv db table ctx ts) (\<lambda>rest. io_return (t # rest))
      | Some tool \<Rightarrow>
          io_bind (resolve_tool_minimum_tier sv db table ctx tool) (\<lambda>required.
          io_bind (filter_tool_list sv db table ctx ts) (\<lambda>rest.
            io_return (if (case required of None \<Rightarrow> False | Some r \<Rightarrow> is_tier_sufficient (tc_tier ctx) r)
                       then t # rest else rest))))"

definition filter_tools :: "'w aws \<Rightarrow> bool \<Rightarrow> string \<Rightarrow> tenant_context \<Rightarrow> pydict \<Rightarrow> ('w, pydict) io" where
  "filter_tools sv db table ctx body =
     (case as_list (dget_or body ''tools'' (PList [])) of
        None \<Rightarrow> io_return body
      | Some tools \<Rightarrow>
          io_bind (filter_tool_list sv db table ctx tools) (\<lambda>kept. io_return (dset ''tools'' (PList kept) body)))"

section \<open>The entry point\<close>

record ('w, 'p) response_gateway =
  rg_aws :: "'w aws"
  rg_has_db :: bool
  rg_tools_table :: string
  rg_get_parameter :: "('w, pydict) io"
  rg_re_compile :: "string \<Rightarrow> 'p option"
  rg_re_sub :: "'p \<Rightarrow> string \<Rightarrow> string \<Rightarrow> string"
  rg_now :: rat

type_synonym 'p pattern_cache = "'p list \<times> rat"

definition pii_cache_ttl_seconds :: rat where "pii_cache_ttl_seconds = 60"

definition pii_redaction_token :: string where "pii_redaction_token = ''[REDACTED]''"

definition load_pii_patterns :: "('w, 'p) response_gateway \<Rightarrow> ('p pattern_cache \<times> 'w, 'p list) io" where
  "load_pii_patterns g s =
     (if rg_now g < snd (fst s) then (Inr (fst (fst s)), s)
      else (case io_bind (rg_get_parameter g) (\<lambda>resp. io_lift (load_patterns (rg_re_compile g) resp)) (snd s) of
              (r, w) \<Rightarrow>
                (let ps = (case r of Inl e \<Rightarrow> default_patterns (rg_re_compile g) | Inr ps \<Rightarrow> ps)
                 in (Inr ps, ((ps, rg_now g + pii_cache_ttl_seconds), w)))))"

fun header_value_ci :: "pydict \<Rightarrow> string \<Rightarrow> pyval \<Rightarrow> pyval" where
  "header_value_ci [] key d = d"
| "header_value_ci ((k, v) # hs) key d = (if py_lower k = py_lower key then v else header_value_ci hs key d)"

definition header_value :: "pydict \<Rightarrow> string \<Rightarrow> pyval \<Rightarrow> pyval" where
  "header_value headers key d =
     (if dget headers key \<noteq> PNone then dget headers key else header_value_ci headers key d)"

definition transform_parsed ::
  "('w, 'p) response_gateway \<Rightarrow> tenant_context \<Rightarrow> pyval \<Rightarrow> ('p pattern_cache \<times> 'w, pyval) io" where
  "transform_parsed g ctx parsed =
     (case as_dict parsed of
        Some d \<Rightarrow>
          (if as_list (dget d ''tools'') \<noteq> None then
             io_bind (on_world (filter_tools (rg_aws g) (rg_has_db g) (rg_tools_table g) ctx d))
               (\<lambda>b. io_return (PDict b))
           else io_bind (load_pii_patterns g)
                  (\<lambda>ps. io_return (redact_pii (redact_text (rg_re_sub g) ps pii_redaction_token) parsed)))
      | None \<Rightarrow> io_bind (load_pii_patterns g)
                  (\<lambda>ps. io_return (redact_pii (redact_text (rg_re_sub g) ps pii_redaction_token) parsed)))"

definition transform_gateway_body ::
  "('w, 'p) response_gateway \<Rightarrow> tenant_context \<Rightarrow> pyval \<Rightarrow> ('p pattern_cache \<times> 'w, pyval) io" where
  "transform_gateway_body g ctx body =
     (case body of
        PStr s \<Rightarrow>
          (case json_loads s of
             Inl e \<Rightarrow> transform_parsed g ctx body
           | Inr parsed \<Rightarrow> io_bind (transform_parsed g ctx parsed) (\<lambda>b. io_return (PStr (json_dumps b))))
      | _ \<Rightarrow> transform_parsed g ctx body)"

definition response_output :: "pydict \<Rightarrow> pydict" where
  "response_output resp =
     [(''interceptorOutputVersion'', PStr ''1.0''), (''mcp'', PDict [(''transformedGatewayResponse'', PDict resp)])]"

definition response_handler :: "('w, 'p) response_gateway \<Rightarrow> pydict \<Rightarrow> ('p pattern_cache \<times> 'w, pydict) io" where
  "response_handler g event =
     (let gateway_response = dict_or_empty
            (dget_or (dict_or_empty (dget_or event ''mcp'' (PDict []))) ''gatewayResponse'' (PDict []));
          body = dget_or gateway_response ''body'' (PDict []);
          headers = dict_or_empty (dget_or gateway_response ''headers'' (PDict []));
          tenant_id = header_value headers ''x-tenant-id'' PNone;
          app_id = header_value headers ''x-app-id'' PNone;
          tier_str = header_value headers ''x-tier'' (PStr ''basic'');
          sub = header_value headers ''x-acting-sub'' (PStr ''unknown'')
      in if \<not> truthy tenant_id \<or> \<not> truthy app_id then io_return (response_output gateway_response)
         else
           io_bind (transform_gateway_body g
                      \<lparr>tc_tenant_id = py_str tenant_id, tc_app_id = py_str app_id, tc_tier = parse_tier tier_str,
                       tc_sub = py_str sub\<rparr> body)
             (\<lambda>b. io_return (response_output (dset ''body'' b gateway_response))))"

section \<open>The tier gate\<close>

text \<open>
  Both interceptors decide by comparing ranks: of the tenant's tier and of the tier a tool asks for.
\<close>

locale tier_gate =
  fixes allowed :: "'t \<Rightarrow> 'm \<Rightarrow> bool" and have_rank :: "'t \<Rightarrow> int" and need_rank :: "'m \<Rightarrow> int"
  assumes allowed_iff: "allowed t m \<longleftrightarrow> need_rank m \<le> have_rank t"
begin

lemma higher_tier_keeps: "allowed t m \<Longrightarrow> have_rank t \<le> have_rank t' \<Longrightarrow> allowed t' m"
  by (simp add: allowed_iff)

lemma lower_minimum_keeps: "allowed t m \<Longrightarrow> need_rank m' \<le> need_rank m \<Longrightarrow> allowed t m'"
  by (simp add: allowed_iff)

lemma listing_grows:
  "have_rank t \<le> have_rank t' \<Longrightarrow> set (filter (allowed t) ms) \<subseteq> set (filter (allowed t') ms)"
  by (auto intro: higher_tier_keeps)

end

interpretation request_gate: tier_gate is_tier_allowed "rank_or (-1)" "rank_or 100"
  by unfold_locales (simp add: is_tier_allowed_def)

interpretation response_gate: tier_gate is_tier_sufficient "\<lambda>t. int (tier_rank t)" "\<lambda>t. int (tier_rank t)"
  by unfold_locales (simp add: is_tier_sufficient_def)

lemma rank_or_tier: "tier_of s = Some t \<Longrightarrow> rank_or d s = int (tier_rank t)"
  by (auto simp: tier_of_def rank_or_def tier_order_def split: if_splits)

lemma rank_or_unknown: "tier_of s = None \<Longrightarrow> rank_or d s = d"
  by (auto simp: tier_of_def rank_or_def tier_order_def split: if_splits)

text \<open>
  On the names of tiers the two interceptors agree: a tool is callable exactly when it is listed. On a
  minimum that is no tier they part: the request side refuses everyone, the response side lists the tool to everyone.
\<close>

theorem gates_agree_on_tiers:
  assumes "tier_of tenant = Some t"
  shows "case tier_of minimum of
      Some m \<Rightarrow> is_tier_allowed tenant minimum \<longleftrightarrow> is_tier_sufficient t m
    | None \<Rightarrow> \<not> is_tier_allowed tenant minimum
              \<and> (tier_of (py_lower minimum) = None \<longrightarrow> is_tier_sufficient t (parse_tier (PStr minimum)))"
proof (cases "tier_of minimum")
  case None
  have "rank_or (-1) tenant \<le> 2" using rank_or_tier[OF assms, of "-1"] by (cases t) simp_all
  with None show ?thesis
    by (simp add: is_tier_allowed_def rank_or_unknown parse_tier_def is_tier_sufficient_def)
next
  case (Some m)
  then show ?thesis
    using rank_or_tier[OF assms, of "-1"] rank_or_tier[OF Some, of 100]
    by (simp add: is_tier_allowed_def is_tier_sufficient_def)
qed

theorem gates_agree_on_tiers_witness:
  "\<not> is_tier_allowed ''premium'' ''gold'' \<and> is_tier_sufficient PREMIUM (parse_tier (PStr ''gold''))"
proof -
  have "tier_of ''premium'' = Some PREMIUM" "tier_of ''gold'' = None" "tier_of (py_lower ''gold'') = None" by code_simp+
  with gates_agree_on_tiers[of "''premium''" PREMIUM "''gold''"] show ?thesis by simp
qed

section \<open>Filtering a listing\<close>

definition resolved_at ::
  "'w aws \<Rightarrow> bool \<Rightarrow> string \<Rightarrow> tenant_context \<Rightarrow> pydict \<Rightarrow> tenant_tier option \<Rightarrow> bool" where
  "resolved_at sv db table ctx tool r \<longleftrightarrow> (\<exists>w w'. resolve_tool_minimum_tier sv db table ctx tool w = (Inr r, w'))"

lemma filter_tool_list_kept:
  assumes "filter_tool_list sv db table ctx ts w = (Inr kept, w')"
  shows "subseq kept ts
    \<and> (\<forall>t \<in> set ts. as_dict t = None \<longrightarrow> t \<in> set kept)
    \<and> (\<forall>t \<in> set kept. \<forall>tool. as_dict t = Some tool \<longrightarrow>
         (\<exists>r. resolved_at sv db table ctx tool (Some r) \<and> is_tier_sufficient (tc_tier ctx) r))"
  using assms
proof (induction ts arbitrary: w w' kept)
  case (Cons t ts)
  show ?case
  proof (cases "as_dict t")
    case None
    with Cons.prems obtain rest where r: "filter_tool_list sv db table ctx ts w = (Inr rest, w')" "kept = t # rest"
      by (auto simp: io_bind_def split: prod.splits sum.splits)
    from Cons.IH[OF r(1)] r(2) None show ?thesis by auto
  next
    case (Some tool)
    with Cons.prems obtain q w1 where q: "resolve_tool_minimum_tier sv db table ctx tool w = (Inr q, w1)"
      by (auto simp: io_bind_def split: prod.splits sum.splits)
    with Cons.prems Some obtain rest where r: "filter_tool_list sv db table ctx ts w1 = (Inr rest, w')"
      and k: "kept = (if (case q of None \<Rightarrow> False | Some r \<Rightarrow> is_tier_sufficient (tc_tier ctx) r) then t # rest else rest)"
      by (auto simp: io_bind_def split: prod.splits sum.splits)
    show ?thesis
    proof (cases "case q of None \<Rightarrow> False | Some r \<Rightarrow> is_tier_sufficient (tc_tier ctx) r")
      case True
      then obtain m where m: "q = Some m" "is_tier_sufficient (tc_tier ctx) m" by (cases q) auto
      with q have "resolved_at sv db table ctx tool (Some m)" by (auto simp: resolved_at_def)
      with Cons.IH[OF r] k True Some m show ?thesis by auto
    next
      case False
      with Cons.IH[OF r] k Some show ?thesis by (auto intro: subseq_Cons2)
    qed
  qed
qed simp

text \<open>
  Filtering a listing removes tools and does nothing else: what is left is in the old order, every other key of
  the body keeps its value, entries that are no tools are kept, and every tool that is left had its minimum
  tier, as the registry or the payload gives it, within the tenant's.
\<close>

theorem filter_tools_only_removes:
  assumes "filter_tools sv db table ctx body w = (Inr body', w')" and "dget body ''tools'' = PList tools"
  shows "\<exists>kept. dget body' ''tools'' = PList kept \<and> subseq kept tools
    \<and> (\<forall>k. k \<noteq> ''tools'' \<longrightarrow> dict_get body' k = dict_get body k)
    \<and> (\<forall>t \<in> set tools. as_dict t = None \<longrightarrow> t \<in> set kept)
    \<and> (\<forall>t \<in> set kept. \<forall>tool. as_dict t = Some tool \<longrightarrow>
         (\<exists>r. resolved_at sv db table ctx tool (Some r) \<and> is_tier_sufficient (tc_tier ctx) r))"
proof -
  have "dget_or body ''tools'' (PList []) = PList tools"
    using assms(2) by (auto simp: dget_or_def split: option.splits)
  with assms(1) obtain kept where k: "filter_tool_list sv db table ctx tools w = (Inr kept, w')"
    "body' = dset ''tools'' (PList kept) body"
    by (auto simp: filter_tools_def io_bind_def split: prod.splits sum.splits)
  from filter_tool_list_kept[OF k(1)] k(2) show ?thesis
    by (auto simp: dget_dset dict_get_def)
qed

text \<open>
  The listing reads the registry's minimum under one name only: a record that states it as
  \<open>tierMinimum\<close>, the name the request side reads first, is listed to a basic tenant who may not call the tool.
\<close>

theorem listing_misses_tierMinimum:
  "(case resolve_tool_minimum_tier gw_store True ''platform-tools''
           \<lparr>tc_tenant_id = ''acme'', tc_app_id = ''app'', tc_tier = BASIC, tc_sub = ''u''\<rparr>
           [(''name'', PStr ''search'')] 0 of
      (Inr (Some r), _) \<Rightarrow> is_tier_sufficient BASIC r
    | _ \<Rightarrow> False)
   \<and> (case get_tool_record gw_store ''platform-tools'' ''search'' ''acme'' 0 of
        (Inr (Some rec), _) \<Rightarrow> \<not> is_tier_allowed ''basic'' (extract_minimum_tier rec)
      | _ \<Rightarrow> False)"
  by code_simp

section \<open>Redaction\<close>

text \<open>A value with its texts blanked, and the texts in it from left to right.\<close>

fun shape :: "pyval \<Rightarrow> pyval" where
  "shape (PStr s) = PStr []"
| "shape (PDict d) = PDict (map (\<lambda>(k, v). (k, shape v)) d)"
| "shape (PList xs) = PList (map shape xs)"
| "shape v = v"

fun texts :: "pyval \<Rightarrow> string list" where
  "texts (PStr s) = [s]"
| "texts (PDict d) = concat (map (\<lambda>(k, v). texts v) d)"
| "texts (PList xs) = concat (map texts xs)"
| "texts v = []"

text \<open>
  Redaction visits every text at every depth and nothing else: keys, numbers, flags, lengths and nesting
  stay, and the texts of the result are the old ones with the substitution applied.
\<close>

theorem redaction_exact:
  "shape (redact_pii red v) = shape v \<and> texts (redact_pii red v) = map red (texts v)"
proof
  show "shape (redact_pii red v) = shape v"
    by (induction red v rule: redact_pii.induct) auto
  show "texts (redact_pii red v) = map red (texts v)"
  proof (induction red v rule: redact_pii.induct)
    case (2 red d)
    have "map (\<lambda>x. texts (redact_pii red (snd x))) d = map (\<lambda>x. map red (texts (snd x))) d"
      by (rule map_cong[OF refl]) (use 2 in auto)
    then have "concat (map (\<lambda>x. texts (redact_pii red (snd x))) d) = concat (map (\<lambda>x. map red (texts (snd x))) d)"
      by (rule arg_cong)
    then show ?case by (simp add: map_concat comp_def case_prod_beta)
  next
    case (3 red xs)
    have "map (\<lambda>x. texts (redact_pii red x)) xs = map (\<lambda>x. map red (texts x)) xs"
      by (rule map_cong[OF refl]) (use 3 in auto)
    then have "concat (map (\<lambda>x. texts (redact_pii red x)) xs) = concat (map (\<lambda>x. map red (texts x)) xs)"
      by (rule arg_cong)
    then show ?case by (simp add: map_concat comp_def)
  qed simp_all
qed

text \<open>
  A reply is not redacted at all when it carries a list under the key \<open>tools\<close>: the answer of a tool call that
  has such a key is taken for a listing, and its other texts are returned as they are.
\<close>

theorem tools_key_evades_redaction:
  assumes "dget d ''tools'' = PList []" and "dict_ok d"
  shows "transform_parsed g ctx (PDict d) s = (Inr (PDict d), s)"
proof -
  have g: "map_of d ''tools'' = Some (PList [])" using assms(1) by (auto simp: dget_or_def split: option.splits)
  have "dset ''tools'' (PList []) d = d"
    using g assms(2) unfolding dset_def by (induction d) (auto simp: dict_ok_def split: if_splits)
  then show ?thesis
    using g by (simp add: transform_parsed_def filter_tools_def dget_or_def io_bind_def on_world_def)
qed

definition rg_sample :: "(nat, string) response_gateway" where
  "rg_sample = \<lparr>rg_aws = gw_store, rg_has_db = True, rg_tools_table = ''platform-tools'',
     rg_get_parameter = io_raise (ExternalErr ''ParameterNotFound''), rg_re_compile = (\<lambda>p. Some p),
     rg_re_sub = (\<lambda>p token s. token), rg_now = 100\<rparr>"

definition rg_ctx :: tenant_context where
  "rg_ctx = \<lparr>tc_tenant_id = ''acme'', tc_app_id = ''app'', tc_tier = STANDARD, tc_sub = ''u''\<rparr>"

theorem tools_key_evades_redaction_witness:
  "transform_parsed rg_sample rg_ctx (PDict [(''tools'', PList []), (''text'', PStr ''a@b.c'')]) (([], 0), 0)
     = (Inr (PDict [(''tools'', PList []), (''text'', PStr ''a@b.c'')]), (([], 0), 0))"
  by (rule tools_key_evades_redaction) (simp_all add: dget_or_def dict_ok_def)

theorem filter_tools_only_removes_witness:
  "\<exists>body' w' kept. filter_tools gw_store True ''platform-tools'' rg_ctx
      [(''tools'', PList [PDict [(''name'', PStr ''search'')], PStr ''x''])] 0 = (Inr body', w')
    \<and> dget body' ''tools'' = PList kept \<and> subseq kept [PDict [(''name'', PStr ''search'')], PStr ''x'']"
proof -
  let ?b = "[(''tools'', PList [PDict [(''name'', PStr ''search'')], PStr ''x''])]"
  obtain r w' where run: "filter_tools gw_store True ''platform-tools'' rg_ctx ?b 0 = (r, w')" by fastforce
  have "(case fst (filter_tools gw_store True ''platform-tools'' rg_ctx ?b 0) of Inl _ \<Rightarrow> False | Inr _ \<Rightarrow> True)"
    by code_simp
  with run obtain b' where r: "r = Inr b'" by (cases r) auto
  have "dget ?b ''tools'' = PList [PDict [(''name'', PStr ''search'')], PStr ''x'']" by code_simp
  from filter_tools_only_removes[OF run[unfolded r] this] run r show ?thesis by blast
qed

section \<open>The cache of patterns\<close>

text \<open>Either nothing has been loaded yet, or there are patterns.\<close>

definition patterns_ready :: "'p pattern_cache \<Rightarrow> bool" where
  "patterns_ready c \<longleftrightarrow> snd c \<le> 0 \<or> fst c \<noteq> []"

lemma load_patterns_nonempty:
  "default_patterns rc \<noteq> [] \<Longrightarrow> load_patterns rc resp = Inr ps \<Longrightarrow> ps \<noteq> []"
  by (auto simp: load_patterns_def bind_res_eq_Inr Let_def split: option.splits if_splits)

text \<open>
  Redaction never runs without patterns: as long as one built-in pattern compiles, every load gives at least
  one, whether the parameter store answers, answers nonsense or fails, and the cache keeps that promise.
\<close>

theorem redaction_always_has_patterns:
  assumes "default_patterns (rg_re_compile g) \<noteq> []" and "patterns_ready (fst s)" and "0 < rg_now g"
  shows "\<exists>ps s'. load_pii_patterns g s = (Inr ps, s') \<and> ps \<noteq> [] \<and> patterns_ready (fst s')"
proof (cases "rg_now g < snd (fst s)")
  case True
  with assms(2,3) show ?thesis by (auto simp: load_pii_patterns_def patterns_ready_def)
next
  case False
  obtain r w where r: "rg_get_parameter g (snd s) = (r, w)" by fastforce
  show ?thesis
  proof (cases r)
    case (Inl e)
    with False r assms show ?thesis
      by (simp add: load_pii_patterns_def io_bind_def patterns_ready_def Let_def)
  next
    case (Inr resp)
    show ?thesis
    proof (cases "load_patterns (rg_re_compile g) resp")
      case (Inl e)
      with False r Inr assms show ?thesis
        by (simp add: load_pii_patterns_def io_bind_def patterns_ready_def Let_def)
    next
      case q: (Inr ps)
      with load_patterns_nonempty[OF assms(1) q] False r Inr show ?thesis
        by (simp add: load_pii_patterns_def io_bind_def patterns_ready_def Let_def)
    qed
  qed
qed

theorem redaction_always_has_patterns_witness:
  "\<exists>ps s'. load_pii_patterns rg_sample (([], 0), 0) = (Inr ps, s') \<and> ps \<noteq> [] \<and> patterns_ready (fst s')"
proof (rule redaction_always_has_patterns)
  show "default_patterns (rg_re_compile rg_sample) \<noteq> []"
    by (simp add: default_patterns_def compile_patterns_def rg_sample_def default_pii_pattern_strings_def List.map_filter_def)
qed (simp_all add: patterns_ready_def rg_sample_def)

end
