(* ===== verification/Webhook.thy ===== *)
theory Webhook
  imports Json DataAccess
begin

text \<open>
  Webhook delivery, \<open>src/webhook_delivery\<close>: the events that start a delivery and the signed request (\<open>events\<close>),
  the store (\<open>persistence\<close>), the queues and the HTTP call (\<open>integrations\<close>), the retry policy, one delivery attempt
  (\<open>service\<close>) and the Lambda entry point (\<open>handler\<close>). DynamoDB, SQS, HTTP, the HMAC, the clock, the jitter and the
  DynamoDB deserializer are parameters.
\<close>

record 'w webhook_services =
  wh_aws :: "'w aws"
  wh_post :: "string \<Rightarrow> string \<Rightarrow> (string \<times> string) list \<Rightarrow> int \<Rightarrow> ('w, unit) io"
  wh_send :: "string \<Rightarrow> int option \<Rightarrow> string \<Rightarrow> ('w, unit) io"
  wh_jitter :: "rat \<Rightarrow> ('w, rat) io"
  wh_hmac :: "string \<Rightarrow> string \<Rightarrow> string"
  wh_deserialize :: "pyval \<Rightarrow> pyval res"
  wh_now_iso :: string

record delivery_config =
  dc_jobs_table :: string
  dc_tenants_table :: string
  dc_retry_queue_url :: "string option"
  dc_dlq_url :: "string option"
  dc_max_retry_attempts :: int
  dc_http_timeout_seconds :: int

section \<open>Retry policy\<close>

definition should_retry :: "int \<Rightarrow> int \<Rightarrow> bool" where
  "should_retry attempt max_retry_attempts \<longleftrightarrow> attempt \<le> max_retry_attempts"

text \<open>\<open>2**attempt\<close>, a fraction for a negative attempt.\<close>

definition two_pow :: "int \<Rightarrow> rat" where
  "two_pow n = (if 0 \<le> n then 2 ^ nat n else 1 / 2 ^ nat (- n))"

definition retry_delay_seconds :: "'w webhook_services \<Rightarrow> int \<Rightarrow> ('w, int) io" where
  "retry_delay_seconds sv attempt =
     (let base_delay = min 900 (two_pow attempt) in
      io_bind (wh_jitter sv base_delay) (\<lambda>j.
        io_return (if base_delay > 0 then max 1 (min 900 (trunc_rat j)) else 0)))"

section \<open>Events\<close>

definition terminal_job_events :: "(string \<times> string) list" where
  "terminal_job_events = [(''completed'', ''job.completed''), (''failed'', ''job.failed'')]"

record retry_message =
  rm_tenant_id :: string
  rm_app_id :: string
  rm_job_id :: string
  rm_attempt :: int

definition parse_retry_record :: "pydict \<Rightarrow> retry_message option res" where
  "parse_retry_record rec =
     bind_res (json_loads (py_str (dget_or rec ''body'' (PStr [CHR 0x7B, CHR 0x7D])))) (\<lambda>loaded.
       case as_dict loaded of
         None \<Rightarrow> Inl (AttributeError ''get'')
       | Some body \<Rightarrow>
           (let tenant_id = coerce_optional_string (dget body ''tenantId'');
                app_id = coerce_optional_string (dget body ''appId'');
                job_id = coerce_optional_string (dget body ''jobId'')
            in bind_res (py_int (dget_or body ''attempt'' (PInt 2))) (\<lambda>attempt.
                 Inr (case (tenant_id, app_id, job_id) of
                        (Some t, Some a, Some j) \<Rightarrow>
                          Some \<lparr>rm_tenant_id = t, rm_app_id = a, rm_job_id = j, rm_attempt = attempt\<rparr>
                      | _ \<Rightarrow> None))))"

fun deserialize_items :: "(pyval \<Rightarrow> pyval res) \<Rightarrow> pydict \<Rightarrow> pydict res" where
  "deserialize_items de [] = Inr []"
| "deserialize_items de ((k, v) # rest) =
     bind_res (de v) (\<lambda>x. bind_res (deserialize_items de rest) (\<lambda>r. Inr ((k, x) # r)))"

definition deserialize_image :: "(pyval \<Rightarrow> pyval res) \<Rightarrow> pyval \<Rightarrow> pydict res" where
  "deserialize_image de img = (case as_dict img of None \<Rightarrow> Inr [] | Some d \<Rightarrow> deserialize_items de d)"

definition is_terminal :: "pydict \<Rightarrow> bool" where
  "is_terminal img =
     (case coerce_optional_string (dget img ''status'') of
        None \<Rightarrow> False | Some s \<Rightarrow> s \<in> fst ` set terminal_job_events)"

definition should_process_stream_transition :: "pydict \<Rightarrow> pydict \<Rightarrow> bool" where
  "should_process_stream_transition new_image old_image =
     (if new_image = [] then False
      else if \<not> is_terminal new_image then False
      else if coerce_optional_string (dget new_image ''webhook_url'') = None then False
      else if truthy (dget_or new_image ''webhook_delivered'' (PBool False)) then False
      else \<not> (old_image \<noteq> [] \<and> is_terminal old_image))"

definition opt_str :: "string option \<Rightarrow> pyval" where
  "opt_str s = (case s of None \<Rightarrow> PNone | Some t \<Rightarrow> PStr t)"

definition str_field :: "pydict \<Rightarrow> string \<Rightarrow> string" where
  "str_field item k = py_str (dget_or item k (PStr []))"

definition build_payload :: "pydict \<Rightarrow> string \<Rightarrow> pydict" where
  "build_payload job event_name =
     [(''event'', PStr event_name), (''jobId'', PStr (str_field job ''job_id'')),
      (''tenantId'', PStr (str_field job ''tenant_id'')), (''agentName'', PStr (str_field job ''agent_name'')),
      (''status'', PStr (str_field job ''status'')),
      (''createdAt'', opt_str (coerce_optional_string (dget job ''created_at''))),
      (''completedAt'', opt_str (coerce_optional_string (dget job ''completed_at''))),
      (''errorMessage'', opt_str (coerce_optional_string (dget job ''error_message'')))]"

definition sign_payload :: "(string \<Rightarrow> string \<Rightarrow> string) \<Rightarrow> string \<Rightarrow> string \<Rightarrow> string" where
  "sign_payload hmac payload_bytes secret = ''sha256='' @ hmac secret payload_bytes"

definition build_signed_request ::
  "(string \<Rightarrow> string \<Rightarrow> string) \<Rightarrow> pydict \<Rightarrow> string \<Rightarrow> string \<Rightarrow> string \<times> (string \<times> string) list" where
  "build_signed_request hmac job event_name secret =
     (let payload_bytes = json_compact (PDict (build_payload job event_name)) in
      (payload_bytes, [(''Content-Type'', ''application/json''),
                       (''X-Platform-Signature'', sign_payload hmac payload_bytes secret)]))"

section \<open>Store and queues\<close>

definition webhook_context :: "string \<Rightarrow> string \<Rightarrow> tenant_context" where
  "webhook_context tenant_id app_id =
     \<lparr>tc_tenant_id = tenant_id, tc_app_id = app_id, tc_tier = BASIC, tc_sub = ''webhook-delivery''\<rparr>"

definition tenant_key :: "string \<Rightarrow> string \<Rightarrow> pydict" where
  "tenant_key tenant_id sk = [(''PK'', PStr (''TENANT#'' @ tenant_id)), (''SK'', PStr sk)]"

definition load_retry_job ::
  "'w webhook_services \<Rightarrow> string \<Rightarrow> retry_message \<Rightarrow> ('w, pydict option) io" where
  "load_retry_job sv jobs_table m =
     ts_get_item (wh_aws sv) (webhook_context (rm_tenant_id m) (rm_app_id m)) jobs_table
       (tenant_key (rm_tenant_id m) (''JOB#'' @ rm_job_id m)) []"

definition tenant_context_from_job :: "pydict \<Rightarrow> tenant_context res" where
  "tenant_context_from_job job =
     (case (coerce_optional_string (dget job ''tenant_id''), coerce_optional_string (dget job ''app_id'')) of
        (Some t, Some a) \<Rightarrow> Inr (webhook_context t a)
      | _ \<Rightarrow> Inl (ValueError ''Job record is missing tenant_id or app_id''))"

definition get_webhook_registration ::
  "'w webhook_services \<Rightarrow> string \<Rightarrow> tenant_context \<Rightarrow> string \<Rightarrow> ('w, pydict option) io" where
  "get_webhook_registration sv tenants_table ctx webhook_id =
     io_bind (ts_get_item (wh_aws sv) ctx tenants_table
                (tenant_key (tc_tenant_id ctx) (''WEBHOOK#'' @ webhook_id)) [])
       (\<lambda>r. io_return (case r of
           None \<Rightarrow> None
         | Some rec \<Rightarrow> if str_field rec ''tenant_id'' \<noteq> tc_tenant_id ctx then None else Some rec))"

definition delivery_update_expression :: string where
  "delivery_update_expression =
     ''SET webhook_delivered = :delivered, webhook_delivery_status = :status, ''
     @ ''webhook_delivery_attempts = :attempts, webhook_delivery_error = :error, ''
     @ ''webhook_last_attempt_at = :last_attempt_at''"

definition delivery_values :: "bool \<Rightarrow> string \<Rightarrow> int \<Rightarrow> string option \<Rightarrow> string \<Rightarrow> pydict" where
  "delivery_values delivered status attempts err now =
     [('':delivered'', PBool delivered), ('':status'', PStr status), ('':attempts'', PInt attempts),
      ('':error'', opt_str err), ('':last_attempt_at'', PStr now)]"

definition mark_delivery_state ::
  "'w webhook_services \<Rightarrow> delivery_config \<Rightarrow> tenant_context \<Rightarrow> string \<Rightarrow> bool \<Rightarrow> string \<Rightarrow> int \<Rightarrow> string option \<Rightarrow>
     ('w, unit) io" where
  "mark_delivery_state sv cfg ctx job_id delivered status attempts err =
     io_bind (ts_update_item (wh_aws sv) ctx (dc_jobs_table cfg)
                (tenant_key (tc_tenant_id ctx) (''JOB#'' @ job_id)) delivery_update_expression
                (delivery_values delivered status attempts err (wh_now_iso sv)) None None)
       (\<lambda>_. io_return ())"

definition enqueue_retry ::
  "'w webhook_services \<Rightarrow> string \<Rightarrow> string \<Rightarrow> string \<Rightarrow> string \<Rightarrow> int \<Rightarrow> int \<Rightarrow> ('w, unit) io" where
  "enqueue_retry sv queue_url tenant_id app_id job_id attempt delay_seconds =
     wh_send sv queue_url (Some delay_seconds)
       (json_dumps (PDict [(''tenantId'', PStr tenant_id), (''appId'', PStr app_id), (''jobId'', PStr job_id),
                           (''attempt'', PInt attempt)]))"

definition send_to_dlq ::
  "'w webhook_services \<Rightarrow> string option \<Rightarrow> pydict \<Rightarrow> int \<Rightarrow> string \<Rightarrow> ('w, unit) io" where
  "send_to_dlq sv queue_url job attempt reason =
     (case queue_url of
        None \<Rightarrow> io_return ()
      | Some url \<Rightarrow>
          wh_send sv url None
            (json_dumps (PDict [(''tenantId'', dget job ''tenant_id''), (''appId'', dget job ''app_id''),
               (''jobId'', dget job ''job_id''), (''webhookId'', dget job ''webhook_id''), (''attempt'', PInt attempt),
               (''reason'', PStr reason)])))"

section \<open>One attempt\<close>

definition mark_and_send_dlq ::
  "'w webhook_services \<Rightarrow> delivery_config \<Rightarrow> tenant_context \<Rightarrow> string \<Rightarrow> pydict \<Rightarrow> int \<Rightarrow> string \<Rightarrow> string \<Rightarrow>
     ('w, unit) io" where
  "mark_and_send_dlq sv cfg ctx job_id job attempt err reason =
     io_bind (mark_delivery_state sv cfg ctx job_id False ''failed'' attempt (Some err))
       (\<lambda>_. send_to_dlq sv (dc_dlq_url cfg) job attempt reason)"

definition handle_delivery_failure ::
  "'w webhook_services \<Rightarrow> delivery_config \<Rightarrow> tenant_context \<Rightarrow> pydict \<Rightarrow> int \<Rightarrow> string \<Rightarrow> ('w, unit) io" where
  "handle_delivery_failure sv cfg ctx job attempt err =
     (let job_id = str_field job ''job_id'' in
      if should_retry attempt (dc_max_retry_attempts cfg) then
        io_bind (mark_delivery_state sv cfg ctx job_id False ''retrying'' attempt (Some err)) (\<lambda>_.
          case dc_retry_queue_url cfg of
            None \<Rightarrow> io_raise (RuntimeErr ''WEBHOOK_RETRY_QUEUE_URL is not configured'')
          | Some url \<Rightarrow>
              io_bind (retry_delay_seconds sv attempt) (\<lambda>delay.
                enqueue_retry sv url (str_field job ''tenant_id'') (str_field job ''app_id'') job_id (attempt + 1) delay))
      else
        io_bind (mark_delivery_state sv cfg ctx job_id False ''failed'' attempt (Some err))
          (\<lambda>_. send_to_dlq sv (dc_dlq_url cfg) job attempt err))"

text \<open>
  \<open>requests.RequestException\<close>, the base class of the HTTP library's errors, is written \<open>ExternalErr\<close> here, with the
  text of the error; any other exception passes.
\<close>

text \<open>The signed request is posted and its outcome recorded; only an error of the HTTP library counts as a failed delivery.\<close>

definition post_signed ::
  "'w webhook_services \<Rightarrow> delivery_config \<Rightarrow> tenant_context \<Rightarrow> pydict \<Rightarrow> int \<Rightarrow> string \<Rightarrow> string \<times> (string \<times> string) list \<Rightarrow> ('w, unit) io" where
  "post_signed sv cfg ctx job attempt url = (\<lambda>(payload_bytes, headers).
     io_bind
       (io_catch
          (io_bind (wh_post sv url payload_bytes headers (dc_http_timeout_seconds cfg)) (\<lambda>_. io_return None))
          (\<lambda>e. case e of ExternalErr m \<Rightarrow> io_return (Some m) | _ \<Rightarrow> io_raise e))
       (\<lambda>failure. case failure of
           Some m \<Rightarrow> handle_delivery_failure sv cfg ctx job attempt m
         | None \<Rightarrow> mark_delivery_state sv cfg ctx (str_field job ''job_id'') True ''delivered'' attempt None))"

definition attempt_delivery ::
  "'w webhook_services \<Rightarrow> delivery_config \<Rightarrow> pydict \<Rightarrow> int \<Rightarrow> ('w, unit) io" where
  "attempt_delivery sv cfg job attempt =
     io_bind (io_lift (tenant_context_from_job job)) (\<lambda>ctx.
       let job_id = str_field job ''job_id'';
           webhook_url = coerce_optional_string (dget job ''webhook_url'')
       in case (map_of terminal_job_events (str_field job ''status''), webhook_url) of
            (Some event_name, Some url) \<Rightarrow>
              if truthy (dget_or job ''webhook_delivered'' (PBool False)) then io_return ()
              else
                (case coerce_optional_string (dget job ''webhook_id'') of
                   None \<Rightarrow> mark_and_send_dlq sv cfg ctx job_id job attempt
                            ''Job is missing webhook_id required for signed delivery'' ''missing-webhook-id''
                 | Some webhook_id \<Rightarrow>
                     io_bind (get_webhook_registration sv (dc_tenants_table cfg) ctx webhook_id) (\<lambda>registration.
                       case registration of
                         None \<Rightarrow> mark_and_send_dlq sv cfg ctx job_id job attempt
                                   (''Webhook registration '' @ CHR 0x27 # webhook_id @ CHR 0x27 # '' not found'')
                                   ''missing-webhook-registration''
                       | Some reg \<Rightarrow>
                           if py_str (dget_or reg ''status'' (PStr ''active'')) \<noteq> ''active'' then
                             mark_delivery_state sv cfg ctx job_id False ''skipped'' attempt
                               (Some ''Webhook registration disabled'')
                           else
                             io_bind (io_lift (py_in event_name (py_or (dget reg ''events'') (PList [])))) (\<lambda>subscribed.
                               if \<not> subscribed then
                                 mark_delivery_state sv cfg ctx job_id False ''skipped'' attempt
                                   (Some (''Webhook is not subscribed to '' @ event_name))
                               else
                                 (case coerce_optional_string (dget reg ''signature_secret'') of
                                    None \<Rightarrow> mark_and_send_dlq sv cfg ctx job_id job attempt
                                              ''Webhook registration missing signature secret''
                                              ''missing-signature-secret''
                                  | Some secret \<Rightarrow>
                                      post_signed sv cfg ctx job attempt url
                                        (build_signed_request (wh_hmac sv) job event_name secret)))))
          | _ \<Rightarrow> io_return ())"

definition process_stream_record :: "'w webhook_services \<Rightarrow> delivery_config \<Rightarrow> pydict \<Rightarrow> ('w, unit) io" where
  "process_stream_record sv cfg rec =
     (case as_dict (dget_or rec ''dynamodb'' (PDict [])) of
        None \<Rightarrow> io_raise (AttributeError ''get'')
      | Some d \<Rightarrow>
          io_bind (io_lift (deserialize_image (wh_deserialize sv) (dget d ''NewImage''))) (\<lambda>new_image.
          io_bind (io_lift (deserialize_image (wh_deserialize sv) (dget d ''OldImage''))) (\<lambda>old_image.
          if should_process_stream_transition new_image old_image
          then attempt_delivery sv cfg new_image 1 else io_return ())))"

definition process_retry_record :: "'w webhook_services \<Rightarrow> delivery_config \<Rightarrow> pydict \<Rightarrow> ('w, unit) io" where
  "process_retry_record sv cfg rec =
     io_bind (io_lift (parse_retry_record rec)) (\<lambda>message.
       case message of
         None \<Rightarrow> io_return ()
       | Some m \<Rightarrow>
           io_bind (load_retry_job sv (dc_jobs_table cfg) m) (\<lambda>job.
             case job of None \<Rightarrow> io_return () | Some j \<Rightarrow> attempt_delivery sv cfg j (rm_attempt m)))"

section \<open>The entry point\<close>

definition record_source :: "pydict \<Rightarrow> string" where
  "record_source rec = py_str (py_or (py_or (dget rec ''eventSource'') (dget rec ''EventSource'')) (PStr []))"

definition process_record :: "'w webhook_services \<Rightarrow> delivery_config \<Rightarrow> pydict \<Rightarrow> ('w, unit) io" where
  "process_record sv cfg rec =
     (if record_source rec = ''aws:dynamodb'' then process_stream_record sv cfg rec
      else if record_source rec = ''aws:sqs'' then process_retry_record sv cfg rec
      else io_return ())"

fun handle_records ::
  "'w webhook_services \<Rightarrow> delivery_config \<Rightarrow> pyval list \<Rightarrow> string list \<Rightarrow> ('w, string list) io" where
  "handle_records sv cfg [] failures = io_return failures"
| "handle_records sv cfg (r # rs) failures =
     (case as_dict r of
        None \<Rightarrow> io_raise (AttributeError ''get'')
      | Some rec \<Rightarrow>
          (\<lambda>w. case process_record sv cfg rec w of
                 (Inr _, w1) \<Rightarrow> handle_records sv cfg rs failures w1
               | (Inl e, w1) \<Rightarrow>
                   if record_source rec = ''aws:sqs'' then
                     (let message_id = str_field rec ''messageId'' in
                      handle_records sv cfg rs (if message_id \<noteq> [] then failures @ [message_id] else failures) w1)
                   else (Inl e, w1)))"

definition webhook_handler :: "'w webhook_services \<Rightarrow> delivery_config \<Rightarrow> pydict \<Rightarrow> ('w, pydict) io" where
  "webhook_handler sv cfg event =
     (let records = dget_or event ''Records'' (PList []) in
      if \<not> truthy records then io_return [(''status'', PStr ''ignored'')]
      else io_bind (io_lift (py_iter records)) (\<lambda>rs.
           io_bind (handle_records sv cfg rs []) (\<lambda>failures.
             io_return (if failures \<noteq> []
               then [(''batchItemFailures'', PList (map (\<lambda>i. PDict [(''itemIdentifier'', PStr i)]) failures))]
               else [(''status'', PStr ''ok'')]))))"

section \<open>Delays\<close>

lemma retry_delay_result:
  "wh_jitter sv (min 900 (two_pow a)) w = (Inr j, w') \<Longrightarrow>
     retry_delay_seconds sv a w = (Inr (max 1 (min 900 (trunc_rat j))), w')"
  by (simp add: retry_delay_seconds_def Let_def io_bind_def two_pow_def)

text \<open>
  A retry is scheduled between one second and fifteen minutes ahead, for every attempt number and whatever
  value the jitter returns; when the jitter keeps to its base, the delay is at most the larger of a second and
  two to the power of the attempt.
\<close>

theorem retry_delay_bounds:
  assumes "retry_delay_seconds sv a w = (Inr d, w')"
  shows "1 \<le> d \<and> d \<le> 900
    \<and> (\<forall>j. wh_jitter sv (min 900 (two_pow a)) w = (Inr j, w') \<and> 0 \<le> j \<and> j \<le> two_pow a \<longrightarrow>
         of_int d \<le> max 1 (two_pow a))"
proof -
  obtain q w1 where q: "wh_jitter sv (min 900 (two_pow a)) w = (q, w1)" by fastforce
  obtain j where j: "q = Inr j"
    using assms q by (cases q) (auto simp: retry_delay_seconds_def Let_def io_bind_def)
  have d: "d = max 1 (min 900 (trunc_rat j))" "w1 = w'"
    using assms retry_delay_result[OF q[unfolded j]] by simp_all
  have "of_int d \<le> max 1 (two_pow a)" if "0 \<le> j" "j \<le> two_pow a"
  proof -
    have "of_int (trunc_rat j) \<le> j" using that(1) by (simp add: trunc_rat_def)
    with that(2) have "of_int (trunc_rat j) \<le> two_pow a" by simp
    then show ?thesis by (auto simp: d max_def min_def of_int_le_iff)
  qed
  with d q j show ?thesis by auto
qed

section \<open>One attempt, step by step\<close>

text \<open>
  The effects of an attempt, recorded: the store answers every read with \<open>reg\<close>, the endpoint answers with \<open>answer\<close>.
\<close>

datatype wh_event = Posted string string "(string \<times> string) list" | Marked bool string int
  | Sent string "int option" string

definition mark_of :: "kwargs \<Rightarrow> wh_event" where
  "mark_of kw =
     (case map_of kw ''ExpressionAttributeValues'' of
        Some (KwVal (PDict d)) \<Rightarrow>
          Marked (truthy (dget d '':delivered'')) (py_str (dget d '':status''))
            (case dget d '':attempts'' of PInt i \<Rightarrow> i | _ \<Rightarrow> 0)
      | _ \<Rightarrow> Marked False [] 0)"

definition recording_webhook ::
  "pydict option \<Rightarrow> unit res \<Rightarrow> (string \<Rightarrow> string \<Rightarrow> string) \<Rightarrow> rat \<Rightarrow> wh_event list webhook_services" where
  "recording_webhook reg answer hmac jitter =
     \<lparr>wh_aws = \<lparr>aw_get_item = (\<lambda>t kw. io_return reg), aw_put_item = (\<lambda>t kw. io_return ()),
        aw_update_item = (\<lambda>t kw w. (Inr [], w @ [mark_of kw])), aw_delete_item = (\<lambda>t kw. io_return ()),
        aw_query = (\<lambda>t kw. io_return (None, None)), aw_scan = (\<lambda>t kw. io_return (None, None)),
        aw_put_metric = (\<lambda>m. io_return ()), aw_log_error = (\<lambda>m w. w)\<rparr>,
      wh_post = (\<lambda>url body hs timeout w. (answer, w @ [Posted url body hs])),
      wh_send = (\<lambda>url delay body w. (Inr (), w @ [Sent url delay body])),
      wh_jitter = (\<lambda>base. io_return jitter), wh_hmac = hmac, wh_deserialize = (\<lambda>v. Inr v),
      wh_now_iso = ''now''\<rparr>"

lemma own_key_accepted: "ts_validate_pk sv ctx (tenant_key (tc_tenant_id ctx) sk) w = (Inr (), w)"
  by (simp add: ts_validate_pk_def tenant_key_def dget_or_def tenant_pk_prefix_def)

lemma mark_recorded:
  "mark_delivery_state (recording_webhook reg answer hmac j) cfg ctx job_id dl st n err w
     = (Inr (), w @ [Marked dl st n])"
  by (simp add: mark_delivery_state_def ts_update_item_def base_update_item_def io_bind_def own_key_accepted Let_def
      recording_webhook_def mark_of_def delivery_values_def dget_or_def)

lemma registration_recorded:
  "get_webhook_registration (recording_webhook reg answer hmac j) t ctx i w =
     (Inr (case reg of None \<Rightarrow> None
           | Some r \<Rightarrow> if str_field r ''tenant_id'' \<noteq> tc_tenant_id ctx then None else Some r), w)"
  by (simp add: get_webhook_registration_def ts_get_item_def base_get_item_def io_bind_def own_key_accepted
      recording_webhook_def split: option.split)

lemma retry_message_recorded:
  "enqueue_retry (recording_webhook reg answer hmac j) url t a i n d w
     = (Inr (), w @ [Sent url (Some d) (json_dumps (PDict [(''tenantId'', PStr t), (''appId'', PStr a),
          (''jobId'', PStr i), (''attempt'', PInt n)]))])"
  by (simp add: enqueue_retry_def recording_webhook_def)

definition dlq_events :: "delivery_config \<Rightarrow> pydict \<Rightarrow> int \<Rightarrow> string \<Rightarrow> wh_event list" where
  "dlq_events cfg job attempt reason =
     (case dc_dlq_url cfg of
        None \<Rightarrow> []
      | Some url \<Rightarrow> [Sent url None (json_dumps (PDict [(''tenantId'', dget job ''tenant_id''),
          (''appId'', dget job ''app_id''), (''jobId'', dget job ''job_id''), (''webhookId'', dget job ''webhook_id''),
          (''attempt'', PInt attempt), (''reason'', PStr reason)]))])"

lemma dlq_recorded:
  "send_to_dlq (recording_webhook reg answer hmac j) (dc_dlq_url cfg) job n reason w
     = (Inr (), w @ dlq_events cfg job n reason)"
  by (simp add: send_to_dlq_def dlq_events_def recording_webhook_def split: option.split)

definition failure_events :: "delivery_config \<Rightarrow> pydict \<Rightarrow> int \<Rightarrow> string \<Rightarrow> rat \<Rightarrow> unit res \<times> wh_event list" where
  "failure_events cfg job attempt err j =
     (if attempt \<le> dc_max_retry_attempts cfg then
        (case dc_retry_queue_url cfg of
           None \<Rightarrow> (Inl (RuntimeErr ''WEBHOOK_RETRY_QUEUE_URL is not configured''), [Marked False ''retrying'' attempt])
         | Some url \<Rightarrow> (Inr (), [Marked False ''retrying'' attempt,
             Sent url (Some (max 1 (min 900 (trunc_rat j)))) (json_dumps (PDict
               [(''tenantId'', PStr (str_field job ''tenant_id'')), (''appId'', PStr (str_field job ''app_id'')),
                (''jobId'', PStr (str_field job ''job_id'')), (''attempt'', PInt (attempt + 1))]))]))
      else (Inr (), Marked False ''failed'' attempt # dlq_events cfg job attempt err))"

lemma failure_recorded:
  "handle_delivery_failure (recording_webhook reg answer hmac j) cfg ctx job attempt err w
     = (fst (failure_events cfg job attempt err j), w @ snd (failure_events cfg job attempt err j))"
proof -
  have r: "retry_delay_seconds (recording_webhook reg answer hmac j) attempt w
      = (Inr (max 1 (min 900 (trunc_rat j))), w)" for w
    by (rule retry_delay_result) (simp add: recording_webhook_def)
  show ?thesis
    by (simp add: handle_delivery_failure_def failure_events_def Let_def should_retry_def io_bind_def mark_recorded
        retry_message_recorded dlq_recorded r split: option.split)
qed

lemma mark_and_dlq_recorded:
  "mark_and_send_dlq (recording_webhook reg answer hmac j) cfg ctx i job n err reason w
     = (Inr (), w @ Marked False ''failed'' n # dlq_events cfg job n reason)"
  by (simp add: mark_and_send_dlq_def io_bind_def mark_recorded dlq_recorded)

lemma signed_request:
  "build_signed_request hmac job ev secret = (body, hs) \<Longrightarrow>
     hs = [(''Content-Type'', ''application/json''), (''X-Platform-Signature'', ''sha256='' @ hmac secret body)]"
  by (auto simp: build_signed_request_def Let_def sign_payload_def)

lemma post_signed_recorded:
  assumes "post_signed (recording_webhook reg answer hmac j) cfg ctx job attempt url (body, hs) [] = (r, evs)"
  shows "case answer of
      Inr u \<Rightarrow> r = Inr () \<and> evs = [Posted url body hs, Marked True ''delivered'' attempt]
    | Inl (ExternalErr m) \<Rightarrow> r = fst (failure_events cfg job attempt m j) \<and> evs = Posted url body hs # snd (failure_events cfg job attempt m j)
    | Inl e \<Rightarrow> r = Inl e \<and> evs = [Posted url body hs]"
proof -
  let ?sv = "recording_webhook reg answer hmac j"
  have post: "wh_post ?sv u c h n w = (answer, w @ [Posted u c h])" for u c h n w by (simp add: recording_webhook_def)
  note run = assms[unfolded post_signed_def prod.case]
  show ?thesis
  proof (cases answer)
    case (Inr u)
    then have ans: "answer = Inr ()" by simp
    with run show ?thesis by (auto simp: io_bind_run mark_recorded post[unfolded ans] io_catch_def)
  next
    case ans: (Inl e)
    show ?thesis
    proof (cases "\<exists>m. e = ExternalErr m")
      case True
      then obtain m where m: "e = ExternalErr m" by blast
      with run ans show ?thesis by (auto simp: io_bind_run post[unfolded ans m] io_catch_def failure_recorded)
    next
      case False
      then have h: "(case e of ExternalErr m \<Rightarrow> io_return (Some m) | _ \<Rightarrow> io_raise e) = io_raise e" by (cases e) auto
      have "(Inl e, [Posted url body hs]) = (r, evs)" using run ans by (simp add: io_bind_run post[unfolded ans] io_catch_def h)
      with False ans show ?thesis by (cases e) auto
    qed
  qed
qed

lemma attempt_reaches_post:
  assumes run: "attempt_delivery (recording_webhook reg answer hmac j) cfg job attempt [] = (r, evs)"
  shows "evs = [] \<or> evs = [Marked False ''skipped'' attempt]
    \<or> (\<exists>reason. r = Inr () \<and> evs = Marked False ''failed'' attempt # dlq_events cfg job attempt reason)
    \<or> (\<exists>ctx url secret ev. map_of terminal_job_events (str_field job ''status'') = Some ev
        \<and> post_signed (recording_webhook reg answer hmac j) cfg ctx job attempt url (build_signed_request hmac job ev secret) [] = (r, evs))"
proof -
  have hmac: "wh_hmac (recording_webhook a b h c) = h" for a b h c by (simp add: recording_webhook_def)
  note steps = registration_recorded mark_recorded mark_and_dlq_recorded hmac
  show ?thesis
    using run
    by (auto simp: attempt_delivery_def Let_def io_bind_run steps split: sum.splits option.splits if_splits prod.splits)
qed


theorem retry_delay_bounds_witness:
  "\<exists>d w'. retry_delay_seconds (recording_webhook None (Inr ()) (\<lambda>s b. b) 7) 3 [] = (Inr d, w') \<and> 1 \<le> d \<and> d \<le> 900"
proof -
  have "retry_delay_seconds (recording_webhook None (Inr ()) (\<lambda>s b. b) 7) 3 [] = (Inr (max 1 (min 900 (trunc_rat 7))), [])"
    by (rule retry_delay_result) (simp add: recording_webhook_def)
  from retry_delay_bounds[OF this] this show ?thesis by blast
qed

definition sample_job :: pydict where
  "sample_job = [(''job_id'', PStr ''j1''), (''tenant_id'', PStr ''acme''), (''app_id'', PStr ''app''),
     (''status'', PStr ''completed''), (''webhook_url'', PStr ''https://hook''), (''webhook_id'', PStr ''w1'')]"

definition sample_registration :: pydict where
  "sample_registration = [(''tenant_id'', PStr ''acme''), (''events'', PList [PStr ''job.completed'']),
     (''signature_secret'', PStr ''s'')]"

definition sample_delivery :: delivery_config where
  "sample_delivery = \<lparr>dc_jobs_table = ''jobs'', dc_tenants_table = ''tenants'', dc_retry_queue_url = Some ''retry'',
     dc_dlq_url = Some ''dlq'', dc_max_retry_attempts = 3, dc_http_timeout_seconds = 10\<rparr>"


section \<open>Once per job\<close>

text \<open>
  The changes of one job as the stream shows them: pairs of an old and a new image, the first with no old image.
\<close>

fun stream_changes :: "pydict \<Rightarrow> pydict list \<Rightarrow> (pydict \<times> pydict) list" where
  "stream_changes old [] = []"
| "stream_changes old (new # rest) = (new, old) # stream_changes new rest"

definition first_attempts :: "pydict list \<Rightarrow> nat" where
  "first_attempts images =
     length (filter (\<lambda>(new, old). should_process_stream_transition new old) (stream_changes [] images))"

lemma no_attempt_after_terminal:
  assumes "is_terminal old" and "old \<noteq> []" and "\<forall>i \<in> set images. is_terminal i"
  shows "filter (\<lambda>(new, old). should_process_stream_transition new old) (stream_changes old images) = []"
  using assms
proof (induction images arbitrary: old)
  case (Cons i rest)
  have "\<not> should_process_stream_transition i old" using Cons.prems by (simp add: should_process_stream_transition_def)
  moreover have "i \<noteq> []"
    using Cons.prems(3) by (auto simp: is_terminal_def dget_or_def)
  ultimately show ?case using Cons by simp
qed simp

lemma attempts_from:
  assumes "\<forall>n. n < length images \<and> is_terminal (images ! n) \<longrightarrow> (\<forall>m. n \<le> m \<and> m < length images \<longrightarrow> is_terminal (images ! m))"
  shows "length (filter (\<lambda>(new, old). should_process_stream_transition new old) (stream_changes old images)) \<le> 1"
  using assms
proof (induction images arbitrary: old)
  case (Cons i rest)
  have tail: "\<forall>n. n < length rest \<and> is_terminal (rest ! n) \<longrightarrow>
      (\<forall>m. n \<le> m \<and> m < length rest \<longrightarrow> is_terminal (rest ! m))"
  proof (intro allI impI)
    fix n m assume "n < length rest \<and> is_terminal (rest ! n)" "n \<le> m \<and> m < length rest"
    with Cons.prems[THEN spec, of "Suc n"] show "is_terminal (rest ! m)" by (auto dest: spec[of _ "Suc m"])
  qed
  show ?case
  proof (cases "is_terminal i")
    case True
    have "\<forall>j \<in> set rest. is_terminal j"
    proof
      fix j assume "j \<in> set rest"
      then obtain m where "m < length rest" "j = rest ! m" by (auto simp: in_set_conv_nth)
      with Cons.prems[THEN spec, of 0] True show "is_terminal j" by (auto dest: spec[of _ "Suc m"])
    qed
    moreover have "i \<noteq> []" using True by (auto simp: is_terminal_def dget_or_def)
    ultimately have "filter (\<lambda>(new, old). should_process_stream_transition new old) (stream_changes i rest) = []"
      using True by (intro no_attempt_after_terminal) auto
    then show ?thesis by simp
  next
    case False
    then have "\<not> should_process_stream_transition i old" by (simp add: should_process_stream_transition_def)
    with Cons.IH[OF tail] show ?thesis by simp
  qed
qed simp

text \<open>
  Property C35. A job whose status stays terminal once it is terminal starts at most one delivery from the stream, however
  often its record is written afterwards; the writes of the delivery itself start none.
\<close>

theorem at_most_one_first_attempt:
  assumes "\<forall>n. n < length images \<and> is_terminal (images ! n) \<longrightarrow>
    (\<forall>m. n \<le> m \<and> m < length images \<longrightarrow> is_terminal (images ! m))"
  shows "first_attempts images \<le> 1"
  unfolding first_attempts_def by (rule attempts_from[OF assms])

theorem at_most_one_first_attempt_witness:
  "first_attempts [[(''status'', PStr ''running'')], sample_job, sample_job @ [(''webhook_delivered'', PBool True)]] \<le> 1"
proof (rule at_most_one_first_attempt)
  let ?l = "[[(''status'', PStr ''running'')], sample_job, sample_job @ [(''webhook_delivered'', PBool True)]]"
  have t: "\<not> is_terminal (?l ! 0)" "is_terminal (?l ! 1)" "is_terminal (?l ! 2)" by code_simp+
  show "\<forall>n. n < length ?l \<and> is_terminal (?l ! n) \<longrightarrow> (\<forall>m. n \<le> m \<and> m < length ?l \<longrightarrow> is_terminal (?l ! m))"
  proof (intro allI impI)
    fix n m assume "n < length ?l \<and> is_terminal (?l ! n)" "n \<le> m \<and> m < length ?l"
    with t have "m = 1 \<or> m = 2" by (cases n) auto
    with t show "is_terminal (?l ! m)" by auto
  qed
qed

section \<open>Batches\<close>

text \<open>The records of a batch with the result each gave, when none stops the batch.\<close>

fun record_results ::
  "'w webhook_services \<Rightarrow> delivery_config \<Rightarrow> pyval list \<Rightarrow> 'w \<Rightarrow> (pydict \<times> bool) list" where
  "record_results sv cfg [] w = []"
| "record_results sv cfg (r # rs) w =
     (case process_record sv cfg (dict_or_empty r) w of
        (q, w1) \<Rightarrow> (dict_or_empty r, is_err q) # record_results sv cfg rs w1)"

definition failed_ids :: "(pydict \<times> bool) list \<Rightarrow> string list" where
  "failed_ids rs = filter (\<lambda>i. i \<noteq> []) (map (\<lambda>(rec, _). str_field rec ''messageId'') (filter snd rs))"

lemma handle_records_failures:
  assumes "handle_records sv cfg rs failures w = (Inr ids, w')"
  shows "ids = failures @ failed_ids (record_results sv cfg rs w)
    \<and> (\<forall>(rec, failed) \<in> set (record_results sv cfg rs w). failed \<longrightarrow> record_source rec = ''aws:sqs'')"
  using assms
proof (induction sv cfg rs failures arbitrary: w rule: handle_records.induct)
  case (2 sv cfg r rs failures)
  then obtain rec where rec: "as_dict r = Some rec" by (cases "as_dict r") auto
  then have d: "dict_or_empty r = rec" by (simp add: dict_or_empty_def)
  obtain q w1 where q: "process_record sv cfg rec w = (q, w1)" by fastforce
  show ?case
  proof (cases q)
    case (Inr u)
    then have u: "q = Inr ()" by simp
    with "2.prems" rec q have "handle_records sv cfg rs failures w1 = (Inr ids, w')" by simp
    from "2.IH"(2)[OF rec q[symmetric] Inr this] q u d show ?thesis
      by (simp add: failed_ids_def)
  next
    case (Inl e)
    have src: "record_source rec = ''aws:sqs''" using "2.prems" rec q Inl by (auto split: if_splits)
    let ?i = "str_field rec ''messageId''"
    have run: "handle_records sv cfg rs (if ?i \<noteq> [] then failures @ [?i] else failures) w1 = (Inr ids, w')"
      using "2.prems" rec q Inl src by (simp add: Let_def)
    from "2.IH"(1)[OF rec q[symmetric] Inl src refl run] q Inl d src show ?thesis
      by (simp add: failed_ids_def)
  qed
qed (simp add: failed_ids_def)

text \<open>
  Property C34. A batch that returns reports exactly the failed messages, in order, so SQS redelivers those and no
  others; only a failed message without an identifier is lost, and a failed stream record never returns normally.
\<close>

theorem batch_reports_exactly_failures:
  assumes "webhook_handler sv cfg [(''Records'', PList rs)] w = (Inr out, w')" and "rs \<noteq> []"
  shows "(\<forall>(rec, failed) \<in> set (record_results sv cfg rs w). failed \<longrightarrow> record_source rec = ''aws:sqs'')
    \<and> out = (if failed_ids (record_results sv cfg rs w) = [] then [(''status'', PStr ''ok'')]
             else [(''batchItemFailures'', PList (map (\<lambda>i. PDict [(''itemIdentifier'', PStr i)])
                      (failed_ids (record_results sv cfg rs w))))])"
proof -
  have g: "dget_or [(''Records'', PList rs)] ''Records'' (PList []) = PList rs" by (simp add: dget_or_def)
  obtain q w1 where q: "handle_records sv cfg rs [] w = (q, w1)" by fastforce
  with assms g obtain ids where ids: "q = Inr ids" by (cases q) (auto simp: webhook_handler_def io_bind_def)
  from handle_records_failures[OF q[unfolded ids]] assms g q ids show ?thesis
    by (auto simp: webhook_handler_def io_bind_def split: if_splits)
qed

definition sample_batch :: "pyval list" where
  "sample_batch =
     [PDict [(''eventSource'', PStr ''aws:sqs''), (''messageId'', PStr ''m1''), (''body'', PStr ''not json'')],
      PDict [(''eventSource'', PStr ''aws:sqs''), (''messageId'', PStr ''m2''), (''body'', PStr [CHR 0x7B, CHR 0x7D])]]"

theorem batch_reports_exactly_failures_witness:
  "\<exists>w'. webhook_handler (recording_webhook None (Inr ()) (\<lambda>s b. s) 1) sample_delivery [(''Records'', PList sample_batch)] []
      = (Inr [(''batchItemFailures'', PList [PDict [(''itemIdentifier'', PStr ''m1'')]])], w')"
proof -
  let ?sv = "recording_webhook None (Inr ()) (\<lambda>s b. s) 1"
  let ?run = "webhook_handler ?sv sample_delivery [(''Records'', PList sample_batch)] []"
  obtain q w' where run: "?run = (q, w')" by fastforce
  have "\<not> is_err (fst ?run)" by code_simp
  with run obtain out where q: "q = Inr out" by (cases q) auto
  have ids: "failed_ids (record_results ?sv sample_delivery sample_batch []) = [''m1'']" by code_simp
  have ne: "sample_batch \<noteq> []" by (simp add: sample_batch_def)
  from batch_reports_exactly_failures[OF run[unfolded q] ne] ids run q show ?thesis by auto
qed

end
