(* ===== verification/TenantApi.thy ===== *)
theory TenantApi
  imports Json DataAccess
begin

text \<open>
  What the routes of \<open>src/tenant_api\<close> share: the caller and its roles (\<open>models\<close>, \<open>http_utils\<close>), the role checks (\<open>auth\<close>),
  validation of identifiers (\<open>validation\<close>), the normalisers (\<open>lifecycle_logic\<close>, \<open>agent_logic\<close>), the responses, the
  tenant-scoped client (\<open>db_factory\<close>), the update expressions (\<open>db_utils\<close>) and the serialised tenant (\<open>serialization\<close>).
\<close>

named_theorems api_simps \<open>the role checks and small helpers of the tenant API\<close>

definition opt_pstr :: "string option \<Rightarrow> pyval" where
  "opt_pstr v = (case v of None \<Rightarrow> PNone | Some s \<Rightarrow> PStr s)"

text \<open>\<open>v.get(k)\<close> on a value that should be a dictionary.\<close>

definition need_dict :: "pyval \<Rightarrow> pydict res" where
  "need_dict v = (case as_dict v of None \<Rightarrow> Inl (AttributeError ''get'') | Some d \<Rightarrow> Inr d)"

section \<open>Responses (\<open>http_utils.py\<close>)\<close>

definition response :: "int \<Rightarrow> pydict \<Rightarrow> pydict" where
  "response status_code body =
     [(''statusCode'', PInt status_code),
      (''headers'', PDict [(''Content-Type'', PStr ''application/json'')]),
      (''body'', PStr (json_dumps (PDict body)))]"

definition api_error :: "int \<Rightarrow> string \<Rightarrow> string \<Rightarrow> pydict" where
  "api_error status_code code message =
     response status_code [(''error'', PDict [(''code'', PStr code), (''message'', PStr message)])]"

definition status_of :: "pydict \<Rightarrow> pyval" where
  "status_of r = dget r ''statusCode''"

lemma status_of_response [simp]: "status_of (response n b) = PInt n"
  by (simp add: status_of_def response_def dget_or_def)

lemma status_of_error [simp]: "status_of (api_error n c m) = PInt n"
  by (simp add: api_error_def)

definition require_json_body :: "pydict \<Rightarrow> pydict res" where
  "require_json_body event =
     (case dget event ''body'' of
        PNone \<Rightarrow> Inl (ValueError ''Request body is required'')
      | PStr raw \<Rightarrow>
          (case json_loads raw of
             Inl e \<Rightarrow> Inl (ValueError ''Malformed JSON body'')
           | Inr v \<Rightarrow> (case as_dict v of
                         None \<Rightarrow> Inl (ValueError ''JSON body must be an object'')
                       | Some d \<Rightarrow> Inr d))
      | _ \<Rightarrow> Inl (ValueError ''Request body must be a JSON string''))"

text \<open>Every failure of \<open>require_json_body\<close> is the \<open>ValueError\<close> the handlers answer with status 400.\<close>

lemma require_json_body_err: "require_json_body event = Inl e \<Longrightarrow> \<exists>m. e = ValueError m"
  by (auto simp: require_json_body_def split: pyval.splits sum.splits option.splits)

section \<open>The caller\<close>

record caller_identity =
  ci_tenant_id :: "string option"
  ci_app_id :: "string option"
  ci_tier :: "string option"
  ci_sub :: "string option"
  ci_roles :: "string list"
  ci_usage_key :: "string option"

definition get_authorizer_map :: "pydict \<Rightarrow> pydict res" where
  "get_authorizer_map event =
     bind_res (need_dict (dget_or event ''requestContext'' (PDict []))) (\<lambda>request_context.
       (case as_dict (dget_or request_context ''authorizer'' (PDict [])) of
          None \<Rightarrow> Inr []
        | Some authorizer \<Rightarrow>
            (case as_dict (dget authorizer ''lambda'') of
               Some l \<Rightarrow> Inr l
             | None \<Rightarrow> Inr authorizer)))"

text \<open>\<open>s.split()\<close>: the maximal runs of characters that are no white space.\<close>

fun split_ws :: "string \<Rightarrow> string list" where
  "split_ws [] = []"
| "split_ws (c # cs) =
     (if py_space c then split_ws cs
      else (case cs of
              [] \<Rightarrow> [[c]]
            | d # ds \<Rightarrow> if py_space d then [c] # split_ws cs
                        else (case split_ws cs of [] \<Rightarrow> [[c]] | p # ps \<Rightarrow> (c # p) # ps)))"

definition role_names :: "pyval list \<Rightarrow> string list" where
  "role_names xs = filter (\<lambda>r. r \<noteq> []) (map (\<lambda>v. py_strip (py_str v)) xs)"

definition parse_roles :: "pyval \<Rightarrow> string list" where
  "parse_roles v =
     (let words = (\<lambda>s. filter (\<lambda>p. p \<noteq> []) (map py_strip
                     (split_ws (map (\<lambda>c. if c = CHR '','' then CHR '' '' else c) s))))
      in case v of
        PList xs \<Rightarrow> role_names xs
      | PStr s \<Rightarrow>
          (case json_loads s of
             Inr (PList xs) \<Rightarrow> role_names xs
           | _ \<Rightarrow> words s)
      | _ \<Rightarrow> [])"

definition caller_identity_of :: "pydict \<Rightarrow> caller_identity res" where
  "caller_identity_of event =
     bind_res (get_authorizer_map event) (\<lambda>auth. Inr
       \<lparr>ci_tenant_id = coerce_optional_string (py_or (dget auth ''tenantid'') (dget auth ''tenantId'')),
        ci_app_id = coerce_optional_string (py_or (dget auth ''appid'') (dget auth ''appId'')),
        ci_tier = coerce_optional_string (dget auth ''tier''),
        ci_sub = coerce_optional_string (dget auth ''sub''),
        ci_roles = parse_roles (dget auth ''roles''),
        ci_usage_key = coerce_optional_string
          (py_or (dget auth ''usageIdentifierKey'') (dget auth ''usage_identifier_key''))\<rparr>)"

section \<open>Roles (\<open>constants.py\<close>, \<open>models.py\<close>, \<open>auth.py\<close>)\<close>

definition platform_tenant :: string where
  "platform_tenant = ''platform''"

definition admin_roles :: "string list" where
  "admin_roles = [''Platform.Admin'']"

definition platform_self_service_admin_roles :: "string list" where
  "platform_self_service_admin_roles = [''Platform.Admin'', ''Platform.Operator'']"

definition self_service_admin_roles :: "string list" where
  "self_service_admin_roles = [''Platform.Admin'', ''Platform.Operator'', ''SelfService.Admin'']"

text \<open>\<open>bool(caller.roles & S)\<close>.\<close>

definition has_role_of :: "string list \<Rightarrow> caller_identity \<Rightarrow> bool" where
  "has_role_of S caller \<longleftrightarrow> list_ex (\<lambda>r. r \<in> set S) (ci_roles caller)"

definition is_admin :: "caller_identity \<Rightarrow> bool" where
  "is_admin caller = has_role_of admin_roles caller"

definition is_platform_actor :: "caller_identity \<Rightarrow> bool" where
  "is_platform_actor caller \<longleftrightarrow> ci_tenant_id caller = Some platform_tenant"

definition require_admin :: "caller_identity \<Rightarrow> unit res" where
  "require_admin caller =
     (if \<not> is_admin caller then Inl (PermissionErr ''Platform.Admin or Platform.Operator role required'')
      else Inr ())"

definition require_platform_actor :: "caller_identity \<Rightarrow> unit res" where
  "require_platform_actor caller =
     (if \<not> is_platform_actor caller then Inl (PermissionErr ''Platform tenant context required'') else Inr ())"

definition can_read_tenant :: "caller_identity \<Rightarrow> string \<Rightarrow> bool" where
  "can_read_tenant caller tenant_id \<longleftrightarrow> is_admin caller \<or> ci_tenant_id caller = Some tenant_id"

definition is_self_service_admin :: "caller_identity \<Rightarrow> bool" where
  "is_self_service_admin caller = has_role_of self_service_admin_roles caller"

definition can_manage_tenant_self_service :: "caller_identity \<Rightarrow> string \<Rightarrow> bool" where
  "can_manage_tenant_self_service caller tenant_id =
     (if \<not> is_self_service_admin caller then False
      else if ci_tenant_id caller = Some tenant_id then True
      else is_platform_actor caller \<and> has_role_of platform_self_service_admin_roles caller)"

lemma require_admin_iff [api_simps]:
  "require_admin c = Inr u \<longleftrightarrow> is_admin c"
  "require_admin c = Inl e \<longleftrightarrow>
     \<not> is_admin c \<and> e = PermissionErr ''Platform.Admin or Platform.Operator role required''"
  by (auto simp: require_admin_def)

lemma require_platform_actor_iff [api_simps]:
  "require_platform_actor c = Inr u \<longleftrightarrow> is_platform_actor c"
  "require_platform_actor c = Inl e \<longleftrightarrow>
     \<not> is_platform_actor c \<and> e = PermissionErr ''Platform tenant context required''"
  by (auto simp: require_platform_actor_def)

lemma is_admin_iff: "is_admin c \<longleftrightarrow> ''Platform.Admin'' \<in> set (ci_roles c)"
  by (auto simp: is_admin_def has_role_of_def admin_roles_def list_ex_iff)

section \<open>Identifiers (\<open>validation.py\<close>)\<close>

definition is_lower_char :: "char \<Rightarrow> bool" where
  "is_lower_char c \<longleftrightarrow> 97 \<le> code_point c \<and> code_point c \<le> 122"

definition is_id_char :: "char \<Rightarrow> bool" where
  "is_id_char c \<longleftrightarrow> is_lower_char c \<or> is_digit c \<or> c = CHR ''-''"

text \<open>\<open>TENANT_ID_PATTERN.fullmatch\<close>.\<close>

definition tenant_id_pattern :: "string \<Rightarrow> bool" where
  "tenant_id_pattern s \<longleftrightarrow>
     3 \<le> length s \<and> length s \<le> 32 \<and> is_lower_char (hd s) \<and> list_all is_id_char (butlast (tl s))
     \<and> (is_lower_char (last s) \<or> is_digit (last s))"

definition reserved_tenant_ids :: "string list" where
  "reserved_tenant_ids = [''platform'', ''admin'', ''root'', ''system'', ''stub'']"

definition canonical_tenant_id :: "pyval \<Rightarrow> bool \<Rightarrow> string res" where
  "canonical_tenant_id v allow_reserved =
     (case coerce_optional_string v of
        None \<Rightarrow> Inl (ValueError ''tenantId is required'')
      | Some tenant_id \<Rightarrow>
          (let normalized = py_lower tenant_id in
           if length normalized < 3 \<or> length normalized > 32
           then Inl (ValueError ''tenantId must be 3-32 characters'')
           else if str_contains normalized ''--''
           then Inl (ValueError ''tenantId must not contain consecutive hyphens'')
           else if normalized \<in> set reserved_tenant_ids \<and> \<not> (allow_reserved \<and> normalized = ''platform'')
           then Inl (ValueError ''tenantId is reserved'')
           else if \<not> tenant_id_pattern normalized
           then Inl (ValueError ''tenantId must match ^[a-z](?:[a-z0-9-]{1,30}[a-z0-9])$'')
           else Inr normalized))"

definition is_account_id :: "string \<Rightarrow> bool" where
  "is_account_id s \<longleftrightarrow> length s = 12 \<and> list_all is_digit s"

definition require_aws_account_id :: "pyval \<Rightarrow> string \<Rightarrow> string res" where
  "require_aws_account_id v field =
     (case coerce_optional_string v of
        None \<Rightarrow> Inl (ValueError (field @ '' is required''))
      | Some account_id \<Rightarrow>
          if \<not> is_account_id account_id then Inl (ValueError (field @ '' must match ^[0-9]{12}$''))
          else Inr account_id)"

definition require_platform_home_account_id :: "environ \<Rightarrow> pyval \<Rightarrow> string res" where
  "require_platform_home_account_id env v =
     bind_res (require_aws_account_id v ''accountId'') (\<lambda>account_id.
     bind_res (require_aws_account_id (opt_pstr (env ''PLATFORM_ACCOUNT_ID'')) ''PLATFORM_ACCOUNT_ID'')
       (\<lambda>home. if account_id \<noteq> home
               then Inl (ValueError ''accountId must equal the platform home account'')
               else Inr account_id))"

section \<open>Normalisers (\<open>lifecycle_logic.py\<close>, \<open>agent_logic.py\<close>, \<open>utils.py\<close>)\<close>

definition normalize_tier :: "pyval \<Rightarrow> string res" where
  "normalize_tier v =
     (case coerce_optional_string v of
        None \<Rightarrow> Inl (ValueError ''tier is required'')
      | Some t \<Rightarrow> (case tier_of (py_lower t) of
                      None \<Rightarrow> Inl (ValueError ''tier must be one of: basic, standard, premium'')
                    | Some x \<Rightarrow> Inr (tier_value x)))"

definition normalize_status :: "pyval \<Rightarrow> string res" where
  "normalize_status v =
     (case coerce_optional_string v of
        None \<Rightarrow> Inl (ValueError ''status is required'')
      | Some t \<Rightarrow> (case tenant_status_of (py_lower t) of
                      None \<Rightarrow> Inl (ValueError ''status must be one of: active, suspended, deleted'')
                    | Some x \<Rightarrow> Inr (tenant_status_value x)))"

text \<open>\<open>normalize_agent_status(v)\<close> on a value of a record or of a body.\<close>

definition status_arg_of :: "pyval \<Rightarrow> status_arg" where
  "status_arg_of v = (case v of PNone \<Rightarrow> NoStatus | _ \<Rightarrow> StatusText (py_str v))"

definition normalize_agent_status_val :: "pyval \<Rightarrow> agent_status res" where
  "normalize_agent_status_val v =
     (case normalize_agent_status (status_arg_of (opt_pstr (coerce_optional_string v))) None of
        Inl (ValueError _) \<Rightarrow> Inl (ValueError
          (''status must be one of: '' @ str_join '', '' (map agent_status_value all_agent_statuses)))
      | r \<Rightarrow> r)"

definition validate_agent_status_transition :: "agent_status \<Rightarrow> agent_status \<Rightarrow> unit res" where
  "validate_agent_status_transition current_status new_status =
     (if new_status = current_status then Inr ()
      else (let allowed = agent_status_transitions current_status in
            if new_status \<notin> set allowed
            then Inl (ValueError (''Invalid agent status transition: '' @ agent_status_value current_status
                   @ '' -> '' @ agent_status_value new_status @ ''. Allowed transitions: ''
                   @ (if allowed = [] then ''none''
                      else str_join '', '' (map fst (sort_keys (map (\<lambda>s. (agent_status_value s, ())) allowed))))))
            else Inr ()))"

lemma transition_ok_iff [api_simps]:
  "validate_agent_status_transition c n = Inr u \<longleftrightarrow> n = c \<or> n \<in> set (agent_status_transitions c)"
  by (auto simp: validate_agent_status_transition_def Let_def)

section \<open>Accepted identifiers are canonical\<close>

lemma id_pattern_chars: "tenant_id_pattern s \<Longrightarrow> list_all is_id_char s"
proof -
  assume p: "tenant_id_pattern s"
  then have "s = hd s # butlast (tl s) @ [last s]"
    by (cases s; cases "tl s") (auto simp: tenant_id_pattern_def)
  moreover have "list_all is_id_char (hd s # butlast (tl s) @ [last s])"
    using p by (auto simp: tenant_id_pattern_def is_id_char_def)
  ultimately show ?thesis by metis
qed

lemma id_char_facts:
  assumes "is_id_char c"
  shows "py_lower_char c = c" and "\<not> py_space c" and "c \<notin> {CHR ''/'', CHR ''#'', CHR '':''}"
proof -
  have "\<not> (65 \<le> code_point c \<and> code_point c \<le> 90)" "code_point c < 192" "code_point c = 45 \<or> 48 \<le> code_point c \<and> code_point c \<le> 57 \<or> 97 \<le> code_point c \<and> code_point c \<le> 122"
    using assms by (auto simp: is_id_char_def is_lower_char_def is_digit_def code_point_def)
  note n = this
  show "py_lower_char c = c" using n by (auto simp: py_lower_char_def Let_def)
  show "\<not> py_space c" "c \<notin> {CHR ''/'', CHR ''#'', CHR '':''}"
    using n by (auto simp: py_space_def code_point_def)
qed

lemma id_text_facts:
  assumes "list_all is_id_char s"
  shows "py_lower s = s" and "py_strip s = s" and "CHR ''/'' \<notin> set s \<and> CHR ''#'' \<notin> set s \<and> CHR '':'' \<notin> set s"
proof -
  show "py_lower s = s" using assms by (simp add: py_lower_def list_all_iff map_idI id_char_facts(1))
  show "py_strip s = s" by (rule py_strip_id) (use assms in \<open>auto simp: list_all_iff id_char_facts(2) dest: hd_in_set last_in_set\<close>)
  show "CHR ''/'' \<notin> set s \<and> CHR ''#'' \<notin> set s \<and> CHR '':'' \<notin> set s"
    using assms id_char_facts(3) by (auto simp: list_all_iff)
qed

lemma canonical_tenant_id_cases:
  assumes "canonical_tenant_id v r = Inr t"
  shows "tenant_id_pattern t" and "t \<in> set reserved_tenant_ids \<Longrightarrow> r \<and> t = ''platform''"
    and "3 \<le> length t" and "length t \<le> 32" and "\<not> str_contains t ''--''"
  using assms by (auto simp: canonical_tenant_id_def Let_def split: option.splits if_splits)

text \<open>
  Property C22. Whatever a request carries as a tenant identifier, one that is accepted is in canonical form: three to thirty-two lower-case
  letters, digits and hyphens, so none of the separators the stores put around it, not a reserved name unless that was allowed, and
  accepted again as it is.
\<close>

theorem tenant_ids_are_canonical:
  assumes "canonical_tenant_id v allow_reserved = Inr t"
  shows "3 \<le> length t \<and> length t \<le> 32 \<and> list_all is_id_char t
    \<and> CHR ''/'' \<notin> set t \<and> CHR ''#'' \<notin> set t \<and> CHR '':'' \<notin> set t
    \<and> (t \<in> set reserved_tenant_ids \<longrightarrow> allow_reserved \<and> t = ''platform'')
    \<and> canonical_tenant_id (PStr t) allow_reserved = Inr t"
proof -
  note c = canonical_tenant_id_cases[OF assms]
  note chars = id_pattern_chars[OF c(1)]
  have "canonical_tenant_id (PStr t) allow_reserved = Inr t"
    using c by (auto simp: canonical_tenant_id_def coerce_optional_string_def id_text_facts[OF chars])
  with c chars id_text_facts(3)[OF chars] show ?thesis by blast
qed

theorem tenant_ids_are_canonical_witness:
  "canonical_tenant_id (PStr ''  Acme-01 '') False = Inr ''acme-01'' \<and> canonical_tenant_id (PStr ''acme-01'') False = Inr ''acme-01''"
proof -
  have "canonical_tenant_id (PStr ''  Acme-01 '') False = Inr ''acme-01''" by code_simp
  with tenant_ids_are_canonical[OF this] show ?thesis by blast
qed

end
