(* ===== verification/TenantStore.thy ===== *)
theory TenantStore
  imports TenantApi Calendar ObjectStore
begin

text \<open>
  The services of the tenant API as parameters, the clients \<open>db_factory\<close> makes for a caller, the update expressions of
  \<open>db_utils\<close> with what DynamoDB does with them, and the boundary that turns exceptions into responses.
\<close>

section \<open>Services\<close>

text \<open>
  \<open>TenantApiDependencies\<close> and the library calls the handlers make: DynamoDB through \<open>'w aws\<close>, S3 through \<open>'w s3\<close>,
  EventBridge with one entry, the clock in seconds, the calls of Secrets Manager and of Lambda by their name and arguments, the
  pages of \<open>list_versions_by_function\<close>, a parameter of SSM, the usage client, the memory provisioner, the quota client, the
  random names, and two library functions: \<open>datetime.fromisoformat\<close> (the moment, and whether the text names a time zone) and
  \<open>urlparse\<close> (scheme and network location).
\<close>

record 'w tenant_deps =
  td_aws :: "'w aws"
  td_s3 :: "'w s3"
  td_put_events :: "pydict \<Rightarrow> ('w, pyval) io"
  td_now :: "('w, rat) io"
  td_secrets :: "string \<Rightarrow> pydict \<Rightarrow> ('w, pyval) io"
  td_lambda :: "string \<Rightarrow> pydict \<Rightarrow> ('w, pyval) io"
  td_versions :: "string \<Rightarrow> ('w, pydict list) io"
  td_ssm :: "string \<Rightarrow> ('w, pydict) io"
  td_usage :: "string \<Rightarrow> string option \<Rightarrow> ('w, pyval) io"
  td_provision_memory :: "string \<Rightarrow> string \<Rightarrow> ('w, pyval) io"
  td_quota :: "string \<Rightarrow> ('w, pyval) io"
  td_token_hex :: "nat \<Rightarrow> ('w, string) io"
  td_token_urlsafe :: "nat \<Rightarrow> ('w, string) io"
  td_uuid4 :: "('w, string) io"
  td_fromisoformat :: "string \<Rightarrow> (rat \<times> bool) res"
  td_urlparse :: "string \<Rightarrow> (string \<times> string) res"

definition put_event :: "'w tenant_deps \<Rightarrow> environ \<Rightarrow> string \<Rightarrow> pydict \<Rightarrow> ('w, pyval) io" where
  "put_event deps env detail_type detail =
     td_put_events deps
       [(''Source'', PStr ''platform.tenant_api''), (''DetailType'', PStr detail_type),
        (''Detail'', PStr (json_dumps (PDict detail))),
        (''EventBusName'', PStr (env_or env ''EVENT_BUS_NAME'' ''default''))]"

section \<open>Exceptions at the boundary (\<open>handle_event\<close>)\<close>

text \<open>A \<open>ClientError\<close> of the AWS library carries its code.\<close>

definition client_error :: "string \<Rightarrow> exc" where
  "client_error code = ExternalErr (''ClientError:'' @ code)"

definition client_code :: "exc \<Rightarrow> string option" where
  "client_code e =
     (case e of
        ExternalErr m \<Rightarrow> if starts_with m ''ClientError:'' then Some (remove_prefix m ''ClientError:'') else None
      | _ \<Rightarrow> None)"

lemma client_code_error [simp]: "client_code (client_error c) = Some c"
  unfolding client_code_def client_error_def by (simp del: append_Cons add: starts_with_def remove_prefix_def)

text \<open>The name of an error of the AWS library: the code of a \<open>ClientError\<close>, the class of a \<open>BotoCoreError\<close>.\<close>

definition aws_error_name :: "exc \<Rightarrow> string option" where
  "aws_error_name e =
     (case client_code e of
        Some c \<Rightarrow> Some c
      | None \<Rightarrow> (case e of
                  ExternalErr m \<Rightarrow>
                    if starts_with m ''BotoCoreError:'' then Some (remove_prefix m ''BotoCoreError:'') else None
                | _ \<Rightarrow> None))"

definition error_answer :: "exc \<Rightarrow> pydict" where
  "error_answer e =
     (case e of
        PermissionErr m \<Rightarrow> api_error 403 ''FORBIDDEN'' m
      | ValueError m \<Rightarrow> api_error 400 ''BAD_REQUEST'' m
      | _ \<Rightarrow> (case client_code e of
                 Some code \<Rightarrow> api_error 502 ''AWS_CLIENT_ERROR'' code
               | None \<Rightarrow> api_error 500 ''INTERNAL_ERROR'' ''Internal server error''))"

definition api_boundary :: "('w, pydict) io \<Rightarrow> ('w, pydict) io" where
  "api_boundary run = io_catch run (\<lambda>e. io_return (error_answer e))"

lemma api_boundary_total: "\<exists>r w'. api_boundary run w = (Inr r, w')"
  by (cases "run w") (auto simp: api_boundary_def io_catch_def split: sum.splits)

text \<open>
  The contract of a guarded route: without the permission it raises \<open>PermissionError\<close> before it touches anything. At the
  boundary that is a 403 and an unchanged world.
\<close>

locale guarded_route =
  fixes run :: "caller_identity \<Rightarrow> ('w, pydict) io" and allowed :: "caller_identity \<Rightarrow> bool"
  assumes refused: "\<not> allowed caller \<Longrightarrow> \<exists>m. run caller w = (Inl (PermissionErr m), w)"
begin

lemma forbidden: "\<not> allowed caller \<Longrightarrow> \<exists>m. api_boundary (run caller) w = (Inr (api_error 403 ''FORBIDDEN'' m), w)"
  using refused[of caller w] by (auto simp: api_boundary_def io_catch_def error_answer_def)

lemma success_allowed: "run caller w = (Inr r, w') \<Longrightarrow> allowed caller"
  using refused[of caller w] by auto

end

section \<open>Clients for a caller (\<open>db_factory.py\<close>)\<close>

definition tenants_table_name :: "environ \<Rightarrow> string" where
  "tenants_table_name env = env_or env ''TENANTS_TABLE_NAME'' ''platform-tenants''"

definition agents_table_name :: "environ \<Rightarrow> string" where
  "agents_table_name env = env_or env ''AGENTS_TABLE_NAME'' ''platform-agents''"

definition invocations_table_name :: "environ \<Rightarrow> string" where
  "invocations_table_name env = env_or env ''INVOCATIONS_TABLE_NAME'' ''platform-invocations''"

text \<open>\<open>a or b\<close> on optional texts.\<close>

definition opt_or :: "string option \<Rightarrow> string \<Rightarrow> string" where
  "opt_or a b = (case a of None \<Rightarrow> b | Some s \<Rightarrow> if s = [] then b else s)"

definition tenant_context_for_scope :: "string \<Rightarrow> caller_identity \<Rightarrow> string option \<Rightarrow> tenant_context" where
  "tenant_context_for_scope tenant_id caller app_id =
     \<lparr>tc_tenant_id = tenant_id,
      tc_app_id = opt_or app_id (opt_or (ci_app_id caller) ''unknown-app''),
      tc_tier = (case tier_of (py_lower (opt_or (ci_tier caller) ''standard'')) of None \<Rightarrow> STANDARD | Some t \<Rightarrow> t),
      tc_sub = opt_or (ci_sub caller) ''system''\<rparr>"

definition require_tenant_scope_allowed :: "string \<Rightarrow> caller_identity \<Rightarrow> unit res" where
  "require_tenant_scope_allowed tenant_id caller =
     (if is_platform_actor caller then Inr ()
      else if ci_tenant_id caller = Some tenant_id then Inr ()
      else Inl (PermissionErr ''Tenant-scoped client target mismatch''))"

text \<open>\<open>db_for_tenant\<close> and \<open>s3_for_tenant\<close>: a client is its context.\<close>

definition db_for_tenant :: "string \<Rightarrow> caller_identity \<Rightarrow> string option \<Rightarrow> tenant_context res" where
  "db_for_tenant tenant_id caller app_id =
     bind_res (require_tenant_scope_allowed tenant_id caller)
       (\<lambda>_. Inr (tenant_context_for_scope tenant_id caller app_id))"

definition control_plane_db :: "caller_identity \<Rightarrow> tenant_context" where
  "control_plane_db caller =
     tenant_context_for_scope (opt_or (ci_tenant_id caller) ''control-plane'') caller
       (Some (opt_or (ci_app_id caller) ''control-plane''))"

lemma db_for_tenant_scope:
  "db_for_tenant tid caller app = Inr ctx \<Longrightarrow>
     tc_tenant_id ctx = tid \<and> (is_platform_actor caller \<or> ci_tenant_id caller = Some tid)"
  by (auto simp: db_for_tenant_def require_tenant_scope_allowed_def tenant_context_for_scope_def split: if_splits)

lemma db_for_tenant_cases:
  "db_for_tenant tid caller app =
     (if is_platform_actor caller \<or> ci_tenant_id caller = Some tid
      then Inr (tenant_context_for_scope tid caller app)
      else Inl (PermissionErr ''Tenant-scoped client target mismatch''))"
  by (auto simp: db_for_tenant_def require_tenant_scope_allowed_def)

section \<open>Keys and update expressions (\<open>db_utils.py\<close>)\<close>

definition tenant_pk :: "string \<Rightarrow> string" where
  "tenant_pk tenant_id = ''TENANT#'' @ tenant_id"

definition row_key :: "string \<Rightarrow> string \<Rightarrow> pydict" where
  "row_key pk sk = [(''PK'', PStr pk), (''SK'', PStr sk)]"

definition tenant_row_key :: "string \<Rightarrow> pydict" where
  "tenant_row_key tenant_id = row_key (tenant_pk tenant_id) ''METADATA''"

definition invite_key :: "string \<Rightarrow> string \<Rightarrow> pydict" where
  "invite_key tenant_id invite_id = row_key (tenant_pk tenant_id) (''INVITE#'' @ invite_id)"

definition invite_email_lookup_key :: "string \<Rightarrow> string \<Rightarrow> pydict" where
  "invite_email_lookup_key tenant_id email = row_key (tenant_pk tenant_id) (''INVITEEMAIL#'' @ email)"

definition read_tenant_record ::
  "'w tenant_deps \<Rightarrow> environ \<Rightarrow> string \<Rightarrow> caller_identity \<Rightarrow> string option \<Rightarrow> ('w, pydict option) io" where
  "read_tenant_record deps env tenant_id caller app_id =
     io_bind (io_lift (db_for_tenant tenant_id caller app_id)) (\<lambda>ctx.
       ts_get_item (td_aws deps) ctx (tenants_table_name env) (tenant_row_key tenant_id) [])"

text \<open>
  \<open>build_update_expression\<close>: numbered place holders for names and values. A float becomes the \<open>Decimal\<close> of its text, which
  is the same value here.
\<close>

definition set_part :: "nat \<Rightarrow> string" where
  "set_part i = ''#n'' @ show_nat i @ '' = :v'' @ show_nat i"

definition build_update_expression :: "pydict \<Rightarrow> string \<times> pydict \<times> pydict" where
  "build_update_expression attributes =
     (let ix = enumerate 1 attributes in
      (''SET '' @ str_join '', '' (map (\<lambda>(i, f, v). set_part i) ix),
       map (\<lambda>(i, f, v). (''#n'' @ show_nat i, PStr f)) ix,
       map (\<lambda>(i, f, v). ('':v'' @ show_nat i, v)) ix))"

definition update_fields ::
  "'w tenant_deps \<Rightarrow> tenant_context \<Rightarrow> string \<Rightarrow> pydict \<Rightarrow> pydict \<Rightarrow> ('w, pydict) io" where
  "update_fields deps ctx table key updates =
     (case build_update_expression updates of
        (expression, names, vals) \<Rightarrow>
          ts_update_item (td_aws deps) ctx table key expression vals (Some names) None)"

section \<open>What DynamoDB does with them\<close>

text \<open>
  The \<open>SET\<close> clauses of an update expression and their effect on an item: a name is a place holder of
  \<open>ExpressionAttributeNames\<close> or stands for itself, a value is a place holder of \<open>ExpressionAttributeValues\<close>; an undefined
  place holder is a \<open>ValidationException\<close>.
\<close>

definition set_clauses :: "string \<Rightarrow> (string \<times> string) list" where
  "set_clauses e =
     map (\<lambda>p. case split_on (CHR ''='') p of
                [a, b] \<Rightarrow> (py_strip a, py_strip b) | _ \<Rightarrow> ([], []))
       (split_on (CHR '','') (remove_prefix e ''SET ''))"

definition resolve_name :: "pydict \<Rightarrow> string \<Rightarrow> string option" where
  "resolve_name names n =
     (if starts_with n ''#'' then (case map_of names n of Some (PStr f) \<Rightarrow> Some f | _ \<Rightarrow> None) else Some n)"

fun apply_clauses :: "pydict \<Rightarrow> pydict \<Rightarrow> (string \<times> string) list \<Rightarrow> pydict \<Rightarrow> pydict option" where
  "apply_clauses names vals [] item = Some item"
| "apply_clauses names vals ((n, v) # cs) item =
     (case (resolve_name names n, map_of vals v) of
        (Some f, Some x) \<Rightarrow> apply_clauses names vals cs (dset f x item)
      | _ \<Rightarrow> None)"

definition apply_set :: "string \<Rightarrow> pydict \<Rightarrow> pydict \<Rightarrow> pydict \<Rightarrow> pydict option" where
  "apply_set e names vals item = apply_clauses names vals (set_clauses e) item"

text \<open>
  An \<open>ADD\<close> part after the \<open>SET\<close> part adds to numbers: an absent attribute counts as 0, one that is no number is refused. The sum of
  two decimals is written out with its digits.
\<close>

fun cut_at :: "string \<Rightarrow> string \<Rightarrow> string \<times> string" where
  "cut_at mark [] = ([], [])"
| "cut_at mark (c # s) =
     (if starts_with (c # s) mark then ([], drop (length mark) (c # s))
      else (case cut_at mark s of (a, b) \<Rightarrow> (c # a, b)))"

lemma cut_at_absent: "c \<in> set mark \<Longrightarrow> c \<notin> set s \<Longrightarrow> cut_at mark s = (s, [])"
proof (induction mark s rule: cut_at.induct)
  case (2 mark d s)
  have "\<not> starts_with (d # s) mark"
  proof
    assume "starts_with (d # s) mark"
    then obtain r where "d # s = mark @ r" by (auto simp: starts_with_iff)
    then have "c \<in> set (d # s)" using 2(2) by simp
    with 2(3) show False by blast
  qed
  with 2 show ?case by simp
qed simp

definition number_places :: "rat \<Rightarrow> nat" where
  "number_places r = (case find (\<lambda>k. of_int (floor (r * 10 ^ k)) = r * 10 ^ k) [1..<39] of None \<Rightarrow> 38 | Some k \<Rightarrow> k)"

definition number_text :: "rat \<Rightarrow> string" where
  "number_text r =
     (let k = number_places r; n = nat (floor (abs r * 10 ^ k)); frac = show_nat (n mod 10 ^ k) in
      (if r < 0 then ''-'' else []) @ show_nat (n div 10 ^ k) @ ''.'' @ replicate (k - length frac) (CHR ''0'') @ frac)"

definition number :: "rat \<Rightarrow> pyval" where
  "number r = PFloat (FFin r (number_text r))"

fun add_numbers :: "pyval \<Rightarrow> pyval \<Rightarrow> pyval option" where
  "add_numbers (PInt i) (PInt j) = Some (PInt (i + j))"
| "add_numbers (PInt i) (PFloat (FFin r t)) = Some (number (of_int i + r))"
| "add_numbers (PFloat (FFin r t)) (PInt j) = Some (number (r + of_int j))"
| "add_numbers (PFloat (FFin r t)) (PFloat (FFin q u)) = Some (number (r + q))"
| "add_numbers a b = None"

definition add_clauses :: "string \<Rightarrow> (string \<times> string) list" where
  "add_clauses a = map (\<lambda>p. cut_at '' '' (py_strip p)) (split_on (CHR '','') a)"

fun apply_adds :: "pydict \<Rightarrow> pydict \<Rightarrow> (string \<times> string) list \<Rightarrow> pydict \<Rightarrow> pydict option" where
  "apply_adds names vals [] item = Some item"
| "apply_adds names vals ((n, v) # cs) item =
     (case (resolve_name names n, map_of vals v) of
        (Some f, Some x) \<Rightarrow>
          (case add_numbers (dget_or item f (PInt 0)) x of
             None \<Rightarrow> None | Some s \<Rightarrow> apply_adds names vals cs (dset f s item))
      | _ \<Rightarrow> None)"

definition apply_update :: "string \<Rightarrow> pydict \<Rightarrow> pydict \<Rightarrow> pydict \<Rightarrow> pydict option" where
  "apply_update e names vals item =
     (case cut_at '' ADD '' e of
        (s, a) \<Rightarrow> (case apply_set s names vals item of
                     None \<Rightarrow> None | Some it \<Rightarrow> if a = [] then Some it else apply_adds names vals (add_clauses a) it))"

lemma apply_update_set: "CHR ''A'' \<notin> set e \<Longrightarrow> apply_update e = apply_set e"
  by (simp add: fun_eq_iff apply_update_def cut_at_absent[of "CHR ''A''"] split: option.split)

section \<open>The expressions write what they should\<close>

lemma split_on_join_sep:
  assumes "xs \<noteq> []" "\<forall>x \<in> set xs. c \<notin> set x" "c \<notin> set r"
  shows "split_on c (str_join (c # r) xs) = hd xs # map ((@) r) (tl xs)"
  using assms
proof (induction xs rule: induct_list012)
  case (3 x y ys)
  have "split_on c (str_join (c # r) (x # y # ys)) = x # split_on c (r @ str_join (c # r) (y # ys))"
    using "3.prems" by (simp add: split_on_append)
  moreover have "split_on c (r @ s) = (r @ hd (split_on c s)) # tl (split_on c s)" for s
    using "3.prems"(3) by (induction r) (auto split: list.splits simp: neq_Nil_conv)
  ultimately show ?case using "3.IH"(2) "3.prems" by simp
qed (auto simp: split_on_no_sep)

lemma show_nat_char: "c \<in> set (show_nat n) \<Longrightarrow> 48 \<le> code_point c \<and> code_point c \<le> 57"
  using show_nat_all_digits[of n] by (auto simp: is_digit_def)

lemma not_in_show_nat [simp]:
  "CHR '','' \<notin> set (show_nat n)" "CHR ''='' \<notin> set (show_nat n)"
  by (auto dest!: show_nat_char simp: code_point_def)

lemma set_part_clause:
  assumes "lead = [] \<or> lead = '' ''"
  shows "(case split_on (CHR ''='') (lead @ set_part i) of [a, b] \<Rightarrow> (py_strip a, py_strip b) | _ \<Rightarrow> ([], []))
    = (''#n'' @ show_nat i, '':v'' @ show_nat i)"
proof -
  have last: "\<not> py_space (last (show_nat i))" by (rule show_nat_last_no_space)
  have split: "split_on (CHR ''='') (lead @ set_part i) = [lead @ ''#n'' @ show_nat i @ '' '', '' :v'' @ show_nat i]"
    using split_on_append[of "CHR ''=''" "lead @ ''#n'' @ show_nat i @ '' ''" "'' :v'' @ show_nat i"] assms
    by (auto simp: set_part_def split_on_no_sep)
  have n: "py_strip (lead @ ''#n'' @ show_nat i @ '' '') = ''#n'' @ show_nat i"
  proof -
    have "py_lstrip (lead @ ''#n'' @ show_nat i @ '' '') = ''#n'' @ show_nat i @ '' ''"
      using assms by (auto simp: py_lstrip_def py_space_def)
    moreover have "py_rstrip (''#n'' @ show_nat i @ '' '') = py_rstrip (''#n'' @ show_nat i)"
      by (simp add: py_rstrip_def py_space_def)
    moreover have "py_rstrip (''#n'' @ show_nat i) = ''#n'' @ show_nat i"
      using last by (intro py_rstrip_id) simp
    ultimately show ?thesis by (simp add: py_strip_def)
  qed
  have v: "py_strip ('' :v'' @ show_nat i) = '':v'' @ show_nat i"
  proof -
    have "py_lstrip ('' :v'' @ show_nat i) = '':v'' @ show_nat i" by (simp add: py_lstrip_def py_space_def)
    moreover have "py_rstrip ('':v'' @ show_nat i) = '':v'' @ show_nat i" using last by (intro py_rstrip_id) simp
    ultimately show ?thesis by (simp add: py_strip_def)
  qed
  show ?thesis unfolding split using n v by simp
qed

lemma set_clauses_build:
  assumes "is \<noteq> []"
  shows "set_clauses (''SET '' @ str_join '', '' (map set_part is))
    = map (\<lambda>i. (''#n'' @ show_nat i, '':v'' @ show_nat i)) is"
proof -
  have "split_on (CHR '','') (str_join '', '' (map set_part is)) = hd (map set_part is) # map ((@) '' '') (tl (map set_part is))"
    by (rule split_on_join_sep) (use assms in \<open>auto simp: set_part_def\<close>)
  moreover obtain i js where "is = i # js" using assms by (cases "is") auto
  ultimately show ?thesis
    using set_part_clause[of "[]"] set_part_clause[of "'' ''"]
    by (simp add: set_clauses_def remove_prefix_def starts_with_def)
qed

lemma show_nat_inject: "show_nat i = show_nat j \<longleftrightarrow> i = j"
  by (metis option.inject parse_digits_show_nat)

lemma apply_clauses_enumerate:
  assumes "\<And>i f v. (i, f, v) \<in> set (enumerate k attrs) \<Longrightarrow>
      map_of names (''#n'' @ show_nat i) = Some (PStr f) \<and> map_of vals ('':v'' @ show_nat i) = Some v"
  shows "apply_clauses names vals (map (\<lambda>i. (''#n'' @ show_nat i, '':v'' @ show_nat i)) (map fst (enumerate k attrs))) item
    = Some (dupdate item attrs)"
  using assms
proof (induction attrs arbitrary: k item)
  case (Cons a attrs)
  obtain f v where a: "a = (f, v)" by (cases a)
  have "map_of names (''#n'' @ show_nat k) = Some (PStr f)" "map_of vals ('':v'' @ show_nat k) = Some v"
    using Cons.prems[of k f v] by (simp_all add: a)
  moreover have "apply_clauses names vals (map (\<lambda>i. (''#n'' @ show_nat i, '':v'' @ show_nat i))
      (map fst (enumerate (Suc k) attrs))) (dset f v item) = Some (dupdate (dset f v item) attrs)"
    by (rule Cons.IH) (rule Cons.prems, simp add: a)
  ultimately show ?case by (simp add: a resolve_name_def del: map_fst_enumerate)
qed simp

lemma map_of_enumerate_keys:
  assumes "(i, x) \<in> set (enumerate k xs)" "\<And>i j. p i = p j \<Longrightarrow> i = j"
  shows "map_of (map (\<lambda>(i, x). (p i, g x)) (enumerate k xs)) (p i) = Some (g x)"
proof (rule map_of_is_SomeI)
  have eq: "map fst (map (\<lambda>(i, x). (p i, g x)) (enumerate k xs)) = map p [k..<k + length xs]"
  proof -
    have "map fst (map (\<lambda>(i, x). (p i, g x)) ps) = map p (map fst ps)" for ps by (induction ps) auto
    then show ?thesis by (simp only: map_fst_enumerate)
  qed
  show "distinct (map fst (map (\<lambda>(i, x). (p i, g x)) (enumerate k xs)))"
    unfolding eq by (auto simp: distinct_map inj_on_def dest: assms(2))
qed (use assms(1) in force)

lemma build_update_expression_applies:
  assumes "attrs \<noteq> []"
  shows "case build_update_expression attrs of
     (e, names, vals) \<Rightarrow> apply_set e names vals item = Some (dupdate item attrs)"
proof -
  have keys: "map_of (map (\<lambda>(i, f, v). (''#n'' @ show_nat i, PStr f)) (enumerate 1 attrs)) (''#n'' @ show_nat i) = Some (PStr f)
      \<and> map_of (map (\<lambda>(i, f, v). ('':v'' @ show_nat i, v)) (enumerate 1 attrs)) ('':v'' @ show_nat i) = Some v"
    if "(i, f, v) \<in> set (enumerate 1 attrs)" for i f v
  proof -
    have n: "(\<lambda>(i, f, v). (''#n'' @ show_nat i, PStr f)) = (\<lambda>(i, x). (''#n'' @ show_nat i, PStr (fst x)))"
      and v: "(\<lambda>(i, f, v). ('':v'' @ show_nat i, v)) = (\<lambda>(i, x). ('':v'' @ show_nat i, snd x))"
      by (auto simp: fun_eq_iff)
    show ?thesis
      unfolding n v
      using map_of_enumerate_keys[OF that, of "\<lambda>i. ''#n'' @ show_nat i" "\<lambda>x. PStr (fst x)"]
        map_of_enumerate_keys[OF that, of "\<lambda>i. '':v'' @ show_nat i" snd]
      by (simp add: show_nat_inject)
  qed
  define ix where "ix = map fst (enumerate 1 attrs)"
  have parts: "map (\<lambda>(i, f, v). set_part i) (enumerate 1 attrs) = map set_part ix"
    by (simp add: ix_def case_prod_beta del: map_fst_enumerate)
  have "ix \<noteq> []" using assms by (cases attrs) (auto simp: ix_def)
  note clauses = set_clauses_build[OF this]
  show ?thesis
    unfolding build_update_expression_def Let_def apply_set_def parts prod.case clauses
    unfolding ix_def by (rule apply_clauses_enumerate) (rule keys)
qed

text \<open>
  A computed update writes exactly its attributes: what DynamoDB makes of the expression, the names and the values
  of \<open>build_update_expression\<close> is the item with those attributes set, in their order, whatever their names are.
\<close>

theorem update_expression_writes_attributes:
  assumes "attrs \<noteq> []"
  shows "case build_update_expression attrs of
     (e, names, vals) \<Rightarrow> apply_set e names vals item = Some (dupdate item attrs)"
  using assms by (rule build_update_expression_applies)

theorem update_expression_writes_attributes_witness:
  "case build_update_expression [(''status'', PStr ''deleted'')] of
     (e, names, vals) \<Rightarrow> apply_set e names vals [(''status'', PStr ''active''), (''tier'', PStr ''basic'')]
       = Some [(''status'', PStr ''deleted''), (''tier'', PStr ''basic'')]"
  using update_expression_writes_attributes[of "[(''status'', PStr ''deleted'')]"
      "[(''status'', PStr ''active''), (''tier'', PStr ''basic'')]"]
  by (simp add: dset_def split: prod.splits)

end
