(* ===== verification/DynamoTables.thy ===== *)
theory DynamoTables
  imports TenantStore
begin

text \<open>
  The tables behind the tenant API: the rows DynamoDB holds, the documented behaviour of the calls the clients make on them,
  what an operation of a client therefore does, and a concrete store that keeps these promises.
\<close>

section \<open>Rows\<close>

text \<open>The rows of the tables as DynamoDB holds them: table, partition key, sort key.\<close>

type_synonym rows = "string \<Rightarrow> string \<Rightarrow> string \<Rightarrow> pydict option"

definition set_row :: "rows \<Rightarrow> string \<Rightarrow> string \<Rightarrow> string \<Rightarrow> pydict option \<Rightarrow> rows" where
  "set_row r t pk sk v = (\<lambda>t' pk' sk'. if t' = t \<and> pk' = pk \<and> sk' = sk then v else r t' pk' sk')"

lemma set_row_apply [simp]:
  "set_row r t pk sk v t' pk' sk' = (if t' = t \<and> pk' = pk \<and> sk' = sk then v else r t' pk' sk')"
  by (simp add: set_row_def)

definition old_row :: "rows \<Rightarrow> string \<Rightarrow> string \<Rightarrow> string \<Rightarrow> pydict" where
  "old_row r t pk sk = (case r t pk sk of None \<Rightarrow> row_key pk sk | Some i \<Rightarrow> i)"

section \<open>What DynamoDB does\<close>

text \<open>
  The library stores numbers as \<open>Decimal\<close> of at most 38 digits and rejects a float wherever it stands in an item. The values of
  an update went through \<open>ddb_value\<close>, which turns a float at the top into a \<open>Decimal\<close>; infinities and NaN are rejected.
\<close>

fun storable :: "pyval \<Rightarrow> bool" where
  "storable (PInt i) = (abs i < 10 ^ 38)"
| "storable (PFloat f) = False"
| "storable (PList xs) = list_all storable xs"
| "storable (PDict d) = list_all (\<lambda>(k, v). storable v) d"
| "storable v = True"

fun update_value_ok :: "pyval \<Rightarrow> bool" where
  "update_value_ok (PFloat f) = (case f of FFin r t \<Rightarrow> True | _ \<Rightarrow> False)"
| "update_value_ok v = storable v"

definition unsupported_number :: exc where
  "unsupported_number = TypeError ''Float types are not supported''"

definition condition_failed :: exc where
  "condition_failed = client_error ''ConditionalCheckFailedException''"

text \<open>The two conditions the code uses.\<close>

definition put_if_absent :: "string option" where
  "put_if_absent = Some ''attribute_not_exists(PK)''"

definition if_present :: "string option" where
  "if_present = Some ''attribute_exists(PK)''"

definition condition_holds :: "string option \<Rightarrow> pydict option \<Rightarrow> bool" where
  "condition_holds c old \<longleftrightarrow> (c = put_if_absent \<longrightarrow> old = None) \<and> (c = if_present \<longrightarrow> old \<noteq> None)"

definition put_kwargs :: "pydict \<Rightarrow> string option \<Rightarrow> kwargs" where
  "put_kwargs item c = (''Item'', KwVal (PDict item)) #
     (case c of None \<Rightarrow> [] | Some e \<Rightarrow> [(''ConditionExpression'', KwVal (PStr e))])"

definition update_kwargs :: "pydict \<Rightarrow> string \<Rightarrow> pydict \<Rightarrow> pydict option \<Rightarrow> string option \<Rightarrow> kwargs" where
  "update_kwargs key e vals names c =
     [(''Key'', KwVal (PDict key)), (''UpdateExpression'', KwVal (PStr e)),
      (''ExpressionAttributeValues'', KwVal (PDict vals)), (''ReturnValues'', KwVal (PStr ''ALL_NEW''))]
     @ (case names of None \<Rightarrow> [] | Some n \<Rightarrow> [(''ExpressionAttributeNames'', KwVal (PDict n))])
     @ (case c of None \<Rightarrow> [] | Some x \<Rightarrow> [(''ConditionExpression'', KwVal (PStr x))])"

text \<open>A put and an update as functions on the rows.\<close>

definition put_result :: "string option \<Rightarrow> pydict \<Rightarrow> string \<Rightarrow> string \<Rightarrow> string \<Rightarrow> rows \<Rightarrow> rows res" where
  "put_result c item t pk sk r =
     (if \<not> storable (PDict item) then Inl unsupported_number
      else if \<not> condition_holds c (r t pk sk) then Inl condition_failed
      else Inr (set_row r t pk sk (Some item)))"

definition update_result ::
  "string \<Rightarrow> pydict \<Rightarrow> pydict option \<Rightarrow> string option \<Rightarrow> string \<Rightarrow> string \<Rightarrow> string \<Rightarrow> rows \<Rightarrow> (pydict \<times> rows) res" where
  "update_result e vals names c t pk sk r =
     (if \<not> list_all (\<lambda>(k, v). update_value_ok v) vals then Inl unsupported_number
      else if \<not> condition_holds c (r t pk sk) then Inl condition_failed
      else (case apply_update e (case names of None \<Rightarrow> [] | Some n \<Rightarrow> n) vals (old_row r t pk sk) of
              None \<Rightarrow> Inl (client_error ''ValidationException'')
            | Some new \<Rightarrow> Inr (new, set_row r t pk sk (Some new))))"

text \<open>
  The documented behaviour of the calls the API makes: a read returns the row, a put replaces it, an update applies its \<open>SET\<close>
  clauses to it (or to a new row of that key) and returns it, a delete removes it; a call that is refused changes nothing.
\<close>

definition dynamo_ok :: "'w aws \<Rightarrow> ('w \<Rightarrow> rows) \<Rightarrow> bool" where
  "dynamo_ok sv rows \<longleftrightarrow>
     (\<forall>t pk sk w. aw_get_item sv t [(''Key'', KwVal (PDict (row_key pk sk)))] w = (Inr (rows w t pk sk), w))
   \<and> (\<forall>t pk sk item c w. dget item ''PK'' = PStr pk \<longrightarrow> dget item ''SK'' = PStr sk \<longrightarrow>
        (case put_result c item t pk sk (rows w) of
           Inl e \<Rightarrow> aw_put_item sv t (put_kwargs item c) w = (Inl e, w)
         | Inr r \<Rightarrow> (\<exists>w'. aw_put_item sv t (put_kwargs item c) w = (Inr (), w') \<and> rows w' = r)))
   \<and> (\<forall>t pk sk e vals names c w.
        (case update_result e vals names c t pk sk (rows w) of
           Inl x \<Rightarrow> aw_update_item sv t (update_kwargs (row_key pk sk) e vals names c) w = (Inl x, w)
         | Inr (new, r) \<Rightarrow>
             (\<exists>w'. aw_update_item sv t (update_kwargs (row_key pk sk) e vals names c) w
                = (Inr [(''Attributes'', PDict new)], w') \<and> rows w' = r)))
   \<and> (\<forall>t pk sk w. \<exists>w'. aw_delete_item sv t [(''Key'', KwVal (PDict (row_key pk sk)))] w = (Inr (), w')
           \<and> rows w' = set_row (rows w) t pk sk None)"

text \<open>Everything else the API calls leaves the tables alone.\<close>

definition leaves :: "('w \<Rightarrow> 'r) \<Rightarrow> ('w, 'a) io \<Rightarrow> bool" where
  "leaves rows m \<longleftrightarrow> (\<forall>w. rows (snd (m w)) = rows w)"

definition frame_ok :: "'w tenant_deps \<Rightarrow> ('w \<Rightarrow> 'r) \<Rightarrow> bool" where
  "frame_ok deps rows \<longleftrightarrow>
     (\<forall>e. leaves rows (td_put_events deps e)) \<and> leaves rows (td_now deps)
   \<and> (\<forall>n a. leaves rows (td_secrets deps n a)) \<and> (\<forall>n a. leaves rows (td_lambda deps n a))
   \<and> (\<forall>f. leaves rows (td_versions deps f)) \<and> (\<forall>n. leaves rows (td_ssm deps n))
   \<and> (\<forall>t a. leaves rows (td_usage deps t a)) \<and> (\<forall>t a. leaves rows (td_provision_memory deps t a))
   \<and> (\<forall>r. leaves rows (td_quota deps r)) \<and> (\<forall>n. leaves rows (td_token_hex deps n))
   \<and> (\<forall>n. leaves rows (td_token_urlsafe deps n)) \<and> leaves rows (td_uuid4 deps)
   \<and> (\<forall>b k d x. leaves rows (s3_put (td_s3 deps) b k d x))
   \<and> (\<forall>o' b k n. leaves rows (s3_presign (td_s3 deps) o' b k n))"

lemma leavesD: "leaves rows m \<Longrightarrow> m w = (r, w') \<Longrightarrow> rows w' = rows w"
  by (metis leaves_def snd_conv)

lemma frame_step:
  assumes "frame_ok deps rows"
  shows "td_now deps w = (r, w') \<Longrightarrow> rows w' = rows w"
    and "td_put_events deps e w = (q, w') \<Longrightarrow> rows w' = rows w"
    and "put_event deps env d x w = (q, w') \<Longrightarrow> rows w' = rows w"
  using assms by (auto simp: frame_ok_def put_event_def dest: leavesD)

lemma leaves_rules:
  "leaves rows (io_return x)" "leaves rows (io_raise e)" "leaves rows (io_lift r)"
  "leaves rows m \<Longrightarrow> (\<And>x. leaves rows (f x)) \<Longrightarrow> leaves rows (io_bind m f)"
  "(b \<Longrightarrow> leaves rows m) \<Longrightarrow> (\<not> b \<Longrightarrow> leaves rows n) \<Longrightarrow> leaves rows (if b then m else n)"
proof -
  assume m: "leaves rows m" and f: "\<And>x. leaves rows (f x)"
  show "leaves rows (io_bind m f)"
    unfolding leaves_def
  proof
    fix w show "rows (snd (io_bind m f w)) = rows w"
    proof (cases "m w")
      case (Pair r w1)
      with m have first: "rows w1 = rows w" by (rule leavesD)
      show ?thesis
      proof (cases r)
        case (Inr x)
        have "rows (snd (f x w1)) = rows w1" using f[of x] by (simp add: leaves_def)
        with Pair Inr first show ?thesis by (simp add: io_bind_def)
      qed (use Pair first in \<open>simp add: io_bind_def\<close>)
    qed
  qed
qed (simp_all add: leaves_def)

text \<open>A step that leaves the tables alone: what they hold stays known.\<close>

lemma quiet_bind:
  assumes "leaves rows m" and "rows w = old" and "\<And>e w'. rows w' = old \<Longrightarrow> Q (Inl e) w'"
    and "\<And>x w'. rows w' = old \<Longrightarrow> io_post (f x) w' Q"
  shows "io_post (io_bind m f) w Q"
  by (rule io_post_bind) (use leavesD[OF assms(1)] assms(2-4) in auto)

lemma io_post_leaves: "leaves rows m \<Longrightarrow> (\<And>r w'. rows w' = rows w \<Longrightarrow> Q r w') \<Longrightarrow> io_post m w Q"
  by (rule io_postI) (auto dest: leavesD)

lemma frame_leaves:
  assumes "frame_ok deps rows"
  shows "leaves rows (td_now deps)" "leaves rows (td_provision_memory deps t a)" "leaves rows (td_secrets deps n args)"
    "leaves rows (td_token_urlsafe deps k)" "leaves rows (td_usage deps t b)" "leaves rows (put_event deps env d x)"
  using assms by (simp_all add: frame_ok_def put_event_def)

text \<open>The keys a client of a tenant may use.\<close>

definition own_key :: "tenant_context \<Rightarrow> string \<Rightarrow> bool" where
  "own_key ctx pk \<longleftrightarrow> \<not> starts_with pk tenant_pk_prefix \<or> pk = tenant_pk_prefix @ tc_tenant_id ctx"

lemma own_tenant_pk [simp]: "own_key ctx (tenant_pk tid) \<longleftrightarrow> tid = tc_tenant_id ctx"
  by (simp add: own_key_def tenant_pk_def tenant_pk_prefix_def)

lemma ts_validate_own: "dget key ''PK'' = PStr pk \<Longrightarrow> own_key ctx pk \<Longrightarrow> ts_validate_pk sv ctx key w = (Inr (), w)"
proof -
  assume "dget key ''PK'' = PStr pk" and own: "own_key ctx pk"
  then have "map_of key ''PK'' = Some (PStr pk)" by (auto simp: dget_or_def split: option.splits)
  then have "dget_or key ''PK'' (PStr []) = PStr pk" by (simp add: dget_or_def)
  with own show ?thesis by (simp add: ts_validate_pk_def own_key_def)
qed

lemma dget_row_key [simp]: "dget (row_key pk sk) ''PK'' = PStr pk" "dget (row_key pk sk) ''SK'' = PStr sk"
  by (simp_all add: row_key_def dget_or_def)

lemmas dynamo_get = dynamo_ok_def [THEN iffD1, THEN conjunct1, rule_format]
lemmas dynamo_put = dynamo_ok_def [THEN iffD1, THEN conjunct2, THEN conjunct1, rule_format]
lemmas dynamo_update = dynamo_ok_def [THEN iffD1, THEN conjunct2, THEN conjunct2, THEN conjunct1, rule_format]
lemmas dynamo_delete = dynamo_ok_def [THEN iffD1, THEN conjunct2, THEN conjunct2, THEN conjunct2, rule_format]

lemma client_get:
  assumes "dynamo_ok sv rows" and "own_key ctx pk"
  shows "ts_get_item sv ctx t (row_key pk sk) [] w = (Inr (rows w t pk sk), w)"
  using ts_validate_own[of "row_key pk sk" pk ctx sv w] assms(2) dynamo_get[OF assms(1)]
  by (simp add: ts_get_item_def base_get_item_def io_bind_def)

lemma client_get_post:
  assumes "dynamo_ok sv rows" and "own_key ctx pk" and "io_post (f (rows w t pk sk)) w Q"
  shows "io_post (io_bind (ts_get_item sv ctx t (row_key pk sk) []) f) w Q"
  using client_get[OF assms(1,2)] assms(3) by (simp add: io_post_def io_bind_def)

definition plain_condition :: "string option \<Rightarrow> bool" where
  "plain_condition c \<longleftrightarrow> c \<noteq> Some []"

lemma plain_conditions [simp]: "plain_condition None" "plain_condition put_if_absent" "plain_condition if_present"
  by (simp_all add: plain_condition_def put_if_absent_def if_present_def)

lemma ts_put_own:
  assumes "own_key ctx pk" and "dget item ''PK'' = PStr pk" and "plain_condition c"
  shows "ts_put_item sv ctx t item c [] = aw_put_item sv t (put_kwargs item c)"
  using ts_validate_own[OF assms(2,1), of sv] assms(3)
  by (cases c) (simp_all add: ts_put_item_def base_put_item_def io_bind_def fun_eq_iff put_kwargs_def plain_condition_def dset_def Let_def)

lemma client_put_post:
  assumes "dynamo_ok sv rows" and "own_key ctx pk" and "dget item ''PK'' = PStr pk" and "dget item ''SK'' = PStr sk"
    and "plain_condition c"
    and "\<And>e. put_result c item t pk sk (rows w) = Inl e \<Longrightarrow> Q (Inl e) w"
    and "\<And>w'. storable (PDict item) \<Longrightarrow> condition_holds c (rows w t pk sk) \<Longrightarrow> rows w' = set_row (rows w) t pk sk (Some item) \<Longrightarrow>
      io_post (f ()) w' Q"
  shows "io_post (io_bind (ts_put_item sv ctx t item c []) f) w Q"
proof (cases "put_result c item t pk sk (rows w)")
  case (Inl e)
  with assms(6)[OF this] dynamo_put[OF assms(1,3,4), where c = c and t = t and w = w] show ?thesis
    by (simp add: io_post_def io_bind_def ts_put_own[OF assms(2,3,5)])
next
  case (Inr r)
  then obtain w' where "aw_put_item sv t (put_kwargs item c) w = (Inr (), w')" and rows: "rows w' = r"
    using dynamo_put[OF assms(1,3,4), where c = c and t = t and w = w] by auto
  moreover have "storable (PDict item)" "condition_holds c (rows w t pk sk)" "r = set_row (rows w) t pk sk (Some item)"
    using Inr by (auto simp: put_result_def split: if_splits)
  ultimately show ?thesis
    using assms(7)[of w'] by (simp add: io_post_def io_bind_def ts_put_own[OF assms(2,3,5)])
qed

lemma client_delete_post:
  assumes "dynamo_ok sv rows" and "own_key ctx pk"
    and "\<And>w'. rows w' = set_row (rows w) t pk sk None \<Longrightarrow> io_post (f ()) w' Q"
  shows "io_post (io_bind (ts_delete_item sv ctx t (row_key pk sk) []) f) w Q"
proof -
  obtain w' where "aw_delete_item sv t [(''Key'', KwVal (PDict (row_key pk sk)))] w = (Inr (), w')"
    and "rows w' = set_row (rows w) t pk sk None"
    using dynamo_delete[OF assms(1)] by blast
  with assms(3)[of w'] ts_validate_own[of "row_key pk sk" pk ctx sv w] assms(2) show ?thesis
    by (simp add: io_post_def io_bind_def ts_delete_item_def base_delete_item_def)
qed

lemma build_no_add: "build_update_expression attrs = (e, names, vals) \<Longrightarrow> CHR ''A'' \<notin> set e"
proof -
  have digits: "CHR ''A'' \<notin> set (show_nat n)" for n using show_nat_char[of "CHR ''A''" n] by (auto simp: code_point_def)
  have "CHR ''A'' \<notin> set (str_join '', '' xs)" if "\<forall>x \<in> set xs. CHR ''A'' \<notin> set x" for xs
    using that by (induction "'', ''" xs rule: str_join.induct) auto
  moreover assume "build_update_expression attrs = (e, names, vals)"
  ultimately show ?thesis by (auto simp: build_update_expression_def Let_def set_part_def digits)
qed

lemma apply_build:
  assumes "build_update_expression attrs = (e, names, vals)" and "attrs \<noteq> []"
  shows "apply_update e names vals item = Some (dupdate item attrs)"
  using assms(1) build_update_expression_applies[OF assms(2), of item] build_no_add[OF assms(1)] by (simp add: apply_update_set)

lemma build_values:
  assumes "build_update_expression attrs = (e, names, vals)"
  shows "list_all (\<lambda>(k, v). P v) vals \<longleftrightarrow> list_all (\<lambda>(k, v). P v) attrs"
proof -
  have "vals = map (\<lambda>(i, f, v). ('':v'' @ show_nat i, v)) (enumerate 1 attrs)"
    using assms by (simp add: build_update_expression_def Let_def)
  then have "map snd vals = map (\<lambda>x. snd (snd x)) (enumerate 1 attrs)" by (simp add: comp_def case_prod_beta)
  also have "\<dots> = map snd (map snd (enumerate 1 attrs))" by (simp only: map_map comp_def)
  also have "\<dots> = map snd attrs" by (simp only: map_snd_enumerate)
  finally have "list_all P (map snd vals) = list_all P (map snd attrs)" by simp
  then show ?thesis by (simp add: list_all_iff case_prod_beta)
qed

lemma ts_update_own:
  assumes "own_key ctx pk"
  shows "ts_update_item sv ctx t (row_key pk sk) e vals names c = aw_update_item sv t (update_kwargs (row_key pk sk) e vals names c)"
  using ts_validate_own[of "row_key pk sk" pk ctx sv] assms
  by (simp add: ts_update_item_def Let_def base_update_item_def io_bind_def fun_eq_iff update_kwargs_def dset_def split: option.split)

lemma client_update_post:
  assumes "dynamo_ok (td_aws deps) rows" and "own_key ctx pk" and "updates \<noteq> []"
    and "\<And>e. \<not> list_all (\<lambda>(k, v). update_value_ok v) updates \<Longrightarrow> Q (Inl e) w"
    and "\<And>w'. rows w' = set_row (rows w) t pk sk (Some (dupdate (old_row (rows w) t pk sk) updates)) \<Longrightarrow>
      io_post (f [(''Attributes'', PDict (dupdate (old_row (rows w) t pk sk) updates))]) w' Q"
  shows "io_post (io_bind (update_fields deps ctx t (row_key pk sk) updates) f) w Q"
proof -
  obtain e names vals where b: "build_update_expression updates = (e, names, vals)" by (metis surj_pair)
  let ?new = "dupdate (old_row (rows w) t pk sk) updates"
  have run: "update_fields deps ctx t (row_key pk sk) updates
      = aw_update_item (td_aws deps) t (update_kwargs (row_key pk sk) e vals (Some names) None)"
    by (simp add: update_fields_def b ts_update_own[OF assms(2)])
  have res: "update_result e vals (Some names) None t pk sk (rows w)
      = (if list_all (\<lambda>(k, v). update_value_ok v) updates then Inr (?new, set_row (rows w) t pk sk (Some ?new)) else Inl unsupported_number)"
    by (simp add: update_result_def build_values[OF b] apply_build[OF b assms(3)] condition_holds_def put_if_absent_def if_present_def)
  note law = dynamo_update[OF assms(1), where e = e and vals = vals and names = "Some names" and c = None and t = t and pk = pk
      and sk = sk and w = w]
  show ?thesis
  proof (cases "list_all (\<lambda>(k, v). update_value_ok v) updates")
    case True
    with law obtain w' where "update_fields deps ctx t (row_key pk sk) updates w = (Inr [(''Attributes'', PDict ?new)], w')"
      and "rows w' = set_row (rows w) t pk sk (Some ?new)"
      unfolding run res by auto
    with assms(5)[of w'] show ?thesis by (simp add: io_post_def io_bind_def)
  next
    case False
    with law assms(4)[OF False] show ?thesis unfolding res by (simp add: run io_post_def io_bind_def)
  qed
qed

lemma client_update:
  assumes "dynamo_ok (td_aws deps) rows" and "own_key ctx pk" and "updates \<noteq> []" and "list_all (\<lambda>(k, v). update_value_ok v) updates"
  shows "\<exists>w'. update_fields deps ctx t (row_key pk sk) updates w
        = (Inr [(''Attributes'', PDict (dupdate (old_row (rows w) t pk sk) updates))], w')
     \<and> rows w' = set_row (rows w) t pk sk (Some (dupdate (old_row (rows w) t pk sk) updates))"
proof -
  have "io_post (io_bind (update_fields deps ctx t (row_key pk sk) updates) io_return) w
     (\<lambda>r w'. r = Inr [(''Attributes'', PDict (dupdate (old_row (rows w) t pk sk) updates))]
        \<and> rows w' = set_row (rows w) t pk sk (Some (dupdate (old_row (rows w) t pk sk) updates)))"
    by (rule client_update_post[OF assms(1-3)]) (use assms(4) in \<open>simp_all add: io_post_def\<close>)
  then show ?thesis by (auto simp: io_post_def io_bind_def split: prod.splits sum.splits)
qed

text \<open>An update with an expression of its own.\<close>

lemma raw_update_post:
  assumes "dynamo_ok sv rows" and "own_key ctx pk"
    and "\<And>x. update_result e vals names c t pk sk (rows w) = Inl x \<Longrightarrow> Q (Inl x) w"
    and "\<And>new r w'. update_result e vals names c t pk sk (rows w) = Inr (new, r) \<Longrightarrow> rows w' = r \<Longrightarrow>
      io_post (f [(''Attributes'', PDict new)]) w' Q"
  shows "io_post (io_bind (ts_update_item sv ctx t (row_key pk sk) e vals names c) f) w Q"
proof -
  note law = dynamo_update[OF assms(1), where e = e and vals = vals and names = names and c = c and t = t and pk = pk and sk = sk and w = w]
  show ?thesis
  proof (cases "update_result e vals names c t pk sk (rows w)")
  case (Inl x)
  with assms(3)[OF Inl] law show ?thesis
    by (simp add: io_post_def io_bind_def ts_update_own[OF assms(2)])
next
  case (Inr p)
  obtain new r where p: "p = (new, r)" by (cases p)
  then obtain w' where "ts_update_item sv ctx t (row_key pk sk) e vals names c w = (Inr [(''Attributes'', PDict new)], w')"
    and "rows w' = r"
    using Inr law by (auto simp: ts_update_own[OF assms(2)])
  with assms(4)[of new r w'] Inr p show ?thesis by (simp add: io_post_def io_bind_def)
  qed
qed

lemma dynamo_ok_query: "dynamo_ok (sv\<lparr>aw_query := q\<rparr>) rows = dynamo_ok sv rows"
  by (cases sv, hypsubst, unfold dynamo_ok_def aws.update_convs aws.select_convs) (rule refl)

section \<open>A store that keeps these promises\<close>

text \<open>The tables as a function, with the events that were published: an instance of the services the laws are about.\<close>

type_synonym map_world = "rows \<times> (string \<times> string) list"

definition kw_dict :: "kwargs \<Rightarrow> string \<Rightarrow> pydict" where
  "kw_dict kw n = (case map_of kw n of Some (KwVal (PDict d)) \<Rightarrow> d | _ \<Rightarrow> [])"

definition kw_text :: "kwargs \<Rightarrow> string \<Rightarrow> string option" where
  "kw_text kw n = (case map_of kw n of Some (KwVal (PStr s)) \<Rightarrow> Some s | _ \<Rightarrow> None)"

text \<open>A key whose parts are no texts is refused.\<close>

definition keyed :: "pydict \<Rightarrow> (string \<Rightarrow> string \<Rightarrow> ('w, 'a) io) \<Rightarrow> ('w, 'a) io" where
  "keyed key f =
     (case (dget key ''PK'', dget key ''SK'') of
        (PStr pk, PStr sk) \<Rightarrow> f pk sk | _ \<Rightarrow> io_raise (client_error ''ValidationException''))"

definition map_aws :: "map_world aws" where
  "map_aws = \<lparr>
     aw_get_item = (\<lambda>t kw. keyed (kw_dict kw ''Key'') (\<lambda>pk sk w. (Inr (fst w t pk sk), w))),
     aw_put_item = (\<lambda>t kw.
       (let item = kw_dict kw ''Item'' in keyed item (\<lambda>pk sk w.
        case put_result (kw_text kw ''ConditionExpression'') item t pk sk (fst w) of
          Inl e \<Rightarrow> (Inl e, w) | Inr r \<Rightarrow> (Inr (), (r, snd w))))),
     aw_update_item = (\<lambda>t kw. keyed (kw_dict kw ''Key'') (\<lambda>pk sk w.
          (case update_result (case kw_text kw ''UpdateExpression'' of None \<Rightarrow> [] | Some e \<Rightarrow> e) (kw_dict kw ''ExpressionAttributeValues'')
                  (Some (kw_dict kw ''ExpressionAttributeNames'')) (kw_text kw ''ConditionExpression'') t pk sk (fst w) of
             Inl e \<Rightarrow> (Inl e, w) | Inr (new, r) \<Rightarrow> (Inr [(''Attributes'', PDict new)], (r, snd w))))),
     aw_delete_item = (\<lambda>t kw. keyed (kw_dict kw ''Key'') (\<lambda>pk sk w. (Inr (), (set_row (fst w) t pk sk None, snd w)))),
     aw_query = (\<lambda>t kw w. (Inr (Some [], None), w)),
     aw_scan = (\<lambda>t kw w. (Inr (Some [], None), w)),
     aw_put_metric = (\<lambda>m w. (Inr (), w)),
     aw_log_error = (\<lambda>m w. w)\<rparr>"

definition map_deps :: "map_world tenant_deps" where
  "map_deps = \<lparr>
     td_aws = map_aws,
     td_s3 = \<lparr>s3_get = (\<lambda>b k w. (Inr [], w)), s3_put = (\<lambda>b k d x w. (Inr (), w)), s3_delete = (\<lambda>b k w. (Inr (), w)),
       s3_list = (\<lambda>b p t w. (Inr \<lparr>lr_contents = None, lr_truncated = False, lr_next_token = None\<rparr>, w)),
       s3_presign = (\<lambda>o' b k n w. (Inr (''https://'' @ b @ ''/'' @ k), w))\<rparr>,
     td_put_events = (\<lambda>e w. (Inr (PDict []), (fst w, snd w @ [(py_str (dget e ''DetailType''), py_str (dget e ''Detail''))]))),
     td_now = (\<lambda>w. (Inr 1772841600, w)),
     td_secrets = (\<lambda>n a w. (Inr (PDict [(''ARN'', PStr ''arn:secret''), (''VersionId'', PStr ''v2'')]), w)),
     td_lambda = (\<lambda>n a w. (Inr (PDict [(''FunctionVersion'', PStr ''3'')]), w)),
     td_versions = (\<lambda>f w. (Inr [[(''Versions'', PList [PDict [(''Version'', PStr ''2'')], PDict [(''Version'', PStr ''3'')]])]], w)),
     td_ssm = (\<lambda>n w. (Inr [(''Parameter'', PDict [(''Value'', PStr ''eu-west-1'')])], w)),
     td_usage = (\<lambda>t a w. (Inr (PDict []), w)),
     td_provision_memory = (\<lambda>t a w. (Inr (PDict []), w)),
     td_quota = (\<lambda>r w. (Inr (PList []), w)),
     td_token_hex = (\<lambda>n w. (Inr (replicate (2 * n) (CHR ''a'')), w)),
     td_token_urlsafe = (\<lambda>n w. (Inr (replicate n (CHR ''b'')), w)),
     td_uuid4 = (\<lambda>w. (Inr ''c0ffee'', w)),
     td_fromisoformat = (\<lambda>s. Inr (1772841600, True)),
     td_urlparse = (\<lambda>u. Inr (''https'', u))\<rparr>"

lemma kw_reads:
  "kw_dict (put_kwargs item c) ''Item'' = item" "kw_text (put_kwargs item c) ''ConditionExpression'' = c"
  "kw_dict (update_kwargs key e vals names c) ''Key'' = key" "kw_dict [(''Key'', KwVal (PDict key))] ''Key'' = key"
  "kw_text (update_kwargs key e vals names c) ''UpdateExpression'' = Some e"
  "kw_dict (update_kwargs key e vals names c) ''ExpressionAttributeValues'' = vals"
  "kw_dict (update_kwargs key e vals names c) ''ExpressionAttributeNames'' = (case names of None \<Rightarrow> [] | Some n \<Rightarrow> n)"
  "kw_text (update_kwargs key e vals names c) ''ConditionExpression'' = c"
  by (auto simp: kw_dict_def kw_text_def put_kwargs_def update_kwargs_def split: option.split)

lemma keyed_row [simp]: "keyed (row_key pk sk) f = f pk sk"
  by (simp add: keyed_def row_key_def dget_or_def)

lemma keyed_texts: "dget key ''PK'' = PStr pk \<Longrightarrow> dget key ''SK'' = PStr sk \<Longrightarrow> keyed key f = f pk sk"
  by (simp add: keyed_def)

lemma map_dynamo_ok: "dynamo_ok map_aws fst"
proof -
  have "update_result e vals (Some (case names of None \<Rightarrow> [] | Some n \<Rightarrow> n)) c = update_result e vals names c" for e vals names c
    by (cases names) (simp_all add: fun_eq_iff update_result_def)
  then show ?thesis
    unfolding dynamo_ok_def map_aws_def by (auto simp: kw_reads keyed_texts Let_def split: sum.split)
qed

lemma map_deps_ok [simp]: "td_aws map_deps = map_aws" "frame_ok map_deps fst"
  by (simp_all add: map_deps_def frame_ok_def leaves_def)

definition no_rows :: rows where
  "no_rows = (\<lambda>t pk sk. None)"

text \<open>An operator of the platform, an empty environment, and the answer of a run.\<close>

definition sample_operator :: caller_identity where
  "sample_operator = \<lparr>ci_tenant_id = Some ''platform'', ci_app_id = Some ''console'', ci_tier = None, ci_sub = Some ''op-1'',
     ci_roles = [''Platform.Admin''], ci_usage_key = None\<rparr>"

definition sample_env :: environ where
  "sample_env = (\<lambda>k. None)"

lemma sample_operator_ok [simp]: "is_admin sample_operator" "is_platform_actor sample_operator" "ci_sub sample_operator = Some ''op-1''"
  by code_simp+

definition answer_of :: "(('w, pydict) io) \<Rightarrow> 'w \<Rightarrow> pydict option" where
  "answer_of m w = (case m w of (Inr a, _) \<Rightarrow> Some a | _ \<Rightarrow> None)"

lemma answer_of_Some: "answer_of m w = Some a \<Longrightarrow> \<exists>w'. m w = (Inr a, w')"
  by (auto simp: answer_of_def split: prod.splits sum.splits)

end
