(* ===== verification/TenantRecords.thy ===== *)
theory TenantRecords
  imports DynamoTables
begin

text \<open>
  The tenant records (\<open>tenant_records.py\<close>): creation with its API key secret, reading, update and deletion, with the serialised
  tenant and the secrets they make. Every operation runs on the services of \<^const>\<open>td_aws\<close> and the other parameters.
\<close>

section \<open>Inputs and output (\<open>models.py\<close>, \<open>serialization.py\<close>)\<close>

record tenant_create_input =
  cr_tenant_id :: string
  cr_app_id :: string
  cr_display_name :: string
  cr_tier :: string
  cr_owner_email :: string
  cr_owner_team :: string
  cr_account_id :: string
  cr_monthly_budget :: pyval

record tenant_list_input =
  li_status_filter :: "string option"
  li_tier_filter :: "string option"
  li_limit :: "int option"
  li_next_token :: "string option"

text \<open>
  An update carries the names of the fields the body provides. The consistency check of \<open>__post_init__\<close> cannot fail here: the
  values are read from the body that provides the names; and an empty body provides none.
\<close>

record tenant_update_input =
  up_provided :: "string list"
  up_display_name :: pyval
  up_status :: pyval
  up_tier :: pyval
  up_monthly_budget :: pyval

definition optional_tenant_fields :: "string list" where
  "optional_tenant_fields = [''executionRoleArn'', ''memoryStoreArn'', ''runtimeRegion'', ''provisioningStatus'',
     ''provisioningUpdatedAt'', ''provisioningError'', ''apiKeySecretArn'', ''monthlyBudgetUsd'', ''deletedAt'', ''purgeAtEpochSeconds'']"

definition serialize_tenant :: "pydict \<Rightarrow> pydict" where
  "serialize_tenant item =
     (let text = (\<lambda>k. (k, PStr (py_str (dget_or item k (PStr [])))));
          copy = (\<lambda>k. (k, dget item k))
      in map text [''tenantId'', ''appId'', ''displayName'', ''tier'', ''status'']
         @ map copy [''createdAt'', ''updatedAt'', ''ownerEmail'', ''ownerTeam'', ''accountId'']
         @ concat (map (\<lambda>k. if dget item k \<noteq> PNone then [copy k] else []) optional_tenant_fields))"

section \<open>API key secrets (\<open>secrets_manager.py\<close>)\<close>

definition secret_prefix :: "environ \<Rightarrow> string" where
  "secret_prefix env = env_or env ''TENANT_API_KEY_SECRET_PREFIX'' ''platform/tenants''"

definition rstrip_slash :: "string \<Rightarrow> string" where
  "rstrip_slash s = rev (dropWhile (\<lambda>c. c = CHR ''/'') (rev s))"

definition secret_string :: "string \<Rightarrow> string \<Rightarrow> string \<Rightarrow> string" where
  "secret_string tenant_id app_id key =
     json_dumps (PDict [(''tenantId'', PStr tenant_id), (''appId'', PStr app_id), (''apiKey'', PStr key)])"

text \<open>\<open>response["ARN"]\<close>.\<close>

definition need_key :: "pyval \<Rightarrow> string \<Rightarrow> pyval res" where
  "need_key v k = (case as_dict v of
     None \<Rightarrow> Inl (TypeError ''not subscriptable'')
   | Some d \<Rightarrow> (case map_of d k of None \<Rightarrow> Inl (KeyError k) | Some x \<Rightarrow> Inr x))"

text \<open>\<open>json.dumps(v, separators=(",", ":"))\<close> on texts, lists and dictionaries.\<close>

fun json_tight :: "pyval \<Rightarrow> string" where
  "json_tight (PList xs) = ''['' @ str_join '','' (map json_tight xs) @ '']''"
| "json_tight (PDict d) = ''{'' @ str_join '','' (map (\<lambda>(k, v). json_quote k @ '':'' @ json_tight v) d) @ ''}''"
| "json_tight v = json_dumps v"

definition secret_policy :: "string \<Rightarrow> string \<Rightarrow> pyval" where
  "secret_policy role_arn secret_arn =
     PDict [(''Version'', PStr ''2012-10-17''),
            (''Statement'', PList [PDict
               [(''Sid'', PStr ''DenyTenantMgmtReadback''), (''Effect'', PStr ''Deny''),
                (''Principal'', PDict [(''AWS'', PStr role_arn)]),
                (''Action'', PStr ''secretsmanager:GetSecretValue''), (''Resource'', PStr secret_arn)]])]"

definition attach_tenant_api_key_secret_policy :: "'w tenant_deps \<Rightarrow> environ \<Rightarrow> string \<Rightarrow> ('w, unit) io" where
  "attach_tenant_api_key_secret_policy deps env secret_arn =
     (let role_arn = py_strip (env_or env ''TENANT_MGMT_ROLE_ARN'' []) in
      if role_arn = [] then io_return ()
      else io_bind (td_secrets deps ''put_resource_policy''
             [(''SecretId'', PStr secret_arn), (''ResourcePolicy'', PStr (json_tight (secret_policy role_arn secret_arn))),
              (''BlockPublicPolicy'', PBool True)]) (\<lambda>_. io_return ()))"

definition create_api_key_secret :: "'w tenant_deps \<Rightarrow> environ \<Rightarrow> string \<Rightarrow> string \<Rightarrow> ('w, string) io" where
  "create_api_key_secret deps env tenant_id app_id =
     io_bind (td_token_urlsafe deps 32) (\<lambda>key.
     io_bind (td_secrets deps ''create_secret''
        [(''Name'', PStr (rstrip_slash (secret_prefix env) @ ''/'' @ tenant_id @ ''/api-key'')),
         (''SecretString'', PStr (secret_string tenant_id app_id key)),
         (''Description'', PStr (''Tenant API key for '' @ tenant_id)),
         (''Tags'', PList [PDict [(''Key'', PStr ''tenantid''), (''Value'', PStr tenant_id)],
                           PDict [(''Key'', PStr ''appid''), (''Value'', PStr app_id)]])]) (\<lambda>r.
     io_bind (io_lift (need_key r ''ARN'')) (\<lambda>arn.
     io_bind (attach_tenant_api_key_secret_policy deps env (py_str arn)) (\<lambda>_.
     io_return (py_str arn)))))"

definition rotate_api_key_secret :: "'w tenant_deps \<Rightarrow> string \<Rightarrow> string \<Rightarrow> string \<Rightarrow> ('w, string) io" where
  "rotate_api_key_secret deps secret_arn tenant_id app_id =
     io_bind (td_token_urlsafe deps 32) (\<lambda>key.
     io_bind (td_secrets deps ''put_secret_value''
        [(''SecretId'', PStr secret_arn), (''SecretString'', PStr (secret_string tenant_id app_id key))]) (\<lambda>r.
     io_bind (io_lift (need_dict r)) (\<lambda>d. io_return (py_str (dget_or d ''VersionId'' (PStr []))))))"

section \<open>Records (\<open>tenant_records.py\<close>)\<close>

definition require_non_empty_text :: "pyval \<Rightarrow> string \<Rightarrow> string res" where
  "require_non_empty_text v field =
     (case coerce_optional_string v of None \<Rightarrow> Inl (ValueError (field @ '' is required'')) | Some t \<Rightarrow> Inr t)"

definition as_float :: "pyval \<Rightarrow> string \<Rightarrow> pyfloat res" where
  "as_float v field =
     (case v of
        PBool b \<Rightarrow> Inl (ValueError (field @ '' must be a number''))
      | _ \<Rightarrow> (case py_float v of Inr f \<Rightarrow> Inr f | Inl e \<Rightarrow> Inl (ValueError (field @ '' must be a number''))))"

definition budget_field :: "pyval \<Rightarrow> pydict res" where
  "budget_field v = bind_res (as_float v ''monthlyBudgetUsd'') (\<lambda>f. Inr [(''monthlyBudgetUsd'', PFloat f)])"

definition not_found :: "string \<Rightarrow> pydict" where
  "not_found tenant_id = api_error 404 ''NOT_FOUND'' (''Tenant '' @ [CHR 0x27] @ tenant_id @ [CHR 0x27] @ '' not found'')"

text \<open>The record of a new tenant.\<close>

definition new_tenant_item :: "string \<Rightarrow> string \<times> string \<times> string \<Rightarrow> string \<times> string \<times> string \<Rightarrow> string \<Rightarrow> string \<Rightarrow> pydict" where
  "new_tenant_item tenant_id = (\<lambda>(app_id, display_name, tier) (owner_email, owner_team, account_id) secret_arn now_iso.
     tenant_row_key tenant_id @
     [(''tenantId'', PStr tenant_id), (''appId'', PStr app_id), (''displayName'', PStr display_name), (''tier'', PStr tier),
      (''status'', PStr ''active''), (''createdAt'', PStr now_iso), (''updatedAt'', PStr now_iso),
      (''provisioningStatus'', PStr ''pending''), (''provisioningUpdatedAt'', PStr now_iso),
      (''ownerEmail'', PStr owner_email), (''ownerTeam'', PStr owner_team), (''accountId'', PStr account_id),
      (''apiKeySecretArn'', PStr secret_arn)])"

definition handle_create :: "'w tenant_deps \<Rightarrow> environ \<Rightarrow> tenant_create_input \<Rightarrow> caller_identity \<Rightarrow> ('w, pydict) io" where
  "handle_create deps env request caller =
     io_bind (io_lift (require_admin caller)) (\<lambda>_.
     io_bind (io_lift (canonical_tenant_id (PStr (cr_tenant_id request)) False)) (\<lambda>tenant_id.
     io_bind (io_lift (require_non_empty_text (PStr (cr_app_id request)) ''appId'')) (\<lambda>app_id.
     io_bind (io_lift (require_non_empty_text (PStr (cr_display_name request)) ''displayName'')) (\<lambda>display_name.
     io_bind (io_lift (require_non_empty_text (PStr (cr_owner_email request)) ''ownerEmail'')) (\<lambda>owner_email.
     io_bind (io_lift (require_non_empty_text (PStr (cr_owner_team request)) ''ownerTeam'')) (\<lambda>owner_team.
     io_bind (io_lift (require_platform_home_account_id env (PStr (cr_account_id request)))) (\<lambda>account_id.
     io_bind (td_now deps) (\<lambda>now.
     io_bind (io_lift (normalize_tier (PStr (cr_tier request)))) (\<lambda>tier.
     io_bind (read_tenant_record deps env tenant_id caller (Some app_id)) (\<lambda>found.
     if found \<noteq> None then io_return (api_error 409 ''CONFLICT'' ''Tenant already exists'')
     else
     io_bind (td_provision_memory deps tenant_id app_id) (\<lambda>provisioned.
     let memory_info = py_or provisioned (PDict []) in
     io_bind (create_api_key_secret deps env tenant_id app_id) (\<lambda>secret_arn.
     io_bind (io_lift (if cr_monthly_budget request = PNone then Inr [] else budget_field (cr_monthly_budget request))) (\<lambda>budget.
     io_bind (io_lift (need_dict memory_info)) (\<lambda>info.
     let attributes = new_tenant_item tenant_id (app_id, display_name, tier) (owner_email, owner_team, account_id) secret_arn (iso_utc now)
           @ budget
           @ (case coerce_optional_string (dget info ''memoryStoreArn'') of None \<Rightarrow> [] | Some a \<Rightarrow> [(''memoryStoreArn'', PStr a)]) in
     io_bind (io_lift (db_for_tenant tenant_id caller (Some app_id))) (\<lambda>db.
     io_bind (ts_put_item (td_aws deps) db (tenants_table_name env) attributes None []) (\<lambda>_.
     io_bind (put_event deps env ''tenant.created''
        [(''tenantId'', PStr tenant_id), (''appId'', PStr app_id), (''tier'', PStr tier), (''accountId'', PStr account_id),
         (''memoryInfo'', memory_info)]) (\<lambda>_.
     io_return (response 201 (serialize_tenant attributes)))))))))))))))))))"

text \<open>\<open>usage if isinstance(usage, dict) else {}\<close>, with the caller's key in it.\<close>

definition tenant_usage :: "caller_identity \<Rightarrow> pyval \<Rightarrow> pydict" where
  "tenant_usage caller usage =
     (let u = dict_or_empty usage in
      case ci_usage_key caller of None \<Rightarrow> u
      | Some k \<Rightarrow> if k = [] then u else dset ''usageIdentifierKey'' (PStr k) u)"

definition handle_read :: "'w tenant_deps \<Rightarrow> environ \<Rightarrow> string \<Rightarrow> caller_identity \<Rightarrow> ('w, pydict) io" where
  "handle_read deps env tenant_id caller =
     (if \<not> can_read_tenant caller tenant_id then io_raise (PermissionErr ''Access denied'')
      else
      io_bind (read_tenant_record deps env tenant_id caller None) (\<lambda>found.
      case found of
        None \<Rightarrow> io_return (not_found tenant_id)
      | Some item \<Rightarrow>
          io_bind (td_usage deps tenant_id (coerce_optional_string (dget item ''appId''))) (\<lambda>usage.
          io_return (response 200 (serialize_tenant item @ [(''usage'', PDict (tenant_usage caller usage))])))))"

text \<open>The attributes an update writes.\<close>

definition tenant_updates :: "tenant_update_input \<Rightarrow> string \<Rightarrow> pydict res" where
  "tenant_updates request now_iso =
     (let given = (\<lambda>f r. if f \<in> set (up_provided request) then r else Inr []) in
      bind_res (given ''displayName'' (Inr [(''displayName'', PStr (py_strip (py_str (up_display_name request))))])) (\<lambda>a.
      bind_res (given ''status'' (bind_res (normalize_status (up_status request)) (\<lambda>s. Inr [(''status'', PStr s)]))) (\<lambda>b.
      bind_res (given ''tier'' (bind_res (normalize_tier (up_tier request)) (\<lambda>t. Inr [(''tier'', PStr t)]))) (\<lambda>c.
      bind_res (given ''monthlyBudgetUsd'' (budget_field (up_monthly_budget request))) (\<lambda>d.
      Inr ([(''updatedAt'', PStr now_iso)] @ a @ b @ c @ d))))))"

text \<open>\<open>updated_item or item\<close>.\<close>

definition item_or :: "pydict option \<Rightarrow> pydict \<Rightarrow> pydict" where
  "item_or a b = (case a of None \<Rightarrow> b | Some d \<Rightarrow> if d = [] then b else d)"

definition tenant_update_event :: "string \<Rightarrow> caller_identity \<Rightarrow> pydict \<Rightarrow> pydict \<Rightarrow> string \<times> pydict" where
  "tenant_update_event tenant_id caller item current =
     (let old_tier = coerce_optional_string (dget item ''tier'');
          new_tier = coerce_optional_string (dget current ''tier'');
          detail = [(''tenantId'', PStr tenant_id), (''actorSub'', opt_pstr (ci_sub caller))]
      in if old_tier \<noteq> new_tier \<and> new_tier \<noteq> None
         then (''tenant.tier_changed'', detail @ [(''oldTier'', opt_pstr old_tier), (''newTier'', opt_pstr new_tier)])
         else (''tenant.updated'', detail))"

definition handle_update :: "'w tenant_deps \<Rightarrow> environ \<Rightarrow> tenant_update_input \<Rightarrow> string \<Rightarrow> caller_identity \<Rightarrow> ('w, pydict) io" where
  "handle_update deps env request tenant_id caller =
     io_bind (io_lift (require_admin caller)) (\<lambda>_.
     io_bind (read_tenant_record deps env tenant_id caller None) (\<lambda>found.
     case found of
       None \<Rightarrow> io_return (not_found tenant_id)
     | Some item \<Rightarrow>
         io_bind (td_now deps) (\<lambda>now.
         io_bind (io_lift (tenant_updates request (iso_utc now))) (\<lambda>updates.
         io_bind (io_lift (db_for_tenant tenant_id caller None)) (\<lambda>db.
         io_bind (update_fields deps db (tenants_table_name env) (tenant_row_key tenant_id) updates) (\<lambda>_.
         io_bind (read_tenant_record deps env tenant_id caller None) (\<lambda>updated.
         let current = item_or updated item; event = tenant_update_event tenant_id caller item current in
         io_bind (put_event deps env (fst event) (snd event)) (\<lambda>_.
         io_return (response 200 (serialize_tenant current))))))))))"

definition delete_retention_days :: int where
  "delete_retention_days = 30"

text \<open>\<open>int((now + timedelta(days=n)).timestamp())\<close>.\<close>

definition epoch_after_days :: "rat \<Rightarrow> int \<Rightarrow> int" where
  "epoch_after_days now n = trunc_rat (now + of_int (n * 86400))"

definition handle_delete :: "'w tenant_deps \<Rightarrow> environ \<Rightarrow> string \<Rightarrow> caller_identity \<Rightarrow> ('w, pydict) io" where
  "handle_delete deps env tenant_id caller =
     io_bind (io_lift (require_admin caller)) (\<lambda>_.
     if tenant_id \<in> set reserved_tenant_ids then io_raise (PermissionErr ''Reserved tenant IDs cannot be deleted'')
     else
     io_bind (read_tenant_record deps env tenant_id caller None) (\<lambda>found.
     case found of
       None \<Rightarrow> io_return (not_found tenant_id)
     | Some item \<Rightarrow>
         io_bind (td_now deps) (\<lambda>now.
         let purge_at = epoch_after_days now delete_retention_days in
         io_bind (io_lift (db_for_tenant tenant_id caller None)) (\<lambda>db.
         io_bind (update_fields deps db (tenants_table_name env) (tenant_row_key tenant_id)
            [(''status'', PStr ''deleted''), (''deletedAt'', PStr (iso_utc now)), (''purgeAtEpochSeconds'', PInt purge_at),
             (''updatedAt'', PStr (iso_utc now))]) (\<lambda>_.
         io_bind (put_event deps env ''tenant.deleted''
            [(''tenantId'', PStr tenant_id), (''actorSub'', opt_pstr (ci_sub caller)),
             (''retentionDays'', PInt delete_retention_days), (''purgeAtEpochSeconds'', PInt purge_at)]) (\<lambda>_.
         io_return (response 204 [])))))))"

section \<open>What the operations do to the record\<close>

definition tenant_row :: "environ \<Rightarrow> rows \<Rightarrow> string \<Rightarrow> pydict option" where
  "tenant_row env r tid = r (tenants_table_name env) (tenant_pk tid) ''METADATA''"

definition set_tenant_row :: "environ \<Rightarrow> rows \<Rightarrow> string \<Rightarrow> pydict \<Rightarrow> rows" where
  "set_tenant_row env r tid item = set_row r (tenants_table_name env) (tenant_pk tid) ''METADATA'' (Some item)"

lemma scoped_key: "db_for_tenant tid caller app = Inr ctx \<Longrightarrow> own_key ctx (tenant_pk tid)"
  using db_for_tenant_scope[of tid caller app ctx] by simp

lemma read_post:
  assumes "dynamo_ok (td_aws deps) rows" and "\<And>e. Q (Inl e) w" and "io_post (f (tenant_row env (rows w) tid)) w Q"
  shows "io_post (io_bind (read_tenant_record deps env tid caller app) f) w Q"
proof (cases "db_for_tenant tid caller app")
  case (Inr ctx)
  then show ?thesis
    using client_get[OF assms(1) scoped_key[OF Inr]] assms(3)
    by (simp add: read_tenant_record_def tenant_row_key_def tenant_row_def io_post_def io_bind_def)
qed (simp add: read_tenant_record_def io_post_def io_bind_def assms(2))

definition deletion :: "rat \<Rightarrow> pydict" where
  "deletion now = [(''status'', PStr ''deleted''), (''deletedAt'', PStr (iso_utc now)),
     (''purgeAtEpochSeconds'', PInt (epoch_after_days now 30)), (''updatedAt'', PStr (iso_utc now))]"

definition marked_deleted :: "environ \<Rightarrow> string \<Rightarrow> rows \<Rightarrow> rows \<Rightarrow> bool" where
  "marked_deleted env tid old new \<longleftrightarrow>
     (\<exists>item now. tenant_row env old tid = Some item \<and> new = set_tenant_row env old tid (dupdate item (deletion now)))"

definition delete_outcome :: "environ \<Rightarrow> string \<Rightarrow> caller_identity \<Rightarrow> rows \<Rightarrow> pydict res \<Rightarrow> rows \<Rightarrow> bool" where
  "delete_outcome env tid caller old r new \<longleftrightarrow>
     (new = old \<or> marked_deleted env tid old new)
   \<and> (r = Inr (response 204 []) \<longrightarrow> is_admin caller \<and> tid \<notin> set reserved_tenant_ids \<and> marked_deleted env tid old new)"

lemma deletion_refused: "new = old \<Longrightarrow> r \<noteq> Inr (response 204 []) \<Longrightarrow> delete_outcome env tid caller old r new"
  by (simp add: delete_outcome_def)

lemma delete_done:
  assumes "require_admin caller = Inr u" and "tid \<notin> set reserved_tenant_ids" and "tenant_row env old tid = Some item"
    and "mid = old"
    and "new = set_row mid (tenants_table_name env) (tenant_pk tid) ''METADATA''
      (Some (dupdate (old_row mid (tenants_table_name env) (tenant_pk tid) ''METADATA'') (deletion now)))"
  shows "delete_outcome env tid caller old r new"
proof -
  have "marked_deleted env tid old new"
    using assms(3-5) by (auto simp: marked_deleted_def set_tenant_row_def tenant_row_def old_row_def)
  with assms(1,2) show ?thesis by (simp add: delete_outcome_def require_admin_iff)
qed

lemma delete_effect:
  assumes "dynamo_ok (td_aws deps) rows" and "frame_ok deps rows"
  shows "io_post (handle_delete deps env tid caller) w (\<lambda>r w'. delete_outcome env tid caller (rows w) r (rows w'))"
proof -
  have other: "not_found tid \<noteq> response 204 []" by (simp add: not_found_def api_error_def response_def)
  note steps = frame_step[OF assms(2)]
  show ?thesis
    unfolding handle_delete_def tenant_row_key_def Let_def deletion_def[unfolded delete_retention_days_def[symmetric], symmetric]
    by (intro io_post_intros read_post[OF assms(1)] client_update_post[OF assms(1)] io_post_bind)
      (erule scoped_key
        | (rule deletion_refused, (rule refl | erule steps(1)), simp add: other)
        | (rule delete_done, assumption, assumption, assumption, erule steps(1), drule steps(3), simp)
        | simp add: deletion_def)+
qed

text \<open>
  A deletion never removes anything: it leaves every row as it is, or marks the record of the tenant as deleted, to be purged
  30 days later, keeping its other fields. A 204 is answered only to an administrator, for a tenant that is not reserved and now marked.
\<close>

theorem delete_marks_tenant:
  assumes "dynamo_ok (td_aws deps) rows" and "frame_ok deps rows" and "handle_delete deps env tid caller w = (r, w')"
  shows "(rows w' = rows w \<or> marked_deleted env tid (rows w) (rows w'))
    \<and> (r = Inr (response 204 []) \<longrightarrow> is_admin caller \<and> tid \<notin> set reserved_tenant_ids \<and> marked_deleted env tid (rows w) (rows w'))"
  using io_postD[OF delete_effect[OF assms(1,2)] assms(3)] by (simp add: delete_outcome_def)


section \<open>A budget cannot be stored at creation\<close>

definition budget_refused :: "rows \<Rightarrow> pydict res \<Rightarrow> rows \<Rightarrow> bool" where
  "budget_refused old r new \<longleftrightarrow> new = old \<and> (\<forall>a. r = Inr a \<longrightarrow> status_of a = PInt 409)"

lemma budget_refusedI: "new = old \<Longrightarrow> budget_refused old (Inl e) new"
  by (simp add: budget_refused_def)

lemma secret_frame: "frame_ok deps rows \<Longrightarrow> leaves rows (create_api_key_secret deps env tid app)"
  unfolding create_api_key_secret_def attach_tenant_api_key_secret_policy_def Let_def
  by (intro leaves_rules frame_leaves)

lemma put_unstorable:
  assumes "dynamo_ok (td_aws deps) rows" and "db_for_tenant tid caller app = Inr ctx" and "\<not> storable (PDict rest)" and "\<And>e. Q (Inl e) w"
  shows "io_post (io_bind (ts_put_item (td_aws deps) ctx t (new_tenant_item tid names owner arn now @ rest) None []) f) w Q"
proof -
  let ?item = "new_tenant_item tid names owner arn now @ rest"
  have key: "dget ?item ''PK'' = PStr (tenant_pk tid)" "dget ?item ''SK'' = PStr ''METADATA''"
    by (simp_all add: new_tenant_item_def tenant_row_key_def row_key_def dget_or_def split: prod.split)
  show ?thesis
    by (rule client_put_post[OF assms(1) scoped_key[OF assms(2)] key]) (use assms(3,4) in auto)
qed

lemma budget_unstorable: "budget_field v = Inr b \<Longrightarrow> \<not> storable (PDict (b @ rest))"
  by (auto simp: budget_field_def bind_res_eq_Inr)

lemma create_effect:
  assumes "dynamo_ok (td_aws deps) rows" and "frame_ok deps rows" and "cr_monthly_budget request \<noteq> PNone" and "rows w = old"
  shows "io_post (handle_create deps env request caller) w (\<lambda>r w'. budget_refused old r (rows w'))"
  unfolding handle_create_def Let_def if_not_P[OF assms(3)]
  by (intro io_post_intros read_post[OF assms(1)] put_unstorable[OF assms(1)] quiet_bind[OF frame_leaves(1)[OF assms(2)]]
      quiet_bind[OF frame_leaves(2)[OF assms(2)]] quiet_bind[OF secret_frame[OF assms(2)]])
    (assumption | rule assms(4) | erule budget_unstorable | (rule budget_refusedI, (assumption | rule assms(4)))
      | simp add: budget_refused_def assms(4))+

text \<open>
  A creation that sends a monthly budget never succeeds: it writes no row, and when it answers at all it answers that the tenant
  exists. The budget goes into the item as a float, which the DynamoDB library refuses, after the secret was created.
\<close>

theorem budgeted_create_fails:
  assumes "dynamo_ok (td_aws deps) rows" and "frame_ok deps rows" and "cr_monthly_budget request \<noteq> PNone"
    and "handle_create deps env request caller w = (r, w')"
  shows "rows w' = rows w \<and> (\<forall>a. r = Inr a \<longrightarrow> status_of a = PInt 409)"
  using io_postD[OF create_effect[OF assms(1-3) refl] assms(4)] by (simp add: budget_refused_def)

definition sample_tenant_rows :: map_world where
  "sample_tenant_rows =
     (set_row no_rows ''platform-tenants'' ''TENANT#t-acme'' ''METADATA'' (Some [(''tenantId'', PStr ''t-acme''), (''status'', PStr ''active'')]), [])"

lemma sample_delete: "fst (handle_delete map_deps sample_env ''t-acme'' sample_operator sample_tenant_rows) = Inr (response 204 [])"
proof -
  let ?ctx = "tenant_context_for_scope ''t-acme'' sample_operator None"
  have scope: "db_for_tenant ''t-acme'' sample_operator None = Inr ?ctx" by (simp add: db_for_tenant_cases)
  note own = scoped_key[OF scope]
  have read: "read_tenant_record map_deps sample_env ''t-acme'' sample_operator None sample_tenant_rows
      = (Inr (tenant_row sample_env (fst sample_tenant_rows) ''t-acme''), sample_tenant_rows)"
    using client_get[OF map_dynamo_ok own] by (simp add: read_tenant_record_def scope tenant_row_key_def tenant_row_def)
  have row: "tenant_row sample_env (fst sample_tenant_rows) ''t-acme'' = Some [(''tenantId'', PStr ''t-acme''), (''status'', PStr ''active'')]"
    by (simp add: tenant_row_def sample_tenant_rows_def tenants_table_name_def env_or_def sample_env_def tenant_pk_def)
  have "abs (epoch_after_days 1772841600 30) < 10 ^ 38" by code_simp
  then have ok: "deletion 1772841600 \<noteq> []" "list_all (\<lambda>(k, v). update_value_ok v) (deletion 1772841600)" by (simp_all add: deletion_def)
  have "dynamo_ok (td_aws map_deps) fst" by (simp add: map_dynamo_ok)
  from client_update[OF this own ok] obtain u w1 where
    upd: "update_fields map_deps ?ctx (tenants_table_name sample_env) (row_key (tenant_pk ''t-acme'') ''METADATA'') (deletion 1772841600)
      sample_tenant_rows = (Inr u, w1)" by blast
  have answers: "td_now map_deps w = (Inr 1772841600, w)" "\<exists>w'. put_event map_deps sample_env d x w = (Inr (PDict []), w')" for d x w
    by (simp_all add: map_deps_def put_event_def)
  obtain w2 where "put_event map_deps sample_env ''tenant.deleted'' [(''tenantId'', PStr ''t-acme''), (''actorSub'', opt_pstr (Some ''op-1'')),
      (''retentionDays'', PInt 30), (''purgeAtEpochSeconds'', PInt (epoch_after_days 1772841600 30))] w1 = (Inr (PDict []), w2)"
    using answers(2) by blast
  moreover have "require_admin sample_operator = Inr ()" by (simp add: require_admin_iff)
  ultimately show ?thesis
    using read row upd answers(1)[of sample_tenant_rows]
    by (simp add: handle_delete_def scope tenant_row_key_def reserved_tenant_ids_def delete_retention_days_def io_bind_def flip: deletion_def)
qed

theorem delete_marks_tenant_witness:
  "\<exists>w'. handle_delete map_deps sample_env ''t-acme'' sample_operator sample_tenant_rows = (Inr (response 204 []), w')
     \<and> marked_deleted sample_env ''t-acme'' (fst sample_tenant_rows) (fst w')"
proof -
  obtain w' where run: "handle_delete map_deps sample_env ''t-acme'' sample_operator sample_tenant_rows = (Inr (response 204 []), w')"
    using sample_delete by (metis prod.collapse)
  from delete_marks_tenant[OF _ _ run, of fst] run map_dynamo_ok show ?thesis by auto
qed

definition sample_creation :: tenant_create_input where
  "sample_creation = \<lparr>cr_tenant_id = ''t-new'', cr_app_id = ''app'', cr_display_name = ''New'', cr_tier = ''basic'', cr_owner_email = ''o@x.io'',
     cr_owner_team = ''team'', cr_account_id = ''123456789012'', cr_monthly_budget = PInt 500\<rparr>"

theorem budgeted_create_fails_witness:
  "\<exists>r w'. handle_create map_deps (sample_env(''PLATFORM_ACCOUNT_ID'' := Some ''123456789012'')) sample_creation sample_operator sample_tenant_rows = (r, w')
     \<and> fst w' = fst sample_tenant_rows \<and> (\<forall>a. r = Inr a \<longrightarrow> status_of a = PInt 409)"
proof -
  obtain r w' where run: "handle_create map_deps (sample_env(''PLATFORM_ACCOUNT_ID'' := Some ''123456789012'')) sample_creation sample_operator sample_tenant_rows = (r, w')" by (metis surj_pair)
  have "cr_monthly_budget sample_creation \<noteq> PNone" by (simp add: sample_creation_def)
  from budgeted_create_fails[OF _ _ this run, of fst] run map_dynamo_ok show ?thesis by auto
qed

end
