(* ===== verification/JsonRoundtrip.thy ===== *)
theory JsonRoundtrip
  imports Json
begin

text \<open>
  What \<open>json.dumps\<close> writes, \<open>json.loads\<close> reads back: for every value without floats whose dictionaries hold no key twice.
\<close>

section \<open>Texts\<close>

lemma hex_val_digit: "n < 16 \<Longrightarrow> hex_val (hex_digit n) = Some n"
  by (auto simp: hex_val_def hex_digit_def code_point_def Let_def)

declare char_of_code_point [simp]

lemma json_string_plain:
  "32 \<le> code_point c \<Longrightarrow> c \<noteq> CHR 0x22 \<Longrightarrow> c \<noteq> CHR 0x5C \<Longrightarrow> json_string acc (c # t) = json_string (acc @ [c]) t"
  by simp

lemma json_string_escape:
  assumes "json_escape s = Some (d, r)"
  shows "json_string acc (CHR 0x5C # s) = json_string (acc @ [d]) r"
proof -
  have "\<not> code_point (CHR 0x5C) < 32" by code_simp
  then show ?thesis using assms by simp
qed

lemma json_escape_simple: "simple_escape d = Some c \<Longrightarrow> json_escape (d # t) = Some (c, t)"
  by (simp add: json_escape_def)

lemma json_escape_hex:
  assumes "hex_val h = Some i" and "hex_val l = Some j"
  shows "json_escape (CHR ''u'' # CHR ''0'' # CHR ''0'' # h # l # t) = Some (char_of (16 * i + j), t)"
proof -
  have "simple_escape (CHR ''u'') = None" "hex_val (CHR ''0'') = Some 0" by code_simp+
  then show ?thesis using assms by (simp add: json_escape_def)
qed

lemma special_points:
  "code_point (CHR 0x22) = 34" "code_point (CHR 0x5C) = 92" "code_point (CHR 0x0A) = 10" "code_point (CHR 0x0D) = 13"
  "code_point (CHR 0x09) = 9" "code_point (CHR 0x0C) = 12" "code_point (CHR 0x08) = 8"
  by code_simp+

lemmas special_chars = special_points [THEN sym, THEN [2] trans, THEN code_point_inject [THEN iffD1]]

lemma special_escapes:
  "simple_escape (CHR 0x22) = Some (CHR 0x22)" "simple_escape (CHR 0x5C) = Some (CHR 0x5C)"
  "simple_escape (CHR ''n'') = Some (CHR 0x0A)" "simple_escape (CHR ''r'') = Some (CHR 0x0D)"
  "simple_escape (CHR ''t'') = Some (CHR 0x09)" "simple_escape (CHR ''f'') = Some (CHR 0x0C)"
  "simple_escape (CHR ''b'') = Some (CHR 0x08)"
  by code_simp+

lemma json_string_escaped:
  "json_string acc (json_escape_char c @ t) = json_string (acc @ [c]) t"
proof -
  let ?n = "code_point c"
  have by_simple: ?thesis if "json_escape_char c = [CHR 0x5C, d]" and "simple_escape d = Some c" for d
    using json_string_escape[OF json_escape_simple[OF that(2)]] that(1) by simp
  consider (special) "?n \<in> {34, 92, 10, 13, 9, 12, 8}" | (plain) "?n \<notin> {34, 92, 10, 13, 9, 12, 8}" "32 \<le> ?n" "?n \<le> 126"
    | (hex) "?n \<notin> {34, 92, 10, 13, 9, 12, 8}" "\<not> (32 \<le> ?n \<and> ?n \<le> 126)" by blast
  then show ?thesis
  proof cases
    case special
    then obtain d where "json_escape_char c = [CHR 0x5C, d]" "simple_escape d = Some c"
      by (auto simp: json_escape_char_def Let_def special_escapes special_points dest!: special_chars)
    then show ?thesis by (rule by_simple)
  next
    case plain
    have "c \<noteq> CHR 0x22" "c \<noteq> CHR 0x5C" using plain(1) by (auto simp: code_point_def)
    with plain show ?thesis using json_string_plain[of c acc t] by (simp add: json_escape_char_def Let_def)
  next
    case hex
    have "json_escape_char c = CHR 0x5C # CHR ''u'' # CHR ''0'' # CHR ''0'' # hex_digit (?n div 16) # hex_digit (?n mod 16) # []"
      using hex by (auto simp: json_escape_char_def Let_def)
    moreover have "?n div 16 < 16" "16 * (?n div 16) + ?n mod 16 = ?n" using code_point_less[of c] by (simp_all add: less_mult_imp_div_less)
    ultimately show ?thesis
      using json_string_escape[OF json_escape_hex[OF hex_val_digit[of "?n div 16"] hex_val_digit[of "?n mod 16"]], of acc t] by simp
  qed
qed

lemma json_string_quoted:
  "json_string acc (concat (map json_escape_char s) @ CHR 0x22 # r) = POk (acc @ s) r"
  by (induction s arbitrary: acc) (simp_all add: json_string_escaped)

section \<open>Numbers\<close>

lemma digits_char: "n < 10 \<Longrightarrow> is_digit (digit_char n) \<and> digit_val (digit_char n) = n"
  by (auto simp: is_digit_def digit_val_def digit_char_def code_point_def)

lemma digits_val_snoc: "digits_val (ds @ [c]) = 10 * digits_val ds + digit_val c"
  by simp

lemma show_nat_facts:
  "list_all is_digit (show_nat n) \<and> digits_val (show_nat n) = n \<and> show_nat n \<noteq> [] \<and> (0 < n \<longrightarrow> hd (show_nat n) \<noteq> CHR ''0'')"
proof (induction n rule: less_induct)
  case (less n)
  show ?case
  proof (cases "n < 10")
    case True
    then have "show_nat n = [digit_char n]" by (subst show_nat.simps) simp
    moreover have "digit_val (CHR ''0'') = 0" by code_simp
    ultimately show ?thesis using digits_char[OF True] by auto
  next
    case False
    then have IH: "list_all is_digit (show_nat (n div 10))" "digits_val (show_nat (n div 10)) = n div 10" "show_nat (n div 10) \<noteq> []"
      "hd (show_nat (n div 10)) \<noteq> CHR ''0''"
      using less[of "n div 10"] by auto
    have "show_nat n = show_nat (n div 10) @ [digit_char (n mod 10)]" using False by (subst show_nat.simps) simp
    then show ?thesis using IH digits_char[of "n mod 10"] by (simp add: digits_val_snoc del: digits_val.simps)
  qed
qed

text \<open>What may follow a value: the end of the text or of the element.\<close>

definition json_stop :: "string \<Rightarrow> bool" where
  "json_stop r \<longleftrightarrow> r = [] \<or> hd r = CHR '','' \<or> hd r = CHR '']'' \<or> hd r = CHR 0x7D"

lemma takeWhile_stop:
  assumes "list_all is_digit ds" "json_stop r"
  shows "takeWhile is_digit (ds @ r) = ds"
  using assms by (cases r) (auto simp: list_all_iff takeWhile_append2 json_stop_def is_digit_def code_point_def)

lemma json_number_nat:
  assumes "json_stop r"
  shows "json_number (show_nat n @ r) = POk (PInt (int n)) r" and "json_number (CHR ''-'' # show_nat n @ r) = POk (PInt (- int n)) r"
proof -
  obtain d ds where sn: "show_nat n = d # ds" using show_nat_facts[of n] by (cases "show_nat n") auto
  have dig: "list_all is_digit (d # ds)" "digits_val (d # ds) = n" "0 < n \<longrightarrow> d \<noteq> CHR ''0''"
    using show_nat_facts[of n] sn by auto
  have minus: "d \<noteq> CHR ''-''" using dig(1) by (auto simp: is_digit_def code_point_def)
  have part: "(if d = CHR ''0'' then ''0'' else takeWhile is_digit (d # ds @ r)) = d # ds"
  proof (cases "d = CHR ''0''")
    case True
    then have "n = 0" using dig(3) by auto
    moreover have "show_nat 0 = ''0''" by code_simp
    ultimately have "d # ds = ''0''" using sn by simp
    then show ?thesis using True by simp
  next
    case False
    then show ?thesis using takeWhile_stop[OF dig(1) assms] by simp
  qed
  have fr: "json_frac r = ([], r)" "json_exp r = (None, r)"
    using assms by (auto simp: json_frac_def json_exp_def json_stop_def split: list.split)
  show "json_number (show_nat n @ r) = POk (PInt (int n)) r"
    using part dig(2) by (simp add: json_number_def sn minus Let_def fr del: digits_val.simps takeWhile.simps)
  show "json_number (CHR ''-'' # show_nat n @ r) = POk (PInt (- int n)) r"
    using part dig(2) by (simp add: json_number_def sn Let_def fr del: digits_val.simps takeWhile.simps)
qed

lemma json_number_int: "json_stop r \<Longrightarrow> json_number (show_int i @ r) = POk (PInt i) r"
  by (simp add: show_int_def json_number_nat)


section \<open>Values\<close>

fun json_clean :: "pyval \<Rightarrow> bool" where
  "json_clean (PFloat f) = False"
| "json_clean (PList xs) = list_all json_clean xs"
| "json_clean (PDict d) = (distinct (map fst d) \<and> list_all (\<lambda>(k, v). json_clean v) d)"
| "json_clean v = True"

text \<open>The fuel a value needs.\<close>

fun json_need :: "pyval \<Rightarrow> nat" where
  "json_need (PList xs) = Suc (sum_list (map (\<lambda>x. Suc (json_need x)) xs))"
| "json_need (PDict d) = Suc (sum_list (map (\<lambda>(k, v). Suc (json_need v)) d))"
| "json_need v = 1"

definition first_char_ok :: "char \<Rightarrow> bool" where
  "first_char_ok c \<longleftrightarrow> \<not> json_space c \<and> c \<noteq> CHR '']'' \<and> c \<noteq> CHR 0x7D \<and> c \<noteq> CHR '':'' \<and> c \<noteq> CHR '','' "

lemma digit_first: "is_digit c \<Longrightarrow> first_char_ok c \<and> c \<notin> {CHR 0x22, CHR 0x7B, CHR ''['', CHR ''n'', CHR ''t'', CHR ''f'', CHR ''N'', CHR ''I'', CHR ''-''}"
  by (auto simp: first_char_ok_def json_space_def is_digit_def code_point_def)

lemma show_nat_first: "is_digit (hd (show_nat n))"
  using show_nat_facts[of n] by (cases "show_nat n") auto

lemma show_int_first:
  "show_int i \<noteq> [] \<and> (is_digit (hd (show_int i)) \<or> (\<exists>n. show_int i = CHR ''-'' # show_nat n))"
  using show_nat_first by (auto simp: show_int_def)

lemma json_dumps_first: "json_clean v \<Longrightarrow> json_dumps v \<noteq> [] \<and> first_char_ok (hd (json_dumps v))"
proof (cases v)
  case (PInt i)
  then show ?thesis using show_int_first[of i] digit_first by (auto simp: first_char_ok_def json_space_def)
qed (auto simp: first_char_ok_def json_space_def json_quote_def)

lemma skip_ws_first: "s = [] \<or> \<not> json_space (hd s) \<Longrightarrow> skip_ws s = s"
  by (cases s) (auto simp: skip_ws_def)

lemma skip_ws_blank: "skip_ws (CHR '' '' # s) = skip_ws s"
  by (simp add: skip_ws_def json_space_def)

lemma json_value_int:
  assumes "json_stop r"
  shows "json_value (Suc f) (show_int i @ r) = POk (PInt i) r"
proof -
  note num = json_number_int[OF assms, of i]
  show ?thesis
  proof (cases "is_digit (hd (show_int i))")
    case True
    obtain c s where s: "show_int i = c # s" using show_int_first[of i] by (cases "show_int i") auto
    with True digit_first[of c] num show ?thesis by simp
  next
    case False
    then obtain n where n: "show_int i = CHR ''-'' # show_nat n" using show_int_first by blast
    obtain d ds where "show_nat n = d # ds" "is_digit d" using show_nat_facts[of n] by (cases "show_nat n") auto
    with n num digit_first[of d] show ?thesis by simp
  qed
qed

lemma json_value_leaf:
  assumes "json_stop r"
  shows "json_value (Suc f) (json_dumps PNone @ r) = POk PNone r"
    and "json_value (Suc f) (json_dumps (PBool b) @ r) = POk (PBool b) r"
    and "json_value (Suc f) (json_dumps (PStr s) @ r) = POk (PStr s) r"
  by (simp_all add: json_quote_def json_string_quoted)


definition reads_back :: "pyval \<Rightarrow> bool" where
  "reads_back v \<longleftrightarrow> (\<forall>f r. json_need v \<le> f \<longrightarrow> json_stop r \<longrightarrow> json_value f (json_dumps v @ r) = POk v r)"

lemma reads_backD: "reads_back v \<Longrightarrow> json_need v \<le> f \<Longrightarrow> json_stop r \<Longrightarrow> json_value f (json_dumps v @ r) = POk v r"
  by (simp add: reads_back_def)

lemma stops [simp]: "json_stop (CHR '','' # s)" "json_stop (CHR '']'' # s)" "json_stop (CHR 0x7D # s)" "json_stop []"
  by (simp_all add: json_stop_def)

lemma skip_ws_marks [simp]:
  "skip_ws (CHR '','' # s) = CHR '','' # s" "skip_ws (CHR '']'' # s) = CHR '']'' # s" "skip_ws (CHR 0x7D # s) = CHR 0x7D # s"
  "skip_ws (CHR '':'' # s) = CHR '':'' # s" "skip_ws (CHR 0x22 # s) = CHR 0x22 # s" "skip_ws [] = []"
  by (simp_all add: skip_ws_def json_space_def)

lemma skip_ws_dumps: "json_clean v \<Longrightarrow> skip_ws (json_dumps v @ r) = json_dumps v @ r"
  using json_dumps_first[of v] by (intro skip_ws_first) (auto simp: first_char_ok_def)

lemma json_elements_reads:
  assumes "xs \<noteq> []" and "\<forall>x \<in> set xs. reads_back x \<and> json_clean x" and "sum_list (map (\<lambda>x. Suc (json_need x)) xs) \<le> f"
  shows "json_elements f acc (str_join '', '' (map json_dumps xs) @ CHR '']'' # r) = POk (PList (acc @ xs)) r"
  using assms
proof (induction xs arbitrary: f acc rule: induct_list012)
  case (2 x)
  then obtain g where f: "f = Suc g" and "json_need x \<le> g" by (cases f) auto
  with 2 reads_backD[of x g "CHR '']'' # r"] show ?case by simp
next
  case (3 x y ys)
  then obtain g where f: "f = Suc g" and g: "json_need x \<le> g" and rest: "sum_list (map (\<lambda>x. Suc (json_need x)) (y # ys)) \<le> g"
    by (cases f) auto
  define more where "more = str_join '', '' (map json_dumps (y # ys)) @ CHR '']'' # r"
  have "\<exists>q. more = json_dumps y @ q" by (cases ys) (auto simp: more_def)
  then have sk: "skip_ws more = more" using skip_ws_dumps[of y] 3(4) by auto
  have "json_elements g (acc @ [x]) more = POk (PList ((acc @ [x]) @ y # ys)) r"
    unfolding more_def using 3(2)[OF _ _ rest] 3(4) by simp
  moreover have "json_value g (json_dumps x @ CHR '','' # CHR '' '' # more) = POk x (CHR '','' # CHR '' '' # more)"
    using 3(4) g by (intro reads_backD) auto
  moreover have "str_join '', '' (map json_dumps (x # y # ys)) @ CHR '']'' # r = json_dumps x @ CHR '','' # CHR '' '' # more"
    by (simp add: more_def)
  ultimately show ?case by (simp add: f skip_ws_blank sk)
qed simp

definition member_text :: "string \<times> pyval \<Rightarrow> string" where
  "member_text m = json_quote (fst m) @ '': '' @ json_dumps (snd m)"

lemma json_dumps_dict: "json_dumps (PDict d) = CHR 0x7B # str_join '', '' (map member_text d) @ [CHR 0x7D]"
  by (simp add: member_text_def [abs_def] case_prod_beta')

lemma dset_new: "k \<notin> fst ` set d \<Longrightarrow> dset k v d = d @ [(k, v)]"
  unfolding dset_def by (induction d) auto

lemma json_members_step:
  assumes "reads_back v" and "json_clean v" and "json_need v \<le> g" and "json_stop q" and "k \<notin> fst ` set acc"
  shows "json_members (Suc g) acc (member_text (k, v) @ q) =
     (let r3 = skip_ws q in
      if starts_with r3 [CHR 0x7D] then POk (PDict (acc @ [(k, v)])) (tl r3)
      else if starts_with r3 '','' then json_members g (acc @ [(k, v)]) (skip_ws (tl r3)) else PBad)"
  using reads_backD[OF assms(1,3,4)] assms(2,5)
  by (simp add: member_text_def json_quote_def json_string_quoted skip_ws_blank skip_ws_dumps dset_new Let_def)

lemma json_members_reads:
  assumes "d \<noteq> []" and "\<forall>(k, v) \<in> set d. reads_back v \<and> json_clean v" and "distinct (map fst (acc @ d))"
    and "sum_list (map (\<lambda>(k, v). Suc (json_need v)) d) \<le> f"
  shows "json_members f acc (str_join '', '' (map member_text d) @ CHR 0x7D # r) = POk (PDict (acc @ d)) r"
  using assms
proof (induction d arbitrary: f acc rule: induct_list012)
  case (2 m)
  obtain k v where m: "m = (k, v)" by force
  with 2 obtain g where f: "f = Suc g" and "json_need v \<le> g" by (cases f) auto
  with 2 m show ?case using json_members_step[of v g "CHR 0x7D # r" k acc] by simp
next
  case (3 m m2 ms)
  obtain k v where m: "m = (k, v)" by force
  with 3 obtain g where f: "f = Suc g" and g: "json_need v \<le> g" and rest: "sum_list (map (\<lambda>(k, v). Suc (json_need v)) (m2 # ms)) \<le> g"
    by (cases f) auto
  define more where "more = str_join '', '' (map member_text (m2 # ms)) @ CHR 0x7D # r"
  have "\<exists>q. more = CHR 0x22 # q" by (cases ms) (auto simp: more_def member_text_def json_quote_def)
  then have sk: "skip_ws more = more" by auto
  have "json_members g (acc @ [m]) more = POk (PDict ((acc @ [m]) @ m2 # ms)) r"
    unfolding more_def using 3(2)[OF _ _ _ rest, of "acc @ [m]"] 3(4,5) by simp
  moreover have "str_join '', '' (map member_text (m # m2 # ms)) @ CHR 0x7D # r = member_text (k, v) @ CHR '','' # CHR '' '' # more"
    by (simp add: more_def m)
  ultimately show ?case
    using json_members_step[of v g "CHR '','' # CHR '' '' # more" k acc] 3(4,5) g by (simp add: f m skip_ws_blank sk)
qed simp

lemma json_reads_back: "json_clean v \<Longrightarrow> reads_back v"
proof (induction v)
  case (PInt i)
  show ?case unfolding reads_back_def by (auto simp: json_value_int dest!: Suc_le_D)
next
  case (PList xs)
  show ?case unfolding reads_back_def
  proof (intro allI impI)
    fix f r assume f: "json_need (PList xs) \<le> f" and "json_stop r"
    then obtain g where g: "f = Suc g" "sum_list (map (\<lambda>x. Suc (json_need x)) xs) \<le> g" by (cases f) auto
    show "json_value f (json_dumps (PList xs) @ r) = POk (PList xs) r"
    proof (cases xs)
      case (Cons x ys)
      have first: "\<exists>c q. str_join '', '' (map json_dumps xs) @ CHR '']'' # r = c # q \<and> first_char_ok c"
        using json_dumps_first[of x] PList.prems Cons by (cases "json_dumps x"; cases ys) auto
      then show ?thesis
        using json_elements_reads[of xs g "[]" r] PList Cons g
        by (auto simp: list_all_iff skip_ws_first first_char_ok_def)
    qed (simp add: g)
  qed
next
  case (PDict d)
  show ?case unfolding reads_back_def
  proof (intro allI impI)
    fix f r assume f: "json_need (PDict d) \<le> f" and "json_stop r"
    then obtain g where g: "f = Suc g" "sum_list (map (\<lambda>(k, v). Suc (json_need v)) d) \<le> g" by (cases f) auto
    have IH: "\<forall>(k, v) \<in> set d. reads_back v \<and> json_clean v" using PDict by (fastforce simp: list_all_iff)
    show "json_value f (json_dumps (PDict d) @ r) = POk (PDict d) r"
    proof (cases d)
      case (Cons m ms)
      have "\<exists>q. str_join '', '' (map member_text d) @ CHR 0x7D # r = CHR 0x22 # q"
        using Cons by (cases ms) (auto simp: member_text_def json_quote_def)
      then show ?thesis
        using json_members_reads[of d "[]" g r] IH PDict.prems g(2) Cons unfolding json_dumps_dict g(1) by auto
    qed (simp add: g)
  qed
qed (auto simp: reads_back_def json_value_leaf simp del: json_dumps.simps dest!: Suc_le_D)

lemma joined_length:
  "\<forall>x \<in> set xs. n x \<le> length (f x) \<Longrightarrow> sum_list (map (\<lambda>x. Suc (n x)) xs) \<le> Suc (length (str_join '', '' (map f xs)))"
proof (induction xs rule: induct_list012)
  case (3 x y ys)
  then have "sum_list (map (\<lambda>x. Suc (n x)) (y # ys)) \<le> Suc (length (str_join '', '' (map f (y # ys))))" "n x \<le> length (f x)" by auto
  then show ?case by simp
qed simp_all

lemma json_need_le: "json_clean v \<Longrightarrow> json_need v \<le> length (json_dumps v)"
proof (induction v)
  case (PInt i)
  show ?case using show_int_first[of i] by (cases "show_int i") simp_all
next
  case (PList xs)
  then show ?case using joined_length[of xs json_need json_dumps] by (simp add: list_all_iff)
next
  case (PDict d)
  then have "\<forall>m \<in> set d. json_need (snd m) \<le> length (member_text m)" by (fastforce simp: list_all_iff member_text_def)
  then show ?case using joined_length[of d "\<lambda>m. json_need (snd m)" member_text] unfolding json_dumps_dict by (simp add: case_prod_beta')
qed (simp_all add: json_quote_def)

lemma json_roundtrip: "json_clean v \<Longrightarrow> json_loads (json_dumps v) = Inr v"
  using reads_backD[OF json_reads_back, of v "2 * length (json_dumps v) + 1" "[]"] json_need_le[of v] skip_ws_dumps[of v "[]"]
  by (simp add: json_loads_def)

section \<open>The text is ASCII\<close>

definition ascii :: "string \<Rightarrow> bool" where
  "ascii s = list_all (\<lambda>c. code_point c < 128) s"

lemma ascii_simps [simp]: "ascii []" "ascii (c # s) \<longleftrightarrow> code_point c < 128 \<and> ascii s" "ascii (s @ t) \<longleftrightarrow> ascii s \<and> ascii t"
  by (simp_all add: ascii_def)

lemma ascii_concat: "(\<And>s. s \<in> set ss \<Longrightarrow> ascii s) \<Longrightarrow> ascii (concat ss)"
  by (induction ss) auto

lemma ascii_join: "ascii sep \<Longrightarrow> (\<And>s. s \<in> set ss \<Longrightarrow> ascii s) \<Longrightarrow> ascii (str_join sep ss)"
  by (induction sep ss rule: str_join.induct) auto

lemma ascii_hex: "n < 16 \<Longrightarrow> code_point (hex_digit n) < 128"
  by (simp add: hex_digit_def)

lemma small_points: "code_point (CHR 0x5C) < 128" "code_point (CHR 0x22) < 128" "code_point (CHR ''u'') < 128" "code_point (CHR ''0'') < 128"
    "code_point (CHR ''n'') < 128" "code_point (CHR ''r'') < 128" "code_point (CHR ''t'') < 128" "code_point (CHR ''f'') < 128"
    "code_point (CHR ''b'') < 128" "code_point (CHR 0x7B) < 128" "code_point (CHR 0x7D) < 128"
    "code_point (CHR ''['') < 128" "code_point (CHR '']'') < 128" "code_point (CHR '','') < 128" "code_point (CHR '':'') < 128" "code_point (CHR '' '') < 128"
    "code_point (CHR ''-'') < 128" "code_point (CHR ''l'') < 128" "code_point (CHR ''e'') < 128" "code_point (CHR ''a'') < 128" "code_point (CHR ''s'') < 128"
  by code_simp+

lemma ascii_escape: "ascii (json_escape_char c)"
proof -
  have "code_point c div 16 < 16" using code_point_less[of c] by (simp add: less_mult_imp_div_less)
  then show ?thesis by (auto simp: json_escape_char_def Let_def small_points ascii_hex)
qed

lemma ascii_quote: "ascii (json_quote s)"
  unfolding json_quote_def by (auto simp: small_points intro!: ascii_concat ascii_escape)

lemma ascii_digits: "list_all is_digit s \<Longrightarrow> ascii s"
  by (auto simp: ascii_def list_all_iff is_digit_def)

lemma ascii_dumps: "json_clean v \<Longrightarrow> ascii (json_dumps v)"
proof (induction v rule: json_clean.induct)
  case (2 xs)
  then show ?case by (auto simp: small_points list_all_iff intro!: ascii_join)
next
  case (3 d)
  have "ascii (json_dumps b)" if "(a, b) \<in> set d" for a b
    using 3(1)[OF that refl] 3(2) that by (auto simp: list_all_iff)
  then show ?case by (auto simp: small_points ascii_quote intro!: ascii_join)
qed (auto simp: ascii_quote small_points show_int_def show_nat_facts intro: ascii_digits)

end
