(* ===== verification/Base64.thy ===== *)
theory Base64
  imports Prelude
begin

text \<open>
  \<open>base64.urlsafe_b64encode\<close> and \<open>urlsafe_b64decode\<close> of the Python library on bytes, here characters: the encoder with its
  padding, and the decoder with its states, which skips every character outside the alphabet and stops at complete padding.
\<close>

definition b64_char :: "nat \<Rightarrow> char" where
  "b64_char n =
     (if n < 26 then char_of (65 + n) else if n < 52 then char_of (71 + n) else if n < 62 then char_of (n - 4)
      else if n = 62 then CHR ''-'' else CHR ''_'')"

text \<open>The decoder maps \<open>-\<close> and \<open>_\<close> to the standard letters \<open>+\<close> and \<open>/\<close>, which it also accepts.\<close>

definition b64_val :: "char \<Rightarrow> nat option" where
  "b64_val c =
     (let n = code_point c in
      if 65 \<le> n \<and> n \<le> 90 then Some (n - 65) else if 97 \<le> n \<and> n \<le> 122 then Some (n - 71)
      else if 48 \<le> n \<and> n \<le> 57 then Some (n + 4)
      else if c = CHR ''-'' \<or> c = CHR ''+'' then Some 62 else if c = CHR ''_'' \<or> c = CHR ''/'' then Some 63 else None)"

fun b64_encode :: "string \<Rightarrow> string" where
  "b64_encode [] = []"
| "b64_encode [a] =
     (let x = code_point a in [b64_char (x div 4), b64_char (x mod 4 * 16), CHR ''='', CHR ''=''])"
| "b64_encode [a, b] =
     (let x = code_point a; y = code_point b in
      [b64_char (x div 4), b64_char (x mod 4 * 16 + y div 16), b64_char (y mod 16 * 4), CHR ''=''])"
| "b64_encode (a # b # c # r) =
     (let x = code_point a; y = code_point b; z = code_point c in
      [b64_char (x div 4), b64_char (x mod 4 * 16 + y div 16), b64_char (y mod 16 * 4 + z div 64), b64_char (z mod 64)]
        @ b64_encode r)"

text \<open>
  The decoder: the position in a group of four, the bits left over, the padding seen. \<open>None\<close> is \<open>binascii.Error\<close>.
\<close>

fun b64_decode_from :: "nat \<Rightarrow> nat \<Rightarrow> nat \<Rightarrow> string \<Rightarrow> string option" where
  "b64_decode_from q left pads [] = (if q = 0 then Some [] else None)"
| "b64_decode_from q left pads (c # cs) =
     (if c = CHR ''='' then
        (if 2 \<le> q \<and> 4 \<le> q + Suc pads then Some []
         else b64_decode_from q left (if 2 \<le> q then Suc pads else pads) cs)
      else (case b64_val c of
              None \<Rightarrow> b64_decode_from q left pads cs
            | Some v \<Rightarrow>
                if q = 0 then b64_decode_from 1 v 0 cs
                else if q = 1 then map_option ((#) (char_of (left * 4 + v div 16))) (b64_decode_from 2 (v mod 16) 0 cs)
                else if q = 2 then map_option ((#) (char_of (left * 16 + v div 4))) (b64_decode_from 3 (v mod 4) 0 cs)
                else map_option ((#) (char_of (left * 64 + v))) (b64_decode_from 0 0 0 cs)))"

definition b64_decode :: "string \<Rightarrow> string option" where
  "b64_decode s = b64_decode_from 0 0 0 s"

section \<open>The decoder inverts the encoder\<close>

lemma b64_val_char: "n < 64 \<Longrightarrow> b64_val (b64_char n) = Some n"
proof -
  assume n: "n < 64"
  have "code_point (char_of (65 + n)) = 65 + n" "code_point (char_of (71 + n)) = 71 + n" "code_point (char_of (n - 4)) = n - 4"
    using n by (simp_all add: code_point_def)
  moreover have "b64_val (CHR ''-'') = Some 62" "b64_val (CHR ''_'') = Some 63" by code_simp+
  ultimately show ?thesis using n by (auto simp: b64_char_def b64_val_def Let_def)
qed

lemma b64_char_not_pad: "n < 64 \<Longrightarrow> b64_char n \<noteq> CHR ''=''"
proof
  assume "n < 64" "b64_char n = CHR ''=''"
  then have "b64_val (CHR ''='') = Some n" using b64_val_char[of n] by simp
  moreover have "b64_val (CHR ''='') = None" by code_simp
  ultimately show False by simp
qed

lemma b64_step:
  assumes "n < 64"
  shows "b64_decode_from 0 l p (b64_char n # cs) = b64_decode_from 1 n 0 cs"
    and "b64_decode_from 1 l p (b64_char n # cs) = map_option ((#) (char_of (l * 4 + n div 16))) (b64_decode_from 2 (n mod 16) 0 cs)"
    and "b64_decode_from 2 l p (b64_char n # cs) = map_option ((#) (char_of (l * 16 + n div 4))) (b64_decode_from 3 (n mod 4) 0 cs)"
    and "b64_decode_from 3 l p (b64_char n # cs) = map_option ((#) (char_of (l * 64 + n))) (b64_decode_from 0 0 0 cs)"
  using b64_val_char[OF assms] b64_char_not_pad[OF assms] by simp_all

lemma b64_pads: "b64_decode_from 2 l 0 [CHR ''='', CHR ''=''] = Some []" "b64_decode_from 3 l 0 [CHR ''=''] = Some []"
  by simp_all

lemmas b64_run = b64_step b64_pads b64_decode_from.simps(1)

lemma byte_parts:
  fixes x y z :: nat
  assumes "x < 256" "y < 256" "z < 256"
  shows "x div 4 < 64" "x mod 4 * 16 < 64" "x mod 4 * 16 + y div 16 < 64" "y mod 16 * 4 < 64" "y mod 16 * 4 + z div 64 < 64" "z mod 64 < 64"
    and "x div 4 * 4 + (x mod 4 * 16 + y div 16) div 16 = x" "x div 4 * 4 + (x mod 4 * 16) div 16 = x"
    and "(x mod 4 * 16 + y div 16) mod 16 * 16 + (y mod 16 * 4 + z div 64) div 4 = y" "(x mod 4 * 16 + y div 16) mod 16 * 16 + (y mod 16 * 4) div 4 = y"
    and "(y mod 16 * 4 + z div 64) mod 4 * 64 + z mod 64 = z"
    and "y div 16 div 16 = 0" "y div 16 mod 16 = y div 16" "z div 64 div 4 = 0" "z div 64 mod 4 = z div 64"
proof -
  have y: "y div 16 < 16" and z: "z div 64 < 4" using assms by simp_all
  have m: "x mod 4 < 4" "y mod 16 < 16" by simp_all
  have d16: "(x mod 4 * 16 + y div 16) div 16 = x mod 4" "(x mod 4 * 16 + y div 16) mod 16 = y div 16" using y by simp_all
  have d4: "(y mod 16 * 4 + z div 64) div 4 = y mod 16" "(y mod 16 * 4 + z div 64) mod 4 = z div 64" using z by simp_all
  show "x div 4 < 64" "x mod 4 * 16 < 64" "x mod 4 * 16 + y div 16 < 64" "y mod 16 * 4 < 64" "y mod 16 * 4 + z div 64 < 64" "z mod 64 < 64"
    using assms m y z by linarith+
  show "x div 4 * 4 + (x mod 4 * 16 + y div 16) div 16 = x" "x div 4 * 4 + (x mod 4 * 16) div 16 = x" unfolding d16 by simp_all
  show "(x mod 4 * 16 + y div 16) mod 16 * 16 + (y mod 16 * 4 + z div 64) div 4 = y"
    "(x mod 4 * 16 + y div 16) mod 16 * 16 + (y mod 16 * 4) div 4 = y" unfolding d16 d4 by simp_all
  show "(y mod 16 * 4 + z div 64) mod 4 * 64 + z mod 64 = z" unfolding d4 by simp
  show "y div 16 div 16 = 0" "y div 16 mod 16 = y div 16" "z div 64 div 4 = 0" "z div 64 mod 4 = z div 64" using y z by simp_all
qed

lemma b64_roundtrip: "b64_decode (b64_encode s) = Some s"
proof -
  have bytes: "code_point c < 256" and same: "char_of (code_point c) = c" for c by (simp_all add: code_point_def)
  have "b64_decode_from 0 0 0 (b64_encode s) = Some s"
  proof (induction s rule: b64_encode.induct)
    case (2 a)
    show ?case by (simp del: One_nat_def b64_decode_from.simps add: Let_def b64_run byte_parts[OF bytes[of a] bytes[of a] bytes[of a]] same)
  next
    case (3 a b)
    show ?case by (simp del: One_nat_def b64_decode_from.simps add: Let_def b64_run byte_parts[OF bytes[of a] bytes[of b] bytes[of b]] same)
  next
    case (4 a b c r)
    then show ?case by (simp del: One_nat_def b64_decode_from.simps add: Let_def b64_run byte_parts[OF bytes[of a] bytes[of b] bytes[of c]] same)
  qed simp
  then show ?thesis by (simp add: b64_decode_def)
qed

end
