(* ===== verification/TenantLifecycle.thy ===== *)
theory TenantLifecycle
  imports TenantRecords JsonRoundtrip Base64
begin

text \<open>
  The tenant routes (\<open>tenant_lifecycle.py\<close>, \<open>tenant_sessions.py\<close>): requests read from the event, the handlers of the records
  wrapped for the callers of the older API, the listing with its page tokens, the events of the provisioner and the rotation of
  API keys.
\<close>

section \<open>Requests\<close>

definition required_create_fields :: "string list" where
  "required_create_fields = [''tenantId'', ''appId'', ''displayName'', ''tier'', ''ownerEmail'', ''ownerTeam'', ''accountId'']"

definition tenant_create_input_from_event :: "pydict \<Rightarrow> tenant_create_input res" where
  "tenant_create_input_from_event event =
     bind_res (require_json_body event) (\<lambda>body.
       let missing = filter (\<lambda>f. coerce_optional_string (dget body f) = None) required_create_fields;
           text = (\<lambda>f. py_strip (py_str (dget body f))) in
       if missing \<noteq> [] then Inl (ValueError (''Missing required field(s): '' @ str_join '', '' missing))
       else bind_res (canonical_tenant_id (dget body ''tenantId'') False) (\<lambda>tenant_id. Inr
         \<lparr>cr_tenant_id = tenant_id, cr_app_id = text ''appId'', cr_display_name = text ''displayName'', cr_tier = text ''tier'',
          cr_owner_email = text ''ownerEmail'', cr_owner_team = text ''ownerTeam'', cr_account_id = text ''accountId'',
          cr_monthly_budget = dget body ''monthlyBudgetUsd''\<rparr>))"

text \<open>\<open>event.get("queryStringParameters") or {}\<close>, and nothing when that is no dictionary.\<close>

definition query_params :: "pydict \<Rightarrow> pydict" where
  "query_params event = dict_or_empty (py_or (dget event ''queryStringParameters'') (PDict []))"

definition tenant_list_input_from_event :: "pydict \<Rightarrow> tenant_list_input" where
  "tenant_list_input_from_event event =
     (let query = query_params event; text = (\<lambda>f. coerce_optional_string (dget query f)) in
      \<lparr>li_status_filter = text ''status'', li_tier_filter = text ''tier'',
       li_limit = (case text ''limit'' of None \<Rightarrow> None | Some raw \<Rightarrow> parse_int raw),
       li_next_token = text ''nextToken''\<rparr>)"

definition tenant_update_input_from_event :: "pydict \<Rightarrow> tenant_update_input res" where
  "tenant_update_input_from_event event =
     bind_res (require_json_body event) (\<lambda>body. Inr
       \<lparr>up_provided = map fst body, up_display_name = dget body ''displayName'', up_status = dget body ''status'',
        up_tier = dget body ''tier'', up_monthly_budget = dget body ''monthlyBudgetUsd''\<rparr>)"

section \<open>Page tokens\<close>

text \<open>\<open>json.dumps(key, default=str)\<close>: numbers come from DynamoDB as \<open>Decimal\<close>, which \<open>str\<close> turns into text.\<close>

fun decimal_text :: "pyval \<Rightarrow> pyval" where
  "decimal_text (PInt i) = PStr (show_int i)"
| "decimal_text (PFloat f) = PStr (float_text f)"
| "decimal_text v = v"

definition encode_pagination_token :: "pydict \<Rightarrow> string" where
  "encode_pagination_token last_evaluated_key =
     b64_encode (json_dumps (PDict (map (\<lambda>(k, v). (k, decimal_text v)) last_evaluated_key)))"

text \<open>The text of UTF-8 bytes, on the characters of the model; anything else is an error, as invalid UTF-8 is.\<close>

fun utf8_text :: "string \<Rightarrow> string option" where
  "utf8_text [] = Some []"
| "utf8_text (c # cs) =
     (if code_point c < 128 then map_option ((#) c) (utf8_text cs)
      else (case cs of
              d # ds \<Rightarrow>
                if (code_point c = 194 \<or> code_point c = 195) \<and> 128 \<le> code_point d \<and> code_point d < 192
                then map_option ((#) (char_of (code_point c mod 4 * 64 + code_point d mod 64))) (utf8_text ds) else None
            | [] \<Rightarrow> None))"

definition decode_pagination_token :: "string \<Rightarrow> pyval res" where
  "decode_pagination_token token =
     (case b64_decode token of
        None \<Rightarrow> Inl (ValueError ''Incorrect padding'')
      | Some raw \<Rightarrow> (case utf8_text raw of None \<Rightarrow> Inl (ValueError ''utf-8'') | Some t \<Rightarrow> json_loads t))"

section \<open>Handlers\<close>

text \<open>The body of an answer with the expected status is put under the key \<open>tenant\<close>, unless it has one.\<close>

definition wrap_tenant :: "int \<Rightarrow> pydict \<Rightarrow> pydict res" where
  "wrap_tenant code resp =
     (if dget resp ''statusCode'' \<noteq> PInt code then Inr resp
      else bind_res (case dget resp ''body'' of PStr raw \<Rightarrow> json_loads raw | _ \<Rightarrow> Inl (TypeError ''JSON object must be str'')) (\<lambda>body.
        bind_res (py_in ''tenant'' body) (\<lambda>wrapped.
        Inr (if wrapped then resp else dset ''body'' (PStr (json_dumps (PDict [(''tenant'', body)]))) resp))))"

definition create_tenant :: "'w tenant_deps \<Rightarrow> environ \<Rightarrow> pydict \<Rightarrow> caller_identity \<Rightarrow> ('w, pydict) io" where
  "create_tenant deps env event caller =
     io_bind (io_lift (tenant_create_input_from_event event)) (\<lambda>request.
     io_bind (handle_create deps env request caller) (\<lambda>resp. io_lift (wrap_tenant 201 resp)))"

definition read_tenant :: "'w tenant_deps \<Rightarrow> environ \<Rightarrow> string \<Rightarrow> caller_identity \<Rightarrow> ('w, pydict) io" where
  "read_tenant deps env tenant_id caller =
     io_bind (handle_read deps env tenant_id caller) (\<lambda>resp. io_lift (wrap_tenant 200 resp))"

definition update_tenant :: "'w tenant_deps \<Rightarrow> environ \<Rightarrow> pydict \<Rightarrow> string \<Rightarrow> caller_identity \<Rightarrow> ('w, pydict) io" where
  "update_tenant deps env event tenant_id caller =
     io_bind (io_lift (tenant_update_input_from_event event)) (\<lambda>request.
     io_bind (handle_update deps env request tenant_id caller) (\<lambda>resp. io_lift (wrap_tenant 200 resp)))"

definition delete_tenant :: "'w tenant_deps \<Rightarrow> environ \<Rightarrow> string \<Rightarrow> caller_identity \<Rightarrow> ('w, pydict) io" where
  "delete_tenant deps env tenant_id caller =
     io_bind (handle_delete deps env tenant_id caller) (\<lambda>resp.
       if status_of resp \<noteq> PInt 204 then io_return resp
       else io_bind (read_tenant deps env tenant_id caller) (\<lambda>again.
         io_return (if status_of again = PInt 200 then again else resp)))"

text \<open>The single tenant a caller without the admin role sees.\<close>

definition own_tenant_page :: "pydict \<Rightarrow> pydict res" where
  "own_tenant_page resp =
     bind_res (case dget resp ''body'' of PStr raw \<Rightarrow> json_loads raw | _ \<Rightarrow> Inl (TypeError ''JSON object must be str'')) (\<lambda>body.
     bind_res (need_key body ''tenant'') (\<lambda>tenant.
     Inr (response 200 [(''items'', PList [tenant]), (''nextToken'', PNone)])))"

text \<open>\<open>exclusive_start_key\<close> from a token; what is no dictionary is rejected by the AWS library.\<close>

definition start_key_of :: "pyval \<Rightarrow> pydict option res" where
  "start_key_of v =
     (case v of PNone \<Rightarrow> Inr None | PDict d \<Rightarrow> Inr (Some d) | _ \<Rightarrow> Inl (ExternalErr ''BotoCoreError:ParamValidationError''))"

definition listed_tenants :: "tenant_list_input \<Rightarrow> pydict list \<Rightarrow> pydict list" where
  "listed_tenants request items =
     (let records = map serialize_tenant (filter (\<lambda>i. dget i ''SK'' = PStr ''METADATA'') items);
          keep = (\<lambda>field wanted rs. case wanted of None \<Rightarrow> rs | Some v \<Rightarrow> filter (\<lambda>r. dget r field = PStr v) rs)
      in keep ''tier'' (li_tier_filter request) (keep ''status'' (li_status_filter request) records))"

definition list_page ::
  "'w tenant_deps \<Rightarrow> environ \<Rightarrow> tenant_list_input \<Rightarrow> caller_identity \<Rightarrow> int \<Rightarrow> ('w, pydict) io" where
  "list_page deps env request caller limit =
     (case (case li_next_token request of None \<Rightarrow> Inr PNone | Some t \<Rightarrow> decode_pagination_token t) of
        Inl e \<Rightarrow> io_return (api_error 400 ''INVALID_TOKEN'' ''Invalid pagination token'')
      | Inr v \<Rightarrow>
          io_bind (io_lift (start_key_of v)) (\<lambda>start.
          io_bind (cp_scan (td_aws deps) (tenants_table_name env)
             \<lparr>sa_filter = None, sa_limit = Some limit, sa_start = start, sa_names = None, sa_values = None\<rparr>) (\<lambda>page.
          io_return (response 200
            [(''items'', PList (map PDict (listed_tenants request (pi_items page)))),
             (''nextToken'', (case pi_last_key page of
                None \<Rightarrow> PNone | Some k \<Rightarrow> if k = [] then PNone else PStr (encode_pagination_token k)))]))))"

definition handle_list_tenants :: "'w tenant_deps \<Rightarrow> environ \<Rightarrow> tenant_list_input \<Rightarrow> caller_identity \<Rightarrow> ('w, pydict) io" where
  "handle_list_tenants deps env request caller =
     (let nothing = response 200 [(''items'', PList []), (''nextToken'', PNone)] in
      if \<not> is_admin caller then
        (case ci_tenant_id caller of
           None \<Rightarrow> io_return nothing
         | Some tenant_id \<Rightarrow>
             if tenant_id = [] then io_return nothing
             else io_bind (read_tenant deps env tenant_id caller) (\<lambda>resp.
               if status_of resp = PInt 200 then io_lift (own_tenant_page resp) else io_return nothing))
      else
        (case li_limit request of
           Some n \<Rightarrow> if n < 1 \<or> 100 < n then io_return (api_error 400 ''INVALID_LIMIT'' ''limit must be between 1 and 100'')
                     else list_page deps env request caller n
         | None \<Rightarrow> list_page deps env request caller 50))"

section \<open>The provisioner's events\<close>

definition provisioning_statuses :: "string list" where
  "provisioning_statuses = [''pending'', ''provisioning'', ''ready'', ''failed'']"

text \<open>The status an event reports: a field of its detail, or what its type implies.\<close>

definition provisioning_status_of :: "pydict \<Rightarrow> pydict \<Rightarrow> string option" where
  "provisioning_status_of event detail =
     (case coerce_optional_string (dget detail ''provisioningStatus'') of
        Some s \<Rightarrow> Some s
      | None \<Rightarrow>
          (case coerce_optional_string (dget detail ''status'') of
             Some s \<Rightarrow> Some s
           | None \<Rightarrow>
               if dget event ''detail-type'' = PStr ''tenant.provisioning_failed'' then Some ''failed''
               else if dget event ''detail-type'' = PStr ''tenant.provisioned'' then Some ''ready'' else None))"

text \<open>\<open>if v: updates[k] = str(v)\<close> for the first truthy of the alternatives.\<close>

definition first_given :: "pydict \<Rightarrow> string list \<Rightarrow> string \<Rightarrow> pydict" where
  "first_given detail keys field =
     (case filter truthy (map (dget detail) keys) of [] \<Rightarrow> [] | v # _ \<Rightarrow> [(field, PStr (py_str v))])"

definition provisioning_updates :: "pydict \<Rightarrow> string \<Rightarrow> string \<Rightarrow> pydict" where
  "provisioning_updates detail status now_iso =
     [(''provisioningStatus'', PStr status), (''provisioningUpdatedAt'', PStr now_iso), (''updatedAt'', PStr now_iso)]
     @ (if status = ''ready''
        then [(''status'', PStr ''active'')]
             @ first_given detail [''executionRoleArn'', ''ExecutionRoleArn''] ''executionRoleArn''
             @ first_given detail [''memoryStoreArn'', ''MemoryStoreArn''] ''memoryStoreArn''
        else [])
     @ (if status = ''failed''
        then first_given detail [''reason'', ''provisioningError'', ''ProvisioningError''] ''provisioningError'' else [])"

definition system_caller :: "string \<Rightarrow> string option \<Rightarrow> caller_identity" where
  "system_caller tenant_id app_id =
     \<lparr>ci_tenant_id = Some tenant_id, ci_app_id = Some (opt_or app_id ''system''), ci_tier = Some ''premium'', ci_sub = Some ''system'',
      ci_roles = [], ci_usage_key = None\<rparr>"

definition handle_tenant_provisioning_event :: "'w tenant_deps \<Rightarrow> environ \<Rightarrow> pydict \<Rightarrow> ('w, pydict) io" where
  "handle_tenant_provisioning_event deps env event =
     io_bind (io_lift (need_dict (dget_or event ''detail'' (PDict [])))) (\<lambda>detail.
     let app_id = coerce_optional_string (dget detail ''appId'') in
     case coerce_optional_string (dget detail ''tenantId'') of
       None \<Rightarrow> io_raise (ValueError ''tenantId is required'')
     | Some tenant_id \<Rightarrow>
         (let reported = provisioning_status_of event detail; status = opt_or reported [] in
          if reported = None \<or> status \<notin> set provisioning_statuses
          then io_raise (ValueError (''Invalid provisioning status: '' @ opt_or reported ''None''))
          else
          io_bind (io_lift (case coerce_optional_string (dget detail ''accountId'') of
                              None \<Rightarrow> Inr [] | Some a \<Rightarrow> require_platform_home_account_id env (PStr a))) (\<lambda>_.
          io_bind (td_now deps) (\<lambda>now.
          let caller = system_caller tenant_id app_id in
          io_bind (io_lift (db_for_tenant tenant_id caller app_id)) (\<lambda>db.
          io_bind (update_fields deps db (tenants_table_name env) (tenant_row_key tenant_id)
             (provisioning_updates detail status (iso_utc now))) (\<lambda>_.
          io_bind (read_tenant_record deps env tenant_id caller app_id) (\<lambda>updated.
          case updated of
            None \<Rightarrow> io_raise (RuntimeErr (''Failed to fetch updated tenant '' @ tenant_id))
          | Some item \<Rightarrow>
              io_bind (put_event deps env ''tenant.provisioning_updated''
                 [(''tenantId'', PStr tenant_id), (''status'', PStr status)]) (\<lambda>_.
              io_return (response 200 [(''tenant'', PDict (serialize_tenant item))])))))))))"

section \<open>Health, sessions and API keys\<close>

definition handle_health :: "'w tenant_deps \<Rightarrow> environ \<Rightarrow> ('w, pydict) io" where
  "handle_health deps env =
     io_bind (td_now deps) (\<lambda>now. io_return (response 200
       [(''status'', PStr ''ok''), (''version'', PStr ''1.0.0''),
        (''runtimeRegion'', PStr (env_or env ''AWS_REGION'' ''unknown'')), (''timestamp'', PStr (iso_utc now))]))"

definition handle_sessions :: "pydict \<Rightarrow> pydict" where
  "handle_sessions event =
     (let raw_limit = dget (query_params event) ''limit'' in
      if raw_limit \<noteq> PNone \<and> parse_int (py_str raw_limit) = None
      then api_error 400 ''BAD_REQUEST'' ''limit must be an integer''
      else api_error 501 ''NOT_IMPLEMENTED'' ''tenant-backed session tracking is not implemented'')"

definition handle_rotate_api_key :: "'w tenant_deps \<Rightarrow> environ \<Rightarrow> string \<Rightarrow> caller_identity \<Rightarrow> ('w, pydict) io" where
  "handle_rotate_api_key deps env tenant_id caller =
     (if \<not> can_manage_tenant_self_service caller tenant_id then io_raise (PermissionErr ''Access denied'')
      else
      io_bind (read_tenant_record deps env tenant_id caller None) (\<lambda>found.
      case found of
        None \<Rightarrow> io_return (not_found tenant_id)
      | Some item \<Rightarrow>
          (let app_id = py_str (dget_or item ''appId'' (PStr [])); secret_arn = py_str (dget_or item ''apiKeySecretArn'' (PStr [])) in
           io_bind (rotate_api_key_secret deps secret_arn tenant_id app_id) (\<lambda>version_id.
           io_bind (td_now deps) (\<lambda>now.
           io_bind (io_lift (db_for_tenant tenant_id caller (Some app_id))) (\<lambda>db.
           io_bind (update_fields deps db (tenants_table_name env) (tenant_row_key tenant_id) [(''updatedAt'', PStr (iso_utc now))]) (\<lambda>_.
           io_bind (put_event deps env ''tenant.api_key_rotated''
              [(''tenantId'', PStr tenant_id), (''actorSub'', opt_pstr (ci_sub caller))]) (\<lambda>_.
           io_return (response 200 [(''tenantId'', PStr tenant_id), (''versionId'', PStr version_id)])))))))))"

section \<open>Page tokens come back\<close>

lemma utf8_text_ascii: "ascii s \<Longrightarrow> utf8_text s = Some s"
  by (induction s) auto


text \<open>
  A page token reads back as the key it was made from, for any key of texts and numbers; the numbers come back as the texts
  \<open>default=str\<close> made of them.
\<close>

theorem page_token_roundtrip:
  assumes "distinct (map fst key)" and "list_all (\<lambda>(k, v). json_clean (decimal_text v)) key"
  shows "decode_pagination_token (encode_pagination_token key) = Inr (PDict (map (\<lambda>(k, v). (k, decimal_text v)) key))"
proof -
  let ?v = "PDict (map (\<lambda>(k, v). (k, decimal_text v)) key)"
  have "map fst (map (\<lambda>(k, v). (k, decimal_text v)) key) = map fst key" by (induction key) auto
  with assms have clean: "json_clean ?v" unfolding json_clean.simps by (simp only:) (auto simp: list_all_iff)
  show ?thesis
    unfolding decode_pagination_token_def encode_pagination_token_def b64_roundtrip
    by (simp only: utf8_text_ascii[OF ascii_dumps[OF clean]] json_roundtrip[OF clean] option.case)
qed

theorem page_token_roundtrip_witness:
  "decode_pagination_token (encode_pagination_token [(''PK'', PStr ''TENANT#t-acme''), (''SK'', PStr ''METADATA''), (''n'', PInt 7)])
     = Inr (PDict [(''PK'', PStr ''TENANT#t-acme''), (''SK'', PStr ''METADATA''), (''n'', PStr ''7'')])"
proof -
  have seven: "show_int 7 = ''7''" by code_simp
  show ?thesis
    using page_token_roundtrip[of "[(''PK'', PStr ''TENANT#t-acme''), (''SK'', PStr ''METADATA''), (''n'', PInt 7)]"] by (simp add: seven)
qed

section \<open>What the provisioner's events do\<close>

text \<open>
  The effect of an event: nothing and an exception, or the row of its tenant takes the reported fields. The row need not exist before.
\<close>

definition reported :: "pydict \<Rightarrow> string \<Rightarrow> string \<Rightarrow> pydict \<Rightarrow> bool" where
  "reported event tid status detail \<longleftrightarrow>
     need_dict (dget_or event ''detail'' (PDict [])) = Inr detail \<and> coerce_optional_string (dget detail ''tenantId'') = Some tid
   \<and> provisioning_status_of event detail = Some status \<and> status \<in> set provisioning_statuses"

definition provisioned :: "environ \<Rightarrow> string \<Rightarrow> string \<Rightarrow> pydict \<Rightarrow> rows \<Rightarrow> rows \<Rightarrow> bool" where
  "provisioned env tid status detail old new \<longleftrightarrow>
     (\<exists>now. new = set_tenant_row env old tid (dupdate (old_row old (tenants_table_name env) (tenant_pk tid) ''METADATA'')
                (provisioning_updates detail status (iso_utc now))))"

definition provisioning_outcome :: "environ \<Rightarrow> pydict \<Rightarrow> rows \<Rightarrow> pydict res \<Rightarrow> rows \<Rightarrow> bool" where
  "provisioning_outcome env event old r new \<longleftrightarrow>
     (new = old \<and> is_err r) \<or> (\<exists>tid status detail. reported event tid status detail \<and> provisioned env tid status detail old new)"

lemma provisioning_refused: "new = old \<Longrightarrow> provisioning_outcome env event old (Inl e) new"
  by (simp add: provisioning_outcome_def)

lemma provisioning_done:
  assumes "need_dict (dget_or event ''detail'' (PDict [])) = Inr detail" and "coerce_optional_string (dget detail ''tenantId'') = Some tid"
    and "\<not> (provisioning_status_of event detail = None \<or> opt_or (provisioning_status_of event detail) [] \<notin> set provisioning_statuses)"
    and "mid = old"
    and "new = set_row mid (tenants_table_name env) (tenant_pk tid) ''METADATA''
      (Some (dupdate (old_row mid (tenants_table_name env) (tenant_pk tid) ''METADATA'')
        (provisioning_updates detail (opt_or (provisioning_status_of event detail) []) (iso_utc now))))"
  shows "provisioning_outcome env event old r new"
proof -
  obtain status where status: "provisioning_status_of event detail = Some status" using assms(3) by auto
  then have "reported event tid status detail" using assms(1-3) by (simp add: reported_def opt_or_def)
  moreover have "provisioned env tid status detail old new"
    using assms(4,5) status by (auto simp: provisioned_def set_tenant_row_def opt_or_def)
  ultimately show ?thesis by (auto simp: provisioning_outcome_def)
qed

lemma updates_filled: "provisioning_updates detail status now \<noteq> []"
  by (simp add: provisioning_updates_def)

lemma provisioning_effect:
  assumes "dynamo_ok (td_aws deps) rows" and "frame_ok deps rows" and "rows w = old"
  shows "io_post (handle_tenant_provisioning_event deps env event) w (\<lambda>r w'. provisioning_outcome env event old r (rows w'))"
  unfolding handle_tenant_provisioning_event_def tenant_row_key_def Let_def
  by (intro io_post_intros read_post[OF assms(1)] client_update_post[OF assms(1)] quiet_bind[OF frame_leaves(1)[OF assms(2)]]
      quiet_bind[OF frame_leaves(6)[OF assms(2)]])
    (erule scoped_key | rule updates_filled | rule assms(3) | assumption | (rule provisioning_refused, (rule assms(3) | assumption))
      | (rule provisioning_done, assumption, assumption, assumption, assumption, assumption))+


text \<open>
  Property C24. An event of the provisioner raises and changes nothing, or writes exactly the fields it reports to the record of its tenant. A
  ready event makes the tenant active whatever the record was before: suspended, deleted, or not there at all.
\<close>

theorem provisioning_event_effect:
  assumes "dynamo_ok (td_aws deps) rows" and "frame_ok deps rows"
    and "handle_tenant_provisioning_event deps env event w = (r, w')"
  shows "(rows w' = rows w \<and> is_err r) \<or>
    (\<exists>tid status detail. reported event tid status detail \<and> provisioned env tid status detail (rows w) (rows w')
      \<and> (status = ''ready'' \<longrightarrow> (\<exists>item. tenant_row env (rows w') tid = Some item \<and> dget item ''status'' = PStr ''active'')))"
proof -
  have active: "\<exists>item. tenant_row env new tid = Some item \<and> dget item ''status'' = PStr ''active''"
    if "provisioned env tid ''ready'' detail old new" for tid detail old new
  proof -
    have "dget (dupdate d (provisioning_updates detail ''ready'' now)) ''status'' = PStr ''active''" for d now
      by (simp add: provisioning_updates_def first_given_def dget_or_def map_of_dset split: list.split)
    with that show ?thesis by (auto simp: provisioned_def set_tenant_row_def tenant_row_def)
  qed
  from io_postD[OF provisioning_effect[OF assms(1,2) refl] assms(3)] active show ?thesis
    unfolding provisioning_outcome_def by blast
qed

definition sample_ready :: pydict where
  "sample_ready = [(''detail-type'', PStr ''tenant.provisioned''), (''detail'', PDict [(''tenantId'', PStr ''t-ghost'')])]"

lemma sample_ready_runs: "\<exists>a. fst (handle_tenant_provisioning_event map_deps sample_env sample_ready sample_tenant_rows) = Inr a"
proof -
  let ?detail = "[(''tenantId'', PStr ''t-ghost'')]" and ?caller = "system_caller ''t-ghost'' None"
  let ?ctx = "tenant_context_for_scope ''t-ghost'' ?caller None" and ?updates = "provisioning_updates [(''tenantId'', PStr ''t-ghost'')] ''ready'' (iso_utc 1772841600)"
  have parsed: "need_dict (dget_or sample_ready ''detail'' (PDict [])) = Inr ?detail" "coerce_optional_string (dget ?detail ''tenantId'') = Some ''t-ghost''"
    "coerce_optional_string (dget ?detail ''appId'') = None" "coerce_optional_string (dget ?detail ''accountId'') = None"
    "provisioning_status_of sample_ready ?detail = Some ''ready''" by code_simp+
  have scope: "db_for_tenant ''t-ghost'' ?caller None = Inr ?ctx" by (simp add: db_for_tenant_cases system_caller_def)
  note own = scoped_key[OF scope]
  have ok: "?updates \<noteq> []" "list_all (\<lambda>(k, v). update_value_ok v) ?updates"
    by (simp_all add: provisioning_updates_def first_given_def)
  have "dynamo_ok (td_aws map_deps) fst" by (simp add: map_dynamo_ok)
  from client_update[OF this own ok, of "tenants_table_name sample_env" "''METADATA''" sample_tenant_rows] obtain u w1 where
    upd: "update_fields map_deps ?ctx (tenants_table_name sample_env) (row_key (tenant_pk ''t-ghost'') ''METADATA'') ?updates sample_tenant_rows = (Inr u, w1)"
    and rows: "\<exists>item. tenant_row sample_env (fst w1) ''t-ghost'' = Some item" by (auto simp: tenant_row_def)
  from rows obtain item where item: "tenant_row sample_env (fst w1) ''t-ghost'' = Some item" by blast
  have read: "read_tenant_record map_deps sample_env ''t-ghost'' ?caller None w1 = (Inr (Some item), w1)"
    using client_get[OF map_dynamo_ok own] item by (simp add: read_tenant_record_def scope tenant_row_key_def tenant_row_def)
  obtain w2 where "put_event map_deps sample_env ''tenant.provisioning_updated'' [(''tenantId'', PStr ''t-ghost''), (''status'', PStr ''ready'')] w1 = (Inr (PDict []), w2)"
    by (simp add: map_deps_def put_event_def)
  moreover have "td_now map_deps sample_tenant_rows = (Inr 1772841600, sample_tenant_rows)" by (simp add: map_deps_def)
  ultimately show ?thesis
    using read upd
    by (simp add: handle_tenant_provisioning_event_def parsed scope tenant_row_key_def provisioning_statuses_def io_bind_def opt_or_def Let_def)
qed

theorem provisioning_event_effect_witness:
  "tenant_row sample_env (fst sample_tenant_rows) ''t-ghost'' = None
   \<and> (\<exists>r w'. handle_tenant_provisioning_event map_deps sample_env sample_ready sample_tenant_rows = (r, w')
        \<and> (\<exists>item. tenant_row sample_env (fst w') ''t-ghost'' = Some item \<and> dget item ''status'' = PStr ''active''))"
proof -
  obtain a w' where run: "handle_tenant_provisioning_event map_deps sample_env sample_ready sample_tenant_rows = (Inr a, w')"
    using sample_ready_runs by (metis prod.collapse)
  have parsed: "need_dict (dget_or sample_ready ''detail'' (PDict [])) = Inr [(''tenantId'', PStr ''t-ghost'')]"
    "coerce_optional_string (dget [(''tenantId'', PStr ''t-ghost'')] ''tenantId'') = Some ''t-ghost''"
    "provisioning_status_of sample_ready [(''tenantId'', PStr ''t-ghost'')] = Some ''ready''" by code_simp+
  have "dynamo_ok (td_aws map_deps) fst" by (simp add: map_dynamo_ok)
  from provisioning_event_effect[OF this map_deps_ok(2) run] have
    "\<exists>item. tenant_row sample_env (fst w') ''t-ghost'' = Some item \<and> dget item ''status'' = PStr ''active''"
    using parsed by (auto simp: reported_def)
  moreover have "tenant_row sample_env (fst sample_tenant_rows) ''t-ghost'' = None"
    by (simp add: tenant_row_def sample_tenant_rows_def no_rows_def tenant_pk_def)
  ultimately show ?thesis using run by blast
qed

end
