(* ===== verification/WebhookRegistry.thy ===== *)
theory WebhookRegistry
  imports DynamoTables
begin

text \<open>
  The webhook registry (\<open>webhook_registry.py\<close>): listing, registration with its validation, deletion and the routes. The new
  identifier and the signing secret come from the random sources of the services, \<open>urlparse\<close> is a parameter.
\<close>

definition webhook_denied :: exc where
  "webhook_denied = PermissionErr ''Caller requires a tenant self-service admin role''"

definition webhook_key :: "string \<Rightarrow> string \<Rightarrow> pydict" where
  "webhook_key tenant_id webhook_id = row_key (tenant_pk tenant_id) (''WEBHOOK#'' @ webhook_id)"

definition webhook_listing :: "pydict \<Rightarrow> pydict" where
  "webhook_listing item =
     [(''webhookId'', dget item ''webhook_id''), (''callbackUrl'', dget item ''callback_url''), (''events'', dget item ''events''),
      (''status'', dget item ''status''), (''description'', dget item ''description''), (''createdAt'', dget item ''created_at''),
      (''updatedAt'', dget item ''updated_at''),
      (''signatureHeader'', dget_or item ''signature_header'' (PStr ''X-Platform-Signature'')),
      (''signatureAlgorithm'', dget_or item ''signature_algorithm'' (PStr ''HMAC-SHA256''))]"

text \<open>A query for the rows of the tenant whose sort key starts with a text.\<close>

definition rows_with_prefix :: "string \<Rightarrow> query_args" where
  "rows_with_prefix p = \<lparr>qa_sk = Some (KeyBeginsWith ''SK'' p), qa_filter = None, qa_index = None, qa_limit = None,
     qa_forward = True, qa_start = None, qa_extra = []\<rparr>"

definition handle_list_webhooks :: "'w tenant_deps \<Rightarrow> environ \<Rightarrow> string \<Rightarrow> caller_identity \<Rightarrow> ('w, pydict) io" where
  "handle_list_webhooks deps env tenant_id caller =
     (if \<not> can_manage_tenant_self_service caller tenant_id then io_raise webhook_denied
      else
      io_bind (io_lift (db_for_tenant tenant_id caller None)) (\<lambda>db.
      io_bind (ts_query (td_aws deps) db (tenants_table_name env) (rows_with_prefix ''WEBHOOK#'')) (\<lambda>page.
      io_return (response 200 [(''items'', PList (map (PDict \<circ> webhook_listing) (pi_items page)))]))))"

definition unprocessable :: "string \<Rightarrow> pydict" where
  "unprocessable m = api_error 422 ''UNPROCESSABLE_ENTITY'' m"

definition valid_webhook_events :: "string list" where
  "valid_webhook_events = [''job.completed'', ''job.failed'']"

text \<open>The loop over the requested events: an answer, an exception, or the names in order.\<close>

fun check_webhook_events :: "pyval list \<Rightarrow> string list \<Rightarrow> (pydict + string list) res" where
  "check_webhook_events [] seen = Inr (Inr seen)"
| "check_webhook_events (v # vs) seen =
     (case coerce_optional_string v of
        None \<Rightarrow> Inr (Inl (unprocessable ''events must contain non-empty values''))
      | Some e \<Rightarrow>
          if e \<notin> set valid_webhook_events
          then Inr (Inl (unprocessable (''Unsupported webhook event '' @ [CHR 0x27] @ e @ [CHR 0x27])))
          else if e \<in> set seen then Inl (ValueError ''events must not contain duplicate values'')
          else check_webhook_events vs (seen @ [e]))"

text \<open>What the request asks for once it is accepted: the address, the events, the description.\<close>

definition webhook_request :: "'w tenant_deps \<Rightarrow> pydict \<Rightarrow> (pydict + (string \<times> string list \<times> string option)) res" where
  "webhook_request deps body =
     (case coerce_optional_string (dget body ''callbackUrl'') of
        None \<Rightarrow> Inl (ValueError ''callbackUrl is required'')
      | Some callback_url \<Rightarrow>
          bind_res (td_urlparse deps callback_url) (\<lambda>(scheme, netloc).
          if scheme \<notin> {''http'', ''https''} \<or> netloc = [] then Inr (Inl (unprocessable ''callbackUrl must be a valid URL''))
          else (case dget body ''events'' of
                  PList (e # es) \<Rightarrow>
                    bind_res (check_webhook_events (e # es) []) (\<lambda>r. case r of
                        Inl answer \<Rightarrow> Inr (Inl answer)
                      | Inr names \<Rightarrow>
                          (let description = coerce_optional_string (dget body ''description'') in
                           if 256 < length (opt_or description [])
                           then Inr (Inl (unprocessable ''description must be 256 characters or fewer''))
                           else Inr (Inr (callback_url, names, description))))
                | _ \<Rightarrow> Inl (ValueError ''events must be a non-empty array''))))"

definition webhook_item :: "string \<Rightarrow> string \<Rightarrow> string \<Rightarrow> string list \<Rightarrow> string \<Rightarrow> string option \<Rightarrow> string \<Rightarrow> pydict" where
  "webhook_item tenant_id webhook_id callback_url names secret description now_iso =
     webhook_key tenant_id webhook_id @
     [(''webhook_id'', PStr webhook_id), (''tenant_id'', PStr tenant_id), (''callback_url'', PStr callback_url),
      (''events'', PList (map PStr names)), (''status'', PStr ''active''), (''signature_secret'', PStr secret),
      (''description'', opt_pstr description), (''created_at'', PStr now_iso), (''updated_at'', PStr now_iso),
      (''signature_header'', PStr ''X-Platform-Signature''), (''signature_algorithm'', PStr ''HMAC-SHA256'')]"

definition handle_register_webhook :: "'w tenant_deps \<Rightarrow> environ \<Rightarrow> pydict \<Rightarrow> string \<Rightarrow> caller_identity \<Rightarrow> ('w, pydict) io" where
  "handle_register_webhook deps env event tenant_id caller =
     (if \<not> can_manage_tenant_self_service caller tenant_id then io_raise webhook_denied
      else
      io_bind (io_lift (bind_res (require_json_body event) (webhook_request deps))) (\<lambda>request.
      case request of
        Inl answer \<Rightarrow> io_return answer
      | Inr (callback_url, names, description) \<Rightarrow>
          io_bind (td_uuid4 deps) (\<lambda>webhook_id.
          io_bind (td_now deps) (\<lambda>now.
          io_bind (td_token_urlsafe deps 32) (\<lambda>secret.
          io_bind (io_lift (db_for_tenant tenant_id caller None)) (\<lambda>db.
          io_bind (ts_put_item (td_aws deps) db (tenants_table_name env)
             (webhook_item tenant_id webhook_id callback_url names secret description (iso_utc now)) None []) (\<lambda>_.
          io_return (response 201
            [(''webhookId'', PStr webhook_id), (''callbackUrl'', PStr callback_url), (''events'', PList (map PStr names)),
             (''status'', PStr ''active''), (''createdAt'', PStr (iso_utc now)),
             (''signatureHeader'', PStr ''X-Platform-Signature''), (''signatureAlgorithm'', PStr ''HMAC-SHA256'')]))))))))"

definition handle_delete_webhook :: "'w tenant_deps \<Rightarrow> environ \<Rightarrow> string \<Rightarrow> string \<Rightarrow> caller_identity \<Rightarrow> ('w, pydict) io" where
  "handle_delete_webhook deps env tenant_id webhook_id caller =
     (if \<not> can_manage_tenant_self_service caller tenant_id then io_raise webhook_denied
      else
      io_bind (io_lift (db_for_tenant tenant_id caller None)) (\<lambda>db.
      io_bind (ts_get_item (td_aws deps) db (tenants_table_name env) (webhook_key tenant_id webhook_id) []) (\<lambda>existing.
      if existing = None then io_return (api_error 404 ''NOT_FOUND'' (''Webhook '' @ [CHR 0x27] @ webhook_id @ [CHR 0x27] @ '' not found''))
      else
      io_bind (ts_delete_item (td_aws deps) db (tenants_table_name env) (webhook_key tenant_id webhook_id) []) (\<lambda>_.
      io_return (response 204 [])))))"

text \<open>
  The routes. The tenant identifier stands unescaped in a regular expression; the canonical identifiers hold no character that
  means anything there, so it matches itself.
\<close>

definition path_child :: "string \<Rightarrow> string \<Rightarrow> string option" where
  "path_child dir path =
     (let r = remove_prefix path dir in
      if starts_with path dir \<and> r \<noteq> [] \<and> CHR ''/'' \<notin> set r then Some r else None)"

definition webhooks_path :: "string \<Rightarrow> string" where
  "webhooks_path tenant_id = ''/v1/tenants/'' @ tenant_id @ ''/webhooks''"

definition webhook_id_of :: "string \<Rightarrow> string \<Rightarrow> string option" where
  "webhook_id_of tenant_id path =
     (case path_child (webhooks_path tenant_id @ ''/'') path of Some i \<Rightarrow> Some i | None \<Rightarrow> path_child ''/v1/webhooks/'' path)"

definition webhook_routes :: "'w tenant_deps \<Rightarrow> environ \<Rightarrow> string \<Rightarrow> string \<Rightarrow> pydict \<Rightarrow> string option \<Rightarrow> caller_identity
    \<Rightarrow> ('w, pydict option) io" where
  "webhook_routes deps env path meth event tenant_arg caller =
     (let tenant_id = opt_or (case tenant_arg of None \<Rightarrow> ci_tenant_id caller | t \<Rightarrow> t) [];
          answer = (\<lambda>m. io_bind m (\<lambda>r. io_return (Some r))) in
      if tenant_id \<noteq> [] \<and> path \<in> {webhooks_path tenant_id, ''/v1/webhooks''} \<and> meth = ''GET''
      then answer (handle_list_webhooks deps env tenant_id caller)
      else if tenant_id \<noteq> [] \<and> path \<in> {webhooks_path tenant_id, ''/v1/webhooks''} \<and> meth = ''POST''
      then answer (handle_register_webhook deps env event tenant_id caller)
      else if tenant_id \<noteq> [] \<and> meth = ''DELETE''
      then (case webhook_id_of tenant_id path of
              None \<Rightarrow> io_return None | Some i \<Rightarrow> answer (handle_delete_webhook deps env tenant_id i caller))
      else io_return None)"

end
