(* ===== verification/TenantInvites.thy ===== *)
theory TenantInvites
  imports TenantRecords WebhookRegistry
begin

text \<open>
  Invitations of users (\<open>handle_invite_user\<close> with its local functions, \<open>tenant_invites.py\<close>): an invitation and a lookup row by
  e-mail address are written with conditions, the notification goes out through EventBridge, and a retry finds the pending
  invitation again.
\<close>

section \<open>Rows of an invitation\<close>

definition invite_id_of :: "pydict \<Rightarrow> string" where
  "invite_id_of d = py_str (dget_or d ''inviteId'' (PStr []))"

definition text_or :: "pydict \<Rightarrow> string \<Rightarrow> string \<Rightarrow> pyval" where
  "text_or d k dflt = PStr (py_str (dget_or d k (PStr dflt)))"

text \<open>The invitation rebuilt from its lookup row, which must name its identifier.\<close>

definition invite_from_lookup :: "string \<Rightarrow> string \<Rightarrow> pydict \<Rightarrow> pydict res" where
  "invite_from_lookup tenant_id email lookup =
     (case dict_get lookup ''inviteId'' of
        None \<Rightarrow> Inl (KeyError ''inviteId'')
      | Some i \<Rightarrow>
          (let copy = (\<lambda>k. (k, dget lookup k)); id = py_str i in
           Inr (invite_key tenant_id id @
             [(''inviteId'', PStr id), (''tenantId'', PStr tenant_id), (''email'', text_or lookup ''email'' email),
              (''normalizedEmail'', text_or lookup ''normalizedEmail'' email), (''role'', text_or lookup ''role'' ''Agent.Invoke''),
              (''status'', text_or lookup ''status'' ''pending''), copy ''expiresAt'', copy ''ttl'', copy ''createdAt'', copy ''updatedAt'',
              copy ''actorSub'', copy ''actorAppId'', (''notificationStatus'', text_or lookup ''notificationStatus'' ''pending''),
              copy ''notificationError'', copy ''notificationFailedAt'', copy ''notifiedAt''])))"

definition new_invite :: "string \<Rightarrow> string \<Rightarrow> string \<Rightarrow> string \<Rightarrow> rat \<Rightarrow> caller_identity \<Rightarrow> pydict" where
  "new_invite tenant_id invite_id email role now caller =
     invite_key tenant_id invite_id @
     [(''inviteId'', PStr invite_id), (''tenantId'', PStr tenant_id), (''email'', PStr email), (''normalizedEmail'', PStr email),
      (''role'', PStr role), (''status'', PStr ''pending''), (''expiresAt'', PStr (iso_utc (now + 604800))),
      (''ttl'', PInt (epoch_after_days now 7)), (''createdAt'', PStr (iso_utc now)), (''updatedAt'', PStr (iso_utc now)),
      (''actorSub'', opt_pstr (ci_sub caller)), (''actorAppId'', opt_pstr (ci_app_id caller)),
      (''notificationStatus'', PStr ''pending''), (''notificationError'', PNone)]"

section \<open>Notification\<close>

text \<open>One outcome of the notification written to a row: the status, the error, and the time under its name.\<close>

definition notification_update :: "string \<Rightarrow> string \<Rightarrow> pyval \<Rightarrow> string \<Rightarrow> string \<times> pydict" where
  "notification_update status time_field err now_iso =
     (if time_field = ''notifiedAt''
      then (''SET notificationStatus = :status, notificationError = :error, notifiedAt = :notified_at, updatedAt = :updated_at'',
            [('':status'', PStr status), ('':error'', err), ('':notified_at'', PStr now_iso), ('':updated_at'', PStr now_iso)])
      else (''SET notificationStatus = :status, notificationError = :error, notificationFailedAt = :failed_at, updatedAt = :updated_at'',
            [('':status'', PStr status), ('':error'', err), ('':failed_at'', PStr now_iso), ('':updated_at'', PStr now_iso)]))"

definition write_notification :: "'w tenant_deps \<Rightarrow> environ \<Rightarrow> tenant_context \<Rightarrow> string \<Rightarrow> string \<Rightarrow> string \<times> pydict \<Rightarrow> string
    \<Rightarrow> ('w, unit) io" where
  "write_notification deps env db tenant_id email upd invite_id =
     (let write = (\<lambda>key. ts_update_item (td_aws deps) db (tenants_table_name env) key (fst upd) (snd upd) None if_present) in
      io_bind (write (invite_key tenant_id invite_id)) (\<lambda>_.
      io_bind (write (invite_email_lookup_key tenant_id email)) (\<lambda>_. io_return ())))"

definition need_invite_id :: "pydict \<Rightarrow> string res" where
  "need_invite_id invite =
     (case dict_get invite ''inviteId'' of None \<Rightarrow> Inl (KeyError ''inviteId'') | Some i \<Rightarrow> Inr (py_str i))"

definition notification_failure :: "'w tenant_deps \<Rightarrow> environ \<Rightarrow> tenant_context \<Rightarrow> string \<Rightarrow> string \<Rightarrow> pydict \<Rightarrow> string
    \<Rightarrow> ('w, pydict) io" where
  "notification_failure deps env db tenant_id email invite error_code =
     io_bind (td_now deps) (\<lambda>now.
     io_bind (io_lift (need_invite_id invite)) (\<lambda>invite_id.
     io_bind (write_notification deps env db tenant_id email
        (notification_update ''failed'' ''notificationFailedAt'' (PStr error_code) (iso_utc now)) invite_id) (\<lambda>_.
     io_return (api_error 502 ''EVENT_DELIVERY_FAILED'' ''Invite notification failed after persistence''))))"

text \<open>\<open>(event_response.get("Entries") or [{}])[0].get("ErrorCode") or "EventBridgeDeliveryFailed"\<close>.\<close>

definition failed_entry_code :: "pydict \<Rightarrow> string res" where
  "failed_entry_code r =
     (let name = (\<lambda>d. py_str (py_or (dget d ''ErrorCode'') (PStr ''EventBridgeDeliveryFailed''))) in
      case py_or (dget r ''Entries'') (PList [PDict []]) of
        PList (e # _) \<Rightarrow> bind_res (need_dict e) (\<lambda>d. Inr (name d))
      | _ \<Rightarrow> Inl (TypeError ''entries''))"

definition need_field :: "pydict \<Rightarrow> string \<Rightarrow> string res" where
  "need_field d k = (case dict_get d k of None \<Rightarrow> Inl (KeyError k) | Some v \<Rightarrow> Inr (py_str v))"

definition invite_event :: "string \<Rightarrow> pydict \<Rightarrow> pydict res" where
  "invite_event tenant_id invite =
     bind_res (need_field invite ''inviteId'') (\<lambda>i. bind_res (need_field invite ''email'') (\<lambda>e.
     bind_res (need_field invite ''role'') (\<lambda>r.
       Inr [(''tenantId'', PStr tenant_id), (''inviteId'', PStr i), (''email'', PStr e), (''role'', PStr r)])))"

definition sent_invite :: "pydict \<Rightarrow> string \<Rightarrow> pydict" where
  "sent_invite invite sent_time =
     dupdate (filter (\<lambda>(k, v). k \<noteq> ''notificationFailedAt'') (dupdate invite [(''notificationStatus'', PStr ''sent''), (''notificationError'', PNone)]))
       [(''notifiedAt'', PStr sent_time), (''updatedAt'', PStr sent_time)]"

definition deliver_invite_notification :: "'w tenant_deps \<Rightarrow> environ \<Rightarrow> tenant_context \<Rightarrow> string \<Rightarrow> string \<Rightarrow> pydict
    \<Rightarrow> ('w, pydict) io" where
  "deliver_invite_notification deps env db tenant_id email invite =
     io_bind (io_lift (invite_event tenant_id invite)) (\<lambda>detail.
     io_try (put_event deps env ''tenant.user_invited'' detail) (\<lambda>r.
       case r of
         Inl e \<Rightarrow> (case aws_error_name e of
                      Some code \<Rightarrow> notification_failure deps env db tenant_id email invite code
                    | None \<Rightarrow> io_raise e)
       | Inr answer \<Rightarrow>
           io_bind (io_lift (need_dict (py_or answer (PDict [])))) (\<lambda>d.
           io_bind (io_lift (py_int (dget_or d ''FailedEntryCount'' (PInt 0)))) (\<lambda>failed.
           if 0 < failed
           then io_bind (io_lift (failed_entry_code d)) (\<lambda>code.
                  notification_failure deps env db tenant_id email invite code)
           else
             io_bind (td_now deps) (\<lambda>now.
             io_bind (io_lift (need_invite_id invite)) (\<lambda>invite_id.
             io_bind (write_notification deps env db tenant_id email
                (notification_update ''sent'' ''notifiedAt'' PNone (iso_utc now)) invite_id) (\<lambda>_.
             io_return (response 202 [(''invite'', PDict (sent_invite invite (iso_utc now)))]))))))))"

section \<open>Pending invitations\<close>

text \<open>The answer for an address that has been invited before; \<open>None\<close> lets a new invitation be made.\<close>

definition handle_existing_lookup :: "'w tenant_deps \<Rightarrow> environ \<Rightarrow> tenant_context \<Rightarrow> string \<Rightarrow> string \<Rightarrow> pydict option
    \<Rightarrow> ('w, pydict option) io" where
  "handle_existing_lookup deps env db tenant_id email found =
     (let table = tenants_table_name env; lookup_key = invite_email_lookup_key tenant_id email;
          drop_lookup = io_bind (ts_delete_item (td_aws deps) db table lookup_key []) (\<lambda>_. io_return None);
          deliver = (\<lambda>invite. io_bind (deliver_invite_notification deps env db tenant_id email invite) (\<lambda>r. io_return (Some r)))
      in case found of
           None \<Rightarrow> io_return None
         | Some lookup \<Rightarrow>
             if text_or lookup ''status'' [] \<noteq> PStr ''pending'' then drop_lookup
             else
             (let get_invite = ts_get_item (td_aws deps) db table (invite_key tenant_id (invite_id_of lookup)) [] in
             io_bind get_invite (\<lambda>existing.
             case existing of
               None \<Rightarrow>
                 io_bind (io_lift (invite_from_lookup tenant_id email lookup)) (\<lambda>rebuilt.
                 io_try (ts_put_item (td_aws deps) db table rebuilt put_if_absent []) (\<lambda>r.
                   case r of
                     Inr _ \<Rightarrow> deliver rebuilt
                   | Inl e \<Rightarrow>
                       if client_code e \<noteq> Some ''ConditionalCheckFailedException'' then io_raise e
                       else io_bind get_invite (\<lambda>again. case again of
                              None \<Rightarrow> io_return (Some (api_error 409 ''CONFLICT'' ''Pending invite already exists''))
                            | Some invite \<Rightarrow> deliver invite)))
             | Some invite \<Rightarrow>
                 if text_or invite ''status'' [] \<noteq> PStr ''pending'' then drop_lookup
                 else if text_or invite ''notificationStatus'' [] = PStr ''failed'' then deliver invite
                 else io_return (Some (response 202 [(''invite'', PDict invite)])))))"

section \<open>Inviting\<close>

definition allowed_invite_roles :: "string list" where
  "allowed_invite_roles = [''Agent.Invoke'']"

definition normalized_email :: "pydict \<Rightarrow> string" where
  "normalized_email body = py_lower (py_strip (py_str (dget_or body ''email'' (PStr []))))"

text \<open>
  A new invitation: the lookup row first, then the invitation. Losing a race on the lookup row the pending invitation is
  looked at again; when the invitation cannot be written the lookup row is taken back.
\<close>

definition persist_invite :: "'w tenant_deps \<Rightarrow> environ \<Rightarrow> tenant_context \<Rightarrow> string \<Rightarrow> string \<Rightarrow> pydict \<Rightarrow> ('w, pydict) io" where
  "persist_invite deps env db tenant_id email invite =
     (let table = tenants_table_name env; lookup_key = invite_email_lookup_key tenant_id email;
          lookup_item = dupdate invite lookup_key;
          put = (\<lambda>item. ts_put_item (td_aws deps) db table item put_if_absent []);
          again = io_bind (ts_get_item (td_aws deps) db table lookup_key [])
                    (handle_existing_lookup deps env db tenant_id email);
          drop_and_raise = (\<lambda>e. io_bind (ts_delete_item (td_aws deps) db table lookup_key []) (\<lambda>_. io_raise e));
          conflict = (\<lambda>e. client_code e = Some ''ConditionalCheckFailedException'');
          write_invite = io_try (put invite) (\<lambda>r. case r of
              Inr _ \<Rightarrow> deliver_invite_notification deps env db tenant_id email invite
            | Inl e \<Rightarrow> if conflict e
                then io_bind again (\<lambda>found. case found of Some answer \<Rightarrow> io_return answer | None \<Rightarrow> drop_and_raise e)
                else drop_and_raise e)
      in io_try (put lookup_item) (\<lambda>r. case r of
           Inr _ \<Rightarrow> write_invite
         | Inl e \<Rightarrow> if \<not> conflict e then io_raise e
             else io_bind again (\<lambda>found. case found of
                    Some answer \<Rightarrow> io_return answer
                  | None \<Rightarrow> io_bind (put lookup_item) (\<lambda>_. write_invite))))"

definition handle_invite_user :: "'w tenant_deps \<Rightarrow> environ \<Rightarrow> pydict \<Rightarrow> string \<Rightarrow> caller_identity \<Rightarrow> ('w, pydict) io" where
  "handle_invite_user deps env event tenant_id caller =
     (if \<not> can_manage_tenant_self_service caller tenant_id then io_raise (PermissionErr ''Access denied'')
      else
      io_bind (io_lift (require_json_body event)) (\<lambda>body.
      let email = normalized_email body; role = py_str (py_or (dget body ''role'') (PStr ''Agent.Invoke'')) in
      if email = [] \<or> CHR ''@'' \<notin> set email then io_raise (ValueError ''Valid email is required'')
      else if role \<notin> set allowed_invite_roles
      then io_return (api_error 400 ''BAD_REQUEST'' ''role must be one of: Agent.Invoke'')
      else
      io_bind (read_tenant_record deps env tenant_id caller None) (\<lambda>tenant.
      if tenant = None then io_return (not_found tenant_id)
      else
      io_bind (io_lift (db_for_tenant tenant_id caller None)) (\<lambda>db.
      io_bind (ts_get_item (td_aws deps) db (tenants_table_name env) (invite_email_lookup_key tenant_id email) []) (\<lambda>lookup.
      io_bind (handle_existing_lookup deps env db tenant_id email lookup) (\<lambda>existing.
      case existing of
        Some answer \<Rightarrow> io_return answer
      | None \<Rightarrow>
          io_bind (td_now deps) (\<lambda>now.
          io_bind (td_token_hex deps 4) (\<lambda>hex.
          persist_invite deps env db tenant_id email
            (new_invite tenant_id (''inv-'' @ compact_date now @ ''-'' @ hex) email role now caller)))))))))"

section \<open>Listing\<close>

definition invite_listing :: "string \<Rightarrow> pydict \<Rightarrow> pydict" where
  "invite_listing tenant_id invite =
     [(''inviteId'', text_or invite ''inviteId'' []), (''tenantId'', PStr tenant_id), (''email'', text_or invite ''email'' []),
      (''role'', text_or invite ''role'' ''Agent.Invoke''), (''status'', text_or invite ''status'' []), (''expiresAt'', dget invite ''expiresAt'')]"

definition handle_list_invites :: "'w tenant_deps \<Rightarrow> environ \<Rightarrow> string \<Rightarrow> caller_identity \<Rightarrow> ('w, pydict) io" where
  "handle_list_invites deps env tenant_id caller =
     (if \<not> can_read_tenant caller tenant_id \<or> \<not> can_manage_tenant_self_service caller tenant_id
      then io_raise (PermissionErr ''Access denied'')
      else
      io_bind (io_lift (db_for_tenant tenant_id caller None)) (\<lambda>db.
      io_bind (ts_get_item (td_aws deps) db (tenants_table_name env) (tenant_row_key tenant_id) []) (\<lambda>item.
      if item = None then io_return (not_found tenant_id)
      else
      io_bind (ts_query (td_aws deps) db (tenants_table_name env) (rows_with_prefix ''INVITE#'')) (\<lambda>page.
      io_return (response 200 [(''items'', PList (map (PDict \<circ> invite_listing tenant_id) (pi_items page)))])))))"

end
