(* ===== verification/TenantAudit.thy ===== *)
theory TenantAudit
  imports DynamoTables
begin

text \<open>
  Audit exports (\<open>tenant_audit_exports.py\<close>): the invocations of a window, collected page by page, written as a JSON object to the
  tenant's own directory and handed out as a presigned address. The loop over the pages may run for ever, so the handler is a
  \<open>loop\<close> computation.
\<close>

section \<open>Timestamps (\<open>validation.py\<close>)\<close>

definition replace_char :: "char \<Rightarrow> string \<Rightarrow> string \<Rightarrow> string" where
  "replace_char c new s = concat (map (\<lambda>x. if x = c then new else [x]) s)"

definition parse_utc_timestamp :: "'w tenant_deps \<Rightarrow> pyval \<Rightarrow> string \<Rightarrow> rat res" where
  "parse_utc_timestamp deps v field =
     (case coerce_optional_string v of
        None \<Rightarrow> Inl (ValueError (field @ '' must be an ISO 8601 UTC timestamp''))
      | Some t \<Rightarrow>
          (case td_fromisoformat deps (replace_char (CHR ''Z'') ''+00:00'' t) of
             Inl (ValueError m) \<Rightarrow> Inl (ValueError (field @ '' must be an ISO 8601 UTC timestamp''))
           | Inl e \<Rightarrow> Inl e
           | Inr (moment, aware) \<Rightarrow>
               if aware then Inr moment else Inl (ValueError (field @ '' must include a timezone''))))"

definition parse_optional_utc_timestamp :: "'w tenant_deps \<Rightarrow> pyval \<Rightarrow> string \<Rightarrow> rat option res" where
  "parse_optional_utc_timestamp deps v field =
     (if coerce_optional_string v = None then Inr None
      else bind_res (parse_utc_timestamp deps v field) (\<lambda>t. Inr (Some t)))"

section \<open>The records of a window\<close>

definition invocation_timestamp :: "pydict \<Rightarrow> string option" where
  "invocation_timestamp item =
     (case coerce_optional_string (dget item ''timestamp'') of
        Some t \<Rightarrow> Some t
      | None \<Rightarrow>
          (case coerce_optional_string (dget item ''SK'') of
             None \<Rightarrow> None
           | Some sk \<Rightarrow>
               if \<not> starts_with sk ''INV#'' then None
               else (case split_max (CHR ''#'') 2 sk of
                       [a, b, c] \<Rightarrow> coerce_optional_string (PStr b) | _ \<Rightarrow> None)))"

definition audit_export_sk_condition :: "rat option \<Rightarrow> rat option \<Rightarrow> condition option" where
  "audit_export_sk_condition start_at end_at =
     (let s = (\<lambda>t. ''INV#'' @ iso_utc t); e = (\<lambda>t. ''INV#'' @ iso_utc t @ ''~'') in
      case (start_at, end_at) of
        (Some a, Some b) \<Rightarrow> Some (KeyBetween ''SK'' (s a) (e b))
      | (Some a, None) \<Rightarrow> Some (KeyGe ''SK'' (s a))
      | (None, Some b) \<Rightarrow> Some (KeyLe ''SK'' (e b))
      | (None, None) \<Rightarrow> None)"

text \<open>The comparison is one of texts: the item's own timestamp against the bound as \<open>iso\<close> writes it.\<close>

definition in_window :: "rat option \<Rightarrow> rat option \<Rightarrow> pydict \<Rightarrow> bool" where
  "in_window start_at end_at item =
     (case invocation_timestamp item of
        None \<Rightarrow> False
      | Some t \<Rightarrow> (case start_at of None \<Rightarrow> True | Some a \<Rightarrow> str_le (iso_utc a) t)
                \<and> (case end_at of None \<Rightarrow> True | Some b \<Rightarrow> str_le t (iso_utc b)))"

definition audit_query :: "rat option \<Rightarrow> rat option \<Rightarrow> pydict option \<Rightarrow> query_args" where
  "audit_query start_at end_at start_key =
     \<lparr>qa_sk = audit_export_sk_condition start_at end_at, qa_filter = None, qa_index = None, qa_limit = Some 200,
      qa_forward = True, qa_start = start_key, qa_extra = []\<rparr>"

text \<open>The loop stops only on a page without a key: \<open>{}\<close> would be asked for again.\<close>

partial_function (option) collect_records ::
  "(pydict option \<Rightarrow> ('w, paginated_items) io) \<Rightarrow> (pydict \<Rightarrow> bool) \<Rightarrow> pydict option \<Rightarrow> pydict list \<Rightarrow> ('w, pydict list) loop" where
  "collect_records fetch keep start items w =
     (case fetch start w of
        (Inl e, w') \<Rightarrow> Some (Inl e, w')
      | (Inr page, w') \<Rightarrow>
          (let items' = items @ filter keep (pi_items page) in
           if pi_last_key page = None then Some (Inr items', w')
           else collect_records fetch keep (pi_last_key page) items' w'))"

definition collect_audit_export_records ::
  "'w tenant_deps \<Rightarrow> environ \<Rightarrow> string \<Rightarrow> caller_identity \<Rightarrow> string option \<Rightarrow> rat option \<Rightarrow> rat option \<Rightarrow> ('w, pydict list) loop" where
  "collect_audit_export_records deps env tenant_id caller app_id start_at end_at =
     loop_bind (loop_ends (io_lift (db_for_tenant tenant_id caller app_id))) (\<lambda>db.
       collect_records (\<lambda>start. ts_query (td_aws deps) db (invocations_table_name env) (audit_query start_at end_at start))
         (in_window start_at end_at) None [])"

section \<open>The export\<close>

definition format_export_timestamp :: "rat \<Rightarrow> string" where
  "format_export_timestamp t =
     compact_date t @ ''T'' @ filter (\<lambda>c. c \<noteq> CHR '':'') (clock_text (floor t mod 86400)) @ ''Z''"

definition audit_export_key :: "string \<Rightarrow> rat \<Rightarrow> string \<Rightarrow> string" where
  "audit_export_key tenant_id generated_at nonce =
     ''tenants/'' @ tenant_id @ ''/audit-exports/audit-export-'' @ format_export_timestamp generated_at @ ''-'' @ nonce @ ''.json''"

definition audit_export_url_expiry_seconds :: "environ \<Rightarrow> int res" where
  "audit_export_url_expiry_seconds env = coerce_positive_int (opt_pstr (env ''AUDIT_EXPORT_URL_EXPIRY_SECONDS'')) 3600"

definition build_audit_export_payload :: "string \<Rightarrow> rat \<Rightarrow> rat option \<Rightarrow> rat option \<Rightarrow> pydict list \<Rightarrow> nat list" where
  "build_audit_export_payload tenant_id generated_at start_at end_at records =
     map code_point (json_dumps (PDict
       [(''tenantId'', PStr tenant_id), (''generatedAt'', PStr (iso_utc generated_at)),
        (''windowStart'', opt_pstr (map_option iso_utc start_at)), (''windowEnd'', opt_pstr (map_option iso_utc end_at)),
        (''recordCount'', PInt (int (length records))), (''records'', PList (map PDict records))]))"

text \<open>The upload and the address; whatever fails in it becomes a 500.\<close>

definition publish_export :: "'w tenant_deps \<Rightarrow> environ \<Rightarrow> string \<Rightarrow> caller_identity \<Rightarrow> string option \<Rightarrow> string \<Rightarrow> string \<Rightarrow> nat list
    \<Rightarrow> ('w, string) io" where
  "publish_export deps env tenant_id caller app_id bucket object_key payload =
     io_bind (io_lift (db_for_tenant tenant_id caller app_id)) (\<lambda>ctx.
     io_bind (s3_put_object (td_aws deps) (td_s3 deps) ctx bucket object_key payload
        [(''ContentType'', KwVal (PStr ''application/json''))]) (\<lambda>_.
     io_bind (io_lift (audit_export_url_expiry_seconds env)) (\<lambda>expires_in.
     s3_generate_presigned_url (td_aws deps) (td_s3 deps) ctx bucket object_key expires_in ''get_object'')))"

definition finish_export :: "'w tenant_deps \<Rightarrow> environ \<Rightarrow> string \<Rightarrow> caller_identity \<Rightarrow> string option \<Rightarrow> string \<Rightarrow> rat option
    \<Rightarrow> rat option \<Rightarrow> pydict list \<Rightarrow> ('w, pydict) io" where
  "finish_export deps env tenant_id caller app_id bucket start_at end_at records =
     io_bind (td_now deps) (\<lambda>generated_at.
     io_bind (td_token_hex deps 8) (\<lambda>nonce.
     let object_key = audit_export_key tenant_id generated_at nonce;
         payload = build_audit_export_payload tenant_id generated_at start_at end_at records in
     io_try (publish_export deps env tenant_id caller app_id bucket object_key payload) (\<lambda>r. case r of
         Inl e \<Rightarrow> io_return (api_error 500 ''INTERNAL_ERROR'' ''Failed to generate audit export'')
       | Inr download_url \<Rightarrow>
           io_bind (io_lift (audit_export_url_expiry_seconds env)) (\<lambda>expires_in.
           io_return (response 200
             [(''tenantId'', PStr tenant_id), (''downloadUrl'', PStr download_url),
              (''expiresAt'', PStr (iso_utc (generated_at + of_int expires_in)))])))))"

definition handle_audit_export :: "'w tenant_deps \<Rightarrow> environ \<Rightarrow> pydict \<Rightarrow> string \<Rightarrow> caller_identity \<Rightarrow> ('w, pydict) loop" where
  "handle_audit_export deps env event tenant_id caller =
     loop_bind (loop_ends
       (io_bind (io_lift (require_admin caller)) (\<lambda>_. read_tenant_record deps env tenant_id caller None))) (\<lambda>found.
     case found of
       None \<Rightarrow> loop_ends (io_return (api_error 404 ''NOT_FOUND'' ''Tenant not found''))
     | Some existing \<Rightarrow>
         (let window =
            bind_res (need_dict (py_or (dget event ''queryStringParameters'') (PDict []))) (\<lambda>query.
            bind_res (parse_optional_utc_timestamp deps (dget query ''start'') ''start'') (\<lambda>start_at.
            bind_res (parse_optional_utc_timestamp deps (dget query ''end'') ''end'') (\<lambda>end_at.
            case (start_at, end_at) of
              (Some a, Some b) \<Rightarrow> if b < a then Inl (ValueError ''start must be less than or equal to end'') else Inr (start_at, end_at)
            | _ \<Rightarrow> Inr (start_at, end_at)))) in
          loop_bind (loop_ends (io_lift window)) (\<lambda>(start_at, end_at).
          case coerce_optional_string (opt_pstr (env ''AUDIT_EXPORT_BUCKET'')) of
            None \<Rightarrow> loop_ends (io_return (api_error 500 ''INTERNAL_ERROR'' ''Audit export bucket is not configured''))
          | Some bucket \<Rightarrow>
              (let app_id = coerce_optional_string (dget existing ''appId'') in
               loop_bind (collect_audit_export_records deps env tenant_id caller app_id start_at end_at) (\<lambda>records.
                 loop_ends (finish_export deps env tenant_id caller app_id bucket start_at end_at records))))))"

end
