(* ===== verification/Arns.thy ===== *)
theory Arns
  imports Prelude
begin

text \<open>
  The ARNs of agent runtimes and their endpoints, and of execution roles: the patterns of \<open>bridge/constants.py\<close> and
  \<open>tenant_api/agent_registry.py\<close> with their groups. No character class of the patterns holds a colon before the last field,
  so \<open>fullmatch\<close> is a split at the colons.
\<close>

text \<open>\<open>\w\<close> on the modelled characters: letters, digits and numeric signs, and the underscore.\<close>

definition word_char :: "char \<Rightarrow> bool" where
  "word_char c \<longleftrightarrow>
     (let n = code_point c in
      (48 \<le> n \<and> n \<le> 57) \<or> (65 \<le> n \<and> n \<le> 90) \<or> (97 \<le> n \<and> n \<le> 122) \<or> n = 95
      \<or> n \<in> {170, 178, 179, 181, 185, 186, 188, 189, 190} \<or> (192 \<le> n \<and> n \<noteq> 215 \<and> n \<noteq> 247))"

definition ascii_letter :: "char \<Rightarrow> bool" where
  "ascii_letter c \<longleftrightarrow> (let n = code_point c in (65 \<le> n \<and> n \<le> 90) \<or> (97 \<le> n \<and> n \<le> 122))"

definition resource_char :: "char \<Rightarrow> bool" where
  "resource_char c \<longleftrightarrow> word_char c \<or> c \<in> set ''+=,.@-/''"

definition region_char :: "char \<Rightarrow> bool" where
  "region_char c \<longleftrightarrow> (97 \<le> code_point c \<and> code_point c \<le> 122) \<or> is_digit c \<or> c = CHR ''-''"

definition aws_partitions :: "string list" where
  "aws_partitions = [''aws'', ''aws-us-gov'', ''aws-cn'']"

record runtime_arn_match =
  rm_partition :: string
  rm_region :: string
  rm_account_id :: string
  rm_runtime_id :: string

definition account_field :: "string \<Rightarrow> bool" where
  "account_field s \<longleftrightarrow> length s = 12 \<and> list_all is_digit s"

definition region_field :: "string \<Rightarrow> bool" where
  "region_field s \<longleftrightarrow> s \<noteq> [] \<and> list_all region_char s"

text \<open>\<open>RUNTIME_ARN_PATTERN.fullmatch\<close>.\<close>

definition match_runtime_arn :: "string \<Rightarrow> runtime_arn_match option" where
  "match_runtime_arn s =
     (case split_on (CHR '':'') s of
        [arn, part, service, region, account, resource] \<Rightarrow>
          (let rid = remove_prefix resource ''runtime/'' in
           if arn = ''arn'' \<and> part \<in> set aws_partitions \<and> service = ''bedrock-agentcore''
              \<and> region_field region \<and> account_field account
              \<and> starts_with resource ''runtime/'' \<and> rid \<noteq> [] \<and> list_all resource_char rid
           then Some \<lparr>rm_partition = part, rm_region = region, rm_account_id = account, rm_runtime_id = rid\<rparr>
           else None)
      | _ \<Rightarrow> None)"

text \<open>\<open>[A-Za-z][A-Za-z0-9_]{0,n}-[A-Za-z0-9]{10}\<close>.\<close>

definition suffixed_id :: "nat \<Rightarrow> string \<Rightarrow> bool" where
  "suffixed_id n s \<longleftrightarrow>
     (case split_on (CHR ''-'') s of
        [a, b] \<Rightarrow> a \<noteq> [] \<and> ascii_letter (hd a) \<and> length a \<le> Suc n
                   \<and> list_all (\<lambda>c. ascii_letter c \<or> is_digit c \<or> c = CHR ''_'') (tl a)
                   \<and> length b = 10 \<and> list_all (\<lambda>c. ascii_letter c \<or> is_digit c) b
      | _ \<Rightarrow> False)"

text \<open>\<open>RUNTIME_ENDPOINT_ARN_PATTERN.fullmatch\<close>: the groups it shares with a runtime ARN, and the endpoint id.\<close>

definition match_endpoint_arn :: "string \<Rightarrow> (runtime_arn_match \<times> string) option" where
  "match_endpoint_arn s =
     (case split_on (CHR '':'') s of
        [arn, part, service, region, account, resource] \<Rightarrow>
          (case split_on (CHR ''/'') resource of
             [kind, rid, kind2, eid] \<Rightarrow>
               if arn = ''arn'' \<and> part \<in> set aws_partitions \<and> service = ''bedrock-agentcore''
                  \<and> region_field region \<and> account_field account
                  \<and> kind = ''runtime'' \<and> suffixed_id 99 rid \<and> kind2 = ''runtime-endpoint'' \<and> suffixed_id 47 eid
               then Some (\<lparr>rm_partition = part, rm_region = region, rm_account_id = account,
                           rm_runtime_id = rid\<rparr>, eid)
               else None
           | _ \<Rightarrow> None)
      | _ \<Rightarrow> None)"

text \<open>\<open>IAM_ROLE_ARN_PATTERN.fullmatch\<close>, with the account it names.\<close>

definition match_role_arn :: "string \<Rightarrow> string option" where
  "match_role_arn s =
     (case split_on (CHR '':'') s of
        [arn, part, service, region, account, resource] \<Rightarrow>
          (let name = remove_prefix resource ''role/'' in
           if arn = ''arn'' \<and> part \<in> set aws_partitions \<and> service = ''iam'' \<and> region = []
              \<and> account_field account \<and> starts_with resource ''role/'' \<and> name \<noteq> [] \<and> list_all resource_char name
           then Some account else None)
      | _ \<Rightarrow> None)"

text \<open>An endpoint belongs to a runtime when the four shared groups agree and its id starts with the endpoint's name.\<close>

definition endpoint_belongs :: "runtime_arn_match \<Rightarrow> string \<Rightarrow> string \<Rightarrow> bool" where
  "endpoint_belongs m endpoint_arn name \<longleftrightarrow>
     (case match_endpoint_arn endpoint_arn of
        None \<Rightarrow> False
      | Some (shared, eid) \<Rightarrow> shared = m \<and> starts_with eid (name @ ''-''))"

end
