(* ===== verification/AgentRegistry.thy ===== *)
theory AgentRegistry
  imports DynamoTables Arns
begin

text \<open>
  The agent registry, \<open>src/tenant_api/agent_registry.py\<close> with the release rules of \<open>agent_logic.py\<close>: registering a version, moving it
  through its life cycle, and the routes. The life cycle is then a step relation over the tables, with the
  invariant that nothing is promoted without approval.
\<close>

section \<open>Registration\<close>

definition text_field :: "pydict \<Rightarrow> string \<Rightarrow> string \<Rightarrow> string" where
  "text_field d k dflt = py_strip (py_str (dget_or d k (PStr dflt)))"

definition validate_layer_metadata_invariants :: "pydict \<Rightarrow> unit res" where
  "validate_layer_metadata_invariants item =
     (if text_field item ''runtime_arn'' [] \<noteq> [] then Inr ()
      else
        (let layer_hash = text_field item ''layer_hash'' [];
             layer_s3_key = text_field item ''layer_s3_key'' [];
             script_s3_key = text_field item ''script_s3_key'' []
         in if layer_hash = [] \<and> layer_s3_key = [] \<and> script_s3_key = [] then Inr ()
            else
              (let missing = (if layer_hash = [] then [''layerHash''] else [])
                           @ (if layer_s3_key = [] then [''layerS3Key''] else [])
               in if missing \<noteq> []
                  then Inl (ValueError (''Zip-agent registration requires non-empty '' @ str_join '', '' missing))
                  else Inr ())))"

definition runtime_endpoint_fields :: "(string \<times> string) list" where
  "runtime_endpoint_fields =
     [(''runtime_endpoint_arn'', ''runtimeEndpointArn''), (''runtime_endpoint_name'', ''runtimeEndpointName''),
      (''runtime_endpoint_version'', ''runtimeEndpointVersion'')]"

definition validate_runtime_endpoint_invariants :: "pydict \<Rightarrow> unit res" where
  "validate_runtime_endpoint_invariants item =
     (let runtime_arn = text_field item ''runtime_arn'' [];
          missing = filter (\<lambda>(f, n). text_field item f [] = []) runtime_endpoint_fields
      in if length missing = length runtime_endpoint_fields
         then (if runtime_arn \<noteq> [] then Inl (ValueError
                 ''Runtime registration requires runtimeEndpointArn, runtimeEndpointName, runtimeEndpointVersion'')
               else Inr ())
         else if missing \<noteq> []
         then Inl (ValueError (''Runtime endpoint registration requires non-empty ''
                 @ str_join '', '' (map snd missing)))
         else
           (case match_runtime_arn runtime_arn of
              None \<Rightarrow> Inl (ValueError ''Runtime endpoint registration requires a valid runtimeArn'')
            | Some runtime_match \<Rightarrow>
                (case match_endpoint_arn (text_field item ''runtime_endpoint_arn'' []) of
                   None \<Rightarrow> Inl (ValueError ''runtimeEndpointArn is malformed'')
                 | Some (endpoint_match, endpoint_id) \<Rightarrow>
                     if endpoint_match \<noteq> runtime_match
                     then Inl (ValueError ''runtimeEndpointArn does not match runtimeArn'')
                     else if \<not> starts_with endpoint_id (text_field item ''runtime_endpoint_name'' [] @ ''-'')
                     then Inl (ValueError ''runtimeEndpointArn does not match runtimeEndpointName'')
                     else Inr ())))"

text \<open>\<open>if name in body: item[key] = str(body[name]).strip()\<close>.\<close>

definition copy_text :: "pydict \<Rightarrow> string \<Rightarrow> string \<Rightarrow> pydict \<Rightarrow> pydict" where
  "copy_text body name key item =
     (case dict_get body name of None \<Rightarrow> item | Some v \<Rightarrow> dset key (PStr (py_strip (py_str v))) item)"

definition supported_invocation_modes :: "string list" where
  "supported_invocation_modes = [''sync'', ''streaming'']"

definition ag_ui_of_body :: "pydict \<Rightarrow> bool \<times> string \<times> pyval" where
  "ag_ui_of_body body =
     (let raw = dict_or_empty (dget body ''agUi'');
          endpoint = py_strip (py_str (dget_or body ''agUiEndpoint'' (dget_or raw ''endpoint'' (PStr []))))
      in (truthy (dget_or body ''agUiEnabled'' (dget_or raw ''enabled'' (PBool False))),
          py_strip (py_str (dget_or body ''agUiTransport'' (dget_or raw ''transport'' (PStr ''sse'')))),
          if endpoint = [] then PNone else PStr endpoint))"

definition agent_pk :: "string \<Rightarrow> string" where
  "agent_pk name = ''AGENT#'' @ name"

definition version_sk :: "string \<Rightarrow> string" where
  "version_sk version = ''VERSION#'' @ version"

definition agent_key :: "string \<Rightarrow> string \<Rightarrow> pydict" where
  "agent_key name version = row_key (agent_pk name) (version_sk version)"

text \<open>The item of a new version, before the optional fields.\<close>

definition base_agent_item :: "pydict \<Rightarrow> string \<Rightarrow> string \<Rightarrow> agent_status \<Rightarrow> string \<Rightarrow> string \<Rightarrow> pydict" where
  "base_agent_item body name version status mode now_iso =
     agent_key name version @
     [(''agent_name'', PStr name), (''version'', PStr version), (''status'', PStr (agent_status_value status)),
      (''owner_team'', PStr (text_field body ''ownerTeam'' ''unknown'')),
      (''tier_minimum'', PStr (text_field body ''tierMinimum'' ''basic'')),
      (''invocation_mode'', PStr mode),
      (''streaming_enabled'', PBool (truthy (dget_or body ''streamingEnabled'' (PBool False)))),
      (''layer_hash'', PStr (text_field body ''layerHash'' [])),
      (''layer_s3_key'', PStr (text_field body ''layerS3Key'' [])),
      (''script_s3_key'', PStr (py_strip (py_str
          (dget_or body ''scriptS3Key'' (dget_or body ''script_s3_key'' (PStr [])))))),
      (''deployed_at'', PStr now_iso), (''created_at'', PStr now_iso), (''updated_at'', PStr now_iso)]"

definition complete_agent_item :: "pydict \<Rightarrow> pydict \<Rightarrow> pydict res" where
  "complete_agent_item body item0 =
     (let item1 = copy_text body ''modelId'' ''model_id'' (copy_text body ''displayName'' ''display_name'' item0) in
      bind_res (case dict_get body ''estimatedDurationSeconds'' of
                  None \<Rightarrow> Inr item1
                | Some v \<Rightarrow> bind_res (py_int v) (\<lambda>i. Inr (dset ''estimated_duration_seconds'' (PInt i) item1)))
        (\<lambda>item2.
          let item3 = copy_text body ''runtimeArn'' ''runtime_arn'' item2;
              item4 = copy_text body ''runtimeEndpointArn'' ''runtime_endpoint_arn'' item3;
              item5 = copy_text body ''runtimeEndpointName'' ''runtime_endpoint_name'' item4;
              item6 = copy_text body ''runtimeEndpointVersion'' ''runtime_endpoint_version'' item5;
              (enabled, transport, endpoint) = ag_ui_of_body body;
              item = dupdate item6
                [(''ag_ui'', PDict [(''enabled'', PBool enabled), (''transport'', PStr transport), (''endpoint'', endpoint)]),
                 (''ag_ui_enabled'', PBool enabled), (''ag_ui_transport'', PStr transport), (''ag_ui_endpoint'', endpoint)]
          in bind_res (validate_layer_metadata_invariants item) (\<lambda>_.
             bind_res (validate_runtime_endpoint_invariants item) (\<lambda>_. Inr item))))"

definition handle_register_agent :: "'w tenant_deps \<Rightarrow> environ \<Rightarrow> pydict \<Rightarrow> caller_identity \<Rightarrow> ('w, pydict) io" where
  "handle_register_agent deps env event caller =
     io_bind (io_lift (require_admin caller)) (\<lambda>_.
     io_bind (io_lift (require_platform_actor caller)) (\<lambda>_.
     io_bind (io_lift (require_json_body event)) (\<lambda>body.
     io_bind (io_lift (canonical_tenant_id (dget body ''agentName'') False)) (\<lambda>name.
     let version = text_field body ''version'' [] in
     if version = [] then io_raise (ValueError ''version is required'')
     else
     io_bind (io_lift (if truthy (dget body ''status'') then normalize_agent_status_val (dget body ''status'')
                       else Inr BUILT)) (\<lambda>initial_status.
     if initial_status \<notin> set registerable_agent_statuses
     then io_raise (ValueError ''Initial status for registration must be one of: built'')
     else
     io_bind (io_lift (db_for_tenant (opt_or (ci_tenant_id caller) ''platform'') caller (ci_app_id caller))) (\<lambda>db.
     io_bind (td_now deps) (\<lambda>now.
     let invocation_mode = py_lower (text_field body ''invocationMode'' ''sync'') in
     if invocation_mode \<notin> set supported_invocation_modes
     then io_raise (ValueError ''invocationMode must be one of: streaming, sync'')
     else
     io_bind (io_lift (complete_agent_item body
         (base_agent_item body name version initial_status invocation_mode (iso_utc now)))) (\<lambda>item.
     io_bind (ts_put_item (td_aws deps) db (agents_table_name env) item None []) (\<lambda>_.
     io_return (response 201 [(''agentName'', PStr name), (''version'', PStr version),
                              (''status'', dget item ''status'')]))))))))))"

section \<open>The life cycle\<close>

definition agent_event_detail_type :: "agent_status \<Rightarrow> string option" where
  "agent_event_detail_type s =
     (case s of PROMOTED \<Rightarrow> Some ''platform.agent_version.promoted''
      | ROLLED_BACK \<Rightarrow> Some ''platform.agent_version.rolled_back'' | _ \<Rightarrow> None)"

definition agent_release_operation :: "agent_status \<Rightarrow> string option" where
  "agent_release_operation s =
     (case s of PROMOTED \<Rightarrow> Some ''promotion'' | ROLLED_BACK \<Rightarrow> Some ''rollback'' | _ \<Rightarrow> None)"

definition platform_audit_envelope ::
  "caller_identity \<Rightarrow> string \<Rightarrow> string \<Rightarrow> string option \<Rightarrow> string \<Rightarrow> pydict" where
  "platform_audit_envelope caller operation_type outcome target occurred_at =
     [(''schemaVersion'', PInt 1), (''occurredAt'', PStr occurred_at), (''actorTenantId'', PStr platform_tenant),
      (''actorAppId'', opt_pstr (ci_app_id caller)), (''actorSub'', opt_pstr (ci_sub caller)),
      (''operationType'', PStr operation_type), (''outcome'', PStr outcome)]
     @ (case target of None \<Rightarrow> [] | Some t \<Rightarrow> [(''targetTenantId'', PStr t)])"

definition build_agent_release_event ::
  "caller_identity \<Rightarrow> string \<Rightarrow> string \<Rightarrow> agent_status \<Rightarrow> agent_status \<Rightarrow> string \<Rightarrow> pydict \<Rightarrow> pydict" where
  "build_agent_release_event caller name version previous_status new_status occurred_at evidence =
     dupdate
       (platform_audit_envelope caller
          (case agent_release_operation new_status of None \<Rightarrow> ''agent_release'' | Some o' \<Rightarrow> o')
          ''succeeded'' (Some platform_tenant) occurred_at)
       ([(''operation'', opt_pstr (agent_release_operation new_status)),
         (''releaseId'', PStr (name @ '':'' @ version)),
         (''agentRecordPk'', PStr (agent_pk name)), (''agentRecordSk'', PStr (version_sk version)),
         (''agentName'', PStr name), (''version'', PStr version),
         (''previousStatus'', PStr (agent_status_value previous_status)),
         (''status'', PStr (agent_status_value new_status))]
        @ evidence
        @ [(''targetResourceType'', PStr ''agentVersion''),
           (''targetResourceId'', PStr (name @ '':'' @ version))])"

text \<open>The optional evidence a caller sends with a new status.\<close>

record release_evidence =
  re_release_notes :: "string option"
  re_evaluation_score :: pyval
  re_evaluation_report_url :: "string option"

definition no_evidence :: release_evidence where
  "no_evidence = \<lparr>re_release_notes = None, re_evaluation_score = PNone, re_evaluation_report_url = None\<rparr>"

definition status_updates ::
  "caller_identity \<Rightarrow> pydict \<Rightarrow> agent_status \<Rightarrow> string \<Rightarrow> release_evidence \<Rightarrow> pydict res" where
  "status_updates caller existing target now_iso ev =
     (let updates = [(''status'', PStr (agent_status_value target)), (''updatedAt'', PStr now_iso)] in
      case target of
        APPROVED \<Rightarrow> Inr (updates @ [(''approved_at'', PStr now_iso), (''approved_by'', opt_pstr (ci_sub caller))]
          @ (case re_release_notes ev of None \<Rightarrow> [] | Some n \<Rightarrow> [(''release_notes'', PStr n)]))
      | PROMOTED \<Rightarrow>
          if \<not> truthy (dget existing ''approved_by'') \<or> \<not> truthy (dget existing ''approved_at'')
          then Inl (ValueError ''Promotion requires existing approval evidence'')
          else bind_res (if re_evaluation_score ev = PNone then Inr []
                         else bind_res (py_float (re_evaluation_score ev)) (\<lambda>f. Inr [(''evaluation_score'', PFloat f)]))
            (\<lambda>score. Inr (updates @ score
               @ (case re_evaluation_report_url ev of None \<Rightarrow> [] | Some u \<Rightarrow> [(''evaluation_report_url'', PStr u)])))
      | ROLLED_BACK \<Rightarrow> Inr (updates @ [(''rolled_back_at'', PStr now_iso), (''rolled_back_by'', opt_pstr (ci_sub caller))])
      | _ \<Rightarrow> Inr updates)"

definition release_event_evidence :: "pydict \<Rightarrow> pydict \<Rightarrow> release_evidence \<Rightarrow> pydict" where
  "release_event_evidence existing updates ev =
     (let either = (\<lambda>k. opt_pstr (coerce_optional_string (py_or (dget updates k) (dget existing k)))) in
      [(''approvedBy'', either ''approved_by''), (''approvedAt'', either ''approved_at''),
       (''releaseNotes'', (case re_release_notes ev of
            Some n \<Rightarrow> if n \<noteq> [] then PStr n else opt_pstr (coerce_optional_string (dget existing ''release_notes''))
          | None \<Rightarrow> opt_pstr (coerce_optional_string (dget existing ''release_notes'')))),
       (''evaluationScore'', dget_or updates ''evaluation_score'' (dget existing ''evaluation_score'')),
       (''evaluationReportUrl'', either ''evaluation_report_url''),
       (''rolledBackBy'', dget updates ''rolled_back_by''), (''rolledBackAt'', dget updates ''rolled_back_at'')])"

definition update_agent_status ::
  "'w tenant_deps \<Rightarrow> environ \<Rightarrow> string \<Rightarrow> string \<Rightarrow> agent_status \<Rightarrow> release_evidence \<Rightarrow> caller_identity \<Rightarrow> ('w, pydict) io" where
  "update_agent_status deps env name version target ev caller =
     io_bind (io_lift (require_admin caller)) (\<lambda>_.
     io_bind (io_lift (require_platform_actor caller)) (\<lambda>_.
     io_bind (io_lift (db_for_tenant (opt_or (ci_tenant_id caller) ''platform'') caller (ci_app_id caller))) (\<lambda>db.
     io_bind (ts_get_item (td_aws deps) db (agents_table_name env) (agent_key name version) []) (\<lambda>found.
     case found of
       None \<Rightarrow> io_return (api_error 404 ''NOT_FOUND''
                 (''Agent version '' @ name @ '':'' @ version @ '' not found''))
     | Some existing \<Rightarrow>
         if existing = [] then io_return (api_error 404 ''NOT_FOUND''
                 (''Agent version '' @ name @ '':'' @ version @ '' not found''))
         else
           io_bind (io_lift (normalize_agent_status (status_arg_of (dget existing ''status'')) None)) (\<lambda>current_status.
           io_bind (io_lift (validate_agent_status_transition current_status target)) (\<lambda>_.
           io_bind (td_now deps) (\<lambda>now.
           io_bind (io_lift (status_updates caller existing target (iso_utc now) ev)) (\<lambda>updates.
           io_bind (update_fields deps db (agents_table_name env) (agent_key name version) updates) (\<lambda>_.
           io_bind (case agent_event_detail_type target of
                      None \<Rightarrow> io_return PNone
                    | Some detail_type \<Rightarrow>
                        put_event deps env detail_type
                          (build_agent_release_event caller name version current_status target (iso_utc now)
                             (release_event_evidence existing updates ev))) (\<lambda>_.
           io_return (response 200 [(''agentName'', PStr name), (''version'', PStr version),
                                    (''status'', PStr (agent_status_value target))])))))))))))"

definition handle_promote_agent where
  "handle_promote_agent deps env name version =
     update_agent_status deps env name version PROMOTED no_evidence"

definition handle_rollback_agent where
  "handle_rollback_agent deps env name version =
     update_agent_status deps env name version ROLLED_BACK no_evidence"

definition handle_patch_agent_version ::
  "'w tenant_deps \<Rightarrow> environ \<Rightarrow> pydict \<Rightarrow> string \<Rightarrow> string \<Rightarrow> caller_identity \<Rightarrow> ('w, pydict) io" where
  "handle_patch_agent_version deps env event name version caller =
     io_bind (io_lift (require_admin caller)) (\<lambda>_.
     io_bind (io_lift (require_platform_actor caller)) (\<lambda>_.
     io_bind (io_lift (require_json_body event)) (\<lambda>body.
     io_bind (io_lift (normalize_agent_status_val (dget body ''status''))) (\<lambda>target_status.
     if dict_get body ''agUi'' \<noteq> None
     then io_raise (ValueError ''agUi is immutable once an agent version is registered'')
     else update_agent_status deps env name version target_status
            \<lparr>re_release_notes = coerce_optional_string (dget body ''releaseNotes''),
             re_evaluation_score = dget body ''evaluationScore'',
             re_evaluation_report_url = coerce_optional_string (dget body ''evaluationReportUrl'')\<rparr> caller))))"

section \<open>Listing and routes\<close>

definition require_platform_agent_list_access :: "caller_identity \<Rightarrow> unit res" where
  "require_platform_agent_list_access caller =
     (if \<not> has_role_of [''Platform.Admin'', ''Platform.Operator''] caller
      then Inl (PermissionErr ''Platform.Admin or Platform.Operator role required'')
      else require_platform_actor caller)"

text \<open>The listing loops over pages; \<open>scan_all\<close> that never ends is \<open>None\<close>.\<close>

definition handle_list_agents :: "'w tenant_deps \<Rightarrow> environ \<Rightarrow> caller_identity \<Rightarrow> 'w \<Rightarrow> (pydict res \<times> 'w) option" where
  "handle_list_agents deps env caller w =
     (case require_platform_agent_list_access caller of
        Inl e \<Rightarrow> Some (Inl e, w)
      | Inr _ \<Rightarrow>
          map_option (\<lambda>(r, w'). (bind_res r (\<lambda>items. Inr (response 200 [(''items'', PList (map PDict items))])), w'))
            (cp_scan_all (td_aws deps) (agents_table_name env) None None None w))"

datatype agent_route =
    ListAgents | RegisterAgent
  | PromoteAgent string string | PatchAgent string string | RollbackAgent string string

text \<open>A last segment before \<open>$\<close>, which also matches before a final line feed.\<close>

definition last_segment :: "string \<Rightarrow> string \<Rightarrow> bool" where
  "last_segment s k \<longleftrightarrow> s = k \<or> s = k @ [CHR 0x0A]"

definition agent_route_of :: "string \<Rightarrow> string \<Rightarrow> agent_route option" where
  "agent_route_of path meth =
     (if path = ''/v1/platform/agents'' \<and> meth = ''GET'' then Some ListAgents
      else if path = ''/v1/platform/agents'' \<and> meth = ''POST'' then Some RegisterAgent
      else
        (case split_on (CHR ''/'') path of
           [r, v, p, a, name, vs, version, act] \<Rightarrow>
             if r = [] \<and> v = ''v1'' \<and> p = ''platform'' \<and> a = ''agents'' \<and> name \<noteq> [] \<and> vs = ''versions'' \<and> version \<noteq> []
                \<and> meth = ''POST''
             then (if last_segment act ''promote'' then Some (PromoteAgent name version)
                   else if last_segment act ''rollback'' then Some (RollbackAgent name version) else None)
             else None
         | [r, v, p, a, name, vs, version] \<Rightarrow>
             if r = [] \<and> v = ''v1'' \<and> p = ''platform'' \<and> a = ''agents'' \<and> name \<noteq> [] \<and> vs = ''versions'' \<and> version \<noteq> []
                \<and> meth = ''PATCH''
             then Some (PatchAgent name version) else None
         | _ \<Rightarrow> None))"

text \<open>\<open>dispatch_routes\<close> on the routes that change a version; \<open>None\<close> is a path that is none of them.\<close>

definition agent_write_route ::
  "'w tenant_deps \<Rightarrow> environ \<Rightarrow> string \<Rightarrow> string \<Rightarrow> pydict \<Rightarrow> (caller_identity \<Rightarrow> ('w, pydict) io) option" where
  "agent_write_route deps env path meth event =
     (case agent_route_of path meth of
        Some RegisterAgent \<Rightarrow> Some (handle_register_agent deps env event)
      | Some (PromoteAgent n v) \<Rightarrow> Some (handle_promote_agent deps env n v)
      | Some (RollbackAgent n v) \<Rightarrow> Some (handle_rollback_agent deps env n v)
      | Some (PatchAgent n v) \<Rightarrow> Some (handle_patch_agent_version deps env event n v)
      | _ \<Rightarrow> None)"

section \<open>What a route does to the tables\<close>

lemma io_bind_iff:
  "io_bind m f w = (r, w') \<longleftrightarrow>
     (\<exists>e. m w = (Inl e, w') \<and> r = Inl e) \<or> (\<exists>x w1. m w = (Inr x, w1) \<and> f x w1 = (r, w'))"
  by (auto simp: io_bind_def split: prod.splits sum.splits)

lemma copy_text_get: "k \<noteq> key \<Longrightarrow> dget (copy_text b n key it) k = dget it k"
  by (simp add: copy_text_def dget_or_def split: option.split)

lemma dget_dset_ne: "k \<noteq> key \<Longrightarrow> dget (dset key v it) k = dget it k"
  by (simp add: dget_or_def)

definition registration_keys :: "string list" where
  "registration_keys = [''display_name'', ''model_id'', ''estimated_duration_seconds'', ''runtime_arn'',
     ''runtime_endpoint_arn'', ''runtime_endpoint_name'', ''runtime_endpoint_version'', ''ag_ui'', ''ag_ui_enabled'',
     ''ag_ui_transport'', ''ag_ui_endpoint'']"

lemma complete_agent_item_get:
  assumes "complete_agent_item body item0 = Inr item" and "k \<notin> set registration_keys"
  shows "dget item k = dget item0 k"
proof -
  obtain a b c where ui: "ag_ui_of_body body = (a, b, c)" by (metis surj_pair)
  show ?thesis using assms
    by (auto simp: complete_agent_item_def Let_def registration_keys_def bind_res_eq_Inr copy_text_get dget_dset_ne ui
        split: option.splits)
qed

lemma base_agent_item_get:
  "dget (base_agent_item body n v s m i) ''PK'' = PStr (agent_pk n)"
  "dget (base_agent_item body n v s m i) ''SK'' = PStr (version_sk v)"
  "dget (base_agent_item body n v s m i) ''status'' = PStr (agent_status_value s)"
  "dget (base_agent_item body n v s m i) ''approved_by'' = PNone"
  "dget (base_agent_item body n v s m i) ''approved_at'' = PNone"
  by (simp_all add: base_agent_item_def agent_key_def row_key_def dget_or_def)

text \<open>A new version as registration leaves it: built, with no approval.\<close>

definition fresh_version :: "string \<Rightarrow> string \<Rightarrow> pydict \<Rightarrow> bool" where
  "fresh_version n v item \<longleftrightarrow>
     dget item ''PK'' = PStr (agent_pk n) \<and> dget item ''SK'' = PStr (version_sk v)
   \<and> dget item ''status'' = PStr ''built'' \<and> dget item ''approved_by'' = PNone \<and> dget item ''approved_at'' = PNone"

lemma own_agent_key [simp]: "own_key ctx (agent_pk n)"
  by (simp add: own_key_def tenant_pk_prefix_def agent_pk_def)

text \<open>How a registration ends: refused, with the tables as they were, or with one fresh version written.\<close>

definition registered :: "environ \<Rightarrow> rows \<Rightarrow> rows \<Rightarrow> pydict res \<Rightarrow> bool" where
  "registered env old new r \<longleftrightarrow>
     (\<exists>e. r = Inl e \<and> new = old)
   \<or> (\<exists>n v item. r = Inr (response 201 [(''agentName'', PStr n), (''version'', PStr v), (''status'', PStr ''built'')])
        \<and> fresh_version n v item
        \<and> new = set_row old (agents_table_name env) (agent_pk n) (version_sk v) (Some item))"

lemma registered_err: "new = old \<Longrightarrow> registered env old new (Inl e)"
  by (simp add: registered_def)

lemma registered_put:
  assumes "dynamo_ok (td_aws deps) rows" and "complete_agent_item body (base_agent_item body n v s m i) = Inr item"
    and "\<not> s \<notin> set registerable_agent_statuses" and "rows w1 = old"
  shows "io_post (io_bind (ts_put_item (td_aws deps) db (agents_table_name env) item None [])
      (\<lambda>_. io_return (response 201 [(''agentName'', PStr n), (''version'', PStr v), (''status'', dget item ''status'')]))) w1
    (\<lambda>r w'. registered env old (rows w') r)"
proof -
  have fresh: "fresh_version n v item"
    using complete_agent_item_get[OF assms(2)] assms(3)
    by (simp add: fresh_version_def registration_keys_def base_agent_item_get registerable_agent_statuses_def)
  then have st: "dget item ''status'' = PStr ''built''" and key: "dget item ''PK'' = PStr (agent_pk n)" "dget item ''SK'' = PStr (version_sk v)"
    by (simp_all add: fresh_version_def)
  have "registered env old (rows w') (Inr (response 201
      [(''agentName'', PStr n), (''version'', PStr v), (''status'', dget item ''status'')]))"
    if "rows w' = set_row (rows w1) (agents_table_name env) (agent_pk n) (version_sk v) (Some item)" for w'
    unfolding registered_def st using fresh that assms(4) by (intro disjI2 exI conjI) (assumption | simp only:)+
  then show ?thesis
    by (intro client_put_post[OF assms(1) own_agent_key key] io_post_return) (simp_all add: registered_err assms(4))
qed

lemma register_effect:
  assumes "dynamo_ok (td_aws deps) rows" and "frame_ok deps rows"
  shows "io_post (handle_register_agent deps env event caller) w (\<lambda>r w'. registered env (rows w) (rows w') r)"
  unfolding handle_register_agent_def Let_def
  by (intro io_post_intros registered_put[OF assms(1)] io_post_bind registered_err refl)
    (assumption | erule frame_step(1)[OF assms(2)])+

lemma map_of_rev_distinct: "distinct (map fst u) \<Longrightarrow> map_of (rev u) k = map_of u k"
  using map_of_inject_set[of "rev u" u] by (simp add: distinct_rev flip: rev_map)

lemma dget_dupdate_distinct:
  "distinct (map fst u) \<Longrightarrow> dget (dupdate d u) k = (case map_of u k of Some v \<Rightarrow> v | None \<Rightarrow> dget d k)"
  by (simp add: dget_or_def map_of_dupdate map_of_rev_distinct split: option.split)

lemma status_updates_get:
  assumes "status_updates caller ex target now ev = Inr upd"
  shows "upd \<noteq> [] \<and> distinct (map fst upd) \<and> dget (dupdate ex upd) ''status'' = PStr (agent_status_value target)
    \<and> (target \<noteq> APPROVED \<longrightarrow> dget (dupdate ex upd) ''approved_by'' = dget ex ''approved_by''
         \<and> dget (dupdate ex upd) ''approved_at'' = dget ex ''approved_at'')
    \<and> (target = PROMOTED \<longrightarrow> truthy (dget ex ''approved_by'') \<and> truthy (dget ex ''approved_at''))"
proof -
  have d: "distinct (map fst upd)"
    using assms by (cases target) (auto simp: status_updates_def Let_def bind_res_eq_Inr split: if_splits option.splits)
  have "upd \<noteq> [] \<and> map_of upd ''status'' = Some (PStr (agent_status_value target))
    \<and> (target \<noteq> APPROVED \<longrightarrow> map_of upd ''approved_by'' = None \<and> map_of upd ''approved_at'' = None)
    \<and> (target = PROMOTED \<longrightarrow> truthy (dget ex ''approved_by'') \<and> truthy (dget ex ''approved_at''))"
    using assms by (cases target) (auto simp: status_updates_def Let_def bind_res_eq_Inr split: if_splits option.splits)
  with d show ?thesis by (simp add: dget_dupdate_distinct del: map_of_eq_Some_iff)
qed

text \<open>How a change of status ends: the tables as they were, or one existing version moved along an allowed transition.\<close>

definition moved :: "environ \<Rightarrow> string \<Rightarrow> string \<Rightarrow> agent_status \<Rightarrow> rows \<Rightarrow> rows \<Rightarrow> bool" where
  "moved env n v target old new \<longleftrightarrow>
     new = old
   \<or> (\<exists>ex cur upd caller now ev.
        old (agents_table_name env) (agent_pk n) (version_sk v) = Some ex
      \<and> normalize_agent_status (status_arg_of (dget ex ''status'')) None = Inr cur
      \<and> validate_agent_status_transition cur target = Inr ()
      \<and> status_updates caller ex target now ev = Inr upd
      \<and> new = set_row old (agents_table_name env) (agent_pk n) (version_sk v) (Some (dupdate ex upd)))"

lemma update_effect:
  assumes "dynamo_ok (td_aws deps) rows" and "frame_ok deps rows"
  shows "io_post (update_agent_status deps env n v target ev caller) w (\<lambda>r w'. moved env n v target (rows w) (rows w'))"
proof -
  have same: "\<And>r w'. rows w' = rows w \<Longrightarrow> moved env n v target (rows w) (rows w')" by (simp add: moved_def)
  have moved_by: "moved env n v target (rows w) (rows w3)"
    if "rows w (agents_table_name env) (agent_pk n) (version_sk v) = Some ex"
      and "normalize_agent_status (status_arg_of (dget ex ''status'')) None = Inr cur"
      and "validate_agent_status_transition cur target = Inr u"
      and "status_updates caller ex target now ev = Inr upd" and "rows w1 = rows w"
      and "rows w2 = set_row (rows w1) (agents_table_name env) (agent_pk n) (version_sk v)
        (Some (dupdate (old_row (rows w1) (agents_table_name env) (agent_pk n) (version_sk v)) upd))"
      and "rows w3 = rows w2" for ex cur u now upd w1 w2 w3
    unfolding moved_def using that by (intro disjI2 exI conjI) (auto simp: old_row_def)
  have event: "rows w2 = rows w1"
    if "(case d of None \<Rightarrow> io_return PNone | Some d \<Rightarrow> put_event deps env d (x d)) w1 = (q, w2)" for d x w1 w2 q
    using that frame_step(3)[OF assms(2)] by (auto split: option.splits)
  have filled: "upd \<noteq> []" if "status_updates caller ex target now ev = Inr upd" for ex now upd
    using status_updates_get[OF that] by blast
  show ?thesis
    unfolding update_agent_status_def agent_key_def
    by (intro io_post_intros client_get_post[OF assms(1) own_agent_key]
        client_update_post[OF assms(1) own_agent_key] io_post_bind)
      ((erule filled | (rule moved_by, assumption, assumption, assumption, assumption,
          erule frame_step(1)[OF assms(2)], assumption, erule event)
        | (rule same, (rule refl | erule frame_step(1)[OF assms(2)])))+)
qed

section \<open>The life cycle as a state machine\<close>

text \<open>
  The abstract machine of one version: absent or in a status. It can be registered (again), move along an allowed transition,
  or stay.
\<close>

inductive life_step :: "agent_status option \<Rightarrow> agent_status option \<Rightarrow> bool" where
  register: "life_step s (Some BUILT)"
| advance: "t \<in> set (agent_status_transitions s) \<Longrightarrow> life_step (Some s) (Some t)"
| stay: "life_step s s"

inductive_simps life_step_from: "life_step (Some s) (Some t)"
inductive_cases life_step_promoted: "life_step s (Some PROMOTED)"

lemma transitions_to_promoted: "PROMOTED \<in> set (agent_status_transitions s) \<longleftrightarrow> s = APPROVED"
  by (cases s) simp_all

lemma promoted_only_from_approved: "life_step s (Some PROMOTED) \<Longrightarrow> s = Some APPROVED \<or> s = Some PROMOTED"
  by (erule life_step_promoted) (auto simp: transitions_to_promoted)

definition version_status :: "environ \<Rightarrow> rows \<Rightarrow> string \<Rightarrow> string \<Rightarrow> agent_status option" where
  "version_status env r n v =
     (case r (agents_table_name env) (agent_pk n) (version_sk v) of
        None \<Rightarrow> None
      | Some item \<Rightarrow> (case normalize_agent_status (status_arg_of (dget item ''status'')) None of
                        Inl e \<Rightarrow> None | Inr s \<Rightarrow> Some s))"

lemma status_arg_value [simp]: "status_arg_of (PStr s) = StatusText s"
  by (simp add: status_arg_of_def)

lemma agent_keys_inject [simp]: "agent_pk n = agent_pk m \<longleftrightarrow> n = m" "version_sk v = version_sk u \<longleftrightarrow> v = u"
  by (simp_all add: agent_pk_def version_sk_def)

lemma normalize_built: "normalize_agent_status (StatusText ''built'') d = Inr BUILT"
  using normalize_agent_status_value[of BUILT d] by simp

lemma version_status_set [simp]:
  "dget item ''status'' = PStr (agent_status_value s) \<Longrightarrow>
     version_status env (set_row r (agents_table_name env) (agent_pk n') (version_sk v') (Some item)) n v
       = (if n = n' \<and> v = v' then Some s else version_status env r n v)"
  by (simp add: version_status_def)

lemma version_status_Some:
  "r (agents_table_name env) (agent_pk n) (version_sk v) = Some item \<Longrightarrow>
     normalize_agent_status (status_arg_of (dget item ''status'')) None = Inr s \<Longrightarrow> version_status env r n v = Some s"
  by (simp add: version_status_def)

text \<open>One request of any caller on any write route of the registry, whatever it answers.\<close>

inductive registry_step :: "'w tenant_deps \<Rightarrow> environ \<Rightarrow> 'w \<Rightarrow> 'w \<Rightarrow> bool" for deps env where
  request: "agent_write_route deps env path meth event = Some run \<Longrightarrow> run caller w = (r, w') \<Longrightarrow>
     registry_step deps env w w'"

inductive_cases registry_stepE: "registry_step deps env w w'"

lemma registry_step_cases:
  assumes "registry_step deps env w w'"
    and ok: "dynamo_ok (td_aws deps) rows" "frame_ok deps rows"
  shows "(\<exists>r. registered env (rows w) (rows w') r) \<or> (\<exists>n v target. moved env n v target (rows w) (rows w'))"
  using assms(1)
proof (rule registry_stepE)
  fix path meth event run caller r
  assume route: "agent_write_route deps env path meth event = Some run" and run: "run caller w = (r, w')"
  note moves = io_postD[OF update_effect[OF ok]]
  have patch: "io_post (handle_patch_agent_version deps env event n v caller) w
      (\<lambda>r w'. \<exists>target. moved env n v target (rows w) (rows w'))" for n v
    unfolding handle_patch_agent_version_def
    by (intro io_post_intros io_post_weaken[OF update_effect[OF ok]]) ((rule exI, assumption) | simp add: moved_def)+
  note patched = io_postD[OF patch] and fresh = io_postD[OF register_effect[OF ok]]
  from route run show ?thesis
    by (auto simp: agent_write_route_def handle_promote_agent_def handle_rollback_agent_def
        split: option.splits agent_route.splits dest!: moves patched fresh)
qed

text \<open>
  Property C16. Refinement: whoever calls the registry, with whatever request and whatever the services answer, each stored version
  makes a step of the abstract life cycle. A status is never skipped; the only way back is to register the version again.
\<close>

theorem registry_refines_life_cycle:
  assumes "dynamo_ok (td_aws deps) rows" and "frame_ok deps rows" and "registry_step deps env w w'"
  shows "life_step (version_status env (rows w) n v) (version_status env (rows w') n v)"
  using registry_step_cases[OF assms(3,1,2)]
proof (elim disjE exE)
  fix r assume "registered env (rows w) (rows w') r"
  then consider "rows w' = rows w" | n' v' item where "dget item ''status'' = PStr (agent_status_value BUILT)"
      "rows w' = set_row (rows w) (agents_table_name env) (agent_pk n') (version_sk v') (Some item)"
    by (auto simp: registered_def fresh_version_def)
  then show ?thesis
  proof cases
    case (2 n' v' item)
    then show ?thesis unfolding 2(2) version_status_set[OF 2(1)] by (auto intro: life_step.intros)
  qed (auto intro: life_step.intros)
next
  fix n' v' target assume m: "moved env n' v' target (rows w) (rows w')"
  show ?thesis
  proof (cases "rows w' = rows w")
    case False
    with m obtain ex cur upd caller now ev where
      old: "rows w (agents_table_name env) (agent_pk n') (version_sk v') = Some ex"
      and cur: "normalize_agent_status (status_arg_of (dget ex ''status'')) None = Inr cur"
      and step: "validate_agent_status_transition cur target = Inr ()"
      and upd: "status_updates caller ex target now ev = Inr upd"
      and new: "rows w' = set_row (rows w) (agents_table_name env) (agent_pk n') (version_sk v') (Some (dupdate ex upd))"
      by (auto simp: moved_def)
    have st: "dget (dupdate ex upd) ''status'' = PStr (agent_status_value target)"
      using status_updates_get[OF upd] by blast
    have "life_step (Some cur) (Some target)" using step by (auto simp: transition_ok_iff intro: life_step.intros)
    with version_status_Some[of "rows w", OF old cur] st show ?thesis by (auto simp: new intro: life_step.stay)
  qed (simp add: life_step.stay)
qed

text \<open>A version is well formed when its status is one, and a released one carries its approval.\<close>

definition release_ok :: "pydict \<Rightarrow> bool" where
  "release_ok item \<longleftrightarrow>
     (\<exists>s. dget item ''status'' = PStr (agent_status_value s)
        \<and> (s = PROMOTED \<or> s = ROLLED_BACK \<longrightarrow> truthy (dget item ''approved_by'') \<and> truthy (dget item ''approved_at'')))"

definition registry_ok :: "environ \<Rightarrow> rows \<Rightarrow> bool" where
  "registry_ok env r \<longleftrightarrow> (\<forall>n v item. r (agents_table_name env) (agent_pk n) (version_sk v) = Some item \<longrightarrow> release_ok item)"

lemma fresh_release_ok: "fresh_version n v item \<Longrightarrow> release_ok item"
  unfolding fresh_version_def release_ok_def by (intro exI[of _ BUILT]) simp

lemma moved_release_ok:
  assumes "release_ok ex" and "normalize_agent_status (status_arg_of (dget ex ''status'')) None = Inr cur"
    and "validate_agent_status_transition cur target = Inr ()" and upd: "status_updates caller ex target now ev = Inr upd"
  shows "release_ok (dupdate ex upd)"
proof -
  obtain s where s: "dget ex ''status'' = PStr (agent_status_value s)"
    "s = PROMOTED \<or> s = ROLLED_BACK \<longrightarrow> truthy (dget ex ''approved_by'') \<and> truthy (dget ex ''approved_at'')"
    using assms(1) by (auto simp: release_ok_def)
  then have "cur = s" using assms(2) by simp
  with assms(3) have "target = s \<or> target \<in> set (agent_status_transitions s)" by (auto simp: transition_ok_iff)
  moreover have "ROLLED_BACK \<in> set (agent_status_transitions s) \<Longrightarrow> s = PROMOTED" by (cases s) auto
  ultimately have "target = ROLLED_BACK \<longrightarrow> truthy (dget ex ''approved_by'') \<and> truthy (dget ex ''approved_at'')"
    using s(2) by auto
  then show ?thesis
    unfolding release_ok_def using status_updates_get[OF upd] by (intro exI[of _ target]) auto
qed

lemma registry_step_ok:
  assumes "registry_step deps env w w'" and "dynamo_ok (td_aws deps) rows" "frame_ok deps rows" and "registry_ok env (rows w)"
  shows "registry_ok env (rows w')"
  using registry_step_cases[OF assms(1-3)]
proof (elim disjE exE)
  fix r assume "registered env (rows w) (rows w') r"
  with assms(4) show ?thesis by (auto simp: registered_def registry_ok_def intro: fresh_release_ok split: if_splits)
next
  fix n v target assume "moved env n v target (rows w) (rows w')"
  with assms(4) show ?thesis
    unfolding moved_def registry_ok_def using moved_release_ok by (fastforce split: if_splits)
qed

text \<open>
  Property C17. Nothing is released without approval: after any series of requests, by any callers, every promoted or rolled-back version in
  the registry names who approved it and when, provided the registry was so before.
\<close>

theorem released_versions_are_approved:
  assumes "(registry_step deps env)\<^sup>*\<^sup>* w w'"
    and "dynamo_ok (td_aws deps) rows" and "frame_ok deps rows" and "registry_ok env (rows w)"
  shows "registry_ok env (rows w')"
  using assms(1,4) by (induction rule: rtranclp_induct) (auto intro: registry_step_ok[OF _ assms(2,3)])

text \<open>
  A registration that succeeds overwrites whatever the version was: a promoted version is built again, without its approval,
  though no transition leads there.
\<close>

theorem registration_resets_version:
  assumes "dynamo_ok (td_aws deps) rows" and "frame_ok deps rows"
    and "handle_register_agent deps env event caller w = (Inr answer, w')"
  shows "\<exists>n v item. answer = response 201 [(''agentName'', PStr n), (''version'', PStr v), (''status'', PStr ''built'')]
    \<and> rows w' (agents_table_name env) (agent_pk n) (version_sk v) = Some item
    \<and> version_status env (rows w') n v = Some BUILT \<and> dget item ''approved_by'' = PNone"
proof -
  obtain n v item where a: "answer = response 201 [(''agentName'', PStr n), (''version'', PStr v), (''status'', PStr ''built'')]"
    and fresh: "fresh_version n v item"
    and new: "rows w' = set_row (rows w) (agents_table_name env) (agent_pk n) (version_sk v) (Some item)"
    using io_postD[OF register_effect[OF assms(1,2)] assms(3)] by (auto simp: registered_def)
  show ?thesis
    using fresh version_status_set[of item BUILT env "rows w" n v n v]
    by (intro exI[of _ n] exI[of _ v] exI[of _ item] conjI a) (simp_all add: new fresh_version_def)
qed

section \<open>Progress\<close>

text \<open>Services that answer: the clock and the event bus do not fail.\<close>

definition services_answer :: "'w tenant_deps \<Rightarrow> bool" where
  "services_answer deps \<longleftrightarrow>
     (\<forall>w. \<exists>t w'. td_now deps w = (Inr t, w')) \<and> (\<forall>e w. \<exists>a w'. td_put_events deps e w = (Inr a, w'))"

definition stands_at :: "environ \<Rightarrow> rows \<Rightarrow> string \<Rightarrow> string \<Rightarrow> agent_status \<Rightarrow> bool" where
  "stands_at env r n v s \<longleftrightarrow>
     (\<exists>item. r (agents_table_name env) (agent_pk n) (version_sk v) = Some item
        \<and> dget item ''status'' = PStr (agent_status_value s)
        \<and> (s = APPROVED \<longrightarrow> truthy (dget item ''approved_by'') \<and> truthy (dget item ''approved_at'')))"

lemma iso_utc_truthy: "truthy (PStr (iso_utc t))"
  by (simp add: iso_utc_def Let_def)

lemma status_updates_advance:
  assumes "dget ex ''status'' = PStr (agent_status_value s)" and "t \<in> set (agent_status_transitions s)"
    and "s = APPROVED \<longrightarrow> truthy (dget ex ''approved_by'') \<and> truthy (dget ex ''approved_at'')"
    and "ci_sub caller = Some sub" and "sub \<noteq> []"
  shows "\<exists>upd. status_updates caller ex t (iso_utc now) no_evidence = Inr upd
    \<and> (t = APPROVED \<longrightarrow> truthy (dget (dupdate ex upd) ''approved_by'') \<and> truthy (dget (dupdate ex upd) ''approved_at''))"
proof (cases t)
  case PROMOTED
  then have "s = APPROVED" using assms(2) by (simp add: transitions_to_promoted)
  with assms(3) PROMOTED show ?thesis by (simp add: status_updates_def Let_def no_evidence_def)
next
  case APPROVED
  then show ?thesis
    using assms(4,5) iso_utc_truthy[of now]
    by (simp add: status_updates_def Let_def no_evidence_def dget_dupdate_distinct opt_pstr_def dget_or_def)
qed (simp_all add: status_updates_def Let_def no_evidence_def)

lemma plain_updates_storable:
  "status_updates caller ex t now no_evidence = Inr upd \<Longrightarrow> list_all (\<lambda>(k, v). update_value_ok v) upd"
  by (auto simp: status_updates_def Let_def no_evidence_def opt_pstr_def split: agent_status.splits if_splits option.splits)

lemma update_progress:
  assumes ok: "dynamo_ok (td_aws deps) rows" "frame_ok deps rows" and up: "services_answer deps"
    and who: "is_admin caller" "is_platform_actor caller" "ci_sub caller = Some sub" "sub \<noteq> []"
    and at: "stands_at env (rows w) n v s" and t: "t \<in> set (agent_status_transitions s)"
  shows "\<exists>w'. update_agent_status deps env n v t no_evidence caller w
        = (Inr (response 200 [(''agentName'', PStr n), (''version'', PStr v), (''status'', PStr (agent_status_value t))]), w')
      \<and> stands_at env (rows w') n v t"
proof -
  obtain ex where ex: "rows w (agents_table_name env) (agent_pk n) (version_sk v) = Some ex"
    and st: "dget ex ''status'' = PStr (agent_status_value s)"
    and ap: "s = APPROVED \<longrightarrow> truthy (dget ex ''approved_by'') \<and> truthy (dget ex ''approved_at'')"
    using at by (auto simp: stands_at_def)
  have "ex \<noteq> []" using st by (auto simp: dget_or_def)
  obtain db where db: "db_for_tenant (opt_or (ci_tenant_id caller) ''platform'') caller (ci_app_id caller) = Inr db"
    using who(2) by (simp add: db_for_tenant_cases)
  obtain now w1 where now: "td_now deps w = (Inr now, w1)" using up unfolding services_answer_def by blast
  then have r1: "rows w1 = rows w" by (rule frame_step(1)[OF ok(2)])
  obtain upd where upd: "status_updates caller ex t (iso_utc now) no_evidence = Inr upd"
    and approved: "t = APPROVED \<longrightarrow> truthy (dget (dupdate ex upd) ''approved_by'') \<and> truthy (dget (dupdate ex upd) ''approved_at'')"
    using status_updates_advance[OF st t ap who(3,4)] by blast
  have "upd \<noteq> []" using status_updates_get[OF upd] by blast
  from client_update[OF ok(1) own_agent_key this plain_updates_storable[OF upd], of db "agents_table_name env" n "version_sk v" w1]
  obtain attrs w2 where run: "update_fields deps db (agents_table_name env) (agent_key n v) upd w1 = (Inr attrs, w2)"
    and r2: "rows w2 = set_row (rows w) (agents_table_name env) (agent_pk n) (version_sk v) (Some (dupdate ex upd))"
    by (auto simp: agent_key_def old_row_def r1 ex)
  have valid: "validate_agent_status_transition s t = Inr ()"
    using t by (simp add: validate_agent_status_transition_def Let_def)
  let ?event = "case agent_event_detail_type t of None \<Rightarrow> io_return PNone
      | Some d \<Rightarrow> put_event deps env d
          (build_agent_release_event caller n v s t (iso_utc now) (release_event_evidence ex upd no_evidence))"
  have "\<exists>a w3. ?event w2 = (Inr a, w3) \<and> rows w3 = rows w2"
  proof (cases "agent_event_detail_type t")
    case (Some d)
    then obtain a w3 where "?event w2 = (Inr a, w3)"
      using up by (simp add: services_answer_def put_event_def) blast
    with Some frame_step(3)[OF ok(2)] show ?thesis by auto
  qed auto
  then obtain a w3 where event: "?event w2 = (Inr a, w3)" and r3: "rows w3 = rows w2" by blast
  have "update_agent_status deps env n v t no_evidence caller w
      = (Inr (response 200 [(''agentName'', PStr n), (''version'', PStr v), (''status'', PStr (agent_status_value t))]), w3)"
    using client_get[OF ok(1) own_agent_key, of db "agents_table_name env" n "version_sk v" w] event valid
    by (simp add: update_agent_status_def agent_key_def require_admin_def require_platform_actor_def who db ex \<open>ex \<noteq> []\<close>
        io_bind_run now upd run[unfolded agent_key_def] st)
  moreover have "stands_at env (rows w3) n v t"
    using status_updates_get[OF upd] approved by (simp add: stands_at_def r3 r2)
  ultimately show ?thesis by blast
qed

definition patch_event :: "agent_status \<Rightarrow> pydict" where
  "patch_event t = [(''body'', PStr (json_dumps (PDict [(''status'', PStr (agent_status_value t))])))]"

lemma patch_event_body: "require_json_body (patch_event t) = Inr [(''status'', PStr (agent_status_value t))]"
  by (cases t; simp only:; code_simp)

definition version_path :: "string \<Rightarrow> string \<Rightarrow> string" where
  "version_path n v = ''/v1/platform/agents/'' @ n @ ''/versions/'' @ v"

lemma version_path_route:
  assumes "n \<noteq> []" "v \<noteq> []" "CHR ''/'' \<notin> set n" "CHR ''/'' \<notin> set v"
  shows "agent_route_of (version_path n v) ''PATCH'' = Some (PatchAgent n v)"
proof -
  have p: "version_path n v = str_join ''/'' [[], ''v1'', ''platform'', ''agents'', n, ''versions'', v]"
    by (simp add: version_path_def)
  have "split_on (CHR ''/'') (version_path n v) = [[], ''v1'', ''platform'', ''agents'', n, ''versions'', v]"
    unfolding p by (rule split_on_join) (use assms in auto)
  then show ?thesis using assms(1,2) by (simp add: agent_route_of_def)
qed

lemma normalize_status_val_value: "normalize_agent_status_val (PStr (agent_status_value t)) = Inr t"
proof -
  have "py_strip (agent_status_value t) = agent_status_value t"
    by (rule py_strip_id) (cases t; simp add: py_space_def)
  then show ?thesis by (simp add: normalize_agent_status_val_def coerce_optional_string_def opt_pstr_def)
qed

lemma patch_is_update:
  assumes "is_admin caller" "is_platform_actor caller"
  shows "handle_patch_agent_version deps env (patch_event t) n v caller = update_agent_status deps env n v t no_evidence caller"
  using assms
  by (simp add: handle_patch_agent_version_def require_admin_def require_platform_actor_def patch_event_body dget_or_def
      normalize_status_val_value dict_get_def no_evidence_def fun_eq_iff)

lemma registry_advances:
  assumes "dynamo_ok (td_aws deps) rows" "frame_ok deps rows" "services_answer deps"
    and who: "is_admin caller" "is_platform_actor caller" "ci_sub caller = Some sub" "sub \<noteq> []"
    and names: "n \<noteq> []" "v \<noteq> []" "CHR ''/'' \<notin> set n" "CHR ''/'' \<notin> set v"
    and "stands_at env (rows w) n v s" and "t \<in> set (agent_status_transitions s)"
  shows "\<exists>w'. registry_step deps env w w' \<and> stands_at env (rows w') n v t"
proof -
  obtain r w' where run: "update_agent_status deps env n v t no_evidence caller w = (r, w')" and "stands_at env (rows w') n v t"
    using update_progress[OF assms(1-3) who assms(12,13)] by blast
  moreover have "agent_write_route deps env (version_path n v) ''PATCH'' (patch_event t)
      = Some (handle_patch_agent_version deps env (patch_event t) n v)"
    by (simp add: agent_write_route_def version_path_route[OF names])
  ultimately show ?thesis using patch_is_update[OF who(1,2), of deps env t n v] by (metis registry_step.request)
qed

text \<open>
  Property C18. A release is never stuck: as long as the services answer, an administrator of the platform can take a built version to
  promotion by requests alone, through every stage.
\<close>

theorem release_can_complete:
  assumes "dynamo_ok (td_aws deps) rows" and "frame_ok deps rows" and "services_answer deps"
    and "is_admin caller" and "is_platform_actor caller" and "ci_sub caller = Some sub" and "sub \<noteq> []"
    and "n \<noteq> []" and "v \<noteq> []" and "CHR ''/'' \<notin> set n" and "CHR ''/'' \<notin> set v"
    and "stands_at env (rows w) n v BUILT"
  shows "\<exists>w'. (registry_step deps env)\<^sup>*\<^sup>* w w' \<and> stands_at env (rows w') n v PROMOTED"
proof -
  note advance = registry_advances[OF assms(1-11)]
  obtain w1 where 1: "registry_step deps env w w1" "stands_at env (rows w1) n v DEPLOYED_STAGING"
    using advance[OF assms(12), of DEPLOYED_STAGING] by auto
  obtain w2 where 2: "registry_step deps env w1 w2" "stands_at env (rows w2) n v INTEGRATION_VERIFIED"
    using advance[OF 1(2), of INTEGRATION_VERIFIED] by auto
  obtain w3 where 3: "registry_step deps env w2 w3" "stands_at env (rows w3) n v EVALUATION_PASSED"
    using advance[OF 2(2), of EVALUATION_PASSED] by auto
  obtain w4 where 4: "registry_step deps env w3 w4" "stands_at env (rows w4) n v APPROVED"
    using advance[OF 3(2), of APPROVED] by auto
  obtain w5 where 5: "registry_step deps env w4 w5" "stands_at env (rows w5) n v PROMOTED"
    using advance[OF 4(2), of PROMOTED] by auto
  from 1(1) 2(1) 3(1) 4(1) 5 show ?thesis by (meson converse_rtranclp_into_rtranclp rtranclp.rtrancl_refl)
qed

section \<open>The contract of the guarded routes\<close>

definition operator_admin :: "caller_identity \<Rightarrow> bool" where
  "operator_admin caller \<longleftrightarrow> is_admin caller \<and> is_platform_actor caller"

lemma not_operator_admin:
  "\<not> operator_admin caller \<Longrightarrow> \<exists>m. io_bind (io_lift (require_admin caller)) (\<lambda>_. io_bind (io_lift (require_platform_actor caller)) f) w
     = (Inl (PermissionErr m), w)"
  by (auto simp: operator_admin_def require_admin_def require_platform_actor_def io_bind_run)

interpretation register_route: guarded_route "handle_register_agent deps env event" operator_admin
  by unfold_locales (simp add: handle_register_agent_def not_operator_admin)

interpretation status_route: guarded_route "update_agent_status deps env n v target ev" operator_admin
  by unfold_locales (simp add: update_agent_status_def not_operator_admin)

interpretation patch_route: guarded_route "handle_patch_agent_version deps env event n v" operator_admin
  by unfold_locales (simp add: handle_patch_agent_version_def not_operator_admin)

section \<open>A concrete registry\<close>

definition sample_row :: "agent_status \<Rightarrow> pydict" where
  "sample_row s = agent_key ''echo-agent'' ''1.0.0'' @
     [(''agent_name'', PStr ''echo-agent''), (''version'', PStr ''1.0.0''), (''status'', PStr (agent_status_value s)),
      (''approved_by'', PStr ''op-2''), (''approved_at'', PStr ''2026-03-01T00:00:00+00:00'')]"

definition sample_registry :: "agent_status \<Rightarrow> map_world" where
  "sample_registry s =
     (set_row no_rows ''platform-agents'' (agent_pk ''echo-agent'') (version_sk ''1.0.0'') (Some (sample_row s)), [])"

lemma sample_stands: "stands_at sample_env (fst (sample_registry s)) ''echo-agent'' ''1.0.0'' s"
  by (simp add: stands_at_def sample_registry_def set_row_def sample_row_def agents_table_name_def env_or_def sample_env_def
      agent_key_def row_key_def dget_or_def)

lemma sample_registry_ok: "registry_ok sample_env (fst (sample_registry s))"
  by (auto simp: registry_ok_def release_ok_def sample_registry_def set_row_def no_rows_def sample_row_def agent_key_def row_key_def
      dget_or_def split: if_splits)

lemma map_answers: "services_answer map_deps"
  by (simp add: services_answer_def map_deps_def)

lemma sample_advances:
  "t \<in> set (agent_status_transitions s) \<Longrightarrow>
     \<exists>w'. registry_step map_deps sample_env (sample_registry s) w' \<and> stands_at sample_env (fst w') ''echo-agent'' ''1.0.0'' t"
  by (rule registry_advances[where sub = "''op-1''" and caller = sample_operator])
    (simp_all add: map_dynamo_ok map_answers sample_stands)

theorem registry_refines_life_cycle_witness:
  "\<exists>w'. registry_step map_deps sample_env (sample_registry APPROVED) w'
     \<and> stands_at sample_env (fst w') ''echo-agent'' ''1.0.0'' PROMOTED
     \<and> life_step (version_status sample_env (fst (sample_registry APPROVED)) ''echo-agent'' ''1.0.0'')
         (version_status sample_env (fst w') ''echo-agent'' ''1.0.0'')"
proof -
  obtain w' where step: "registry_step map_deps sample_env (sample_registry APPROVED) w'"
    and at: "stands_at sample_env (fst w') ''echo-agent'' ''1.0.0'' PROMOTED"
    using sample_advances[of PROMOTED APPROVED] by auto
  from registry_refines_life_cycle[of map_deps fst sample_env, OF _ _ step] step at map_dynamo_ok show ?thesis
    by (intro exI[of _ w'] conjI) simp_all
qed

theorem released_versions_are_approved_witness:
  "\<exists>w'. (registry_step map_deps sample_env)\<^sup>*\<^sup>* (sample_registry APPROVED) w'
     \<and> stands_at sample_env (fst w') ''echo-agent'' ''1.0.0'' PROMOTED \<and> registry_ok sample_env (fst w')"
proof -
  obtain w' where step: "registry_step map_deps sample_env (sample_registry APPROVED) w'"
    and at: "stands_at sample_env (fst w') ''echo-agent'' ''1.0.0'' PROMOTED"
    using sample_advances[of PROMOTED APPROVED] by auto
  from released_versions_are_approved[of map_deps sample_env, OF r_into_rtranclp[of "registry_step map_deps sample_env", OF step], of fst]
    step at map_dynamo_ok sample_registry_ok[of APPROVED]
  show ?thesis by (intro exI[of _ w'] conjI r_into_rtranclp) simp_all
qed

theorem release_can_complete_witness:
  "\<exists>w'. (registry_step map_deps sample_env)\<^sup>*\<^sup>* (sample_registry BUILT) w'
     \<and> stands_at sample_env (fst w') ''echo-agent'' ''1.0.0'' PROMOTED"
  by (rule release_can_complete[where sub = "''op-1''" and caller = sample_operator])
    (simp_all add: map_dynamo_ok map_answers sample_stands)

definition sample_registration :: pydict where
  "sample_registration = [(''body'', PStr (json_dumps (PDict [(''agentName'', PStr ''echo-agent''), (''version'', PStr ''1.0.0'')])))]"

lemma sample_registers:
  "answer_of (handle_register_agent map_deps sample_env sample_registration sample_operator) (sample_registry PROMOTED)
     = Some (response 201 [(''agentName'', PStr ''echo-agent''), (''version'', PStr ''1.0.0''), (''status'', PStr ''built'')])"
  by code_simp

theorem registration_resets_version_witness:
  "\<exists>w'. handle_register_agent map_deps sample_env sample_registration sample_operator (sample_registry PROMOTED)
       = (Inr (response 201 [(''agentName'', PStr ''echo-agent''), (''version'', PStr ''1.0.0''), (''status'', PStr ''built'')]), w')
     \<and> (\<exists>n v. version_status sample_env (fst w') n v = Some BUILT)"
proof -
  from answer_of_Some[OF sample_registers] obtain w' where
    run: "handle_register_agent map_deps sample_env sample_registration sample_operator (sample_registry PROMOTED)
       = (Inr (response 201 [(''agentName'', PStr ''echo-agent''), (''version'', PStr ''1.0.0''), (''status'', PStr ''built'')]), w')" by blast
  from registration_resets_version[of map_deps fst, OF _ _ run] run map_dynamo_ok show ?thesis by auto
qed

text \<open>
  Property C21. Whoever is not an administrator of the platform gets a 403 on every route that writes the registry, and nothing happens:
  no row, no event.
\<close>

theorem registry_refuses_outsiders:
  assumes "agent_write_route deps env path meth event = Some run" and "\<not> (is_admin caller \<and> is_platform_actor caller)"
  shows "\<exists>m. api_boundary (run caller) w = (Inr (api_error 403 ''FORBIDDEN'' m), w)"
proof -
  from assms(2) have "\<not> operator_admin caller" by (simp add: operator_admin_def)
  note refused = register_route.forbidden[OF this] status_route.forbidden[OF this] patch_route.forbidden[OF this]
  from assms(1) refused show ?thesis
    by (auto simp: agent_write_route_def handle_promote_agent_def handle_rollback_agent_def split: option.splits agent_route.splits)
qed

theorem registry_refuses_outsiders_witness:
  "\<exists>m. api_boundary (handle_promote_agent map_deps sample_env ''echo-agent'' ''1.0.0'' (sample_operator\<lparr>ci_tenant_id := Some ''acme''\<rparr>))
      (sample_registry APPROVED) = (Inr (api_error 403 ''FORBIDDEN'' m), sample_registry APPROVED)"
proof (rule registry_refuses_outsiders)
  show "agent_write_route map_deps sample_env ''/v1/platform/agents/echo-agent/versions/1.0.0/promote'' ''POST'' []
      = Some (handle_promote_agent map_deps sample_env ''echo-agent'' ''1.0.0'')"
    by (simp add: agent_write_route_def agent_route_of_def last_segment_def)
  show "\<not> (is_admin (sample_operator\<lparr>ci_tenant_id := Some ''acme''\<rparr>) \<and> is_platform_actor (sample_operator\<lparr>ci_tenant_id := Some ''acme''\<rparr>))"
    by code_simp
qed

end
