(* ===== verification/OpsControl.thy ===== *)
theory OpsControl
  imports AgentRegistry
begin

text \<open>
  The operator routes (\<open>ops_control.py\<close>): failover, quota, billing status, health, account split and the rollback of a Lambda alias
  to the version published before the current one.
\<close>

section \<open>Reports\<close>

definition platform_control_response :: "int \<Rightarrow> pydict \<Rightarrow> caller_identity \<Rightarrow> string \<Rightarrow> string option \<Rightarrow> string option \<Rightarrow> string \<Rightarrow> pydict" where
  "platform_control_response status_code body caller operation_type target outcome now_iso =
     response status_code (dset ''audit'' (PDict (platform_audit_envelope caller operation_type
        (opt_or outcome (if status_code < 400 then ''succeeded'' else ''failed'')) target now_iso)) body)"

definition handle_platform_failover :: "pydict \<Rightarrow> caller_identity \<Rightarrow> pydict res" where
  "handle_platform_failover event caller =
     bind_res (require_admin caller) (\<lambda>_. bind_res (require_json_body event) (\<lambda>body.
       if coerce_optional_string (dget body ''targetRegion'') = None \<or> coerce_optional_string (dget body ''lockId'') = None
       then Inl (ValueError ''targetRegion and lockId are required'')
       else Inr (api_error 409 ''RUNTIME_FAILOVER_DISABLED'' ''Runtime regional failover is disabled for the v0.2 topology'')))"

definition runtime_region_param_name :: "environ \<Rightarrow> string" where
  "runtime_region_param_name env = env_or env ''RUNTIME_REGION_PARAM'' ''/platform/config/runtime-region''"

definition optional_ssm_parameter :: "'w tenant_deps \<Rightarrow> string \<Rightarrow> ('w, string option) io" where
  "optional_ssm_parameter deps name =
     io_try (td_ssm deps name) (\<lambda>r. case r of
         Inl e \<Rightarrow> if client_code e = Some ''ParameterNotFound'' then io_return None else io_raise e
       | Inr answer \<Rightarrow>
           io_lift (bind_res (need_dict (dget_or answer ''Parameter'' (PDict []))) (\<lambda>p. Inr (coerce_optional_string (dget p ''Value'')))))"

definition required_ssm_parameter :: "'w tenant_deps \<Rightarrow> string \<Rightarrow> ('w, string) io" where
  "required_ssm_parameter deps name =
     io_bind (optional_ssm_parameter deps name) (\<lambda>v. case v of
         None \<Rightarrow> io_raise (ValueError (''SSM parameter '' @ name @ '' is empty'')) | Some s \<Rightarrow> io_return s)"

definition handle_platform_quota :: "'w tenant_deps \<Rightarrow> environ \<Rightarrow> caller_identity \<Rightarrow> ('w, pydict) io" where
  "handle_platform_quota deps env caller =
     io_bind (io_lift (require_admin caller)) (\<lambda>_.
     io_bind (required_ssm_parameter deps (runtime_region_param_name env)) (\<lambda>active_region.
     io_bind (td_quota deps active_region) (\<lambda>quotas.
     io_bind (td_now deps) (\<lambda>now.
     io_return (platform_control_response 200 [(''utilisation'', quotas)] caller ''quota_report'' None None (iso_utc now))))))"

text \<open>\<open>s.get(a, s.get(b, default))\<close> and \<open>s.get(a) or s.get(b)\<close>.\<close>

definition billing_summary :: "pydict \<Rightarrow> pydict res" where
  "billing_summary s =
     (let either = (\<lambda>a b d. dget_or s a (dget_or s b d)) in
      bind_res (py_int (either ''totalInputTokens'' ''total_input_tokens'' (PInt 0))) (\<lambda>input_tokens.
      bind_res (py_int (either ''totalOutputTokens'' ''total_output_tokens'' (PInt 0))) (\<lambda>output_tokens.
      bind_res (py_float (either ''totalCostUsd'' ''total_cost_usd'' (PFloat (FFin 0 ''0.0'')))) (\<lambda>cost.
      Inr [(''tenantId'', py_or (dget s ''tenantId'') (dget s ''tenant_id'')), (''totalInputTokens'', PInt input_tokens),
           (''totalOutputTokens'', PInt output_tokens), (''totalCostUsd'', PFloat cost),
           (''lastUpdated'', py_or (dget s ''updatedAt'') (dget s ''last_updated''))]))))"

definition handle_platform_billing_status :: "'w tenant_deps \<Rightarrow> environ \<Rightarrow> caller_identity \<Rightarrow> ('w, pydict) loop" where
  "handle_platform_billing_status deps env caller =
     loop_bind (loop_ends (io_bind (io_lift (require_admin caller)) (\<lambda>_. td_now deps))) (\<lambda>now.
     let year_month = year_month_of now in
     loop_bind (cp_scan_all (td_aws deps) (tenants_table_name env) (Some (KwCond (KeyEq ''SK'' (''BILLING#'' @ year_month)))) None None) (\<lambda>items.
     loop_ends (io_bind (io_lift (map_res billing_summary items)) (\<lambda>summaries.
       io_return (response 200 [(''yearMonth'', PStr year_month), (''summaries'', PList (map PDict summaries))])))))"

definition handle_service_health :: "'w tenant_deps \<Rightarrow> caller_identity \<Rightarrow> ('w, pydict) io" where
  "handle_service_health deps caller =
     io_bind (io_lift (require_admin caller)) (\<lambda>_.
     io_bind (td_now deps) (\<lambda>now. io_return (response 200
       [(''status'', PStr ''unknown''), (''services'', PDict []),
        (''signals'', PList [PDict [(''name'', PStr ''service_health''), (''source'', PStr ''none''), (''state'', PStr ''unknown''),
                                    (''reason'', PStr ''no_authoritative_signal'')]]),
        (''timestamp'', PStr (iso_utc now))])))"

definition require_platform_admin :: "caller_identity \<Rightarrow> unit res" where
  "require_platform_admin caller =
     (if ''Platform.Admin'' \<notin> set (ci_roles caller) then Inl (PermissionErr ''Platform.Admin role required'') else Inr ())"

definition handle_platform_split_accounts :: "'w tenant_deps \<Rightarrow> pydict \<Rightarrow> caller_identity \<Rightarrow> ('w, pydict) io" where
  "handle_platform_split_accounts deps event caller =
     io_bind (io_lift (require_platform_admin caller)) (\<lambda>_.
     io_bind (io_lift (require_json_body event)) (\<lambda>body.
     io_bind (io_lift (normalize_tier (dget body ''tier''))) (\<lambda>_.
     if \<not> (case coerce_optional_string (dget body ''targetAccountId'') of None \<Rightarrow> False | Some a \<Rightarrow> is_account_id a)
     then io_raise (ValueError ''targetAccountId must match ^[0-9]{12}$'')
     else io_bind (td_now deps) (\<lambda>now. io_return (response 202
       [(''status'', PStr ''initiated''), (''jobId'', PStr (''job-split-'' @ show_int (trunc_rat now)))])))))"

section \<open>Rolling a Lambda alias back\<close>

text \<open>The published versions of all pages, as texts.\<close>

definition page_versions :: "pydict \<Rightarrow> string list res" where
  "page_versions page =
     (case dget_or page ''Versions'' (PList []) of
        PList items \<Rightarrow> bind_res (map_res (\<lambda>v. bind_res (need_dict v) (\<lambda>d. Inr (py_str (dget d ''Version'')))) items)
          (\<lambda>vs. Inr (filter (\<lambda>v. v \<noteq> ''$LATEST'') vs))
      | _ \<Rightarrow> Inl (TypeError ''object is not iterable''))"

definition version_number :: "string \<Rightarrow> int" where
  "version_number v = (case parse_int v of None \<Rightarrow> 0 | Some i \<Rightarrow> i)"

text \<open>
  \<open>sorted(set(versions), key=int)\<close>; version numbers are canonical decimals, so no two of the set have the same key.
\<close>

definition ordered_versions :: "string list \<Rightarrow> string list res" where
  "ordered_versions versions =
     (if list_ex (\<lambda>v. parse_int v = None) versions then Inl (ValueError ''invalid literal for int()'')
      else Inr (sort_key version_number (remdups versions)))"

text \<open>The version before the current one in the order, or the answer when there is none.\<close>

definition previous_version :: "string \<Rightarrow> string list \<Rightarrow> pydict + string" where
  "previous_version current ordered =
     (if current \<notin> set ordered then Inl (api_error 404 ''NOT_FOUND'' ''Alias version not found'')
      else (let i = length (takeWhile (\<lambda>v. v \<noteq> current) ordered) in
            if i = 0 then Inl (api_error 409 ''NO_PREVIOUS_VERSION'' ''No previous published version'')
            else Inr (ordered ! (i - 1))))"

definition lambda_versions :: "'w tenant_deps \<Rightarrow> string \<Rightarrow> string \<Rightarrow> ('w, string \<times> string list) io" where
  "lambda_versions deps function_name alias_name =
     io_bind (td_lambda deps ''get_alias'' [(''FunctionName'', PStr function_name), (''Name'', PStr alias_name)]) (\<lambda>r.
     io_bind (io_lift (bind_res (need_dict r) (\<lambda>d. case dict_get d ''FunctionVersion'' of
         None \<Rightarrow> Inl (KeyError ''FunctionVersion'') | Some v \<Rightarrow> Inr (py_str v)))) (\<lambda>current_version.
     io_bind (td_versions deps function_name) (\<lambda>pages.
     io_bind (io_lift (map_res page_versions pages)) (\<lambda>vss. io_return (current_version, concat vss)))))"

definition handle_lambda_rollback :: "'w tenant_deps \<Rightarrow> environ \<Rightarrow> pydict \<Rightarrow> caller_identity \<Rightarrow> ('w, pydict) io" where
  "handle_lambda_rollback deps env event caller =
     io_bind (io_lift (require_platform_admin caller)) (\<lambda>_.
     io_bind (io_lift (require_json_body event)) (\<lambda>body.
     let alias_name = opt_or (coerce_optional_string (dget body ''aliasName'')) ''live'' in
     case coerce_optional_string (dget body ''functionSuffix'') of
       None \<Rightarrow> io_raise (ValueError ''functionSuffix is required'')
     | Some function_suffix \<Rightarrow>
         (let function_name = ''platform-'' @ function_suffix @ ''-'' @ env_or env ''PLATFORM_ENV'' ''dev'' in
          io_try (lambda_versions deps function_name alias_name) (\<lambda>r. case r of
              Inl e \<Rightarrow> if client_code e = Some ''ResourceNotFoundException''
                       then io_return (api_error 404 ''NOT_FOUND'' ''Lambda function not found'') else io_raise e
            | Inr (current_version, versions) \<Rightarrow>
                io_bind (io_lift (ordered_versions versions)) (\<lambda>ordered.
                case previous_version current_version ordered of
                  Inl answer \<Rightarrow> io_return answer
                | Inr target \<Rightarrow>
                    io_bind (td_lambda deps ''update_alias''
                      [(''FunctionName'', PStr function_name), (''Name'', PStr alias_name), (''FunctionVersion'', PStr target),
                       (''Description'', PStr (''Rollback from '' @ current_version @ '' to '' @ target))]) (\<lambda>_.
                    io_return (response 200
                      [(''functionName'', PStr function_name), (''fromVersion'', PStr current_version), (''toVersion'', PStr target),
                       (''status'', PStr ''rolled_back'')])))))))"

section \<open>Routes\<close>

definition answered :: "('w, pydict) io \<Rightarrow> ('w, pydict option) loop" where
  "answered m = loop_ends (io_bind m (\<lambda>r. io_return (Some r)))"

definition no_route :: "('w, pydict option) loop" where
  "no_route = loop_ends (io_return None)"

definition platform_admin_routes :: "'w tenant_deps \<Rightarrow> environ \<Rightarrow> string \<Rightarrow> string \<Rightarrow> pydict \<Rightarrow> caller_identity
    \<Rightarrow> ('w, pydict option) loop" where
  "platform_admin_routes deps env path meth event caller =
     (if path = ''/v1/platform/failover'' \<and> meth = ''POST'' then answered (io_lift (handle_platform_failover event caller))
      else if path = ''/v1/platform/quota'' \<and> meth = ''GET'' then answered (handle_platform_quota deps env caller)
      else if path = ''/v1/platform/quota/split-accounts'' \<and> meth = ''POST'' then answered (handle_platform_split_accounts deps event caller)
      else if path = ''/v1/platform/billing/status'' \<and> meth = ''GET''
        then loop_bind (handle_platform_billing_status deps env caller) (\<lambda>r. loop_ends (io_return (Some r)))
      else if path = ''/v1/platform/service-health'' \<and> meth = ''GET'' then answered (handle_service_health deps caller)
      else no_route)"

definition ops_routes :: "'w tenant_deps \<Rightarrow> environ \<Rightarrow> string \<Rightarrow> string \<Rightarrow> pydict \<Rightarrow> caller_identity \<Rightarrow> ('w, pydict option) loop" where
  "ops_routes deps env path meth event caller =
     (if path = ''/v1/platform/ops/lambda-rollback'' \<and> meth = ''POST'' then answered (handle_lambda_rollback deps env event caller)
      else if starts_with path ''/v1/platform/ops''
        then answered (io_return (api_error 405 ''METHOD_NOT_ALLOWED'' ''Method not allowed for this route''))
      else no_route)"

section \<open>What a rollback chooses\<close>

text \<open>The published versions the service lists: canonical decimals, as AWS writes them.\<close>

definition published :: "string list \<Rightarrow> bool" where
  "published vs = list_all (\<lambda>v. v = show_int (version_number v)) vs"

lemma ordered_versions_published:
  assumes "published vs"
  shows "ordered_versions vs = Inr (sort_key version_number (remdups vs))"
proof -
  have "parse_int v \<noteq> None" if "v \<in> set vs" for v
  proof -
    from assms that have "v = show_int (version_number v)" by (simp add: published_def list_all_iff)
    then have "parse_int v = Some (version_number v)" by (metis parse_int_show_int)
    then show ?thesis by simp
  qed
  then have "\<not> list_ex (\<lambda>v. parse_int v = None) vs" by (auto simp: list_ex_iff)
  then show ?thesis by (simp add: ordered_versions_def)
qed

lemma previous_in_sorted:
  fixes f :: "string \<Rightarrow> int"
  assumes sorted: "sorted (map f xs)" and distinct: "distinct (map f xs)"
  shows "case previous_version c xs of
      Inr t \<Rightarrow> t \<in> set xs \<and> f t < f c \<and> (\<forall>v \<in> set xs. f v < f c \<longrightarrow> f v \<le> f t)
    | Inl answer \<Rightarrow> c \<notin> set xs \<or> (\<forall>v \<in> set xs. f c \<le> f v)"
proof (cases "c \<in> set xs")
  case True
  define i where "i = length (takeWhile (\<lambda>v. v \<noteq> c) xs)"
  have i: "i < length xs" using True unfolding i_def by (induction xs) auto
  have at: "xs ! i = c" using nth_length_takeWhile[of "\<lambda>v. v \<noteq> c" xs] i unfolding i_def by blast
  have order: "f (xs ! j) \<le> f (xs ! k)" if "j \<le> k" "k < length xs" for j k
    using sorted_nth_mono[OF sorted, of j k] that by simp
  have strict: "f (xs ! j) < f (xs ! k)" if "j < k" "k < length xs" for j k
  proof -
    from that have "map f xs ! j \<noteq> map f xs ! k" using distinct by (simp add: nth_eq_iff_index_eq del: nth_map)
    with that order[of j k] show ?thesis by simp
  qed
  show ?thesis
  proof (cases "i = 0")
    case True
    have "f c \<le> f v" if "v \<in> set xs" for v
    proof -
      from that obtain j where "j < length xs" "v = xs ! j" by (metis in_set_conv_nth)
      with order[of 0 j] at True show ?thesis by simp
    qed
    with True \<open>c \<in> set xs\<close> show ?thesis by (simp add: previous_version_def Let_def flip: i_def)
  next
    case False
    have "f v \<le> f (xs ! (i - 1))" if v: "v \<in> set xs" "f v < f c" for v
    proof -
      from v(1) obtain j where j: "j < length xs" "v = xs ! j" by (metis in_set_conv_nth)
      have "j < i" using order[of i j] j v(2) at by force
      with order[of j "i - 1"] i j show ?thesis by simp
    qed
    moreover have "f (xs ! (i - 1)) < f c" using strict[of "i - 1" i] i at False by simp
    ultimately show ?thesis using True False i by (simp add: previous_version_def Let_def flip: i_def)
  qed
qed (simp add: previous_version_def)



end
