(* ===== verification/ApiHandler.thy ===== *)
theory ApiHandler
  imports TenantLifecycle TenantInvites TenantAudit OpsControl
begin

text \<open>
  The entry points of the tenant API: what an event asks for (\<open>bootstrap.build_runtime\<close>), the dispatch of the whole API
  (\<open>handler.py\<close>) and of the four functions it was split into, and the boundary that turns exceptions into answers.
\<close>

section \<open>The request (\<open>bootstrap.py\<close>)\<close>

record api_runtime =
  rt_caller :: caller_identity
  rt_method :: string
  rt_path :: string
  rt_tenant_id :: "string option"
  rt_detail_type :: "string option"
  rt_source :: "string option"

text \<open>\<open>s.replace(old, new)\<close> for a text \<open>old\<close> that is not empty.\<close>

function replace_text :: "string \<Rightarrow> string \<Rightarrow> string \<Rightarrow> string" where
  "replace_text old new [] = []"
| "replace_text old new (c # s) =
     (if old \<noteq> [] \<and> starts_with (c # s) old
      then new @ replace_text old new (drop (length old) (c # s)) else c # replace_text old new s)"
  by pat_completeness auto
termination
  by (relation "measure (\<lambda>(old, new, s). length s)") (auto simp: neq_Nil_conv)

text \<open>\<open>event.get("requestContext", {}).get("http", {}).get(k)\<close>.\<close>

definition http_field :: "pydict \<Rightarrow> string \<Rightarrow> pyval res" where
  "http_field event k =
     bind_res (need_dict (dget_or event ''requestContext'' (PDict []))) (\<lambda>ctx.
     bind_res (need_dict (dget_or ctx ''http'' (PDict []))) (\<lambda>http. Inr (dget http k)))"

text \<open>\<open>str(event.get(key) or http[k] or default)\<close>.\<close>

definition event_text :: "pydict \<Rightarrow> string \<Rightarrow> string \<Rightarrow> string \<Rightarrow> string res" where
  "event_text event key k dflt =
     (if truthy (dget event key) then Inr (py_str (dget event key))
      else bind_res (http_field event k) (\<lambda>v. Inr (py_str (py_or v (PStr dflt)))))"

definition path_tenant :: "pydict \<Rightarrow> caller_identity \<Rightarrow> (pyval \<times> string) option res" where
  "path_tenant event caller =
     bind_res (need_dict (py_or (dget event ''pathParameters'') (PDict []))) (\<lambda>params.
       if truthy (dget params ''tenantId'')
       then bind_res (canonical_tenant_id (dget params ''tenantId'') (is_admin caller)) (\<lambda>t. Inr (Some (dget params ''tenantId'', t)))
       else Inr None)"

definition build_runtime :: "pydict \<Rightarrow> api_runtime res" where
  "build_runtime event =
     bind_res (caller_identity_of event) (\<lambda>caller.
     bind_res (event_text event ''httpMethod'' ''method'' ''GET'') (\<lambda>raw_method.
     bind_res (event_text event ''path'' ''path'' []) (\<lambda>raw_path.
     bind_res (path_tenant event caller) (\<lambda>tenant.
     let path = rstrip_slash raw_path in
     Inr \<lparr>rt_caller = caller, rt_method = py_upper raw_method,
          rt_path = (case tenant of None \<Rightarrow> path | Some (raw, t) \<Rightarrow> replace_text (py_str raw) t path),
          rt_tenant_id = map_option snd tenant,
          rt_detail_type = coerce_optional_string (dget event ''detail-type''),
          rt_source = coerce_optional_string (dget event ''source'')\<rparr>))))"

section \<open>Routes\<close>

definition agent_routes :: "'w tenant_deps \<Rightarrow> environ \<Rightarrow> string \<Rightarrow> string \<Rightarrow> pydict \<Rightarrow> caller_identity \<Rightarrow> ('w, pydict option) loop" where
  "agent_routes deps env path meth event caller =
     (if agent_route_of path meth = Some ListAgents
      then loop_bind (handle_list_agents deps env caller) (\<lambda>r. loop_ends (io_return (Some r)))
      else (case agent_write_route deps env path meth event of
              None \<Rightarrow> no_route | Some run \<Rightarrow> answered (run caller)))"

definition tenant_path :: "string \<Rightarrow> string" where
  "tenant_path tenant_id = ''/v1/tenants/'' @ tenant_id"

text \<open>
  \<open>tenant_lifecycle.dispatch_routes\<close>. Its last route hands webhook requests on with the tenant of the caller instead of the one
  in the path.
\<close>

definition lifecycle_routes :: "'w tenant_deps \<Rightarrow> environ \<Rightarrow> string \<Rightarrow> string \<Rightarrow> pydict \<Rightarrow> string option \<Rightarrow> caller_identity
    \<Rightarrow> ('w, pydict option) loop" where
  "lifecycle_routes deps env path meth event tenant_arg caller =
     (if path = ''/v1/tenants'' \<and> meth = ''POST'' then answered (create_tenant deps env event caller)
      else if path = ''/v1/tenants'' \<and> meth = ''GET''
        then answered (handle_list_tenants deps env (tenant_list_input_from_event event) caller)
      else (case tenant_arg of
              None \<Rightarrow> no_route
            | Some tenant_id \<Rightarrow>
                if tenant_id = [] then no_route
                else (let base = tenant_path tenant_id in
                if path = base \<and> meth = ''GET'' then answered (read_tenant deps env tenant_id caller)
                else if path = base \<and> meth = ''PATCH'' then answered (update_tenant deps env event tenant_id caller)
                else if path = base \<and> meth = ''DELETE'' then answered (delete_tenant deps env tenant_id caller)
                else if path = base @ ''/api-key/rotate'' \<and> meth = ''POST'' then answered (handle_rotate_api_key deps env tenant_id caller)
                else if path = base @ ''/users/invite'' \<and> meth = ''POST'' then answered (handle_invite_user deps env event tenant_id caller)
                else if path = base @ ''/audit-export'' \<and> meth = ''GET''
                  then loop_bind (handle_audit_export deps env event tenant_id caller) (\<lambda>r. loop_ends (io_return (Some r)))
                else if path = base @ ''/users/invites'' \<and> meth = ''GET'' then answered (handle_list_invites deps env tenant_id caller)
                else if starts_with path (base @ ''/webhooks'')
                  then loop_ends (webhook_routes deps env (webhooks_path (opt_or (ci_tenant_id caller) ''None'')) meth event (ci_tenant_id caller) caller)
                else no_route)))"

text \<open>\<open>handler._dispatch_tenant_routes\<close>: the first part that answers decides.\<close>

definition or_else :: "('w, pydict option) loop \<Rightarrow> ('w, pydict option) loop \<Rightarrow> ('w, pydict option) loop" where
  "or_else m n = loop_bind m (\<lambda>r. case r of None \<Rightarrow> n | Some a \<Rightarrow> loop_ends (io_return (Some a)))"

definition dispatch_tenant_routes :: "'w tenant_deps \<Rightarrow> environ \<Rightarrow> pydict \<Rightarrow> api_runtime \<Rightarrow> ('w, pydict option) loop" where
  "dispatch_tenant_routes deps env event rt =
     (let path = rt_path rt; meth = rt_method rt; caller = rt_caller rt; is_agents = starts_with path ''/v1/platform/agents'' in
      if starts_with path ''/v1/platform'' \<and> \<not> is_agents \<and> \<not> is_platform_actor caller
      then loop_ends (io_raise (PermissionErr ''Platform tenant context required''))
      else or_else (platform_admin_routes deps env path meth event caller)
          (or_else (ops_routes deps env path meth event caller)
             (if is_agents then agent_routes deps env path meth event caller
              else if str_contains path ''/webhooks''
                then loop_ends (webhook_routes deps env path meth event (rt_tenant_id rt) caller)
              else lifecycle_routes deps env path meth event (rt_tenant_id rt) caller)))"

section \<open>Entry points\<close>

definition loop_boundary :: "('w, pydict) loop \<Rightarrow> ('w, pydict) loop" where
  "loop_boundary m w = map_option (\<lambda>(r, w'). (Inr (case r of Inl e \<Rightarrow> error_answer e | Inr a \<Rightarrow> a), w')) (m w)"

definition is_provisioner_event :: "api_runtime \<Rightarrow> bool" where
  "is_provisioner_event rt \<longleftrightarrow> rt_detail_type rt \<noteq> None \<and> rt_source rt = Some ''platform.tenant_provisioner''"

text \<open>What \<open>handle_event\<close> does when no route has answered.\<close>

definition other_events :: "'w tenant_deps \<Rightarrow> environ \<Rightarrow> pydict \<Rightarrow> api_runtime \<Rightarrow> ('w, pydict) io" where
  "other_events deps env event rt =
     (if is_provisioner_event rt then handle_tenant_provisioning_event deps env event
      else if rt_path rt = ''/v1/health'' \<and> rt_method rt = ''GET'' then handle_health deps env
      else if rt_path rt = ''/v1/sessions'' \<and> rt_method rt = ''GET'' then io_return (handle_sessions event)
      else io_return (api_error 404 ''NOT_FOUND'' (''Route not found: '' @ rt_method rt @ '' '' @ rt_path rt)))"

definition handle_event :: "'w tenant_deps \<Rightarrow> environ \<Rightarrow> pydict \<Rightarrow> ('w, pydict) loop" where
  "handle_event deps env event =
     loop_boundary
       (loop_bind (loop_ends (io_lift (build_runtime event))) (\<lambda>rt.
        loop_bind (dispatch_tenant_routes deps env event rt) (\<lambda>r. case r of
            Some a \<Rightarrow> loop_ends (io_return a)
          | None \<Rightarrow> loop_ends (other_events deps env event rt))))"

text \<open>
  The split functions. They have no case of their own for \<open>ClientError\<close>, which ends as a 500 there.
\<close>

definition split_error_answer :: "exc \<Rightarrow> pydict" where
  "split_error_answer e =
     (case e of
        PermissionErr m \<Rightarrow> api_error 403 ''FORBIDDEN'' m
      | ValueError m \<Rightarrow> api_error 400 ''BAD_REQUEST'' m
      | _ \<Rightarrow> api_error 500 ''INTERNAL_ERROR'' ''Internal server error'')"

definition split_boundary :: "('w, pydict) loop \<Rightarrow> ('w, pydict) loop" where
  "split_boundary m w = map_option (\<lambda>(r, w'). (Inr (case r of Inl e \<Rightarrow> split_error_answer e | Inr a \<Rightarrow> a), w')) (m w)"

definition route_or_404 :: "('w, pydict option) loop \<Rightarrow> ('w, pydict) loop" where
  "route_or_404 m = loop_bind m (\<lambda>r. loop_ends (io_return (case r of
      Some (x # xs) \<Rightarrow> x # xs | _ \<Rightarrow> api_error 404 ''NOT_FOUND'' ''Route not found'')))"

definition mgmt_handle_event :: "'w tenant_deps \<Rightarrow> environ \<Rightarrow> pydict \<Rightarrow> ('w, pydict) loop" where
  "mgmt_handle_event deps env event =
     split_boundary
       (loop_bind (loop_ends (io_lift (build_runtime event))) (\<lambda>rt.
          if is_provisioner_event rt then loop_ends (handle_tenant_provisioning_event deps env event)
          else route_or_404 (lifecycle_routes deps env (rt_path rt) (rt_method rt) event (rt_tenant_id rt) (rt_caller rt))))"

definition webhook_handle_event :: "'w tenant_deps \<Rightarrow> environ \<Rightarrow> pydict \<Rightarrow> ('w, pydict) loop" where
  "webhook_handle_event deps env event =
     split_boundary
       (loop_bind (loop_ends (io_lift (build_runtime event))) (\<lambda>rt.
          route_or_404 (loop_ends (webhook_routes deps env (rt_path rt) (rt_method rt) event None (rt_caller rt)))))"

definition agent_handle_event :: "'w tenant_deps \<Rightarrow> environ \<Rightarrow> pydict \<Rightarrow> ('w, pydict) loop" where
  "agent_handle_event deps env event =
     split_boundary
       (loop_bind (loop_ends (io_lift (build_runtime event))) (\<lambda>rt.
          route_or_404 (agent_routes deps env (rt_path rt) (rt_method rt) event (rt_caller rt))))"

definition admin_handle_event :: "'w tenant_deps \<Rightarrow> environ \<Rightarrow> pydict \<Rightarrow> ('w, pydict) loop" where
  "admin_handle_event deps env event =
     split_boundary
       (loop_bind (loop_ends (io_lift (build_runtime event))) (\<lambda>rt.
          let path = rt_path rt; meth = rt_method rt; caller = rt_caller rt in
          if path = ''/v1/platform/failover'' \<and> meth = ''POST'' then loop_ends (io_lift (handle_platform_failover event caller))
          else if path = ''/v1/platform/quota'' \<and> meth = ''GET'' then loop_ends (handle_platform_quota deps env caller)
          else loop_ends (io_return (api_error 404 ''NOT_FOUND'' ''Route not found''))))"

end
