(* ===== verification/ApiIsolation.thy ===== *)
theory ApiIsolation
  imports ApiHandler
begin

text \<open>
  Tenant isolation of the API as a whole: whatever a caller asks who does not belong to the platform tenant, the rows of every other
  tenant stay as they are, however DynamoDB and the other services answer.
\<close>

section \<open>Computations that keep a relation between worlds\<close>

definition keeps :: "('w \<Rightarrow> 'w \<Rightarrow> bool) \<Rightarrow> ('w, 'a) io \<Rightarrow> bool" where
  "keeps R m \<longleftrightarrow> (\<forall>w. R w (snd (m w)))"

definition loop_keeps :: "('w \<Rightarrow> 'w \<Rightarrow> bool) \<Rightarrow> ('w, 'a) loop \<Rightarrow> bool" where
  "loop_keeps R m \<longleftrightarrow> (\<forall>w r w'. m w = Some (r, w') \<longrightarrow> R w w')"

lemma keepsD: "keeps R m \<Longrightarrow> m w = (r, w') \<Longrightarrow> R w w'"
  by (metis keeps_def snd_conv)

lemma loop_keepsD: "loop_keeps R m \<Longrightarrow> m w = Some (r, w') \<Longrightarrow> R w w'"
  by (simp add: loop_keeps_def)

text \<open>
  The contract: the relation is reflexive and transitive. Everything built from steps that keep it keeps it, by rules that follow
  the code.
\<close>

locale world_order =
  fixes R :: "'w \<Rightarrow> 'w \<Rightarrow> bool"
  assumes same: "R w w" and step: "R u v \<Longrightarrow> R v w \<Longrightarrow> R u w"
begin

lemma return: "keeps R (io_return x)"
  and raises: "keeps R (io_raise e)"
  and lift: "keeps R (io_lift r)"
  by (simp_all add: keeps_def same)

lemma lift_bind: "(\<And>x. r = Inr x \<Longrightarrow> keeps R (f x)) \<Longrightarrow> keeps R (io_bind (io_lift r) f)"
  by (cases r) (auto simp: keeps_def same)

lemma bind: "keeps R m \<Longrightarrow> (\<And>x. keeps R (f x)) \<Longrightarrow> keeps R (io_bind m f)"
  unfolding keeps_def io_bind_def
  by (auto split: prod.split sum.split) (metis snd_conv, metis snd_conv step)

lemma bind_value: "keeps R m \<Longrightarrow> (\<And>x w w'. m w = (Inr x, w') \<Longrightarrow> keeps R (f x)) \<Longrightarrow> keeps R (io_bind m f)"
  unfolding keeps_def io_bind_def
  by (auto split: prod.split sum.split) (metis snd_conv, metis snd_conv step)

lemma tries: "keeps R m \<Longrightarrow> (\<And>r. keeps R (k r)) \<Longrightarrow> keeps R (io_try m k)"
  unfolding keeps_def io_try_def by (auto split: prod.split) (metis snd_conv step)

lemma cond: "(b \<Longrightarrow> keeps R m) \<Longrightarrow> (\<not> b \<Longrightarrow> keeps R n) \<Longrightarrow> keeps R (if b then m else n)"
  by simp

lemma maybe: "(v = None \<Longrightarrow> keeps R m) \<Longrightarrow> (\<And>x. v = Some x \<Longrightarrow> keeps R (f x)) \<Longrightarrow>
    keeps R (case v of None \<Rightarrow> m | Some x \<Rightarrow> f x)"
  by (cases v) simp_all

lemma either: "(\<And>x. v = Inl x \<Longrightarrow> keeps R (f x)) \<Longrightarrow> (\<And>x. v = Inr x \<Longrightarrow> keeps R (g x)) \<Longrightarrow>
    keeps R (case v of Inl x \<Rightarrow> f x | Inr x \<Rightarrow> g x)"
  by (cases v) simp_all

lemma pair: "(\<And>a b. v = (a, b) \<Longrightarrow> keeps R (f a b)) \<Longrightarrow> keeps R (case v of (a, b) \<Rightarrow> f a b)"
  by (cases v) simp

lemma ends: "keeps R m \<Longrightarrow> loop_keeps R (loop_ends m)"
  unfolding keeps_def loop_keeps_def loop_ends_def by (metis option.inject snd_conv)

lemma loop: "loop_keeps R m \<Longrightarrow> (\<And>x. loop_keeps R (f x)) \<Longrightarrow> loop_keeps R (loop_bind m f)"
  unfolding loop_keeps_def loop_bind_def
  by (auto split: option.splits sum.splits) (metis step)

lemma loop_cond: "(b \<Longrightarrow> loop_keeps R m) \<Longrightarrow> (\<not> b \<Longrightarrow> loop_keeps R n) \<Longrightarrow> loop_keeps R (if b then m else n)"
  by simp

lemma loop_maybe: "(v = None \<Longrightarrow> loop_keeps R m) \<Longrightarrow> (\<And>x. v = Some x \<Longrightarrow> loop_keeps R (f x)) \<Longrightarrow>
    loop_keeps R (case v of None \<Rightarrow> m | Some x \<Rightarrow> f x)"
  by (cases v) simp_all

lemma loop_pair: "(\<And>a b. v = (a, b) \<Longrightarrow> loop_keeps R (f a b)) \<Longrightarrow> loop_keeps R (case v of (a, b) \<Rightarrow> f a b)"
  by (cases v) simp

lemma pages:
  assumes "\<And>k. keeps R (fetch k)"
  shows "loop_keeps R (page_loop fetch start items)"
  unfolding loop_keeps_def
proof (intro allI impI)
  fix w r w' assume run: "page_loop fetch start items w = Some (r, w')"
  have "(\<forall>k. keeps R (fetch k)) \<longrightarrow> R w (snd (r, w'))"
  proof (rule page_loop.raw_induct[where P = "\<lambda>f k acc w out. (\<forall>k. keeps R (f k)) \<longrightarrow> R w (snd out)", OF _ run], intro impI)
    fix loop f k acc w out
    assume IH: "\<And>f k acc w out. loop f k acc w = Some out \<Longrightarrow> (\<forall>k. keeps R (f k)) \<longrightarrow> R w (snd out)"
      and run: "(case f k w of (Inl e, w') \<Rightarrow> Some (Inl e, w')
        | (Inr r, w') \<Rightarrow> if no_more_pages (pi_last_key r) then Some (Inr (acc @ pi_items r), w')
            else loop f (pi_last_key r) (acc @ pi_items r) w') = Some out"
      and f: "\<forall>k. keeps R (f k)"
    obtain q w1 where fk: "f k w = (q, w1)" by (cases "f k w")
    have first: "R w w1" using f[rule_format, of k] fk unfolding keeps_def by (metis snd_conv)
    show "R w (snd out)"
    proof (cases "\<exists>r. q = Inr r \<and> \<not> no_more_pages (pi_last_key r)")
      case True
      then obtain r where "q = Inr r" "\<not> no_more_pages (pi_last_key r)" by blast
      with run fk have "loop f (pi_last_key r) (acc @ pi_items r) w1 = Some out" by simp
      from IH[OF this] f first show ?thesis by (blast intro: step)
    next
      case False
      with run fk have "snd out = w1" by (auto split: sum.splits if_splits)
      with first show ?thesis by simp
    qed
  qed
  with assms show "R w w'" by simp
qed

lemma collected:
  assumes "\<And>k. keeps R (fetch k)"
  shows "loop_keeps R (collect_records fetch keep start items)"
  unfolding loop_keeps_def
proof (intro allI impI)
  fix w r w' assume run: "collect_records fetch keep start items w = Some (r, w')"
  have "(\<forall>k. keeps R (fetch k)) \<longrightarrow> R w (snd (r, w'))"
  proof (rule collect_records.raw_induct[where P = "\<lambda>f q k acc w out. (\<forall>k. keeps R (f k)) \<longrightarrow> R w (snd out)", OF _ run], intro impI)
    fix loop f q k acc w out
    assume IH: "\<And>f q k acc w out. loop f q k acc w = Some out \<Longrightarrow> (\<forall>k. keeps R (f k)) \<longrightarrow> R w (snd out)"
      and run: "(case f k w of (Inl e, w') \<Rightarrow> Some (Inl e, w')
        | (Inr page, w') \<Rightarrow> (let items' = acc @ filter q (pi_items page) in
            if pi_last_key page = None then Some (Inr items', w') else loop f q (pi_last_key page) items' w')) = Some out"
      and f: "\<forall>k. keeps R (f k)"
    obtain x w1 where fk: "f k w = (x, w1)" by (cases "f k w")
    have first: "R w w1" using f[rule_format, of k] fk unfolding keeps_def by (metis snd_conv)
    show "R w (snd out)"
    proof (cases "\<exists>r. x = Inr r \<and> pi_last_key r \<noteq> None")
      case True
      then obtain r where "x = Inr r" "pi_last_key r \<noteq> None" by blast
      with run fk have "loop f q (pi_last_key r) (acc @ filter q (pi_items r)) w1 = Some out" by (simp add: Let_def)
      from IH[OF this] f first show ?thesis by (blast intro: step)
    next
      case False
      with run fk have "snd out = w1" by (auto simp: Let_def split: sum.splits if_splits)
      with first show ?thesis by simp
    qed
  qed
  with assms show "R w w'" by simp
qed

lemmas io_rules = lift_bind tries cond maybe either pair return raises lift
lemmas loop_rules = loop_cond loop_maybe loop_pair ends loop

end


section \<open>Services that fail\<close>

text \<open>
  All that is asked of DynamoDB here: a call changes no row but the ones of the table and the partition key it names. It may fail in any way
  and answer anything.
\<close>

definition elsewhere_kept :: "string \<Rightarrow> string option \<Rightarrow> rows \<Rightarrow> rows \<Rightarrow> bool" where
  "elsewhere_kept t pk r r' \<longleftrightarrow> (\<forall>t' pk' sk. t' \<noteq> t \<or> Some pk' \<noteq> pk \<longrightarrow> r' t' pk' sk = r t' pk' sk)"

text \<open>The partition key a call names; one that is no text is rejected and names none.\<close>

definition kw_pk :: "kwargs \<Rightarrow> string \<Rightarrow> string option" where
  "kw_pk kw n = (case dget (kw_dict kw n) ''PK'' of PStr pk \<Rightarrow> Some pk | _ \<Rightarrow> None)"

definition dynamo_frame :: "'w aws \<Rightarrow> ('w \<Rightarrow> rows) \<Rightarrow> bool" where
  "dynamo_frame sv rows \<longleftrightarrow>
     (\<forall>t kw. leaves rows (aw_get_item sv t kw)) \<and> (\<forall>t kw. leaves rows (aw_query sv t kw))
   \<and> (\<forall>t kw. leaves rows (aw_scan sv t kw)) \<and> (\<forall>m. leaves rows (aw_put_metric sv m))
   \<and> (\<forall>m w. rows (aw_log_error sv m w) = rows w)
   \<and> (\<forall>t kw w. elsewhere_kept t (kw_pk kw ''Item'') (rows w) (rows (snd (aw_put_item sv t kw w))))
   \<and> (\<forall>t kw w. elsewhere_kept t (kw_pk kw ''Key'') (rows w) (rows (snd (aw_update_item sv t kw w))))
   \<and> (\<forall>t kw w. elsewhere_kept t (kw_pk kw ''Key'') (rows w) (rows (snd (aw_delete_item sv t kw w))))"

definition others_kept :: "string \<Rightarrow> rows \<Rightarrow> rows \<Rightarrow> bool" where
  "others_kept tid r r' \<longleftrightarrow>
     (\<forall>t pk sk. starts_with pk tenant_pk_prefix \<and> pk \<noteq> tenant_pk tid \<longrightarrow> r' t pk sk = r t pk sk)"

lemma others_kept_elsewhere:
  assumes "elsewhere_kept t pk r r'" and "\<And>p. pk = Some p \<Longrightarrow> \<not> starts_with p tenant_pk_prefix \<or> p = tenant_pk tid"
  shows "others_kept tid r r'"
  unfolding others_kept_def
proof (intro allI impI, elim conjE)
  fix t' p sk assume "starts_with p tenant_pk_prefix" "p \<noteq> tenant_pk tid"
  with assms(2) have "Some p \<noteq> pk" by blast
  with assms(1) show "r' t' p sk = r t' p sk" by (simp add: elsewhere_kept_def)
qed

text \<open>The context: services that keep to their frames, a caller from outside the platform tenant, and the tenant of that caller.\<close>

definition own_tenant :: "caller_identity \<Rightarrow> string" where
  "own_tenant caller = opt_or (ci_tenant_id caller) []"

definition kept :: "('w \<Rightarrow> rows) \<Rightarrow> caller_identity \<Rightarrow> 'w \<Rightarrow> 'w \<Rightarrow> bool" where
  "kept rows caller w w' \<longleftrightarrow> others_kept (own_tenant caller) (rows w) (rows w')"

definition own_client :: "caller_identity \<Rightarrow> tenant_context \<Rightarrow> bool" where
  "own_client caller ctx \<longleftrightarrow> tc_tenant_id ctx = own_tenant caller"

locale outside_caller =
  fixes deps :: "'w tenant_deps" and rows :: "'w \<Rightarrow> rows" and caller :: caller_identity
  assumes dynamo: "dynamo_frame (td_aws deps) rows" and services: "frame_ok deps rows" and outside: "\<not> is_platform_actor caller"

sublocale outside_caller \<subseteq> iso: world_order "kept rows caller"
  by unfold_locales (auto simp: kept_def others_kept_def)

context outside_caller
begin

lemma scope: "db_for_tenant t caller app = Inr ctx \<Longrightarrow> own_client caller ctx"
  using db_for_tenant_scope[of t caller app ctx] outside by (auto simp: own_client_def own_tenant_def opt_or_def)

lemma quiet: "leaves rows m \<Longrightarrow> keeps (kept rows caller) m"
  by (simp add: keeps_def kept_def leaves_def others_kept_def)

lemma services_kept:
  "keeps (kept rows caller) (td_now deps)" "keeps (kept rows caller) (td_put_events deps e)" "keeps (kept rows caller) (put_event deps env d x)"
  "keeps (kept rows caller) (td_secrets deps n a)" "keeps (kept rows caller) (td_lambda deps n a)" "keeps (kept rows caller) (td_versions deps f)"
  "keeps (kept rows caller) (td_ssm deps n)" "keeps (kept rows caller) (td_usage deps t b)" "keeps (kept rows caller) (td_provision_memory deps t f)"
  "keeps (kept rows caller) (td_quota deps f)" "keeps (kept rows caller) (td_token_hex deps m)" "keeps (kept rows caller) (td_token_urlsafe deps m)"
  "keeps (kept rows caller) (td_uuid4 deps)" "keeps (kept rows caller) (s3_put (td_s3 deps) f t by k)"
  "keeps (kept rows caller) (s3_presign (td_s3 deps) f t n' i)"
  using services by (auto simp: frame_ok_def put_event_def intro!: quiet)

lemma aws_kept:
  "keeps (kept rows caller) (aw_get_item (td_aws deps) t kw)" "keeps (kept rows caller) (aw_query (td_aws deps) t kw)"
  "keeps (kept rows caller) (aw_scan (td_aws deps) t kw)"
  using dynamo by (auto simp: dynamo_frame_def intro!: quiet)

lemma metric_kept: "rows (snd (emit_tenant_violation_metric (td_aws deps) a b w)) = rows w"
proof -
  obtain r w1 where run: "aw_put_metric (td_aws deps) \<lparr>mt_namespace = ''platform/security'', mt_name = ''TenantAccessViolation'',
      mt_value = 1, mt_dims = [(''caller_tenant_id'', a), (''target_tenant_id'', b)]\<rparr> w = (r, w1)" by (metis surj_pair)
  have quiet_metric: "leaves rows (aw_put_metric (td_aws deps) m)" for m using dynamo by (simp add: dynamo_frame_def)
  have "rows w1 = rows w" using quiet_metric[unfolded leaves_def, rule_format, of _ w] run by (metis snd_conv)
  with run dynamo show ?thesis by (cases r) (simp_all add: emit_tenant_violation_metric_def io_catch_def dynamo_frame_def)
qed

lemma violation_kept: "keeps (kept rows caller) (raise_dynamo_violation (td_aws deps) ctx target attempted)"
proof (rule quiet)
  have "rows (aw_log_error (td_aws deps) m w) = rows w" for m w using dynamo by (simp add: dynamo_frame_def)
  then show "leaves rows (raise_dynamo_violation (td_aws deps) ctx target attempted)"
    by (simp add: leaves_def raise_dynamo_violation_def Let_def metric_kept)
qed

lemma validate_kept: "keeps (kept rows caller) (ts_validate_pk (td_aws deps) ctx key)"
  unfolding ts_validate_pk_def by (auto intro!: iso.io_rules violation_kept split: pyval.split)

text \<open>A key that passes the check of the caller's own client is no other tenant's.\<close>

lemma validated:
  assumes "own_client caller ctx" and "ts_validate_pk (td_aws deps) ctx key w = (Inr u, w')" and "dget key ''PK'' = PStr p"
  shows "\<not> starts_with p tenant_pk_prefix \<or> p = tenant_pk (own_tenant caller)"
proof -
  have "dget_or key ''PK'' (PStr []) = PStr p" using assms(3) by (auto simp: dget_or_def split: option.splits)
  with assms(1,2) show ?thesis
    by (auto simp: ts_validate_pk_def own_client_def tenant_pk_def tenant_pk_prefix_def raise_dynamo_violation_def Let_def split: if_splits)
qed

lemma named_kept:
  assumes "\<And>w. elsewhere_kept t pk (rows w) (rows (snd (m w)))" and "\<And>p. pk = Some p \<Longrightarrow> \<not> starts_with p tenant_pk_prefix \<or> p = tenant_pk (own_tenant caller)"
  shows "keeps (kept rows caller) m"
  unfolding keeps_def kept_def using others_kept_elsewhere[OF assms] by blast

lemma written_kept:
  assumes "own_client caller ctx"
    and "\<And>w. elsewhere_kept t (case dget key ''PK'' of PStr p \<Rightarrow> Some p | _ \<Rightarrow> None) (rows w) (rows (snd (m w)))"
  shows "keeps (kept rows caller) (io_bind (ts_validate_pk (td_aws deps) ctx key) (\<lambda>_. m))"
proof (rule iso.bind_value[OF validate_kept])
  fix x w w' assume ok: "ts_validate_pk (td_aws deps) ctx key w = (Inr x, w')"
  show "keeps (kept rows caller) m"
  proof (rule named_kept[OF assms(2)])
    fix p assume "(case dget key ''PK'' of PStr p \<Rightarrow> Some p | _ \<Rightarrow> None) = Some p"
    then have "dget key ''PK'' = PStr p" by (auto split: pyval.splits)
    then show "\<not> starts_with p tenant_pk_prefix \<or> p = tenant_pk (own_tenant caller)" by (rule validated[OF assms(1) ok])
  qed
qed

lemma client_kept:
  assumes "own_client caller ctx"
  shows "keeps (kept rows caller) (ts_get_item (td_aws deps) ctx t key [])" and "keeps (kept rows caller) (ts_query (td_aws deps) ctx t q)"
    and "keeps (kept rows caller) (ts_put_item (td_aws deps) ctx t item c [])"
    and "keeps (kept rows caller) (ts_update_item (td_aws deps) ctx t key e vals names c)"
    and "keeps (kept rows caller) (ts_delete_item (td_aws deps) ctx t key [])"
proof -
  have put: "elsewhere_kept t (case dget item ''PK'' of PStr p \<Rightarrow> Some p | _ \<Rightarrow> None) (rows w)
      (rows (snd (aw_put_item (td_aws deps) t kw w)))" if "kw_dict kw ''Item'' = item" for kw w
    unfolding that[symmetric] using dynamo by (simp add: dynamo_frame_def kw_pk_def)
  have by_key: "elsewhere_kept t (case dget key ''PK'' of PStr p \<Rightarrow> Some p | _ \<Rightarrow> None) (rows w)
      (rows (snd (aw_update_item (td_aws deps) t kw w)))"
    "elsewhere_kept t (case dget key ''PK'' of PStr p \<Rightarrow> Some p | _ \<Rightarrow> None) (rows w)
      (rows (snd (aw_delete_item (td_aws deps) t kw w)))" if "kw_dict kw ''Key'' = key" for kw w
    unfolding that[symmetric] using dynamo by (simp_all add: dynamo_frame_def kw_pk_def)
  show "keeps (kept rows caller) (ts_get_item (td_aws deps) ctx t key [])"
    unfolding ts_get_item_def base_get_item_def by (auto intro!: iso.bind validate_kept aws_kept iso.io_rules)
  show "keeps (kept rows caller) (ts_query (td_aws deps) ctx t q)"
    unfolding ts_query_def Let_def by (auto intro!: iso.bind aws_kept iso.io_rules)
  show "keeps (kept rows caller) (ts_put_item (td_aws deps) ctx t item c [])"
    unfolding ts_put_item_def base_put_item_def Let_def
    by (rule written_kept[OF assms], rule put) (simp add: kw_dict_def dset_def split: option.split)
  show "keeps (kept rows caller) (ts_update_item (td_aws deps) ctx t key e vals names c)"
    unfolding ts_update_item_def base_update_item_def Let_def
    by (rule written_kept[OF assms], rule by_key) (simp add: kw_dict_def dset_def split: option.split)
  show "keeps (kept rows caller) (ts_delete_item (td_aws deps) ctx t key [])"
    unfolding ts_delete_item_def base_delete_item_def
    by (rule written_kept[OF assms]) (simp, rule by_key, simp add: kw_dict_def)
qed

text \<open>Every handler keeps the others' rows: the proofs follow the code with these rules.\<close>

lemmas code_rules = iso.io_rules services_kept aws_kept client_kept

lemma read_kept: "keeps (kept rows caller) (read_tenant_record deps env t caller app)"
  unfolding read_tenant_record_def by (rule code_rules iso.bind | erule scope)+

lemma update_kept: "own_client caller ctx \<Longrightarrow> keeps (kept rows caller) (update_fields deps ctx t key u)"
  unfolding update_fields_def by (rule code_rules iso.bind | assumption)+

lemma secrets_kept:
  "keeps (kept rows caller) (create_api_key_secret deps env t f)" "keeps (kept rows caller) (rotate_api_key_secret deps s t f)"
  unfolding create_api_key_secret_def rotate_api_key_secret_def attach_tenant_api_key_secret_policy_def Let_def
  by (rule code_rules iso.bind)+

lemmas record_rules = code_rules read_kept update_kept secrets_kept

lemma records_kept:
  "keeps (kept rows caller) (handle_create deps env request caller)" "keeps (kept rows caller) (handle_read deps env t caller)"
  "keeps (kept rows caller) (handle_update deps env upd t caller)" "keeps (kept rows caller) (handle_delete deps env t caller)"
  unfolding handle_create_def handle_read_def handle_update_def handle_delete_def Let_def
  by (rule record_rules iso.bind | erule scope)+

lemma lifecycle_kept:
  "keeps (kept rows caller) (create_tenant deps env event caller)" "keeps (kept rows caller) (read_tenant deps env t caller)"
  "keeps (kept rows caller) (update_tenant deps env event t caller)" "keeps (kept rows caller) (delete_tenant deps env t caller)"
  "keeps (kept rows caller) (handle_rotate_api_key deps env t caller)" "keeps (kept rows caller) (handle_health deps env)"
  unfolding create_tenant_def read_tenant_def update_tenant_def delete_tenant_def handle_rotate_api_key_def handle_health_def Let_def
  by (rule record_rules records_kept iso.bind | erule scope)+

lemma list_tenants_kept: "keeps (kept rows caller) (handle_list_tenants deps env lst caller)"
  unfolding handle_list_tenants_def list_page_def cp_scan_def Let_def by (rule code_rules lifecycle_kept iso.bind)+

lemma webhooks_kept: "keeps (kept rows caller) (webhook_routes deps env path meth event t caller)"
  unfolding webhook_routes_def handle_list_webhooks_def handle_register_webhook_def handle_delete_webhook_def Let_def
  by (rule code_rules iso.bind | erule scope)+

lemma deliver_kept: "own_client caller db \<Longrightarrow> keeps (kept rows caller) (deliver_invite_notification deps env db t email invite)"
  unfolding deliver_invite_notification_def notification_failure_def write_notification_def Let_def
  by (rule code_rules iso.bind | assumption)+

lemma existing_kept: "own_client caller db \<Longrightarrow> keeps (kept rows caller) (handle_existing_lookup deps env db t email found)"
  unfolding handle_existing_lookup_def Let_def by (rule code_rules deliver_kept iso.bind | assumption)+

lemma persist_kept: "own_client caller db \<Longrightarrow> keeps (kept rows caller) (persist_invite deps env db t email invite)"
  unfolding persist_invite_def Let_def by (rule code_rules deliver_kept existing_kept iso.bind | assumption)+

lemma invites_kept:
  "keeps (kept rows caller) (handle_invite_user deps env event t caller)" "keeps (kept rows caller) (handle_list_invites deps env t caller)"
  unfolding handle_invite_user_def handle_list_invites_def Let_def
  by (rule record_rules existing_kept persist_kept iso.bind | erule scope)+

lemma agents_kept:
  "keeps (kept rows caller) (handle_register_agent deps env event caller)"
  "keeps (kept rows caller) (update_agent_status deps env n v st ev caller)"
  "keeps (kept rows caller) (handle_patch_agent_version deps env event n v caller)"
  "keeps (kept rows caller) (handle_promote_agent deps env n v caller)" "keeps (kept rows caller) (handle_rollback_agent deps env n v caller)"
proof -
  show update: "keeps (kept rows caller) (update_agent_status deps env n v st ev caller)" for n v st ev
    unfolding update_agent_status_def Let_def by (rule record_rules iso.bind | erule scope)+
  show "keeps (kept rows caller) (handle_register_agent deps env event caller)"
    unfolding handle_register_agent_def Let_def by (rule record_rules iso.bind | erule scope)+
  show "keeps (kept rows caller) (handle_patch_agent_version deps env event n v caller)"
    unfolding handle_patch_agent_version_def Let_def by (rule update record_rules iso.bind)+
  show "keeps (kept rows caller) (handle_promote_agent deps env n v caller)" "keeps (kept rows caller) (handle_rollback_agent deps env n v caller)"
    unfolding handle_promote_agent_def handle_rollback_agent_def by (rule update)+
qed

lemma agent_write_kept: "agent_write_route deps env path meth event = Some run \<Longrightarrow> keeps (kept rows caller) (run caller)"
  by (auto simp: agent_write_route_def intro: agents_kept split: option.splits agent_route.splits)

lemma ops_kept:
  "keeps (kept rows caller) (handle_platform_quota deps env caller)" "keeps (kept rows caller) (handle_service_health deps caller)"
  "keeps (kept rows caller) (handle_platform_split_accounts deps event caller)"
  "keeps (kept rows caller) (handle_lambda_rollback deps env event caller)"
  unfolding handle_platform_quota_def handle_service_health_def handle_platform_split_accounts_def handle_lambda_rollback_def
    lambda_versions_def required_ssm_parameter_def optional_ssm_parameter_def Let_def
  by (rule code_rules iso.bind)+

text \<open>The loops over pages, and the routes.\<close>

lemma scan_all_kept: "loop_keeps (kept rows caller) (cp_scan_all (td_aws deps) t flt ns vs)"
  unfolding cp_scan_all_def cp_scan_def Let_def by (rule iso.pages | rule code_rules iso.bind)+

lemma listing_kept:
  "loop_keeps (kept rows caller) (handle_platform_billing_status deps env caller)"
  "loop_keeps (kept rows caller) (handle_list_agents deps env caller)"
proof -
  show "loop_keeps (kept rows caller) (handle_platform_billing_status deps env caller)"
    unfolding handle_platform_billing_status_def Let_def by (rule iso.loop_rules scan_all_kept | rule code_rules iso.bind)+
  show "loop_keeps (kept rows caller) (handle_list_agents deps env caller)"
    using scan_all_kept unfolding loop_keeps_def handle_list_agents_def
    by (auto simp: iso.same split: sum.splits)
qed

lemma objects_kept:
  "keeps (kept rows caller) (s3_put_object (td_aws deps) (td_s3 deps) ctx b k d x)"
  "keeps (kept rows caller) (s3_generate_presigned_url (td_aws deps) (td_s3 deps) ctx b k n op)"
proof -
  have "keeps (kept rows caller) (s3_raise_violation (td_aws deps) ctx target k)" for target
    using dynamo by (intro quiet) (simp add: leaves_def s3_raise_violation_def Let_def metric_kept dynamo_frame_def)
  then have check: "keeps (kept rows caller) (s3_validate_key (td_aws deps) ctx k)"
    unfolding s3_validate_key_def Let_def by (auto intro: iso.io_rules)
  show "keeps (kept rows caller) (s3_put_object (td_aws deps) (td_s3 deps) ctx b k d x)"
    "keeps (kept rows caller) (s3_generate_presigned_url (td_aws deps) (td_s3 deps) ctx b k n op)"
    unfolding s3_put_object_def s3_generate_presigned_url_def by (rule check code_rules iso.bind)+
qed

lemma export_kept: "loop_keeps (kept rows caller) (handle_audit_export deps env event t caller)"
proof -
  have collect: "loop_keeps (kept rows caller) (collect_audit_export_records deps env t caller app s e)" for app s e
  proof (cases "db_for_tenant t caller app")
    case (Inl x) then show ?thesis
      by (auto simp: collect_audit_export_records_def loop_keeps_def loop_bind_def loop_ends_def iso.same)
  next
    case (Inr ctx)
    then have "loop_keeps (kept rows caller)
        (collect_records (\<lambda>start. ts_query (td_aws deps) ctx (invocations_table_name env) (audit_query s e start)) (in_window s e) None [])"
      by (intro iso.collected client_kept) (rule scope)
    with Inr show ?thesis by (simp add: collect_audit_export_records_def loop_keeps_def loop_bind_def loop_ends_def)
  qed
  have finish: "keeps (kept rows caller) (finish_export deps env t caller app b s e items)" for app b s e items
    unfolding finish_export_def publish_export_def Let_def by (rule objects_kept code_rules iso.bind)+
  show ?thesis
    unfolding handle_audit_export_def Let_def by (rule iso.loop_rules collect | rule finish read_kept code_rules iso.bind)+
qed

text \<open>The whole API.\<close>

lemma answered_kept: "keeps (kept rows caller) m \<Longrightarrow> loop_keeps (kept rows caller) (answered m)"
  unfolding answered_def by (rule iso.ends, rule iso.bind, assumption, rule iso.return)

lemma no_route_kept: "loop_keeps (kept rows caller) no_route"
  unfolding no_route_def by (rule iso.ends, rule iso.return)

lemma or_else_kept: "loop_keeps (kept rows caller) m \<Longrightarrow> loop_keeps (kept rows caller) n \<Longrightarrow> loop_keeps (kept rows caller) (or_else m n)"
  unfolding or_else_def by (rule iso.loop, assumption, rule iso.loop_maybe, assumption, rule iso.ends, rule iso.return)

lemmas route_rules = iso.loop_cond iso.loop_maybe answered_kept no_route_kept

lemma admin_routes_kept: "loop_keeps (kept rows caller) (platform_admin_routes deps env path meth event caller)"
  "loop_keeps (kept rows caller) (ops_routes deps env path meth event caller)"
  unfolding platform_admin_routes_def ops_routes_def
  by (rule route_rules ops_kept listing_kept iso.loop | rule iso.ends iso.return iso.lift)+

lemma agent_routes_kept: "loop_keeps (kept rows caller) (agent_routes deps env path meth event caller)"
  unfolding agent_routes_def
  by (rule route_rules listing_kept iso.loop | rule iso.ends iso.return | erule agent_write_kept)+

lemma lifecycle_routes_kept: "loop_keeps (kept rows caller) (lifecycle_routes deps env path meth event t caller)"
  unfolding lifecycle_routes_def Let_def
  by (rule route_rules lifecycle_kept list_tenants_kept invites_kept export_kept iso.loop | rule iso.ends webhooks_kept iso.return)+

lemma dispatch_kept: "rt_caller rt = caller \<Longrightarrow> loop_keeps (kept rows caller) (dispatch_tenant_routes deps env event rt)"
  unfolding dispatch_tenant_routes_def Let_def
  by (simp only:) (rule route_rules or_else_kept admin_routes_kept agent_routes_kept lifecycle_routes_kept
    | rule iso.ends webhooks_kept iso.raises)+

lemma boundary_kept: "loop_keeps (kept rows caller) m \<Longrightarrow> loop_keeps (kept rows caller) (loop_boundary m)"
  unfolding loop_keeps_def loop_boundary_def by auto

lemma handle_event_kept:
  assumes "build_runtime event = Inr rt" and "rt_caller rt = caller" and "\<not> is_provisioner_event rt"
  shows "loop_keeps (kept rows caller) (handle_event deps env event)"
proof -
  have "keeps (kept rows caller) (other_events deps env event rt)"
    unfolding other_events_def using assms(3) by (auto intro: lifecycle_kept iso.return)
  then have "loop_keeps (kept rows caller) (loop_bind (dispatch_tenant_routes deps env event rt)
      (\<lambda>r. case r of Some a \<Rightarrow> loop_ends (io_return a) | None \<Rightarrow> loop_ends (other_events deps env event rt)))"
    by (intro iso.loop dispatch_kept[OF assms(2)]) (auto split: option.split intro: iso.ends iso.return)
  then show ?thesis
    unfolding handle_event_def assms(1) by (intro boundary_kept) (simp add: loop_keeps_def loop_bind_def loop_ends_def)
qed

end

section \<open>A tenant's caller\<close>

lemma keyed_elsewhere:
  assumes "\<And>pk sk. dget key ''PK'' = PStr pk \<Longrightarrow> elsewhere_kept t (Some pk) (rows w) (rows (snd (f pk sk w)))"
  shows "elsewhere_kept t (case dget key ''PK'' of PStr p \<Rightarrow> Some p | _ \<Rightarrow> None) (rows w) (rows (snd (keyed key f w)))"
proof (cases "\<exists>pk sk. dget key ''PK'' = PStr pk \<and> dget key ''SK'' = PStr sk")
  case True
  then obtain pk sk where "dget key ''PK'' = PStr pk" "dget key ''SK'' = PStr sk" by blast
  with assms show ?thesis by (simp add: keyed_def)
next
  case False
  then have "keyed key f = io_raise (client_error ''ValidationException'')" by (auto simp: keyed_def split: pyval.split)
  then show ?thesis by (simp add: elsewhere_kept_def)
qed

lemma map_frame: "dynamo_frame map_aws fst"
proof -
  have puts: "elsewhere_kept t (kw_pk kw ''Item'') (fst w) (fst (snd (aw_put_item map_aws t kw w)))" for t kw and w :: map_world
    unfolding map_aws_def kw_pk_def Let_def aws.simps
    by (rule keyed_elsewhere) (auto simp: elsewhere_kept_def put_result_def)
  have updates: "elsewhere_kept t (kw_pk kw ''Key'') (fst w) (fst (snd (aw_update_item map_aws t kw w)))" for t kw and w :: map_world
    unfolding map_aws_def kw_pk_def aws.simps
    by (rule keyed_elsewhere) (auto simp: elsewhere_kept_def update_result_def split: option.split)
  have deletes: "elsewhere_kept t (kw_pk kw ''Key'') (fst w) (fst (snd (aw_delete_item map_aws t kw w)))" for t kw and w :: map_world
    unfolding map_aws_def kw_pk_def aws.simps by (rule keyed_elsewhere) (simp add: elsewhere_kept_def)
  have gets: "leaves fst (aw_get_item map_aws t kw)" for t kw
    by (simp add: leaves_def map_aws_def keyed_def split: pyval.split)
  show ?thesis
    unfolding dynamo_frame_def using puts updates deletes gets by (simp add: leaves_def) (simp add: map_aws_def)
qed

definition sample_tenant_admin :: caller_identity where
  "sample_tenant_admin = \<lparr>ci_tenant_id = Some ''t-acme'', ci_app_id = Some ''app'', ci_tier = Some ''basic'', ci_sub = Some ''u-1'',
     ci_roles = [''Platform.Admin''], ci_usage_key = None\<rparr>"

interpretation tenant_admin: outside_caller map_deps fst sample_tenant_admin
  by unfold_locales (simp_all add: map_frame is_platform_actor_def sample_tenant_admin_def platform_tenant_def)

text \<open>
  Property C2. Isolation of the whole API: a request of a caller whose tenant is not the platform's changes no row of any other tenant, on any
  route, whether it ends in an answer, in a refusal or in an error, and however DynamoDB and the other services answer.
\<close>

theorem api_isolation:
  assumes "dynamo_frame (td_aws deps) rows" and "frame_ok deps rows"
    and "build_runtime event = Inr rt" and "\<not> is_platform_actor (rt_caller rt)" and "\<not> is_provisioner_event rt"
    and "handle_event deps env event w = Some (r, w')"
    and "starts_with pk tenant_pk_prefix" and "pk \<noteq> tenant_pk (own_tenant (rt_caller rt))"
  shows "rows w' table pk sk = rows w table pk sk"
proof -
  have "outside_caller deps rows (rt_caller rt)" using assms(1,2,4) by unfold_locales
  from outside_caller.handle_event_kept[OF this assms(3) refl assms(5)] assms(6-8) show ?thesis by (auto simp: loop_keeps_def kept_def others_kept_def)
qed


definition sample_tenant_world :: map_world where
  "sample_tenant_world =
     (set_row (set_row no_rows ''platform-tenants'' ''TENANT#t-acme'' ''METADATA'' (Some [(''tenantId'', PStr ''t-acme''), (''status'', PStr ''active'')]))
        ''platform-tenants'' ''TENANT#t-other'' ''METADATA'' (Some [(''tenantId'', PStr ''t-other''), (''status'', PStr ''active'')]), [])"

definition sample_request :: "string \<Rightarrow> string \<Rightarrow> pydict" where
  "sample_request meth tenant =
     [(''httpMethod'', PStr meth), (''path'', PStr (tenant_path tenant)), (''pathParameters'', PDict [(''tenantId'', PStr tenant)]),
      (''requestContext'', PDict [(''authorizer'', PDict [(''tenantid'', PStr ''t-acme''), (''appid'', PStr ''app''), (''sub'', PStr ''u-1''),
         (''roles'', PStr ''Platform.Admin'')])])]"

lemma tenant_dispatch:
  assumes "rt_path rt = tenant_path t"
  shows "dispatch_tenant_routes deps env event rt =
     (if str_contains (rt_path rt) ''/webhooks'' then loop_ends (webhook_routes deps env (rt_path rt) (rt_method rt) event (rt_tenant_id rt) (rt_caller rt))
      else lifecycle_routes deps env (rt_path rt) (rt_method rt) event (rt_tenant_id rt) (rt_caller rt))"
proof -
  have quiet: "or_else no_route m = m" for m :: "('a, pydict option) loop"
    by (rule ext) (simp add: or_else_def no_route_def loop_bind_def loop_ends_def io_return_def)
  have "\<not> starts_with (rt_path rt) ''/v1/platform''" by (simp add: assms tenant_path_def)
  moreover have "platform_admin_routes deps env (rt_path rt) (rt_method rt) event (rt_caller rt) = no_route"
    "ops_routes deps env (rt_path rt) (rt_method rt) event (rt_caller rt) = no_route"
    by (simp_all add: platform_admin_routes_def ops_routes_def assms tenant_path_def)
  moreover have "\<not> starts_with (rt_path rt) ''/v1/platform/agents''" by (simp add: assms tenant_path_def)
  ultimately show ?thesis by (simp add: dispatch_tenant_routes_def Let_def quiet)
qed

lemma sample_runtime:
  "build_runtime (sample_request ''DELETE'' ''t-acme'') = Inr \<lparr>rt_caller = sample_tenant_admin\<lparr>ci_tier := None\<rparr>, rt_method = ''DELETE'',
     rt_path = ''/v1/tenants/t-acme'', rt_tenant_id = Some ''t-acme'', rt_detail_type = None, rt_source = None\<rparr>"
  by code_simp

lemma sample_delete_runs: "\<exists>r w'. handle_event map_deps sample_env (sample_request ''DELETE'' ''t-acme'') w = Some (r, w')"
proof -
  obtain r w' where run: "delete_tenant map_deps sample_env ''t-acme'' (sample_tenant_admin\<lparr>ci_tier := None\<rparr>) w = (r, w')" by (metis surj_pair)
  show ?thesis
    unfolding handle_event_def sample_runtime
    by (cases r) (simp_all add: loop_boundary_def loop_bind_def loop_ends_def io_return_def io_lift_def tenant_dispatch[of _ "''t-acme''"]
        tenant_path_def lifecycle_routes_def answered_def io_bind_def run)
qed

theorem api_isolation_witness:
  "\<exists>r w'. handle_event map_deps sample_env (sample_request ''DELETE'' ''t-acme'') sample_tenant_world = Some (r, w')
     \<and> fst w' ''platform-tenants'' ''TENANT#t-other'' ''METADATA'' = Some [(''tenantId'', PStr ''t-other''), (''status'', PStr ''active'')]"
proof -
  obtain r w' where run: "handle_event map_deps sample_env (sample_request ''DELETE'' ''t-acme'') sample_tenant_world = Some (r, w')"
    using sample_delete_runs by blast
  have "fst w' ''platform-tenants'' ''TENANT#t-other'' ''METADATA'' = fst sample_tenant_world ''platform-tenants'' ''TENANT#t-other'' ''METADATA''"
    by (rule api_isolation[OF _ _ sample_runtime _ _ run])
      (simp_all add: map_frame is_platform_actor_def sample_tenant_admin_def platform_tenant_def is_provisioner_event_def
        tenant_pk_prefix_def tenant_pk_def own_tenant_def opt_or_def)
  with run show ?thesis by (auto simp: sample_tenant_world_def)
qed

end
