(* ===== verification/Billing.thy ===== *)
theory Billing
  imports DynamoTables
begin

text \<open>
  The daily billing run (\<open>billing/handler.py\<close>): the tokens of a day priced by tier, the monthly totals raised by one update, and the
  suspension of a tenant over its budget. Prices, metrics, events, clock and \<open>datetime.fromisoformat\<close> are parameters. Money is exact:
  a float is the rational it stands for, and \<open>round(x, 4)\<close> rounds halves to even.
\<close>

section \<open>Services and configuration\<close>

record 'w billing_deps =
  bd_aws :: "'w aws"
  bd_pricing :: "string \<Rightarrow> ('w, pyval) io"
  bd_put_metrics :: "pydict list \<Rightarrow> ('w, unit) io"
  bd_put_events :: "pydict \<Rightarrow> ('w, unit) io"
  bd_now :: "('w, rat) io"
  bd_fromisoformat :: "string \<Rightarrow> rat res"

text \<open>What the module reads from the environment when it is loaded.\<close>

record billing_config =
  bc_tenants_table :: string
  bc_invocations_table :: string
  bc_event_bus :: string

section \<open>Prices and costs\<close>

definition pricing_path :: "string \<Rightarrow> string" where
  "pricing_path tier = ''/platform/billing/pricing/'' @ tier"

definition price_field :: "string \<Rightarrow> pydict \<Rightarrow> string \<Rightarrow> pyfloat res" where
  "price_field path parsed field =
     (if dget parsed field = PNone
      then Inl (RuntimeErr (''Pricing parameter '' @ path @ '' is missing '' @ field))
      else (case py_float (dget parsed field) of
              Inr f \<Rightarrow> Inr f
            | Inl e \<Rightarrow> Inl (RuntimeErr (''Pricing parameter '' @ path @ '' has non-numeric '' @ field @ '': '' @ py_repr (dget parsed field)))))"

text \<open>The prices of a thousand input and output tokens; \<open>PricingResolutionError\<close> is a \<open>RuntimeError\<close>.\<close>

definition get_pricing :: "'w billing_deps \<Rightarrow> string \<Rightarrow> ('w, pyfloat \<times> pyfloat) io" where
  "get_pricing deps tier =
     (let path = pricing_path tier in
      io_try (bd_pricing deps path) (\<lambda>r. case r of
          Inl e \<Rightarrow> io_raise (RuntimeErr (''Failed to fetch pricing parameter '' @ path @ '' from SSM''))
        | Inr parsed \<Rightarrow> io_lift
            (case parsed of
               PDict d \<Rightarrow> bind_res (price_field path d ''input_1k'') (\<lambda>a. bind_res (price_field path d ''output_1k'') (\<lambda>b. Inr (a, b)))
             | v \<Rightarrow> Inl (RuntimeErr (''Pricing parameter '' @ path @ '' must be a JSON object, got '' @ type_name v)))))"

text \<open>A price that is infinite or not a number makes the cost so; \<open>None\<close> stands for both.\<close>

definition finite_value :: "pyfloat \<Rightarrow> rat option" where
  "finite_value f = (case f of FFin r t \<Rightarrow> Some r | _ \<Rightarrow> None)"

definition calculate_cost :: "int \<Rightarrow> int \<Rightarrow> pyfloat \<times> pyfloat \<Rightarrow> rat option" where
  "calculate_cost input_tokens output_tokens pricing =
     (case (finite_value (fst pricing), finite_value (snd pricing)) of
        (Some a, Some b) \<Rightarrow> Some (of_int input_tokens / 1000 * a + of_int output_tokens / 1000 * b)
      | _ \<Rightarrow> None)"

text \<open>\<open>round(x, 4)\<close>.\<close>

definition round_half_even :: "rat \<Rightarrow> int" where
  "round_half_even x =
     (let f = floor x; d = x - of_int f in
      if d < 1 / 2 then f else if 1 / 2 < d then f + 1 else if even f then f else f + 1)"

definition round4 :: "rat \<Rightarrow> rat" where
  "round4 x = of_int (round_half_even (x * 10000)) / 10000"

section \<open>Fields under two names\<close>

fun read_str_field :: "pydict \<Rightarrow> string list \<Rightarrow> string option \<Rightarrow> string option" where
  "read_str_field record [] dflt = dflt"
| "read_str_field record (n # ns) dflt =
     (case coerce_optional_string (dget record n) of Some t \<Rightarrow> Some t | None \<Rightarrow> read_str_field record ns dflt)"

fun read_float_field :: "pydict \<Rightarrow> string list \<Rightarrow> pyfloat \<Rightarrow> pyfloat res" where
  "read_float_field record [] dflt = Inr dflt"
| "read_float_field record (n # ns) dflt =
     (if dget record n = PNone then read_float_field record ns dflt else py_float (dget record n))"

fun read_int_field :: "pydict \<Rightarrow> string list \<Rightarrow> int \<Rightarrow> int res" where
  "read_int_field record [] dflt = Inr dflt"
| "read_int_field record (n # ns) dflt =
     (if dget record n = PNone then read_int_field record ns dflt else py_int (dget record n))"

section \<open>Days\<close>

definition day_start :: "rat \<Rightarrow> rat" where
  "day_start t = of_int (floor t div 86400 * 86400)"

definition day_end :: "rat \<Rightarrow> rat" where
  "day_end t = day_start t + 86400 - 1 / 1000000"

definition day_window :: "rat \<Rightarrow> condition" where
  "day_window t = KeyBetween ''SK'' (''INV#'' @ isoformat_utc (day_start t)) (''INV#'' @ isoformat_utc (day_end t))"

section \<open>One tenant\<close>

definition sum_field :: "string \<Rightarrow> pydict list \<Rightarrow> int res" where
  "sum_field k items =
     fold (\<lambda>inv acc. bind_res acc (\<lambda>n. bind_res (py_int (dget_or inv k (PInt 0))) (\<lambda>i. Inr (n + i)))) items (Inr 0)"

definition summary_expression :: string where
  "summary_expression =
     ''SET tenantId = :tid, tenant_id = :tid, yearMonth = :ym, year_month = :ym, updatedAt = :lu, last_updated = :lu ADD totalInputTokens :di, total_input_tokens :di, totalOutputTokens :do, total_output_tokens :do, totalCostUsd :dc, total_cost_usd :dc''"

definition summary_values :: "string \<Rightarrow> string \<Rightarrow> string \<Rightarrow> int \<Rightarrow> int \<Rightarrow> pyval \<Rightarrow> pydict" where
  "summary_values tenant_id year_month now_iso day_input day_output day_cost =
     [('':tid'', PStr tenant_id), ('':ym'', PStr year_month), ('':lu'', PStr now_iso),
      ('':di'', PInt day_input), ('':do'', PInt day_output), ('':dc'', day_cost)]"

definition billing_key :: "string \<Rightarrow> string \<Rightarrow> pydict" where
  "billing_key tenant_id year_month = row_key (tenant_pk tenant_id) (''BILLING#'' @ year_month)"

text \<open>\<open>Decimal(str(round(day_cost, 4)))\<close>; an infinite cost or one that is no number is refused by the library.\<close>

definition recorded_cost :: "rat option \<Rightarrow> pyval" where
  "recorded_cost c = (case c of Some x \<Rightarrow> number (round4 x) | None \<Rightarrow> PFloat FNan)"

definition cost_value :: "rat option \<Rightarrow> pyfloat" where
  "cost_value c = (case c of Some x \<Rightarrow> FFin x (number_text x) | None \<Rightarrow> FNan)"

definition cost_metrics :: "string \<Rightarrow> string \<Rightarrow> pyfloat \<Rightarrow> pyfloat \<Rightarrow> int \<Rightarrow> int \<Rightarrow> pydict list" where
  "cost_metrics tenant_id tier total_cost day_cost total_input total_output =
     (let dims = PList [PDict [(''Name'', PStr ''TenantId''), (''Value'', PStr tenant_id)],
                        PDict [(''Name'', PStr ''Tier''), (''Value'', PStr tier)]];
          metric = (\<lambda>(n, v). [(''MetricName'', PStr n), (''Value'', PFloat v), (''Unit'', PStr ''None''), (''Dimensions'', dims)]);
          count = (\<lambda>i. FFin (of_int i) (show_int i @ ''.0''))
      in map metric [(''MonthlyCost'', total_cost), (''DailyCost'', day_cost), (''InputTokens'', count total_input),
                     (''OutputTokens'', count total_output)])"

text \<open>\<open>budget > 0 and total_cost > budget\<close>, where a comparison with NaN is false.\<close>

definition float_less :: "pyfloat \<Rightarrow> pyfloat \<Rightarrow> bool" where
  "float_less a b \<longleftrightarrow>
     (case (a, b) of
        (FFin r _, FFin q _) \<Rightarrow> r < q
      | (FNan, _) \<Rightarrow> False
      | (_, FNan) \<Rightarrow> False
      | (FNegInf, FNegInf) \<Rightarrow> False
      | (FNegInf, _) \<Rightarrow> True
      | (_, FInf) \<Rightarrow> a \<noteq> FInf
      | _ \<Rightarrow> False)"

definition over_budget :: "pyfloat \<Rightarrow> pyfloat \<Rightarrow> bool" where
  "over_budget budget total_cost \<longleftrightarrow> float_less (FFin 0 ''0'') budget \<and> float_less budget total_cost"

definition suspend_tenant :: "'w billing_deps \<Rightarrow> billing_config \<Rightarrow> tenant_context \<Rightarrow> string \<Rightarrow> string \<Rightarrow> pyfloat \<Rightarrow> pyfloat \<Rightarrow> string
    \<Rightarrow> ('w, unit) io" where
  "suspend_tenant deps cfg ctx tenant_id tier budget total_cost year_month =
     io_bind (bd_now deps) (\<lambda>now.
     io_bind (ts_update_item (bd_aws deps) ctx (bc_tenants_table cfg) (tenant_row_key tenant_id)
        ''SET #s = :s, updatedAt = :u, updated_at = :u''
        [('':s'', PStr ''suspended''), ('':u'', PStr (isoformat_utc now))] (Some [(''#s'', PStr ''status'')]) if_present) (\<lambda>_.
     bd_put_events deps
       [(''Source'', PStr ''platform.billing''), (''DetailType'', PStr ''platform.tenant.budget_exceeded''),
        (''Detail'', PStr (json_dumps (PDict
           [(''tenantId'', PStr tenant_id), (''tier'', PStr tier), (''budget'', PFloat budget), (''cost'', PFloat total_cost),
            (''yearMonth'', PStr year_month)]))),
        (''EventBusName'', PStr (bc_event_bus cfg))]))"

definition billing_context :: "string \<Rightarrow> string \<Rightarrow> tenant_tier \<Rightarrow> tenant_context" where
  "billing_context tenant_id app_id tier = \<lparr>tc_tenant_id = tenant_id, tc_app_id = app_id, tc_tier = tier, tc_sub = ''billing-pipeline''\<rparr>"

text \<open>What the record of a tenant says, before anything is read or written.\<close>

record billed_tenant =
  bt_id :: string
  bt_tier_text :: string
  bt_budget :: pyfloat
  bt_context :: tenant_context

definition billed_tenant_of :: "pydict \<Rightarrow> billed_tenant res" where
  "billed_tenant_of tenant =
     (case read_str_field tenant [''tenantId'', ''tenant_id''] None of
        None \<Rightarrow> Inl (ValueError ''tenant record is missing tenantId'')
      | Some tenant_id \<Rightarrow>
          (case read_str_field tenant [''tier''] None of
             None \<Rightarrow> Inl (ValueError (''tenant '' @ tenant_id @ '' is missing tier''))
           | Some tier \<Rightarrow>
               bind_res (read_float_field tenant [''monthlyBudgetUsd'', ''monthly_budget_usd''] (FFin 0 ''0.0'')) (\<lambda>budget.
               let app_id = opt_or (read_str_field tenant [''appId'', ''app_id''] (Some ''unknown'')) ''unknown'' in
               case tier_of tier of
                 None \<Rightarrow> Inl (ValueError (tier @ '' is not a valid TenantTier''))
               | Some tr \<Rightarrow> Inr \<lparr>bt_id = tenant_id, bt_tier_text = tier, bt_budget = budget,
                               bt_context = billing_context tenant_id app_id tr\<rparr>)))"

text \<open>The monthly totals after the update, with the day's numbers where the answer holds none.\<close>

definition summary_totals :: "pydict \<Rightarrow> int \<Rightarrow> int \<Rightarrow> pyfloat \<Rightarrow> (int \<times> int \<times> pyfloat) res" where
  "summary_totals update_response day_input day_output day_cost =
     bind_res (need_dict (dget_or update_response ''Attributes'' (PDict []))) (\<lambda>updated.
     bind_res (read_int_field updated [''totalInputTokens'', ''total_input_tokens''] day_input) (\<lambda>total_input.
     bind_res (read_int_field updated [''totalOutputTokens'', ''total_output_tokens''] day_output) (\<lambda>total_output.
     bind_res (read_float_field updated [''totalCostUsd'', ''total_cost_usd''] day_cost) (\<lambda>total_cost.
     Inr (total_input, total_output, total_cost)))))"

definition enforce_budget :: "'w billing_deps \<Rightarrow> billing_config \<Rightarrow> pydict \<Rightarrow> billed_tenant \<Rightarrow> pyfloat \<Rightarrow> string \<Rightarrow> ('w, unit) io" where
  "enforce_budget deps cfg tenant bt total_cost year_month =
     (if over_budget (bt_budget bt) total_cost
      then (case dict_get tenant ''status'' of
              None \<Rightarrow> io_raise (KeyError ''status'')
            | Some s \<Rightarrow>
                if s = PStr ''active''
                then suspend_tenant deps cfg (bt_context bt) (bt_id bt) (bt_tier_text bt) (bt_budget bt) total_cost year_month
                else io_return ())
      else io_return ())"

text \<open>From the invocations of the day to the end.\<close>

definition settle_day :: "'w billing_deps \<Rightarrow> billing_config \<Rightarrow> pydict \<Rightarrow> billed_tenant \<Rightarrow> rat \<Rightarrow> pydict list \<Rightarrow> ('w, unit) io" where
  "settle_day deps cfg tenant bt date invocations =
     (let year_month = year_month_of date; tenant_id = bt_id bt; tier = bt_tier_text bt in
      io_bind (io_lift (sum_field ''input_tokens'' invocations)) (\<lambda>day_input.
      io_bind (io_lift (sum_field ''output_tokens'' invocations)) (\<lambda>day_output.
      io_try (get_pricing deps tier) (\<lambda>p. case p of
          Inl e \<Rightarrow> io_raise (RuntimeErr (''Unable to price tenant '' @ tenant_id))
        | Inr pricing \<Rightarrow>
            (let day_cost = calculate_cost day_input day_output pricing in
             io_bind (bd_now deps) (\<lambda>now.
             io_bind (ts_update_item (bd_aws deps) (bt_context bt) (bc_tenants_table cfg) (billing_key tenant_id year_month) summary_expression
                (summary_values tenant_id year_month (isoformat_utc now) day_input day_output (recorded_cost day_cost)) None None) (\<lambda>answer.
             io_bind (io_lift (summary_totals answer day_input day_output (cost_value day_cost))) (\<lambda>(total_input, total_output, total_cost).
             io_try (bd_put_metrics deps (cost_metrics tenant_id tier total_cost (cost_value day_cost) total_input total_output)) (\<lambda>_.
             enforce_budget deps cfg tenant bt total_cost year_month)))))))))"

definition process_tenant :: "'w billing_deps \<Rightarrow> billing_config \<Rightarrow> pydict \<Rightarrow> rat \<Rightarrow> ('w, unit) loop" where
  "process_tenant deps cfg tenant date =
     loop_bind (loop_ends (io_lift (billed_tenant_of tenant))) (\<lambda>bt.
     loop_bind (ts_query_all (bd_aws deps) (bt_context bt) (bc_invocations_table cfg) (Some (day_window date)) None None True) (\<lambda>invocations.
     loop_ends (settle_day deps cfg tenant bt date invocations)))"

section \<open>The run\<close>

definition active_filter :: condition where
  "active_filter = CondAnd (AttrEq ''SK'' ''METADATA'') (CondOr (AttrEq ''status'' ''active'') (AttrEq ''status'' ''suspended''))"

definition get_active_tenants :: "'w billing_deps \<Rightarrow> billing_config \<Rightarrow> ('w, pydict list) loop" where
  "get_active_tenants deps cfg = cp_scan_all (bd_aws deps) (bc_tenants_table cfg) (Some (KwCond active_filter)) None None"

text \<open>The loop over the tenants: an exception of one is counted, and the next one is processed.\<close>

fun process_tenants :: "(pydict \<Rightarrow> ('w, unit) loop) \<Rightarrow> pydict list \<Rightarrow> int \<Rightarrow> int \<Rightarrow> ('w, int \<times> int) loop" where
  "process_tenants process [] processed errors w = Some (Inr (processed, errors), w)"
| "process_tenants process (tenant # ts) processed errors w =
     (case process tenant w of
        None \<Rightarrow> None
      | Some (Inl e, w') \<Rightarrow> process_tenants process ts processed (errors + 1) w'
      | Some (Inr u, w') \<Rightarrow> process_tenants process ts (processed + 1) errors w')"

definition date_to_process :: "'w billing_deps \<Rightarrow> pydict \<Rightarrow> ('w, rat) io" where
  "date_to_process deps event =
     (case dict_get event ''date'' of
        Some (PStr s) \<Rightarrow> io_lift (bd_fromisoformat deps s)
      | Some v \<Rightarrow> io_raise (TypeError ''fromisoformat: argument must be str'')
      | None \<Rightarrow> io_bind (bd_now deps) (\<lambda>now. io_return (now - 86400)))"

definition billing_handler :: "'w billing_deps \<Rightarrow> billing_config \<Rightarrow> pydict \<Rightarrow> ('w, pydict) loop" where
  "billing_handler deps cfg event =
     loop_bind (loop_ends (date_to_process deps event)) (\<lambda>date.
     loop_bind (get_active_tenants deps cfg) (\<lambda>tenants.
     loop_bind (process_tenants (\<lambda>t. process_tenant deps cfg t date) tenants 0 0) (\<lambda>(processed, errors).
     loop_ends (io_return
       [(''status'', PStr (if errors = 0 then ''success'' else ''partial_failure'')), (''processed'', PInt processed),
        (''errors'', PInt errors), (''date'', PStr (date_text (floor date div 86400)))]))))"

section \<open>What an update of the summary does\<close>

text \<open>The six totals of a summary, each under its two names, and what a day adds to each.\<close>

definition summary_fields :: "string list" where
  "summary_fields = [''totalInputTokens'', ''total_input_tokens'', ''totalOutputTokens'', ''total_output_tokens'', ''totalCostUsd'',
     ''total_cost_usd'']"

fun numeric :: "pyval \<Rightarrow> rat option" where
  "numeric (PInt i) = Some (of_int i)"
| "numeric (PFloat (FFin r t)) = Some r"
| "numeric v = None"

definition month_total :: "pydict \<Rightarrow> string \<Rightarrow> rat option" where
  "month_total item f = numeric (dget_or item f (PInt 0))"

definition day_amount :: "int \<Rightarrow> int \<Rightarrow> rat \<Rightarrow> string \<Rightarrow> rat" where
  "day_amount di dout dc f =
     (if f \<in> {''totalInputTokens'', ''total_input_tokens''} then of_int di
      else if f \<in> {''totalOutputTokens'', ''total_output_tokens''} then of_int dout else dc)"

text \<open>The update as code: the clauses that set, then each total raised.\<close>

fun raise_totals :: "(string \<times> pyval) list \<Rightarrow> pydict \<Rightarrow> pydict option" where
  "raise_totals [] item = Some item"
| "raise_totals ((f, x) # fs) item =
     (case add_numbers (dget_or item f (PInt 0)) x of None \<Rightarrow> None | Some s \<Rightarrow> raise_totals fs (dset f s item))"

lemma summary_parts:
  "cut_at '' ADD '' summary_expression =
     (''SET tenantId = :tid, tenant_id = :tid, yearMonth = :ym, year_month = :ym, updatedAt = :lu, last_updated = :lu'',
      ''totalInputTokens :di, total_input_tokens :di, totalOutputTokens :do, total_output_tokens :do, totalCostUsd :dc, total_cost_usd :dc'')"
  "set_clauses ''SET tenantId = :tid, tenant_id = :tid, yearMonth = :ym, year_month = :ym, updatedAt = :lu, last_updated = :lu''
     = [(''tenantId'', '':tid''), (''tenant_id'', '':tid''), (''yearMonth'', '':ym''), (''year_month'', '':ym''), (''updatedAt'', '':lu''),
        (''last_updated'', '':lu'')]"
  "add_clauses ''totalInputTokens :di, total_input_tokens :di, totalOutputTokens :do, total_output_tokens :do, totalCostUsd :dc, total_cost_usd :dc''
     = [(''totalInputTokens'', '':di''), (''total_input_tokens'', '':di''), (''totalOutputTokens'', '':do''), (''total_output_tokens'', '':do''),
        (''totalCostUsd'', '':dc''), (''total_cost_usd'', '':dc'')]"
  by code_simp+

definition summary_labels :: "string \<Rightarrow> string \<Rightarrow> string \<Rightarrow> pydict" where
  "summary_labels tenant_id year_month now_iso =
     [(''tenantId'', PStr tenant_id), (''tenant_id'', PStr tenant_id), (''yearMonth'', PStr year_month), (''year_month'', PStr year_month),
      (''updatedAt'', PStr now_iso), (''last_updated'', PStr now_iso)]"

lemma apply_summary:
  "apply_update summary_expression [] (summary_values tenant_id year_month now_iso di dout dc) item
     = raise_totals (zip summary_fields [PInt di, PInt di, PInt dout, PInt dout, dc, dc]) (dupdate item (summary_labels tenant_id year_month now_iso))"
  unfolding apply_update_def summary_parts prod.case apply_set_def
  by (simp add: resolve_name_def starts_with_def summary_values_def summary_labels_def summary_fields_def del: add_numbers.simps split: option.split)

lemma numeric_add:
  "numeric a = Some r \<Longrightarrow> numeric b = Some q \<Longrightarrow> \<exists>s. add_numbers a b = Some s \<and> numeric s = Some (r + q)"
  by (cases "(a, b)" rule: add_numbers.cases) (auto simp: number_def)

lemma month_total_dset: "month_total (dset f s item) g = (if g = f then numeric s else month_total item g)"
  by (simp add: month_total_def dget_or_def)

lemma raise_totals_adds:
  assumes "distinct (map fst fs)" and "\<forall>(f, x) \<in> set fs. month_total item f \<noteq> None \<and> numeric x \<noteq> None"
  shows "\<exists>new. raise_totals fs item = Some new
    \<and> (\<forall>(f, x) \<in> set fs. map_of new f \<noteq> None \<and> month_total new f = Some (the (month_total item f) + the (numeric x)))
    \<and> (\<forall>k. k \<notin> fst ` set fs \<longrightarrow> map_of new k = map_of item k)"
  using assms
proof (induction fs arbitrary: item)
  case (Cons p fs)
  obtain f x where p: "p = (f, x)" by (cases p)
  obtain r q where "month_total item f = Some r" "numeric x = Some q" using Cons.prems(2) by (auto simp: p)
  with numeric_add[of "dget_or item f (PInt 0)" r x q] obtain s
    where s: "add_numbers (dget_or item f (PInt 0)) x = Some s" "numeric s = Some (r + q)" by (auto simp: month_total_def)
  have fresh: "f \<notin> fst ` set fs" using Cons.prems(1) by (simp add: p)
  then have same: "month_total (dset f s item) g = month_total item g" if "(g, y) \<in> set fs" for g y
    using that by (force simp: month_total_dset)
  have "\<forall>(g, y) \<in> set fs. month_total (dset f s item) g \<noteq> None \<and> numeric y \<noteq> None"
    using Cons.prems(2) same by fastforce
  with Cons.IH[of "dset f s item"] Cons.prems(1) obtain new where
    new: "raise_totals fs (dset f s item) = Some new"
      "\<forall>(g, y) \<in> set fs. map_of new g \<noteq> None \<and> month_total new g = Some (the (month_total (dset f s item) g) + the (numeric y))"
      "\<forall>k. k \<notin> fst ` set fs \<longrightarrow> map_of new k = map_of (dset f s item) k"
    by (auto simp: p)
  have "map_of new f = Some s" "month_total new f = month_total (dset f s item) f"
    using new(3) fresh by (simp_all add: month_total_def dget_or_def)
  with new s same fresh show ?case
    using \<open>month_total item f = Some r\<close> \<open>numeric x = Some q\<close>
    by (intro exI[of _ new]) (auto simp: p month_total_dset)
qed simp

section \<open>A day settled\<close>

text \<open>The services that are not the tables leave these alone, and the clock answers.\<close>

definition bill_frame :: "'w billing_deps \<Rightarrow> ('w \<Rightarrow> rows) \<Rightarrow> bool" where
  "bill_frame deps rows \<longleftrightarrow>
     (\<forall>w. \<exists>t w'. bd_now deps w = (Inr t, w') \<and> rows w' = rows w) \<and> (\<forall>p. leaves rows (bd_pricing deps p))
   \<and> (\<forall>m. leaves rows (bd_put_metrics deps m)) \<and> (\<forall>e. leaves rows (bd_put_events deps e))"

lemma bill_now:
  assumes "bill_frame deps rows" and "\<And>t w'. rows w' = rows w \<Longrightarrow> io_post (f t) w' Q"
  shows "io_post (io_bind (bd_now deps) f) w Q"
proof -
  obtain t w' where "bd_now deps w = (Inr t, w')" "rows w' = rows w" using assms(1) unfolding bill_frame_def by blast
  then show ?thesis using assms(2) by (auto intro: io_post_bind_eq)
qed

lemma bill_metrics: "bill_frame deps rows \<Longrightarrow> leaves rows (bd_put_metrics deps m)"
  by (simp add: bill_frame_def)

lemma get_pricing_leaves: "bill_frame deps rows \<Longrightarrow> leaves rows (get_pricing deps tier)"
  by (auto simp: leaves_def bill_frame_def get_pricing_def Let_def io_try_def io_raise_def io_lift_def split: prod.splits sum.splits pyval.splits)
   (metis snd_conv)+

text \<open>The metadata row a suspension leaves.\<close>

definition suspended_at :: "string \<Rightarrow> pydict \<Rightarrow> pydict" where
  "suspended_at now item = dupdate item [(''status'', PStr ''suspended''), (''updatedAt'', PStr now), (''updated_at'', PStr now)]"

lemma suspension_applies:
  "apply_update ''SET #s = :s, updatedAt = :u, updated_at = :u'' [(''#s'', PStr ''status'')]
     [('':s'', PStr ''suspended''), ('':u'', PStr now)] item = Some (suspended_at now item)"
proof -
  have "set_clauses ''SET #s = :s, updatedAt = :u, updated_at = :u'' = [(''#s'', '':s''), (''updatedAt'', '':u''), (''updated_at'', '':u'')]"
    by code_simp
  moreover have "cut_at '' ADD '' ''SET #s = :s, updatedAt = :u, updated_at = :u'' = (''SET #s = :s, updatedAt = :u, updated_at = :u'', [])"
    by code_simp
  ultimately show ?thesis by (simp add: apply_update_def apply_set_def resolve_name_def starts_with_def suspended_at_def)
qed

definition set_metadata :: "rows \<Rightarrow> billing_config \<Rightarrow> string \<Rightarrow> pydict \<Rightarrow> rows" where
  "set_metadata r cfg tenant_id item = set_row r (bc_tenants_table cfg) (tenant_pk tenant_id) ''METADATA'' (Some item)"

lemma suspend_tenant_rows:
  assumes "dynamo_ok (bd_aws deps) rows" and "bill_frame deps rows" and "tc_tenant_id ctx = tenant_id"
  shows "io_post (suspend_tenant deps cfg ctx tenant_id tier budget total_cost year_month) w
    (\<lambda>r w'. case rows w (bc_tenants_table cfg) (tenant_pk tenant_id) ''METADATA'' of
        None \<Rightarrow> rows w' = rows w
      | Some old \<Rightarrow> \<exists>now. rows w' = set_metadata (rows w) cfg tenant_id (suspended_at now old))"
proof -
  have res: "update_result ''SET #s = :s, updatedAt = :u, updated_at = :u'' [('':s'', PStr ''suspended''), ('':u'', PStr now)]
      (Some [(''#s'', PStr ''status'')]) if_present t pk sk r
    = (case r t pk sk of None \<Rightarrow> Inl condition_failed
       | Some old \<Rightarrow> Inr (suspended_at now old, set_row r t pk sk (Some (suspended_at now old))))" for now t pk sk r
    by (simp add: update_result_def suspension_applies condition_holds_def if_present_def put_if_absent_def old_row_def split: option.split)
  show ?thesis
    unfolding suspend_tenant_def tenant_row_key_def
    by (rule bill_now[OF assms(2)], rule raw_update_post[OF assms(1)], simp add: assms(3))
      (use assms(2) in \<open>auto simp: res set_metadata_def bill_frame_def simp del: set_row_apply split: option.splits intro!: io_post_leaves\<close>)
qed

text \<open>What the totals of a month then are, and when a budget is passed.\<close>

definition passes_budget :: "pyfloat \<Rightarrow> rat \<Rightarrow> bool" where
  "passes_budget budget cost \<longleftrightarrow> (case finite_value budget of Some b \<Rightarrow> 0 < b \<and> b < cost | None \<Rightarrow> False)"

lemma over_budget_passes: "over_budget budget (FFin c t) \<longleftrightarrow> passes_budget budget c"
  by (cases budget) (auto simp: over_budget_def float_less_def passes_budget_def finite_value_def)

lemma total_reads:
  assumes "month_total item f = Some r"
  shows "dget_or item f (PInt 0) \<noteq> PNone" "\<exists>i. py_int (dget_or item f (PInt 0)) = Inr i"
    "\<exists>t. py_float (dget_or item f (PInt 0)) = Inr (FFin r t)"
  using assms by (cases "dget_or item f (PInt 0)" rule: numeric.cases; auto simp: month_total_def)+

lemma present_read: "map_of item f \<noteq> None \<Longrightarrow> dget item f = dget_or item f d"
  by (auto simp: dget_or_def)

lemma summary_totals_read:
  assumes "\<forall>f \<in> set summary_fields. map_of new f \<noteq> None \<and> month_total new f \<noteq> None"
  shows "\<exists>i j t. summary_totals [(''Attributes'', PDict new)] di dout dc = Inr (i, j, FFin (the (month_total new ''totalCostUsd'')) t)"
proof -
  have f: "dget new f = dget_or new f (PInt 0)" "\<exists>r. month_total new f = Some r" if "f \<in> set summary_fields" for f
    using assms present_read that by blast+
  obtain r1 r2 r3 where r: "month_total new ''totalInputTokens'' = Some r1" "month_total new ''totalOutputTokens'' = Some r2" "month_total new ''totalCostUsd'' = Some r3"
    using f(2)[of "''totalInputTokens''"] f(2)[of "''totalOutputTokens''"] f(2)[of "''totalCostUsd''"] unfolding summary_fields_def
    by (metis list.set_intros)
  from total_reads[OF r(1)] total_reads[OF r(2)] total_reads[OF r(3)] show ?thesis
    using f(1)[of "''totalInputTokens''"] f(1)[of "''totalOutputTokens''"] f(1)[of "''totalCostUsd''"] r(3)
    by (auto simp: summary_totals_def need_dict_def summary_fields_def dget_or_def[of "[_]"])
qed

lemma enforce_budget_rows:
  assumes "dynamo_ok (bd_aws deps) rows" and "bill_frame deps rows" and "tc_tenant_id (bt_context bt) = bt_id bt"
  shows "io_post (enforce_budget deps cfg tenant bt (FFin c t) year_month) w
    (\<lambda>r w'. case (if passes_budget (bt_budget bt) c \<and> dict_get tenant ''status'' = Some (PStr ''active'')
                    then rows w (bc_tenants_table cfg) (tenant_pk (bt_id bt)) ''METADATA'' else None) of
        None \<Rightarrow> rows w' = rows w
      | Some old \<Rightarrow> \<exists>now. rows w' = set_metadata (rows w) cfg (bt_id bt) (suspended_at now old))"
  unfolding enforce_budget_def over_budget_passes
  using suspend_tenant_rows[OF assms(1,2), of "bt_context bt" "bt_id bt" cfg "bt_tier_text bt" "bt_budget bt" "FFin c t" year_month w] assms(3)
  by (auto intro!: io_post_intros)

lemma numeric_recorded: "numeric (recorded_cost (Some c)) = Some (round4 c)" "update_value_ok (recorded_cost (Some c))"
  by (simp_all add: recorded_cost_def number_def)

lemma summary_raised:
  assumes "\<forall>f \<in> set summary_fields. month_total old f \<noteq> None"
  shows "\<exists>new. apply_update summary_expression [] (summary_values tenant_id ym now di dout (recorded_cost (Some c))) old = Some new
    \<and> (\<forall>f \<in> set summary_fields. map_of new f \<noteq> None \<and> month_total new f = Some (the (month_total old f) + day_amount di dout (round4 c) f))"
proof -
  let ?fs = "zip summary_fields [PInt di, PInt di, PInt dout, PInt dout, recorded_cost (Some c), recorded_cost (Some c)]"
  let ?it = "dupdate old (summary_labels tenant_id ym now)"
  have same: "month_total ?it f = month_total old f" if "f \<in> set summary_fields" for f
    using that by (auto simp: summary_fields_def summary_labels_def month_total_def dget_or_def)
  have "map fst ?fs = summary_fields" by (simp add: summary_fields_def)
  then have "distinct (map fst ?fs)" by (simp add: summary_fields_def)
  moreover have "\<forall>(f, x) \<in> set ?fs. month_total ?it f \<noteq> None \<and> numeric x \<noteq> None"
    using assms same by (auto simp: summary_fields_def numeric_recorded)
  ultimately obtain new where "raise_totals ?fs ?it = Some new"
    and new: "\<forall>(f, x) \<in> set ?fs. map_of new f \<noteq> None \<and> month_total new f = Some (the (month_total ?it f) + the (numeric x))"
    using raise_totals_adds[of ?fs ?it] by blast
  moreover have "\<forall>f \<in> set summary_fields. map_of new f \<noteq> None \<and> month_total new f = Some (the (month_total old f) + day_amount di dout (round4 c) f)"
    using new same by (simp add: summary_fields_def day_amount_def numeric_recorded del: month_total_dset)
  ultimately show ?thesis by (simp add: apply_summary)
qed

text \<open>
  The promise of a day: every total of the month grows by the amount of the day, and the metadata row is marked suspended exactly
  when the tenant was active and the new total passes its budget.
\<close>

definition day_booked :: "billing_config \<Rightarrow> billed_tenant \<Rightarrow> bool \<Rightarrow> string \<Rightarrow> (string \<Rightarrow> rat) \<Rightarrow> rows \<Rightarrow> rows \<Rightarrow> bool" where
  "day_booked cfg bt is_active year_month amount before after \<longleftrightarrow>
     (\<exists>new now.
        let t = bc_tenants_table cfg; pk = tenant_pk (bt_id bt); sk = ''BILLING#'' @ year_month;
            old = old_row before t pk sk; booked = set_row before t pk sk (Some new)
        in (\<forall>f \<in> set summary_fields. month_total new f = Some (the (month_total old f) + amount f))
         \<and> after = (case before t pk ''METADATA'' of
             Some m \<Rightarrow> if is_active \<and> passes_budget (bt_budget bt) (the (month_total new ''totalCostUsd''))
                       then set_metadata booked cfg (bt_id bt) (suspended_at now m) else booked
           | None \<Rightarrow> booked))"

text \<open>What a day needs to be booked: counts in the range of the store, a price, and totals that are numbers.\<close>

definition day_priced :: "'w billing_deps \<Rightarrow> billed_tenant \<Rightarrow> int \<Rightarrow> int \<Rightarrow> rat \<Rightarrow> 'w \<Rightarrow> bool" where
  "day_priced deps bt di dout c w \<longleftrightarrow>
     (case get_pricing deps (bt_tier_text bt) w of
        (Inr pricing, w') \<Rightarrow> calculate_cost di dout pricing = Some c | _ \<Rightarrow> False)
   \<and> abs di < 10 ^ 38 \<and> abs dout < 10 ^ 38"

lemma day_bookedI:
  assumes new: "\<forall>f \<in> set summary_fields.
      month_total new f = Some (the (month_total (old_row before (bc_tenants_table cfg) (tenant_pk (bt_id bt)) (''BILLING#'' @ ym)) f) + amount f)"
    and booked: "booked = set_row before (bc_tenants_table cfg) (tenant_pk (bt_id bt)) (''BILLING#'' @ ym) (Some new)"
    and after: "case (if passes_budget (bt_budget bt) (the (month_total new ''totalCostUsd'')) \<and> is_active
                      then booked (bc_tenants_table cfg) (tenant_pk (bt_id bt)) ''METADATA'' else None) of
        None \<Rightarrow> after = booked
      | Some old \<Rightarrow> \<exists>now. after = set_metadata booked cfg (bt_id bt) (suspended_at now old)"
  shows "day_booked cfg bt is_active ym amount before after"
proof -
  have metadata: "booked (bc_tenants_table cfg) (tenant_pk (bt_id bt)) ''METADATA'' = before (bc_tenants_table cfg) (tenant_pk (bt_id bt)) ''METADATA''"
    by (simp add: booked)
  obtain now where "after = (case before (bc_tenants_table cfg) (tenant_pk (bt_id bt)) ''METADATA'' of
      Some m \<Rightarrow> if is_active \<and> passes_budget (bt_budget bt) (the (month_total new ''totalCostUsd''))
                then set_metadata booked cfg (bt_id bt) (suspended_at now m) else booked
    | None \<Rightarrow> booked)"
    using after unfolding metadata by (auto split: option.splits if_splits)
  then show ?thesis
    unfolding day_booked_def Let_def booked using new by (intro exI[of _ new] exI[of _ now] conjI) assumption+
qed

lemma settle_day_rows:
  assumes law: "dynamo_ok (bd_aws deps) rows" and frame: "bill_frame deps rows" and ctx: "tc_tenant_id (bt_context bt) = bt_id bt"
    and sums: "sum_field ''input_tokens'' invocations = Inr di" "sum_field ''output_tokens'' invocations = Inr dout"
    and priced: "day_priced deps bt di dout c w"
    and old: "\<forall>f \<in> set summary_fields.
      month_total (old_row (rows w) (bc_tenants_table cfg) (tenant_pk (bt_id bt)) (''BILLING#'' @ year_month_of date)) f \<noteq> None"
  shows "io_post (settle_day deps cfg tenant bt date invocations) w
    (\<lambda>r w'. day_booked cfg bt (dict_get tenant ''status'' = Some (PStr ''active'')) (year_month_of date) (day_amount di dout (round4 c))
       (rows w) (rows w'))"
proof -
  let ?t = "bc_tenants_table cfg" and ?pk = "tenant_pk (bt_id bt)" and ?sk = "''BILLING#'' @ year_month_of date"
  obtain pricing w0 where p: "get_pricing deps (bt_tier_text bt) w = (Inr pricing, w0)" "calculate_cost di dout pricing = Some c"
    using priced by (auto simp: day_priced_def split: prod.splits sum.splits)
  have same: "rows w0 = rows w" using leavesD[OF get_pricing_leaves[OF frame] p(1)] .
  let ?vals = "\<lambda>now. summary_values (bt_id bt) (year_month_of date) now di dout (recorded_cost (Some c))"
  have vals: "list_all (\<lambda>(k, v). update_value_ok v) (?vals now)" for now
    using priced by (simp add: summary_values_def numeric_recorded day_priced_def)
  have update: "\<exists>new. update_result summary_expression (?vals now) None None ?t ?pk ?sk (rows w) = Inr (new, set_row (rows w) ?t ?pk ?sk (Some new))
      \<and> (\<forall>f \<in> set summary_fields. map_of new f \<noteq> None
           \<and> month_total new f = Some (the (month_total (old_row (rows w) ?t ?pk ?sk) f) + day_amount di dout (round4 c) f))" for now
    using summary_raised[OF old, of "bt_id bt" "year_month_of date" now di dout c] vals[of now]
    by (auto simp: update_result_def condition_holds_def put_if_absent_def if_present_def)
  have metadata: "?sk \<noteq> ''METADATA''" by simp
  show ?thesis
    unfolding settle_day_def Let_def sums billing_key_def io_bind_lift
  proof (rule io_post_try_eq, rule p(1), unfold sum.case p(2), rule bill_now[OF frame], rule raw_update_post[OF law])
    show "own_key (bt_context bt) ?pk" using ctx by simp
  next
    fix now w1 x assume "rows w1 = rows w0" "update_result summary_expression (?vals (isoformat_utc now)) None None ?t ?pk ?sk (rows w1) = Inl x"
    then show "day_booked cfg bt (dict_get tenant ''status'' = Some (PStr ''active'')) (year_month_of date) (day_amount di dout (round4 c))
       (rows w) (rows w1)" using update[of "isoformat_utc now"] same by auto
  next
    fix now w1 new r w2
    assume "rows w1 = rows w0" "update_result summary_expression (?vals (isoformat_utc now)) None None ?t ?pk ?sk (rows w1) = Inr (new, r)"
      and w2: "rows w2 = r"
    then have new: "\<forall>f \<in> set summary_fields. map_of new f \<noteq> None
           \<and> month_total new f = Some (the (month_total (old_row (rows w) ?t ?pk ?sk) f) + day_amount di dout (round4 c) f)"
      and r: "rows w2 = set_row (rows w) ?t ?pk ?sk (Some new)"
      using update[of "isoformat_utc now"] same by auto
    from new have raised: "\<forall>f \<in> set summary_fields.
        month_total new f = Some (the (month_total (old_row (rows w) ?t ?pk ?sk) f) + day_amount di dout (round4 c) f)" by simp
    obtain i j tx where totals: "summary_totals [(''Attributes'', PDict new)] di dout (cost_value (Some c))
        = Inr (i, j, FFin (the (month_total new ''totalCostUsd'')) tx)"
      using summary_totals_read[of new di dout "cost_value (Some c)"] new by auto
    show "io_post (io_bind (io_lift (summary_totals [(''Attributes'', PDict new)] di dout (cost_value (Some c))))
        (\<lambda>(total_input, total_output, total_cost).
           io_try (bd_put_metrics deps (cost_metrics (bt_id bt) (bt_tier_text bt) total_cost (cost_value (Some c)) total_input total_output))
             (\<lambda>_. enforce_budget deps cfg tenant bt total_cost (year_month_of date)))) w2
        (\<lambda>r w'. day_booked cfg bt (dict_get tenant ''status'' = Some (PStr ''active'')) (year_month_of date)
           (day_amount di dout (round4 c)) (rows w) (rows w'))"
      unfolding totals io_bind_lift prod.case
    proof (rule io_post_try)
      fix q w3 assume "bd_put_metrics deps (cost_metrics (bt_id bt) (bt_tier_text bt) (FFin (the (month_total new ''totalCostUsd'')) tx)
          (cost_value (Some c)) i j) w2 = (q, w3)"
      then have w3: "rows w3 = set_row (rows w) ?t ?pk ?sk (Some new)"
        using leavesD[OF bill_metrics[OF frame]] r by simp
      show "io_post (enforce_budget deps cfg tenant bt (FFin (the (month_total new ''totalCostUsd'')) tx) (year_month_of date)) w3
        (\<lambda>r w'. day_booked cfg bt (dict_get tenant ''status'' = Some (PStr ''active'')) (year_month_of date)
           (day_amount di dout (round4 c)) (rows w) (rows w'))"
        by (rule io_post_weaken[OF enforce_budget_rows[OF law frame ctx]], rule day_bookedI[OF raised w3], assumption)
    qed
  qed
qed

lemma billed_tenant_context: "billed_tenant_of tenant = Inr bt \<Longrightarrow> tc_tenant_id (bt_context bt) = bt_id bt"
  by (auto simp: billed_tenant_of_def billing_context_def Let_def bind_res_def split: option.splits sum.splits)

lemma process_tenant_books:
  assumes "dynamo_ok (bd_aws deps) rows" and "bill_frame deps rows" and "billed_tenant_of tenant = Inr bt"
    and "ts_query_all (bd_aws deps) (bt_context bt) (bc_invocations_table cfg) (Some (day_window date)) None None True w
      = Some (Inr invocations, w1)" and "rows w1 = rows w"
    and "sum_field ''input_tokens'' invocations = Inr di" and "sum_field ''output_tokens'' invocations = Inr dout"
    and "day_priced deps bt di dout c w1"
    and "\<forall>f \<in> set summary_fields.
      month_total (old_row (rows w) (bc_tenants_table cfg) (tenant_pk (bt_id bt)) (''BILLING#'' @ year_month_of date)) f \<noteq> None"
  shows "\<exists>r w'. process_tenant deps cfg tenant date w = Some (r, w')
    \<and> day_booked cfg bt (dict_get tenant ''status'' = Some (PStr ''active'')) (year_month_of date) (day_amount di dout (round4 c))
        (rows w) (rows w')"
proof -
  have "process_tenant deps cfg tenant date w = Some (settle_day deps cfg tenant bt date invocations w1)"
    using assms(3,4) by (simp add: process_tenant_def loop_bind_def loop_ends_def)
  moreover have "io_post (settle_day deps cfg tenant bt date invocations) w1
    (\<lambda>r w'. day_booked cfg bt (dict_get tenant ''status'' = Some (PStr ''active'')) (year_month_of date) (day_amount di dout (round4 c))
        (rows w1) (rows w'))"
    using assms by (intro settle_day_rows billed_tenant_context) simp_all
  ultimately show ?thesis using assms(5) by (auto simp: io_post_def split: prod.splits)
qed

text \<open>
  Property C14. A priced day is booked once and exactly: each of the six totals of the tenant's month grows by the amount of the day (a
  missing total counts as 0), the metadata row is marked suspended exactly when the tenant was active and the new total passes a
  positive budget, and no other row of the tables changes, however the metrics and events services answer.
\<close>

theorem billing_books_the_day:
  assumes "dynamo_ok (bd_aws deps) rows" and "bill_frame deps rows" and "billed_tenant_of tenant = Inr bt"
    and "ts_query_all (bd_aws deps) (bt_context bt) (bc_invocations_table cfg) (Some (day_window date)) None None True w
      = Some (Inr invocations, w1)" and "rows w1 = rows w"
    and "sum_field ''input_tokens'' invocations = Inr di" and "sum_field ''output_tokens'' invocations = Inr dout"
    and "day_priced deps bt di dout c w1"
    and "\<forall>f \<in> set summary_fields.
      month_total (old_row (rows w) (bc_tenants_table cfg) (tenant_pk (bt_id bt)) (''BILLING#'' @ year_month_of date)) f \<noteq> None"
  shows "\<exists>r w'. process_tenant deps cfg tenant date w = Some (r, w')
    \<and> day_booked cfg bt (dict_get tenant ''status'' = Some (PStr ''active'')) (year_month_of date) (day_amount di dout (round4 c))
        (rows w) (rows w')"
  using assms by (rule process_tenant_books)

definition sample_billing :: "map_world billing_deps" where
  "sample_billing = \<lparr>
     bd_aws = map_aws\<lparr>aw_query := \<lambda>t kw w. (Inr (Some [[(''input_tokens'', PInt 2000), (''output_tokens'', PInt 500)]], None), w)\<rparr>,
     bd_pricing = (\<lambda>p w. (Inr (PDict [(''input_1k'', PInt 3), (''output_1k'', PInt 4)]), w)),
     bd_put_metrics = (\<lambda>m w. (Inl OverflowError, w)), bd_put_events = (\<lambda>e w. (Inr (), w)),
     bd_now = (\<lambda>w. (Inr 1772841600, w)), bd_fromisoformat = (\<lambda>s. Inr 1772841600)\<rparr>"

definition sample_billing_config :: billing_config where
  "sample_billing_config = \<lparr>bc_tenants_table = ''tenants'', bc_invocations_table = ''invocations'', bc_event_bus = ''bus''\<rparr>"

definition sample_tenant :: pydict where
  "sample_tenant = [(''tenantId'', PStr ''acme''), (''tier'', PStr ''basic''), (''status'', PStr ''active''), (''monthlyBudgetUsd'', PInt 5)]"

definition sample_billed :: billed_tenant where
  "sample_billed = \<lparr>bt_id = ''acme'', bt_tier_text = ''basic'', bt_budget = FFin 5 ''5.0'',
     bt_context = billing_context ''acme'' ''unknown'' BASIC\<rparr>"

lemma sample_billing_ok:
  "dynamo_ok (bd_aws sample_billing) fst" "bill_frame sample_billing fst" "billed_tenant_of sample_tenant = Inr sample_billed"
  "sum_field ''input_tokens'' [[(''input_tokens'', PInt 2000), (''output_tokens'', PInt 500)]] = Inr 2000"
  "sum_field ''output_tokens'' [[(''input_tokens'', PInt 2000), (''output_tokens'', PInt 500)]] = Inr 500"
  "day_priced sample_billing sample_billed 2000 500 8 w"
  "ts_query_all (bd_aws sample_billing) ctx t sk None None True w
     = Some (Inr [[(''input_tokens'', PInt 2000), (''output_tokens'', PInt 500)]], w)"
proof -
  show "dynamo_ok (bd_aws sample_billing) fst" using map_dynamo_ok by (simp add: sample_billing_def dynamo_ok_query)
  show "bill_frame sample_billing fst" by (simp add: sample_billing_def bill_frame_def leaves_def)
  show "billed_tenant_of sample_tenant = Inr sample_billed" by code_simp
  show "sum_field ''input_tokens'' [[(''input_tokens'', PInt 2000), (''output_tokens'', PInt 500)]] = Inr 2000" by code_simp
  show "sum_field ''output_tokens'' [[(''input_tokens'', PInt 2000), (''output_tokens'', PInt 500)]] = Inr 500" by code_simp
  show "day_priced sample_billing sample_billed 2000 500 8 w"
    by (simp add: day_priced_def sample_billing_def get_pricing_def Let_def io_try_def price_field_def dget_or_def calculate_cost_def
        finite_value_def)
  show "ts_query_all (bd_aws sample_billing) ctx t sk None None True w
     = Some (Inr [[(''input_tokens'', PInt 2000), (''output_tokens'', PInt 500)]], w)"
    by (simp add: ts_query_all_def page_loop.simps ts_query_def Let_def io_bind_def sample_billing_def paginated_def no_more_pages_def)
qed

lemma sample_tenant_active: "dict_get sample_tenant ''status'' = Some (PStr ''active'')"
  by code_simp

theorem billing_books_the_day_witness:
  "\<exists>r w'. process_tenant sample_billing sample_billing_config sample_tenant 1772841600 (no_rows, []) = Some (r, w')
    \<and> day_booked sample_billing_config sample_billed True (year_month_of 1772841600) (day_amount 2000 500 (round4 8)) no_rows (fst w')"
  using billing_books_the_day[OF sample_billing_ok(1-3) sample_billing_ok(7) refl sample_billing_ok(4-6), where cfg = sample_billing_config
      and date = 1772841600 and w = "(no_rows, [])"]
  by (simp add: sample_tenant_active old_row_def no_rows_def row_key_def month_total_def dget_or_def summary_fields_def)

section \<open>The run over all tenants\<close>

text \<open>How the runs of the tenants follow one another, with the outcome of each.\<close>

fun tenant_runs :: "(pydict \<Rightarrow> ('w, unit) loop) \<Rightarrow> pydict list \<Rightarrow> 'w \<Rightarrow> unit res list \<Rightarrow> 'w \<Rightarrow> bool" where
  "tenant_runs process [] w rs w' \<longleftrightarrow> rs = [] \<and> w' = w"
| "tenant_runs process (t # ts) w rs w' \<longleftrightarrow>
     (\<exists>r w1 rs'. rs = r # rs' \<and> process t w = Some (r, w1) \<and> tenant_runs process ts w1 rs' w')"

definition failures :: "unit res list \<Rightarrow> int" where
  "failures rs = int (length (filter (\<lambda>r. r \<noteq> Inr ()) rs))"

lemma process_tenants_runs:
  "process_tenants process ts p e w = Some (r, w') \<longleftrightarrow>
     (\<exists>rs. tenant_runs process ts w rs w' \<and> r = Inr (p + int (length rs) - failures rs, e + failures rs))"
proof (induction process ts p e w rule: process_tenants.induct)
  case (2 process t ts p e w)
  show ?case
  proof (cases "process t w")
    case (Some out)
    obtain q w1 where out: "out = (q, w1)" by (cases out)
    show ?thesis
    proof (cases q)
      case (Inl x)
      then show ?thesis using 2(1)[OF Some] Some out
        by (auto simp: failures_def)
    next
      case (Inr u)
      then show ?thesis using 2(2)[OF Some] Some out by (auto simp: failures_def)
    qed
  qed simp
qed (auto simp: failures_def)


section \<open>Rounding\<close>

lemma round_half_even_close: "\<bar>of_int (round_half_even x) - x\<bar> \<le> (1 / 2 :: rat)"
proof -
  have "of_int \<lfloor>x\<rfloor> \<le> x" "x < of_int \<lfloor>x\<rfloor> + 1" by linarith+
  then show ?thesis by (auto simp: round_half_even_def Let_def abs_le_iff)
qed

lemma round4_close: "\<bar>round4 x - x\<bar> \<le> 1 / 20000"
proof -
  have "\<bar>of_int (round_half_even (x * 10000)) / 10000 - x\<bar> = \<bar>of_int (round_half_even (x * 10000)) - x * 10000\<bar> / 10000"
    by (simp add: abs_if field_simps)
  with round_half_even_close[of "x * 10000"] show ?thesis by (simp add: round4_def)
qed

lemma round_half_even_int [simp]: "round_half_even (of_int i) = i"
  by (simp add: round_half_even_def)

text \<open>
  What the daily rounding to four places costs: after any number of days the recorded costs and the exact ones differ by at
  most a twenty-thousandth of a dollar a day, and a cost of whole ten-thousandths is recorded as it is.
\<close>

theorem recorded_costs_close:
  "\<bar>sum_list (map round4 costs) - sum_list costs\<bar> \<le> of_nat (length costs) / 20000 \<and> round4 (of_int k / 10000) = of_int k / 10000"
proof
  show "\<bar>sum_list (map round4 costs) - sum_list costs\<bar> \<le> of_nat (length costs) / 20000"
  proof (induction costs)
    case (Cons c cs)
    have "\<bar>(round4 c + sum_list (map round4 cs)) - (c + sum_list cs)\<bar> \<le> \<bar>round4 c - c\<bar> + \<bar>sum_list (map round4 cs) - sum_list cs\<bar>"
      by linarith
    also have "\<dots> \<le> 1 / 20000 + of_nat (length cs) / 20000" by (intro add_mono round4_close Cons)
    finally show ?case by (simp add: add_divide_distrib)
  qed simp
qed (simp add: round4_def)

end
