(* ===== verification/BridgeDiscovery.thy ===== *)
theory BridgeDiscovery
  imports DynamoTables Arns Audit_Records Capability
begin

text \<open>
  What the bridge knows of agents and jobs (\<open>bridge/discovery_service.py\<close>): the listing, the newest version of an agent, its detail, and
  the state of a job with the address of its result. DynamoDB and S3 are parameters. A number read from DynamoDB is a \<open>Decimal\<close>, which
  \<open>json.dumps\<close> refuses unless the code converts it.
\<close>

section \<open>Texts of the enumerations\<close>

fun invocation_mode_value :: "invocation_mode \<Rightarrow> string" where
  "invocation_mode_value MODE_SYNC = ''sync''"
| "invocation_mode_value MODE_STREAMING = ''streaming''"
| "invocation_mode_value MODE_ASYNC = ''async''"

definition mode_of_text :: "string \<Rightarrow> invocation_mode res" where
  "mode_of_text s =
     (case find (\<lambda>m. invocation_mode_value m = s) [MODE_SYNC, MODE_STREAMING, MODE_ASYNC] of
        Some m \<Rightarrow> Inr m | None \<Rightarrow> Inl (ValueError (repr_str s @ '' is not a valid InvocationMode'')))"

fun transport_value :: "ag_ui_transport \<Rightarrow> string" where
  "transport_value AGUI_SSE = ''sse''"
| "transport_value AGUI_WEBSOCKET = ''websocket''"

definition transport_of_text :: "string \<Rightarrow> ag_ui_transport res" where
  "transport_of_text s =
     (case find (\<lambda>t. transport_value t = s) [AGUI_SSE, AGUI_WEBSOCKET] of
        Some t \<Rightarrow> Inr t | None \<Rightarrow> Inl (ValueError (repr_str s @ '' is not a valid AgUiTransport'')))"

definition tier_of_text :: "string \<Rightarrow> tenant_tier res" where
  "tier_of_text s = (case tier_of s of Some t \<Rightarrow> Inr t | None \<Rightarrow> Inl (ValueError (repr_str s @ '' is not a valid TenantTier'')))"

definition status_of_text :: "string \<Rightarrow> agent_status res" where
  "status_of_text s =
     (case agent_status_of s of Some t \<Rightarrow> Inr t | None \<Rightarrow> Inl (ValueError (repr_str s @ '' is not a valid AgentStatus'')))"

section \<open>Responses\<close>

definition json_answer :: "int \<Rightarrow> pyval \<Rightarrow> pydict" where
  "json_answer status body =
     [(''statusCode'', PInt status), (''headers'', PDict [(''Content-Type'', PStr ''application/json'')]), (''body'', PStr (json_dumps body))]"

text \<open>\<open>route_adapter.error_response\<close>.\<close>

definition bridge_error :: "int \<Rightarrow> string \<Rightarrow> string \<Rightarrow> string \<Rightarrow> pydict" where
  "bridge_error status_code code message request_id =
     [(''statusCode'', PInt status_code),
      (''headers'', PDict [(''Content-Type'', PStr ''application/json''), (''x-amzn-RequestId'', PStr request_id)]),
      (''body'', PStr (json_dumps (PDict [(''error'',
         PDict [(''code'', PStr code), (''message'', PStr message), (''requestId'', PStr request_id)])])))]"

text \<open>A name between single quotes.\<close>

definition quoted_name :: "string \<Rightarrow> string" where
  "quoted_name s = [CHR 0x27] @ s @ [CHR 0x27]"

section \<open>Order of versions\<close>

fun ints_le :: "int list \<Rightarrow> int list \<Rightarrow> bool" where
  "ints_le [] ys = True"
| "ints_le (x # xs) [] = False"
| "ints_le (x # xs) (y # ys) = (x < y \<or> (x = y \<and> ints_le xs ys))"

type_synonym version_key = "int list \<times> string"

definition version_key_le :: "version_key \<Rightarrow> version_key \<Rightarrow> bool" where
  "version_key_le a b \<longleftrightarrow> (if fst a = fst b then str_le (snd a) (snd b) else ints_le (fst a) (fst b))"

section \<open>Versions\<close>

text \<open>\<open>str.isdigit\<close> holds of superscript digits too, which \<open>int\<close> refuses.\<close>

definition py_isdigit :: "char \<Rightarrow> bool" where
  "py_isdigit c \<longleftrightarrow> is_digit c \<or> code_point c \<in> {178, 179, 185}"

definition version_part :: "string \<Rightarrow> int res" where
  "version_part part = (let digits = filter py_isdigit part in if digits = [] then Inr 0 else py_int (PStr digits))"

definition semver_sort_key :: "string \<Rightarrow> int list res" where
  "semver_sort_key version = all_res (map version_part (split_on (CHR ''.'') version))"

definition agent_record_sort_key :: "pydict \<Rightarrow> version_key res" where
  "agent_record_sort_key item =
     bind_res (semver_sort_key (py_str (dget_or item ''version'' (PStr []))))
       (\<lambda>k. Inr (k, py_str (dget_or item ''deployed_at'' (PStr []))))"

definition is_supported_invocation_mode :: "pydict \<Rightarrow> bool" where
  "is_supported_invocation_mode item \<longleftrightarrow>
     py_lower (py_strip (py_str (dget_or item ''invocation_mode'' (PStr ''sync'')))) \<in> {''sync'', ''streaming''}"

text \<open>\<open>is_invokable_agent_status(_coerce_optional_string(item.get("status")))\<close>.\<close>

definition status_invokable :: "pydict \<Rightarrow> bool res" where
  "status_invokable item =
     is_invokable_agent_status (case coerce_optional_string (dget item ''status'') of None \<Rightarrow> NoStatus | Some s \<Rightarrow> StatusText s)"

definition is_offered :: "pydict \<Rightarrow> bool res" where
  "is_offered item = bind_res (status_invokable item) (\<lambda>b. Inr (b \<and> is_supported_invocation_mode item))"

fun filter_res :: "('a \<Rightarrow> bool res) \<Rightarrow> 'a list \<Rightarrow> 'a list res" where
  "filter_res p [] = Inr []"
| "filter_res p (x # xs) = bind_res (p x) (\<lambda>b. bind_res (filter_res p xs) (\<lambda>ys. Inr (if b then x # ys else ys)))"

text \<open>\<open>sorted(items, key=_agent_record_sort_key, reverse=True)\<close>: the keys are computed first, and equal ones keep their order.\<close>

definition newest_first :: "pydict list \<Rightarrow> pydict list res" where
  "newest_first items =
     bind_res (all_res (map agent_record_sort_key items)) (\<lambda>ks.
       Inr (map snd (sort_by (\<lambda>a b. version_key_le (fst b) (fst a)) (zip ks items))))"

section \<open>Records of agents\<close>

definition ag_ui_item_of :: "pydict \<Rightarrow> pydict" where
  "ag_ui_item_of item =
     (let ui = (case dget_or item ''ag_ui'' (PDict []) of PDict d \<Rightarrow> d | _ \<Rightarrow> []) in
      if ui = [] \<and> list_ex (\<lambda>k. dict_get item k \<noteq> None) [''ag_ui_enabled'', ''ag_ui_transport'', ''ag_ui_endpoint'']
      then [(''enabled'', PBool (truthy (dget_or item ''ag_ui_enabled'' (PBool False)))),
            (''transport'', PStr (py_str (dget_or item ''ag_ui_transport'' (PStr ''sse'')))),
            (''endpoint'', (case coerce_optional_string (dget item ''ag_ui_endpoint'') of None \<Rightarrow> PNone | Some s \<Rightarrow> PStr s))]
      else ui)"

definition ag_ui_config_of :: "pydict \<Rightarrow> agent_ag_ui_config res" where
  "ag_ui_config_of ui =
     bind_res (transport_of_text (py_str (dget_or ui ''transport'' (PStr ''sse'')))) (\<lambda>t.
       Inr \<lparr>agui_enabled = truthy (dget_or ui ''enabled'' (PBool False)), agui_transport = t,
            agui_endpoint = coerce_optional_string (dget ui ''endpoint'')\<rparr>)"

definition stored_text :: "pydict \<Rightarrow> string \<Rightarrow> string" where
  "stored_text item k = py_str (dget_or item k (PStr []))"

text \<open>A duration is kept as it is stored; the record of the model has it as a number.\<close>

definition stored_int :: "pyval \<Rightarrow> int option" where
  "stored_int v = (case v of PInt i \<Rightarrow> Some i | _ \<Rightarrow> None)"

definition agent_record_from_item :: "pydict \<Rightarrow> agent_record res" where
  "agent_record_from_item item =
     (let runtime_arn = coerce_optional_string (dget item ''runtime_arn'');
          layer_hash = py_strip (stored_text item ''layer_hash'');
          layer_s3_key = py_strip (stored_text item ''layer_s3_key'') in
      if runtime_arn = None \<and> (layer_hash = [] \<or> layer_s3_key = [])
      then Inl (ValueError ''Incomplete zip-agent layer metadata'')
      else
        bind_res (tier_of_text (py_str (dget_or item ''tier_minimum'' (PStr ''basic'')))) (\<lambda>tier.
        bind_res (mode_of_text (py_str (dget_or item ''invocation_mode'' (PStr ''sync'')))) (\<lambda>mode.
        bind_res (status_of_text (py_str (dget_or item ''status'' (PStr ''promoted'')))) (\<lambda>status.
        bind_res (ag_ui_config_of (ag_ui_item_of item)) (\<lambda>ui.
        Inr \<lparr>agent_name = stored_text item ''agent_name'', agent_version = stored_text item ''version'',
             ar_owner_team = stored_text item ''owner_team'', ar_tier_minimum = tier, ar_layer_hash = layer_hash,
             ar_layer_s3_key = layer_s3_key, ar_script_s3_key = stored_text item ''script_s3_key'',
             ar_deployed_at = stored_text item ''deployed_at'', invocation_mode_of = mode,
             ar_streaming_enabled = truthy (dget_or item ''streaming_enabled'' (PBool False)), ar_status = status,
             ar_approved_by = None, ar_approved_at = None, ar_release_notes = None, ar_runtime_arn = runtime_arn, ar_model_id = None,
             ar_estimated_duration_seconds = stored_int (dget item ''estimated_duration_seconds''), ar_commit_sha = None,
             ar_pipeline_url = None, ar_job_id = None,
             ar_runtime_endpoint_arn = coerce_optional_string (dget item ''runtime_endpoint_arn''),
             ar_runtime_endpoint_name = coerce_optional_string (dget item ''runtime_endpoint_name''),
             ar_runtime_endpoint_version = coerce_optional_string (dget item ''runtime_endpoint_version''),
             ar_evaluation_score = None, ar_evaluation_report_url = None, ar_rolled_back_by = None, ar_rolled_back_at = None,
             ar_ag_ui = ui\<rparr>)))))"

text \<open>The first item that makes a record; a \<open>ValueError\<close> passes on to the next one.\<close>

fun first_agent_record :: "pydict list \<Rightarrow> agent_record option res" where
  "first_agent_record [] = Inr None"
| "first_agent_record (item # items) =
     (case agent_record_from_item item of
        Inr r \<Rightarrow> Inr (Some r)
      | Inl (ValueError m) \<Rightarrow> first_agent_record items
      | Inl e \<Rightarrow> Inl e)"

definition versions_query :: query_args where
  "versions_query = \<lparr>qa_sk = None, qa_filter = None, qa_index = None, qa_limit = None, qa_forward = True, qa_start = None, qa_extra = []\<rparr>"

definition agent_versions :: "'w aws \<Rightarrow> string \<Rightarrow> string \<Rightarrow> ('w, pydict list) io" where
  "agent_versions sv table agent =
     io_bind (cp_query sv table (Some (''AGENT#'' @ agent)) None versions_query) (\<lambda>r. io_return (pi_items r))"

definition newest_record :: "pydict list \<Rightarrow> agent_record option res" where
  "newest_record items =
     bind_res (filter_res is_offered items) (\<lambda>offered. bind_res (newest_first offered) first_agent_record)"

definition named_record :: "pydict option \<Rightarrow> agent_record option res" where
  "named_record found =
     (case found of
        None \<Rightarrow> Inr None
      | Some item \<Rightarrow>
          if item = [] then Inr None
          else bind_res (is_offered item) (\<lambda>b.
            if b then first_agent_record [item] else Inr None))"

definition resolve_agent_record :: "'w aws \<Rightarrow> string \<Rightarrow> string \<Rightarrow> string option \<Rightarrow> ('w, agent_record option) io" where
  "resolve_agent_record sv table agent version =
     (case version of
        Some (c # v) \<Rightarrow>
          io_bind (cp_get_item sv table (row_key (''AGENT#'' @ agent) (''VERSION#'' @ c # v)) []) (\<lambda>found. io_lift (named_record found))
      | _ \<Rightarrow> io_bind (agent_versions sv table agent) (\<lambda>items. io_lift (newest_record items)))"

section \<open>The listing\<close>

definition agent_summary_from_item :: "pydict \<Rightarrow> pydict" where
  "agent_summary_from_item item =
     (let name = stored_text item ''agent_name'' in
      [(''agentName'', PStr name), (''latestVersion'', PStr (stored_text item ''version'')),
       (''tierMinimum'', PStr (py_str (dget_or item ''tier_minimum'' (PStr ''basic'')))),
       (''invocationMode'', PStr (py_str (dget_or item ''invocation_mode'' (PStr ''sync'')))),
       (''streamingEnabled'', PBool (truthy (dget_or item ''streaming_enabled'' (PBool False)))),
       (''estimatedDurationSeconds'', dget item ''estimated_duration_seconds''),
       (''ownerTeam'', PStr (stored_text item ''owner_team'')),
       (''agUi'', PDict
         [(''enabled'', PBool (truthy (dget_or item ''ag_ui_enabled'' (PBool False)))),
          (''transport'', PStr (py_str (dget_or item ''ag_ui_transport'' (PStr ''sse'')))),
          (''bootstrapPath'', PStr (''/v1/agents/'' @ name @ ''/bootstrap''))])])"

text \<open>A value as it was read from the table, with a number somewhere in it: \<open>json.dumps\<close> raises \<open>TypeError\<close>.\<close>

fun holds_number :: "pyval \<Rightarrow> bool" where
  "holds_number (PInt i) = True"
| "holds_number (PFloat f) = True"
| "holds_number (PList xs) = list_ex holds_number xs"
| "holds_number (PDict d) = list_ex (\<lambda>(k, v). holds_number v) d"
| "holds_number v = False"

definition decimal_refused :: exc where
  "decimal_refused = TypeError ''Object of type Decimal is not JSON serializable''"

definition dump_summaries :: "pydict list \<Rightarrow> pyval \<Rightarrow> pydict res" where
  "dump_summaries summaries body =
     (if list_ex (\<lambda>s. holds_number (dget s ''estimatedDurationSeconds'')) summaries then Inl decimal_refused
      else Inr (json_answer 200 body))"

text \<open>\<open>latest_by_name\<close>: a name keeps the place where it was first met. A tie keeps the item that is there.\<close>

definition newer :: "pydict \<Rightarrow> pydict \<Rightarrow> bool res" where
  "newer item existing =
     bind_res (agent_record_sort_key item) (\<lambda>k. bind_res (agent_record_sort_key existing) (\<lambda>k'. Inr (\<not> version_key_le k k')))"

definition note_item :: "pydict \<Rightarrow> (string \<times> pydict) list \<Rightarrow> (string \<times> pydict) list res" where
  "note_item item latest =
     bind_res (is_offered item) (\<lambda>b.
       if \<not> b then Inr latest
       else (case coerce_optional_string (dget item ''agent_name'') of
               None \<Rightarrow> Inr latest
             | Some name \<Rightarrow>
                 (case map_of latest name of
                    None \<Rightarrow> Inr (dset name item latest)
                  | Some existing \<Rightarrow> bind_res (newer item existing) (\<lambda>n. Inr (if n then dset name item latest else latest)))))"

fun latest_by_name :: "pydict list \<Rightarrow> (string \<times> pydict) list \<Rightarrow> (string \<times> pydict) list res" where
  "latest_by_name [] latest = Inr latest"
| "latest_by_name (item # items) latest = bind_res (note_item item latest) (latest_by_name items)"

text \<open>An unknown minimum counts as basic here.\<close>

definition listed_minimum :: "pydict \<Rightarrow> tenant_tier" where
  "listed_minimum item =
     (case tier_of (py_lower (py_str (dget_or item ''tier_minimum'' (PStr ''basic'')))) of Some t \<Rightarrow> t | None \<Rightarrow> BASIC)"

definition enabled_for :: "digest \<Rightarrow> capability_policy \<Rightarrow> tenant_context \<Rightarrow> string \<Rightarrow> bool" where
  "enabled_for sha256 p ctx capability = is_enabled sha256 p capability (tc_tenant_id ctx) (tier_value (tc_tier ctx))"

definition ag_ui_enabled_in :: "pydict \<Rightarrow> bool" where
  "ag_ui_enabled_in summary = truthy (dget (dict_or_empty (dget summary ''agUi'')) ''enabled'')"

text \<open>The two capabilities of the AG-UI.\<close>

definition gate_ag_ui :: "digest \<Rightarrow> capability_policy option \<Rightarrow> tenant_context \<Rightarrow> pydict \<Rightarrow> pydict" where
  "gate_ag_ui sha256 policy ctx summary =
     (case policy of
        None \<Rightarrow> summary
      | Some p \<Rightarrow>
          if ag_ui_enabled_in summary
             \<and> \<not> (enabled_for sha256 p ctx ''agents.ag_ui''
                  \<and> enabled_for sha256 p ctx (''agents.'' @ py_str (dget summary ''agentName'') @ ''.ag_ui''))
          then dset ''agUi'' (PDict [(''enabled'', PBool False)]) summary
          else summary)"

definition visible_summaries :: "digest \<Rightarrow> capability_policy option \<Rightarrow> tenant_context \<Rightarrow> pydict list \<Rightarrow> pydict list" where
  "visible_summaries sha256 policy ctx items =
     map (\<lambda>item. gate_ag_ui sha256 policy ctx (agent_summary_from_item item)) (filter (\<lambda>item. listed_minimum item \<le> tc_tier ctx) items)"

definition summaries_of_items :: "digest \<Rightarrow> capability_policy option \<Rightarrow> tenant_context \<Rightarrow> pydict list \<Rightarrow> pydict list res" where
  "summaries_of_items sha256 policy ctx items =
     bind_res (latest_by_name items []) (\<lambda>latest.
       Inr (sort_by (\<lambda>a b. str_le (py_str (dget a ''agentName'')) (py_str (dget b ''agentName'')))
              (visible_summaries sha256 policy ctx (map snd latest))))"

definition list_agents ::
  "'w aws \<Rightarrow> string \<Rightarrow> digest \<Rightarrow> capability_policy option \<Rightarrow> tenant_context \<Rightarrow> ('w, pydict) loop" where
  "list_agents sv table sha256 policy ctx =
     loop_bind (cp_scan_all sv table None None None) (\<lambda>items. loop_ends (io_lift
       (bind_res (summaries_of_items sha256 policy ctx items) (\<lambda>summaries.
          dump_summaries summaries (PDict [(''items'', PList (map PDict summaries))])))))"

section \<open>The detail of an agent\<close>

definition version_entry :: "pydict \<Rightarrow> pyval" where
  "version_entry item = PDict
     [(''version'', PStr (stored_text item ''version'')), (''deployedAt'', PStr (stored_text item ''deployed_at'')),
      (''invocationMode'', PStr (py_str (dget_or item ''invocation_mode'' (PStr ''sync'')))),
      (''streamingEnabled'', PBool (truthy (dget_or item ''streaming_enabled'' (PBool False)))),
      (''agUi'', PDict
        [(''enabled'', PBool (truthy (dget_or item ''ag_ui_enabled'' (PBool False)))),
         (''transport'', PStr (py_str (dget_or item ''ag_ui_transport'' (PStr ''sse''))))])]"

definition agent_not_found :: "string \<Rightarrow> string \<Rightarrow> pydict" where
  "agent_not_found agent request_id = bridge_error 404 ''NOT_FOUND'' (''Agent '' @ quoted_name agent @ '' not found'') request_id"

definition detail_answer ::
  "digest \<Rightarrow> capability_policy option \<Rightarrow> tenant_context option \<Rightarrow> string \<Rightarrow> string \<Rightarrow> pydict list \<Rightarrow> pydict res" where
  "detail_answer sha256 policy ctx agent request_id items =
     bind_res (filter_res is_offered items) (\<lambda>offered.
       if offered = [] then Inr (agent_not_found agent request_id)
       else bind_res (newest_first offered) (\<lambda>sorted.
         let detail = agent_summary_from_item (hd sorted);
             detail = (case ctx of None \<Rightarrow> detail | Some c \<Rightarrow> gate_ag_ui sha256 policy c detail);
             detail = dset ''versions'' (PList (map version_entry sorted)) detail
         in dump_summaries [detail] (PDict detail)))"

definition get_agent_detail ::
  "'w aws \<Rightarrow> string \<Rightarrow> digest \<Rightarrow> capability_policy option \<Rightarrow> tenant_context option \<Rightarrow> pydict \<Rightarrow> string \<Rightarrow> ('w, pydict) io" where
  "get_agent_detail sv table sha256 policy ctx path_params request_id =
     (case coerce_optional_string (dget path_params ''agentName'') of
        None \<Rightarrow> io_return (bridge_error 400 ''INVALID_REQUEST'' ''Missing agentName in path'' request_id)
      | Some agent \<Rightarrow> io_bind (agent_versions sv table agent) (\<lambda>items. io_lift (detail_answer sha256 policy ctx agent request_id items)))"

section \<open>The state of a job\<close>

definition job_key :: "string \<Rightarrow> string \<Rightarrow> pydict" where
  "job_key tenant_id job_id = row_key (tenant_pk tenant_id) (''JOB#'' @ job_id)"

record job_settings =
  js_table :: string
  js_bucket :: "string option"
  js_expiry :: int

definition presigned_result_url :: "'w aws \<Rightarrow> 'w s3 \<Rightarrow> job_settings \<Rightarrow> tenant_context \<Rightarrow> string \<Rightarrow> ('w, string) io" where
  "presigned_result_url sv st js ctx result_key =
     (case coerce_optional_string (case js_bucket js of None \<Rightarrow> PNone | Some b \<Rightarrow> PStr b) of
        None \<Rightarrow> io_raise (ValueError ''JOB_RESULTS_BUCKET is not configured'')
      | Some bucket \<Rightarrow> s3_generate_presigned_url sv st ctx bucket result_key (max 1 (js_expiry js)) ''get_object'')"

definition opt_val :: "string option \<Rightarrow> pyval" where
  "opt_val s = (case s of None \<Rightarrow> PNone | Some t \<Rightarrow> PStr t)"

definition job_answer :: "tenant_context \<Rightarrow> string \<Rightarrow> pydict \<Rightarrow> string option \<Rightarrow> pydict res" where
  "job_answer ctx job_id job url =
     bind_res (py_int (dget_or job ''webhook_delivery_attempts'' (PInt 0))) (\<lambda>attempts.
       let optional = (\<lambda>k. opt_val (coerce_optional_string (dget job k))) in
       Inr (json_answer 200 (PDict
         [(''jobId'', PStr (py_str (dget_or job ''job_id'' (PStr job_id)))),
          (''tenantId'', PStr (py_str (dget_or job ''tenant_id'' (PStr (tc_tenant_id ctx))))),
          (''agentName'', PStr (stored_text job ''agent_name'')), (''status'', PStr (py_str (dget_or job ''status'' (PStr ''pending'')))),
          (''createdAt'', PStr (stored_text job ''created_at'')), (''startedAt'', optional ''started_at''),
          (''completedAt'', optional ''completed_at''), (''resultUrl'', opt_val url), (''errorMessage'', optional ''error_message''),
          (''webhookDelivered'', PBool (truthy (dget_or job ''webhook_delivered'' (PBool False)))),
          (''webhookUrl'', optional ''webhook_url''), (''webhookDeliveryStatus'', optional ''webhook_delivery_status''),
          (''webhookDeliveryAttempts'', PInt attempts), (''webhookDeliveryError'', optional ''webhook_delivery_error'')])))"

definition get_job_status ::
  "'w aws \<Rightarrow> 'w s3 \<Rightarrow> job_settings \<Rightarrow> tenant_context \<Rightarrow> pydict \<Rightarrow> string \<Rightarrow> ('w, pydict) io" where
  "get_job_status sv st js ctx path_params request_id =
     (case coerce_optional_string (dget path_params ''jobId'') of
        None \<Rightarrow> io_return (bridge_error 400 ''INVALID_REQUEST'' ''Missing jobId in path'' request_id)
      | Some job_id \<Rightarrow>
          io_bind (ts_get_item sv ctx (js_table js) (job_key (tc_tenant_id ctx) job_id) []) (\<lambda>found. case found of
            None \<Rightarrow> io_return (bridge_error 404 ''NOT_FOUND'' (''Job '' @ quoted_name job_id @ '' not found'') request_id)
          | Some job \<Rightarrow>
              (case (py_str (dget_or job ''status'' (PStr ''pending'')) = ''completed'', coerce_optional_string (dget job ''result_s3_key'')) of
                 (True, Some key) \<Rightarrow>
                   io_try (presigned_result_url sv st js ctx key) (\<lambda>r. case r of
                       Inr url \<Rightarrow> io_lift (job_answer ctx job_id job (Some url))
                     | Inl (ValueError m) \<Rightarrow> io_return (bridge_error 500 ''INTERNAL_ERROR'' m request_id)
                     | Inl e \<Rightarrow> io_return (bridge_error 500 ''INTERNAL_ERROR'' ''Failed to generate result URL'' request_id))
               | _ \<Rightarrow> io_lift (job_answer ctx job_id job None))))"

section \<open>The order of versions\<close>

lemma ints_le_order:
  "ints_le xs xs" "ints_le xs ys \<Longrightarrow> ints_le ys zs \<Longrightarrow> ints_le xs zs" "ints_le xs ys \<or> ints_le ys xs" "ints_le xs ys \<Longrightarrow> ints_le ys xs \<Longrightarrow> xs = ys"
proof -
  show "ints_le xs xs" by (induction xs) auto
  show "ints_le xs ys \<Longrightarrow> ints_le ys zs \<Longrightarrow> ints_le xs zs"
    by (induction xs ys arbitrary: zs rule: ints_le.induct) (auto elim: ints_le.elims)
  show "ints_le xs ys \<or> ints_le ys xs" by (induction xs ys rule: ints_le.induct) auto
  show "ints_le xs ys \<Longrightarrow> ints_le ys xs \<Longrightarrow> xs = ys" by (induction xs ys rule: ints_le.induct) (auto elim: ints_le.elims)
qed

lemma version_key_le_order:
  "version_key_le a a" "version_key_le a b \<Longrightarrow> version_key_le b c \<Longrightarrow> version_key_le a c" "version_key_le a b \<or> version_key_le b a"
proof -
  show "version_key_le a a" by (simp add: version_key_le_def str_le_order)
  show "version_key_le a b \<or> version_key_le b a"
    using ints_le_order(3)[of "fst a" "fst b"] str_le_order(3)[of "snd a" "snd b"] by (auto simp: version_key_le_def)
  assume "version_key_le a b" "version_key_le b c"
  then show "version_key_le a c"
    using ints_le_order(2)[of "fst a" "fst b" "fst c"] ints_le_order(4)[of "fst a" "fst b"] str_le_order(2)[of "snd a" "snd b" "snd c"]
    by (auto simp: version_key_le_def split: if_splits)
qed

lemma all_res_Inr: "all_res rs = Inr xs \<longleftrightarrow> rs = map Inr xs"
  by (induction rs arbitrary: xs) (auto simp: bind_res_eq_Inr Cons_eq_map_conv)

lemma filter_res_Inr: "filter_res p xs = Inr ys \<Longrightarrow> ys = filter (\<lambda>x. p x = Inr True) xs \<and> (\<forall>x \<in> set xs. \<exists>b. p x = Inr b)"
  by (induction xs arbitrary: ys) (auto simp: bind_res_eq_Inr)

text \<open>Newest first: the items, each with a key, no later one newer than an earlier one.\<close>

lemma newest_first_sorted:
  assumes "newest_first items = Inr out"
  shows "set out = set items" and "length out = length items" and
    "sorted_wrt (\<lambda>a b. \<exists>k k'. agent_record_sort_key a = Inr k \<and> agent_record_sort_key b = Inr k' \<and> version_key_le k' k) out"
proof -
  let ?le = "\<lambda>a b :: version_key \<times> pydict. version_key_le (fst b) (fst a)"
  obtain ks where ks: "map agent_record_sort_key items = map Inr ks" and out: "out = map snd (sort_by ?le (zip ks items))"
    using assms by (auto simp: newest_first_def bind_res_eq_Inr all_res_Inr)
  have len: "length ks = length items" using ks map_eq_imp_length_eq by metis
  have keyed: "agent_record_sort_key (snd p) = Inr (fst p)" if "p \<in> set (zip ks items)" for p
  proof -
    from that obtain i where "i < length (zip ks items)" "zip ks items ! i = p" by (auto simp only: in_set_conv_nth)
    with len have "i < length items" "p = (ks ! i, items ! i)" by auto
    moreover have "map agent_record_sort_key items ! i = map Inr ks ! i" using ks by simp
    ultimately show ?thesis using len by simp
  qed
  have "set out = snd ` set (zip ks items)" by (simp add: out)
  also have "\<dots> = set items" using len by (metis list.set_map map_snd_zip)
  finally show "set out = set items" .
  show "length out = length items" using len by (simp add: out)
  have "sorted_wrt ?le (sort_by ?le (zip ks items))" by (rule sorted_sort_by, erule version_key_le_order(2)[rotated], assumption, rule version_key_le_order(3))
  then show "sorted_wrt (\<lambda>a b. \<exists>k k'. agent_record_sort_key a = Inr k \<and> agent_record_sort_key b = Inr k' \<and> version_key_le k' k) out"
    unfolding out sorted_wrt_map
  proof (rule sorted_wrt_mono_rel[rotated])
    fix a b assume "a \<in> set (sort_by ?le (zip ks items))" "b \<in> set (sort_by ?le (zip ks items))" "?le a b"
    then have "agent_record_sort_key (snd a) = Inr (fst a)" "agent_record_sort_key (snd b) = Inr (fst b)" by (simp_all only: keyed set_sort_by)
    with \<open>?le a b\<close>
    show "\<exists>k k'. agent_record_sort_key (snd a) = Inr k \<and> agent_record_sort_key (snd b) = Inr k' \<and> version_key_le k' k" by blast
  qed
qed

text \<open>The record the bridge invokes.\<close>

lemma first_agent_record_Some:
  "first_agent_record items = Inr (Some r) \<Longrightarrow>
     \<exists>older item newer. items = older @ item # newer \<and> agent_record_from_item item = Inr r
       \<and> (\<forall>x \<in> set older. \<exists>m. agent_record_from_item x = Inl (ValueError m))"
proof (induction items)
  case (Cons item items)
  show ?case
  proof (cases "agent_record_from_item item")
    case (Inl e)
    with Cons.prems have tl: "first_agent_record items = Inr (Some r)" and v: "\<exists>m. e = ValueError m" by (auto split: exc.splits)
    from Cons.IH[OF tl] obtain older it newer where s: "items = older @ it # newer" "agent_record_from_item it = Inr r"
        "\<forall>x \<in> set older. \<exists>m. agent_record_from_item x = Inl (ValueError m)" by blast
    then show ?thesis using Inl v by (intro exI[of _ "item # older"] exI[of _ it] exI[of _ newer]) auto
  next
    case (Inr x)
    with Cons.prems show ?thesis by (intro exI[of _ "[]"] exI[of _ item] exI[of _ items]) simp
  qed
qed simp

lemma newest_record_wins:
  assumes "newest_record items = Inr (Some r)"
  shows "\<exists>item \<in> set items. is_offered item = Inr True \<and> agent_record_from_item item = Inr r
    \<and> (\<forall>x \<in> set items. is_offered x = Inr True \<longrightarrow> (\<exists>q. agent_record_from_item x = Inr q) \<longrightarrow>
         (\<exists>k k'. agent_record_sort_key item = Inr k \<and> agent_record_sort_key x = Inr k' \<and> version_key_le k' k))"
proof -
  obtain offered out where off: "filter_res is_offered items = Inr offered" and out: "newest_first offered = Inr out"
    and first: "first_agent_record out = Inr (Some r)"
    using assms by (auto simp: newest_record_def bind_res_eq_Inr)
  have offered: "offered = filter (\<lambda>x. is_offered x = Inr True) items" using filter_res_Inr[OF off] by blast
  obtain older item newer where split: "out = older @ item # newer" and item: "agent_record_from_item item = Inr r"
    and refused: "\<forall>x \<in> set older. \<exists>m. agent_record_from_item x = Inl (ValueError m)"
    using first_agent_record_Some[OF first] by blast
  note sorted = newest_first_sorted[OF out]
  have self: "\<exists>k. agent_record_sort_key item = Inr k"
  proof -
    from out obtain ks where ks: "map agent_record_sort_key offered = map Inr ks"
      by (auto simp: newest_first_def bind_res_eq_Inr all_res_Inr)
    have "item \<in> set offered" using sorted(1) split by auto
    then have "agent_record_sort_key item \<in> set (map agent_record_sort_key offered)" by simp
    then show ?thesis unfolding ks by auto
  qed
  have "\<exists>k k'. agent_record_sort_key item = Inr k \<and> agent_record_sort_key x = Inr k' \<and> version_key_le k' k"
    if "x \<in> set items" "is_offered x = Inr True" "agent_record_from_item x = Inr q" for x q
  proof -
    have "x \<in> set out" using that sorted(1) by (simp add: offered)
    moreover have "x \<notin> set older" using refused that(3) by auto
    ultimately have "x = item \<or> x \<in> set newer" by (auto simp: split)
    then show ?thesis using sorted(3) self version_key_le_order(1) by (auto simp: split sorted_wrt_append)
  qed
  moreover have "item \<in> set items \<and> is_offered item = Inr True" using sorted(1) by (auto simp: split offered)
  ultimately show ?thesis using item by blast
qed


definition sample_version :: "string \<Rightarrow> string \<Rightarrow> pydict" where
  "sample_version v status = [(''agent_name'', PStr ''echo''), (''version'', PStr v), (''status'', PStr status), (''runtime_arn'', PStr ''arn'')]"

definition sample_agents_db :: "unit aws" where
  "sample_agents_db = \<lparr>aw_get_item = (\<lambda>t kw w. (Inr None, w)), aw_put_item = (\<lambda>t kw w. (Inr (), w)),
     aw_update_item = (\<lambda>t kw w. (Inr [], w)), aw_delete_item = (\<lambda>t kw w. (Inr (), w)),
     aw_query = (\<lambda>t kw w. (Inr (Some [sample_version ''1.9.0'' ''promoted'', sample_version ''1.10.0'' ''promoted'',
         sample_version ''2.0.0'' ''built''], None), w)),
     aw_scan = (\<lambda>t kw w. (Inr (Some [], None), w)), aw_put_metric = (\<lambda>m w. (Inr (), w)), aw_log_error = (\<lambda>m w. w)\<rparr>"

definition sample_items :: "pydict list" where
  "sample_items = [sample_version ''1.9.0'' ''promoted'', sample_version ''1.10.0'' ''promoted'', sample_version ''2.0.0'' ''built'']"

definition sample_newest :: "agent_record option" where
  "sample_newest = (case newest_record sample_items of Inr r \<Rightarrow> r | _ \<Rightarrow> None)"

lemma sample_newest_version: "newest_record sample_items = Inr sample_newest" "map_option agent_version sample_newest = Some ''1.10.0''"
  by code_simp+


section \<open>What the listing shows\<close>

definition listed_name :: "pydict \<Rightarrow> string \<Rightarrow> bool" where
  "listed_name item n \<longleftrightarrow> is_offered item = Inr True \<and> coerce_optional_string (dget item ''agent_name'') = Some n"

definition not_newer :: "pydict \<Rightarrow> pydict \<Rightarrow> bool" where
  "not_newer x y \<longleftrightarrow> x = y \<or> (\<exists>k k'. agent_record_sort_key x = Inr k \<and> agent_record_sort_key y = Inr k' \<and> version_key_le k k')"

text \<open>The newest of the items with a name.\<close>

definition newest_named :: "pydict list \<Rightarrow> string \<Rightarrow> pydict \<Rightarrow> bool" where
  "newest_named items n it \<longleftrightarrow> it \<in> set items \<and> listed_name it n \<and> (\<forall>x \<in> set items. listed_name x n \<longrightarrow> not_newer x it)"

definition latest_ok :: "pydict list \<Rightarrow> (string \<times> pydict) list \<Rightarrow> bool" where
  "latest_ok seen latest \<longleftrightarrow> dict_ok latest
     \<and> (\<forall>n it. map_of latest n = Some it \<longrightarrow> newest_named seen n it)
     \<and> (\<forall>x \<in> set seen. \<forall>n. listed_name x n \<longrightarrow> map_of latest n \<noteq> None)"

lemma not_newer_trans: "not_newer x y \<Longrightarrow> not_newer y z \<Longrightarrow> not_newer x z"
  using version_key_le_order(2) unfolding not_newer_def by (metis Inr_inject)

lemma newer_cases:
  "newer item existing = Inr b \<Longrightarrow> (if b then not_newer existing item else not_newer item existing)"
proof -
  assume "newer item existing = Inr b"
  then obtain k k' where "agent_record_sort_key item = Inr k" "agent_record_sort_key existing = Inr k'" "b = (\<not> version_key_le k k')"
    by (auto simp: newer_def bind_res_eq_Inr)
  then show ?thesis using version_key_le_order(3)[of k k'] by (auto simp: not_newer_def)
qed

lemma note_item_ok:
  assumes ok: "latest_ok seen latest" and "note_item item latest = Inr latest'"
  shows "latest_ok (seen @ [item]) latest'"
proof -
  obtain b where b: "is_offered item = Inr b" using assms(2) by (auto simp: note_item_def bind_res_eq_Inr)
  show ?thesis
  proof (cases "\<exists>n. listed_name item n")
    case False
    then have "latest' = latest" using assms(2) b
      by (auto simp: note_item_def listed_name_def split: if_splits option.splits)
    with False ok show ?thesis by (auto simp: latest_ok_def newest_named_def)
  next
    case True
    then obtain n where n: "listed_name item n" by blast
    then have only: "listed_name item m \<longleftrightarrow> m = n" for m by (auto simp: listed_name_def)
    from n assms(2) have step: "(case map_of latest n of None \<Rightarrow> Inr (dset n item latest)
        | Some existing \<Rightarrow> bind_res (newer item existing) (\<lambda>b. Inr (if b then dset n item latest else latest))) = Inr latest'"
      by (simp add: note_item_def listed_name_def)
    have kept: "newest_named (seen @ [item]) m it" if "map_of latest m = Some it" "m \<noteq> n" for m it
      using that ok only by (auto simp: latest_ok_def newest_named_def)
    show ?thesis
    proof (cases "map_of latest n")
      case None
      then have "\<forall>x \<in> set seen. \<not> listed_name x n" using ok unfolding latest_ok_def by blast
      then have "newest_named (seen @ [item]) n item" using n by (auto simp: newest_named_def not_newer_def)
      with None step ok kept only show ?thesis by (auto simp: latest_ok_def split: if_splits)
    next
      case (Some ex)
      then have ex: "newest_named seen n ex" using ok by (simp add: latest_ok_def)
      from step Some obtain c where c: "newer item ex = Inr c" and l: "latest' = (if c then dset n item latest else latest)"
        by (auto simp: bind_res_eq_Inr)
      have "newest_named (seen @ [item]) n (if c then item else ex)"
        using newer_cases[OF c] ex n not_newer_trans by (auto simp: newest_named_def not_newer_def[of item item] split: if_splits)
      then have "newest_named (seen @ [item]) m it" if "map_of latest' m = Some it" for m it
        using that kept Some l by (cases "m = n") (auto split: if_splits)
      moreover have "dict_ok latest'" using ok l by (simp add: latest_ok_def)
      moreover have "map_of latest' m \<noteq> None" if "x \<in> set (seen @ [item])" "listed_name x m" for x m
        using that ok only Some l unfolding latest_ok_def by (auto split: if_splits)
      ultimately show ?thesis unfolding latest_ok_def by blast
    qed
  qed
qed

lemma latest_by_name_ok:
  "latest_by_name items latest = Inr out \<Longrightarrow> latest_ok seen latest \<Longrightarrow> latest_ok (seen @ items) out"
proof (induction items arbitrary: latest seen)
  case (Cons item items)
  from Cons.prems(1) obtain l where l: "note_item item latest = Inr l" "latest_by_name items l = Inr out"
    by (auto simp: bind_res_eq_Inr)
  from Cons.IH[OF l(2) note_item_ok[OF Cons.prems(2) l(1)]] show ?case by simp
qed simp

text \<open>
  Property C32. The listing of agents: it is sorted by name, each of its entries is the newest offered version of its name with a minimum tier
  the caller has, and every offered name whose newest version the caller's tier reaches is in it.
\<close>

theorem listing_shows_newest:
  assumes "summaries_of_items sha256 policy ctx items = Inr summaries"
  shows "sorted_wrt (\<lambda>a b. str_le (py_str (dget a ''agentName'')) (py_str (dget b ''agentName''))) summaries
    \<and> (\<forall>s \<in> set summaries. \<exists>n it. newest_named items n it \<and> listed_minimum it \<le> tc_tier ctx
         \<and> s = gate_ag_ui sha256 policy ctx (agent_summary_from_item it))
    \<and> (\<forall>x \<in> set items. \<forall>n. listed_name x n \<longrightarrow> (\<exists>it. newest_named items n it
         \<and> (listed_minimum it \<le> tc_tier ctx \<longrightarrow> gate_ag_ui sha256 policy ctx (agent_summary_from_item it) \<in> set summaries)))"
proof -
  obtain latest where latest: "latest_by_name items [] = Inr latest" and
    summaries: "summaries = sort_by (\<lambda>a b. str_le (py_str (dget a ''agentName'')) (py_str (dget b ''agentName'')))
              (visible_summaries sha256 policy ctx (map snd latest))"
    using assms by (auto simp: summaries_of_items_def bind_res_eq_Inr)
  have "latest_ok [] []" by (simp add: latest_ok_def dict_ok_def)
  from latest_by_name_ok[OF latest this] have ok: "latest_ok items latest" by simp
  then have dist: "distinct (map fst latest)" unfolding latest_ok_def dict_ok_def by blast
  then have of_map: "map_of latest n = Some it \<longleftrightarrow> (n, it) \<in> set latest" for n it by (rule map_of_eq_Some_iff)
  have "sorted_wrt (\<lambda>a b. str_le (py_str (dget a ''agentName'')) (py_str (dget b ''agentName''))) summaries"
    unfolding summaries by (rule sorted_sort_by, erule str_le_order(2), assumption, rule str_le_order(3))
  moreover have "\<exists>n it. newest_named items n it \<and> listed_minimum it \<le> tc_tier ctx
      \<and> s = gate_ag_ui sha256 policy ctx (agent_summary_from_item it)" if "s \<in> set summaries" for s
  proof -
    from that obtain n it where it: "(n, it) \<in> set latest" "listed_minimum it \<le> tc_tier ctx"
        "s = gate_ag_ui sha256 policy ctx (agent_summary_from_item it)"
      unfolding summaries visible_summaries_def by auto
    have "newest_named items n it" using ok it(1) of_map unfolding latest_ok_def by blast
    with it show ?thesis by blast
  qed
  moreover have "\<exists>it. newest_named items n it
         \<and> (listed_minimum it \<le> tc_tier ctx \<longrightarrow> gate_ag_ui sha256 policy ctx (agent_summary_from_item it) \<in> set summaries)"
    if "x \<in> set items" "listed_name x n" for x n
  proof -
    obtain it where it: "map_of latest n = Some it" using ok \<open>x \<in> set items\<close> \<open>listed_name x n\<close> unfolding latest_ok_def by blast
    then have "newest_named items n it" using ok unfolding latest_ok_def by blast
    moreover have "it \<in> set (map snd latest)" using it of_map by force
    ultimately show ?thesis unfolding summaries visible_summaries_def by auto
  qed
  ultimately show ?thesis by blast
qed

definition any_digest :: digest where
  "any_digest = (\<lambda>bs. bs)"

definition sample_caller :: tenant_context where
  "sample_caller = \<lparr>tc_tenant_id = ''acme'', tc_app_id = ''app'', tc_tier = STANDARD, tc_sub = ''user''\<rparr>"

definition sample_summaries :: "pydict list" where
  "sample_summaries = (case summaries_of_items any_digest None sample_caller sample_items of Inr s \<Rightarrow> s | _ \<Rightarrow> [])"

lemma sample_summaries_ok:
  "summaries_of_items any_digest None sample_caller sample_items = Inr sample_summaries"
  "map (\<lambda>s. dget s ''latestVersion'') sample_summaries = [PStr ''1.10.0'']"
  by code_simp+

theorem listing_shows_newest_witness:
  "\<exists>s n it. sample_summaries = [s] \<and> dget s ''latestVersion'' = PStr ''1.10.0'' \<and> newest_named sample_items n it
     \<and> listed_minimum it \<le> STANDARD \<and> s = gate_ag_ui any_digest None sample_caller (agent_summary_from_item it)"
proof -
  obtain s where s: "sample_summaries = [s]" "dget s ''latestVersion'' = PStr ''1.10.0''"
    using sample_summaries_ok(2) by (cases sample_summaries) auto
  have "\<forall>s \<in> set sample_summaries. \<exists>n it. newest_named sample_items n it \<and> listed_minimum it \<le> STANDARD
      \<and> s = gate_ag_ui any_digest None sample_caller (agent_summary_from_item it)"
    using listing_shows_newest[OF sample_summaries_ok(1)] by (simp add: sample_caller_def)
  then show ?thesis unfolding s(1) using s(2) by auto
qed

text \<open>
  A version registered with an estimated duration has a number in its item, and the listing that shows it raises instead of answering.
\<close>

lemma durations_break_listing:
  assumes "cp_scan_all sv table None None None w = Some (Inr items, w')" and "summaries_of_items sha256 policy ctx items = Inr summaries"
    and "s \<in> set summaries" and "dget s ''estimatedDurationSeconds'' = PInt n"
  shows "list_agents sv table sha256 policy ctx w = Some (Inl decimal_refused, w')"
proof -
  have "list_ex (\<lambda>s. holds_number (dget s ''estimatedDurationSeconds'')) summaries" using assms(3,4) by (force simp: list_ex_iff)
  with assms(1,2) show ?thesis
    by (simp add: list_agents_def loop_bind_def loop_ends_def io_lift_def dump_summaries_def)
qed

end
