(* ===== verification/BridgeTelemetry.thy ===== *)
theory BridgeTelemetry
  imports BridgeDiscovery TpmLimiter
begin

text \<open>
  The services and settings of the bridge, its configuration provider (\<open>config_provider.py\<close>), and the record, the metrics and the
  token count it leaves of each invocation (\<open>telemetry.py\<close>). The record is written with the tenant's own client.
\<close>

section \<open>Services and settings\<close>

text \<open>What a \<open>ClientError\<close> of the AWS library carries.\<close>

record client_failure =
  cf_code :: "string option"
  cf_message :: "string option"
  cf_status :: "int option"

text \<open>The body of a runtime's answer: chunks of bytes that may fail on the way, bytes that are read at once, or bytes.\<close>

datatype runtime_body = BodyStream "string res list" | BodyRead "string res" | BodyBytes string | BodyOther

record mock_answer =
  ma_ok :: bool
  ma_status :: int
  ma_text :: "string option"
  ma_lines :: "string list"
  ma_content_type :: "string option"

text \<open>
  AWS, the token counters, the clock, random names, CloudWatch, the parameters of SSM, the local configuration extension and the mock
  runtime over HTTP, role assumption, the agent runtime with region, credentials and arguments, the stream of the response, and what
  the error objects of the libraries say.
\<close>

record 'w bridge =
  br_aws :: "'w aws"
  br_s3 :: "'w s3"
  br_tpm :: "'w tpm_services"
  br_counter :: "'w counter_client option res"
  br_clock :: "('w, rat) io"
  br_uuid4 :: "('w, string) io"
  br_jitter :: "('w, string) io"
  br_put_metrics :: "pydict list \<Rightarrow> ('w, unit) io"
  br_get_parameters :: "string list \<Rightarrow> ('w, pydict) io"
  br_get_parameter :: "string \<Rightarrow> ('w, string option) io"
  br_http_get :: "string \<Rightarrow> ('w, int \<times> pyval) io"
  br_http_post :: "string \<Rightarrow> pydict \<Rightarrow> ('w, mock_answer) io"
  br_http_stream :: "string \<Rightarrow> pydict \<Rightarrow> ('w, string res list) io"
  br_assume_role :: "string \<Rightarrow> string \<Rightarrow> ('w, pydict) io"
  br_invoke_runtime :: "string \<Rightarrow> pydict \<Rightarrow> pydict \<Rightarrow> ('w, pydict \<times> runtime_body) io"
  br_stream_write :: "string \<Rightarrow> ('w, unit) io"
  br_client_failure :: "exc \<Rightarrow> client_failure option"
  br_error_text :: "exc \<Rightarrow> string"
  br_unreachable :: "exc \<Rightarrow> bool"

record bridge_settings =
  bs_tenants_table :: string
  bs_invocations_table :: string
  bs_agents_table :: string
  bs_sessions_table :: string
  bs_jobs :: job_settings
  bs_appconfig :: "string option \<times> string option \<times> string option"
  bs_region_param :: string
  bs_mock_url_param :: string
  bs_valkey_param :: string
  bs_role_param :: "string \<Rightarrow> string"
  bs_serving_region :: string
  bs_entra_audience :: "string option"
  bs_ag_ui_scope :: string

section \<open>The configuration provider\<close>

text \<open>
  \<open>ConfigProvider\<close>: a value read at most every \<open>ttl\<close> seconds. When the fetch fails the old value stays for another \<open>ttl\<close>; without one
  the fallback is taken.
\<close>

record provider_state =
  ps_cache :: "pydict option"
  ps_expires_at :: rat

definition new_provider :: provider_state where
  "new_provider = \<lparr>ps_cache = None, ps_expires_at = 0\<rparr>"

definition provider_get ::
  "('w, rat) io \<Rightarrow> ('w, pydict) io \<Rightarrow> pydict \<Rightarrow> rat \<Rightarrow> bool \<Rightarrow> provider_state \<Rightarrow> ('w, pydict \<times> provider_state) io" where
  "provider_get clock fetch fallback ttl force st =
     io_bind clock (\<lambda>now.
       case (force, ps_cache st, now < ps_expires_at st) of
         (False, Some c, True) \<Rightarrow> io_return (c, st)
       | _ \<Rightarrow> io_try fetch (\<lambda>r.
           let c = (case r of
                      Inr c \<Rightarrow> c
                    | Inl e \<Rightarrow> (case ps_cache st of Some c \<Rightarrow> if c = [] then fallback else c | None \<Rightarrow> fallback))
           in io_return (c, \<lparr>ps_cache = Some c, ps_expires_at = now + ttl\<rparr>)))"

definition config_defaults :: "bridge_settings \<Rightarrow> pydict" where
  "config_defaults cfg =
     [(''runtime_region'', PStr (bs_serving_region cfg)), (''mock_runtime_url'', PNone), (''valkey_endpoint'', PNone)]"

definition appconfig_url :: "string \<Rightarrow> string \<Rightarrow> string \<Rightarrow> string" where
  "appconfig_url app env profile =
     ''http://localhost:2772/applications/'' @ app @ ''/environments/'' @ env @ ''/configurations/'' @ profile"

definition appconfig_ids :: "bridge_settings \<Rightarrow> (string \<times> string \<times> string) option" where
  "appconfig_ids cfg =
     (case bs_appconfig cfg of
        (Some (a # as), Some (b # bs), Some (c # cs)) \<Rightarrow> Some (a # as, b # bs, c # cs) | _ \<Rightarrow> None)"

definition fetch_appconfig_config :: "'w bridge \<Rightarrow> bridge_settings \<Rightarrow> ('w, pydict option) io" where
  "fetch_appconfig_config br cfg =
     (case appconfig_ids cfg of
        None \<Rightarrow> io_return None
      | Some (app, env, profile) \<Rightarrow>
          io_catch
            (io_bind (br_http_get br (appconfig_url app env profile)) (\<lambda>(status, body).
               if status = 200
               then io_bind (io_lift (need_dict body)) (\<lambda>config. io_return (Some
                      [(''runtime_region'', dget_or config ''runtime_region'' (PStr (bs_serving_region cfg))),
                       (''mock_runtime_url'', dget config ''mock_runtime_url''), (''valkey_endpoint'', dget config ''valkey_endpoint'')]))
               else io_return None))
            (\<lambda>_. io_return None))"

text \<open>Parameters without name or value are left out; a name given twice has its last value.\<close>

definition named_parameters :: "pydict \<Rightarrow> pydict res" where
  "named_parameters answer =
     bind_res (py_iter (dget_or answer ''Parameters'' (PList []))) (\<lambda>ps.
     bind_res (map_res need_dict ps) (\<lambda>ds.
       Inr (fold (\<lambda>p d. dset (py_str (dget p ''Name'')) (PStr (py_str (dget p ''Value''))) d)
             (filter (\<lambda>p. truthy (dget p ''Name'') \<and> truthy (dget p ''Value'')) ds) [])))"

definition fetch_ssm_config :: "'w bridge \<Rightarrow> bridge_settings \<Rightarrow> ('w, pydict) io" where
  "fetch_ssm_config br cfg =
     io_bind (fetch_appconfig_config br cfg) (\<lambda>found. case found of
         Some config \<Rightarrow> io_return config
       | None \<Rightarrow>
           io_bind (br_get_parameters br [bs_region_param cfg, bs_mock_url_param cfg, bs_valkey_param cfg]) (\<lambda>answer.
           io_bind (io_lift (named_parameters answer)) (\<lambda>params. io_return
             [(''runtime_region'', dget_or params (bs_region_param cfg) (PStr (bs_serving_region cfg))),
              (''mock_runtime_url'', dget params (bs_mock_url_param cfg)), (''valkey_endpoint'', dget params (bs_valkey_param cfg))])))"

text \<open>\<open>get_config\<close> makes a provider for every call.\<close>

definition get_config :: "'w bridge \<Rightarrow> bridge_settings \<Rightarrow> bool \<Rightarrow> ('w, pydict) io" where
  "get_config br cfg force =
     io_bind (provider_get (br_clock br) (fetch_ssm_config br cfg) (config_defaults cfg) 60 force new_provider) (\<lambda>(c, st). io_return c)"

section \<open>Metrics\<close>

text \<open>Every emitter swallows the errors of CloudWatch.\<close>

definition emit :: "'w bridge \<Rightarrow> pydict list \<Rightarrow> ('w, unit) io" where
  "emit br metrics = io_catch (br_put_metrics br metrics) (\<lambda>_. io_return ())"

definition dimension :: "string \<times> string \<Rightarrow> pyval" where
  "dimension p = PDict [(''Name'', PStr (fst p)), (''Value'', PStr (snd p))]"

definition metric :: "string \<Rightarrow> pyval \<Rightarrow> string \<Rightarrow> (string \<times> string) list \<Rightarrow> pydict" where
  "metric name v unit_name dims =
     [(''MetricName'', PStr name), (''Value'', v), (''Unit'', PStr unit_name), (''Dimensions'', PList (map dimension dims))]"

definition float_of_int :: "int \<Rightarrow> pyval" where
  "float_of_int i = PFloat (FFin (of_int i) (show_int i @ ''.0''))"

definition context_dims :: "tenant_context \<Rightarrow> (string \<times> string) list" where
  "context_dims ctx = [(''TenantId'', tc_tenant_id ctx), (''AppId'', tc_app_id ctx)]"

fun invocation_status_value :: "invocation_status \<Rightarrow> string" where
  "invocation_status_value INV_SUCCESS = ''success''"
| "invocation_status_value INV_ERROR = ''error''"
| "invocation_status_value INV_TIMEOUT = ''timeout''"
| "invocation_status_value INV_THROTTLED = ''throttled''"

definition record_invocation_metric ::
  "'w bridge \<Rightarrow> string \<Rightarrow> string option \<Rightarrow> string \<Rightarrow> invocation_status \<Rightarrow> pyval \<Rightarrow> ('w, unit) io" where
  "record_invocation_metric br tenant_id app_id agent status latency =
     (let app = (case app_id of Some (c # s) \<Rightarrow> [(''AppId'', c # s)] | _ \<Rightarrow> []);
          base = [(''TenantId'', tenant_id)] @ app
      in emit br
           [metric ''InvocationCount'' (PInt 1) ''Count'' (base @ [(''AgentName'', agent), (''Status'', invocation_status_value status)]),
            metric ''InvocationLatency'' latency ''Milliseconds'' (base @ [(''AgentName'', agent)])])"

definition usage_metrics :: "invocation_status \<Rightarrow> int \<Rightarrow> int \<Rightarrow> int \<Rightarrow> (string \<times> string) list \<Rightarrow> pydict list" where
  "usage_metrics status latency_ms input_tokens output_tokens dims =
     [metric ''Invocations'' (float_of_int 1) ''Count'' dims, metric ''Latency'' (float_of_int latency_ms) ''Milliseconds'' dims,
      metric ''InputTokens'' (float_of_int input_tokens) ''Count'' dims, metric ''OutputTokens'' (float_of_int output_tokens) ''Count'' dims]
     @ (if status \<noteq> INV_SUCCESS then [metric ''Errors'' (float_of_int 1) ''Count'' dims] else [])"

definition emit_invocation_metrics ::
  "'w bridge \<Rightarrow> tenant_context \<Rightarrow> agent_record \<Rightarrow> invocation_status \<Rightarrow> int \<Rightarrow> int \<Rightarrow> int \<Rightarrow> ('w, unit) io" where
  "emit_invocation_metrics br ctx agent status latency_ms input_tokens output_tokens =
     emit br (concat (map (usage_metrics status latency_ms input_tokens output_tokens)
       [context_dims ctx @ [(''AgentName'', agent_name agent)], context_dims ctx]))"

definition emit_bedrock_throttle_metric :: "'w bridge \<Rightarrow> tenant_context \<Rightarrow> agent_record \<Rightarrow> string \<Rightarrow> ('w, unit) io" where
  "emit_bedrock_throttle_metric br ctx agent runtime_region =
     emit br [metric ''Invocation.Throttled.Bedrock'' (float_of_int 1) ''Count''
       (context_dims ctx @ [(''AgentName'', agent_name agent), (''RuntimeRegion'', runtime_region)])]"

definition emit_tpm_limit_exceeded_metric :: "'w bridge \<Rightarrow> tenant_context \<Rightarrow> string \<Rightarrow> ('w, unit) io" where
  "emit_tpm_limit_exceeded_metric br ctx agent =
     emit br [metric ''event.name=tpm_limit_exceeded'' (float_of_int 1) ''Count'' (context_dims ctx @ [(''AgentName'', agent)])]"

definition emit_ttft_metric :: "'w bridge \<Rightarrow> agent_record \<Rightarrow> string \<Rightarrow> int \<Rightarrow> ('w, unit) io" where
  "emit_ttft_metric br agent runtime_region ttft_ms =
     (let entry = (\<lambda>a r. metric ''gen_ai.ttft_ms'' (float_of_int ttft_ms) ''Milliseconds''
            [(''AgentName'', a), (''InvocationMode'', ''streaming''), (''RuntimeRegion'', r)])
      in emit br [entry (agent_name agent) runtime_region, entry ''all'' ''all''])"

section \<open>The record of an invocation\<close>

record invocation_log =
  il_invocation_id :: string
  il_status :: invocation_status
  il_latency_ms :: int
  il_mode :: invocation_mode
  il_runtime_region :: string
  il_input_tokens :: int
  il_output_tokens :: int
  il_estimated_tokens :: int
  il_model_id :: "string option"
  il_job_id :: "string option"
  il_session_id :: "string option"
  il_error_code :: "string option"
  il_jitter :: "string option"
  il_ttft_ms :: "int option"

definition invocation_of_log :: "tenant_context \<Rightarrow> agent_record \<Rightarrow> rat \<Rightarrow> invocation_log \<Rightarrow> invocation_record" where
  "invocation_of_log ctx agent now il =
     \<lparr>inv_invocation_id = il_invocation_id il, inv_tenant_id = tc_tenant_id ctx, inv_app_id = tc_app_id ctx,
      inv_agent_name = agent_name agent, inv_agent_version = agent_version agent,
      inv_session_id = opt_or (il_session_id il) ''unknown-session'', inv_input_tokens = il_input_tokens il,
      inv_output_tokens = il_output_tokens il, inv_latency_ms = il_latency_ms il, inv_status = il_status il,
      inv_runtime_region = il_runtime_region il, inv_invocation_mode = il_mode il, inv_timestamp = isoformat_utc now,
      inv_ttl = trunc_rat now + invocation_ttl_seconds, inv_jitter = il_jitter il, inv_error_code = il_error_code il,
      inv_job_id = il_job_id il, inv_ttft_ms = il_ttft_ms il\<rparr>"

definition optional_text :: "string \<Rightarrow> string option \<Rightarrow> pydict \<Rightarrow> pydict" where
  "optional_text k v d = (case v of Some (c # s) \<Rightarrow> dset k (PStr (c # s)) d | _ \<Rightarrow> d)"

definition invocation_item :: "invocation_record \<Rightarrow> pydict" where
  "invocation_item r =
     optional_text ''error_code'' (inv_error_code r) (optional_text ''job_id'' (inv_job_id r) (optional_text ''jitter'' (inv_jitter r)
       [(''PK'', PStr (invocation_pk r)), (''SK'', PStr (invocation_sk r)), (''invocation_id'', PStr (inv_invocation_id r)),
        (''tenant_id'', PStr (inv_tenant_id r)), (''app_id'', PStr (inv_app_id r)), (''agent_name'', PStr (inv_agent_name r)),
        (''agent_version'', PStr (inv_agent_version r)), (''session_id'', PStr (inv_session_id r)),
        (''input_tokens'', PInt (inv_input_tokens r)), (''output_tokens'', PInt (inv_output_tokens r)),
        (''latency_ms'', PInt (inv_latency_ms r)), (''status'', PStr (invocation_status_value (inv_status r))),
        (''runtime_region'', PStr (inv_runtime_region r)),
        (''invocation_mode'', PStr (invocation_mode_value (inv_invocation_mode r))), (''timestamp'', PStr (inv_timestamp r)),
        (''ttl'', PInt (inv_ttl r)), (''ttftMs'', (case inv_ttft_ms r of None \<Rightarrow> PNone | Some t \<Rightarrow> PInt t))]))"

text \<open>The count of tokens that goes with a record.\<close>

definition count_tokens :: "'w bridge \<Rightarrow> tenant_context \<Rightarrow> agent_record \<Rightarrow> rat \<Rightarrow> invocation_log \<Rightarrow> ('w, tpm_counter_result) io" where
  "count_tokens br ctx agent now il =
     record_log_only_tpm (br_tpm br) (br_counter br) now ctx agent (il_input_tokens il + il_output_tokens il) (il_estimated_tokens il)
       (il_model_id il) None None"

text \<open>No error leaves the function; without a result it answers \<open>None\<close>.\<close>

definition log_invocation ::
  "'w bridge \<Rightarrow> bridge_settings \<Rightarrow> tenant_context \<Rightarrow> agent_record \<Rightarrow> invocation_log \<Rightarrow> ('w, tpm_counter_result option) io" where
  "log_invocation br cfg ctx agent il =
     io_catch
       (io_bind (br_clock br) (\<lambda>now.
        io_bind (io_lift (invocation_post_init (invocation_of_log ctx agent now il))) (\<lambda>r.
        io_bind (ts_put_item (br_aws br) ctx (bs_invocations_table cfg) (invocation_item r) None []) (\<lambda>_.
        io_bind (emit_invocation_metrics br ctx agent (il_status il) (il_latency_ms il) (il_input_tokens il) (il_output_tokens il)) (\<lambda>_.
        io_bind (case (il_mode il, il_ttft_ms il) of
                   (MODE_STREAMING, Some t) \<Rightarrow> emit_ttft_metric br agent (il_runtime_region il) t
                 | _ \<Rightarrow> io_return ()) (\<lambda>_.
        io_bind (br_clock br) (\<lambda>clock.
        io_bind (count_tokens br ctx agent clock il) (\<lambda>c. io_return (Some c)))))))))
       (\<lambda>_. io_return None)"

fun job_status_value :: "job_status \<Rightarrow> string" where
  "job_status_value JOB_PENDING = ''pending''"
| "job_status_value JOB_RUNNING = ''running''"
| "job_status_value JOB_COMPLETED = ''completed''"
| "job_status_value JOB_FAILED = ''failed''"

definition job_item :: "job_record \<Rightarrow> pydict" where
  "job_item r =
     (let opt = (\<lambda>k v d. case v of None \<Rightarrow> d | Some s \<Rightarrow> dset k (PStr s) d);
          d = [(''PK'', PStr (job_pk r)), (''SK'', PStr (job_sk r)), (''job_id'', PStr (jr_job_id r)),
               (''tenant_id'', PStr (jr_tenant_id r)), (''app_id'', PStr (jr_app_id r)), (''agent_name'', PStr (jr_agent_name r)),
               (''status'', PStr (job_status_value (jr_status r))), (''created_at'', PStr (jr_created_at r)), (''ttl'', PInt (jr_ttl r))];
          d = opt ''webhook_id'' (jr_webhook_id r) d;
          d = opt ''webhook_url'' (jr_webhook_url r) d;
          d = opt ''webhook_delivery_status'' (jr_webhook_delivery_status r) d;
          d = opt ''webhook_delivery_error'' (jr_webhook_delivery_error r) d;
          d = opt ''webhook_last_attempt_at'' (jr_webhook_last_attempt_at r) d;
          d = opt ''started_at'' (jr_started_at r) d;
          d = opt ''completed_at'' (jr_completed_at r) d;
          d = opt ''result_s3_key'' (jr_result_s3_key r) d;
          d = opt ''error_message'' (jr_error_message r) d
      in dset ''webhook_delivery_attempts'' (PInt (jr_webhook_delivery_attempts r))
           (dset ''webhook_delivered'' (PBool (jr_webhook_delivered r)) d))"

definition log_job :: "'w bridge \<Rightarrow> bridge_settings \<Rightarrow> tenant_context \<Rightarrow> job_record \<Rightarrow> ('w, unit) io" where
  "log_job br cfg ctx r =
     io_catch (ts_put_item (br_aws br) ctx (js_table (bs_jobs cfg)) (job_item r) None []) (\<lambda>_. io_return ())"

section \<open>Logging never fails\<close>

lemma log_invocation_returns: "\<exists>r w'. log_invocation br cfg ctx agent il w = (Inr r, w')"
  unfolding log_invocation_def io_catch_def io_return_def by (auto split: prod.splits sum.splits)

lemma emit_returns: "\<exists>w'. emit br ms w = (Inr (), w')"
  unfolding emit_def io_catch_def io_return_def by (auto split: prod.splits sum.splits)

text \<open>The services of the bridge that are not the tables.\<close>

definition bridge_frame :: "'w bridge \<Rightarrow> ('w \<Rightarrow> 'r) \<Rightarrow> bool" where
  "bridge_frame br rows \<longleftrightarrow>
     leaves rows (br_clock br) \<and> leaves rows (br_uuid4 br) \<and> leaves rows (br_jitter br) \<and> (\<forall>m. leaves rows (br_put_metrics br m))
   \<and> (\<forall>n. leaves rows (br_get_parameters br n)) \<and> (\<forall>n. leaves rows (br_get_parameter br n)) \<and> (\<forall>u. leaves rows (br_http_get br u))
   \<and> (\<forall>u p. leaves rows (br_http_post br u p)) \<and> (\<forall>u p. leaves rows (br_http_stream br u p))
   \<and> (\<forall>r n. leaves rows (br_assume_role br r n)) \<and> (\<forall>r c k. leaves rows (br_invoke_runtime br r c k))
   \<and> (\<forall>s. leaves rows (br_stream_write br s)) \<and> (\<forall>e s. leaves rows (vk_exchange (br_tpm br) e s))
   \<and> (\<forall>d. leaves rows (vk_put_metric (br_tpm br) d)) \<and> (\<forall>m w. rows (vk_log (br_tpm br) m w) = rows w)
   \<and> (\<forall>c. br_counter br = Inr (Some c) \<longrightarrow>
        (\<forall>a n e m t. leaves rows (cc_increment_windows c a n e m t)) \<and> (\<forall>k l e t. leaves rows (cc_check_and_increment c k l e t))
      \<and> (\<forall>k e a. leaves rows (cc_correct_usage c k e a)))"

lemma leaves_catch:
  assumes "leaves rows m" and "\<And>e. leaves rows (h e)"
  shows "leaves rows (io_catch m h)"
  unfolding leaves_def
proof
  fix w show "rows (snd (io_catch m h w)) = rows w"
  proof (cases "m w")
    case (Pair r w1)
    then have "rows w1 = rows w" by (rule leavesD[OF assms(1)])
    with assms(2) Pair show ?thesis by (cases r) (auto simp: io_catch_def leaves_def)
  qed
qed

lemma leaves_logged: "leaves rows m \<Longrightarrow> (\<And>w. rows (f w) = rows w) \<Longrightarrow> leaves rows (\<lambda>w. (r, f w))"
  by (simp add: leaves_def)

lemma leaves_option: "(v = None \<Longrightarrow> leaves rows m) \<Longrightarrow> (\<And>x. v = Some x \<Longrightarrow> leaves rows (f x)) \<Longrightarrow> leaves rows (case v of None \<Rightarrow> m | Some x \<Rightarrow> f x)"
  by (cases v) simp_all

lemma emit_leaves: "bridge_frame br rows \<Longrightarrow> leaves rows (emit br ms)"
  by (simp add: emit_def bridge_frame_def leaves_catch leaves_rules)

lemma count_tokens_leaves:
  fixes br :: "'w bridge" and rows :: "'w \<Rightarrow> 'r"
  assumes "bridge_frame br rows"
  shows "leaves rows (count_tokens br ctx agent now il)"
proof -
  have log: "rows (vk_log (br_tpm br) m w) = rows w" for m w using assms by (simp add: bridge_frame_def)
  have windows: "leaves rows (cc_increment_windows c a n e m t)" if "br_counter br = Inr (Some c)" for c a n e m t
    using assms that by (simp add: bridge_frame_def)
  have put: "leaves rows (vk_put_metric (br_tpm br) d)" for d using assms by (simp add: bridge_frame_def)
  have said: "leaves rows (\<lambda>w. (r, vk_log (br_tpm br) m w))" for r :: "'c res" and m by (simp add: leaves_def log)
  have skipped: "leaves rows (\<lambda>w. (r, log_counter_skipped (br_tpm br) w))" for r :: "'d res"
    by (simp add: leaves_def log log_counter_skipped_def)
  have unavailable: "leaves rows (\<lambda>w. (r, log_counter_skipped (br_tpm br) (log_valkey_unavailable (br_tpm br) w)))" for r :: "'e res"
    by (simp add: leaves_def log log_counter_skipped_def log_valkey_unavailable_def)
  have client: "leaves rows (case c of None \<Rightarrow> (\<lambda>w. (Inr None, log_counter_skipped (br_tpm br) w))
      | Some c \<Rightarrow> io_bind (cc_increment_windows c a n e m t) (\<lambda>u. io_return (Some u)))" if "br_counter br = Inr c" for c a n e m t
    by (rule leaves_option, rule skipped, rule leaves_rules(4), rule windows) (use that in simp, rule leaves_rules(1))
  have bound: "leaves rows (io_bind (io_lift (br_counter br)) f)" if "\<And>c. br_counter br = Inr c \<Longrightarrow> leaves rows (f c)"
    for f :: "'w counter_client option \<Rightarrow> ('w, 'f) io"
    using that by (cases "br_counter br") (simp_all add: leaves_def io_bind_def io_lift_def)
  show ?thesis
    unfolding count_tokens_def record_log_only_tpm_def Let_def emit_tpm_metric_def client_or_default_def option.case
    apply (rule leaves_rules(4))
     apply (rule leaves_catch)
      apply (rule bound, erule client)
     apply (rule unavailable)
    apply (rule leaves_option)
     apply (rule leaves_rules(1))
    apply (rule leaves_rules(4))
     apply (rule leaves_catch)
      apply (rule put)
     apply (rule said)
    apply (rule said)
    done
qed

lemma optional_text_keys:
  "k \<noteq> ''PK'' \<Longrightarrow> dget (optional_text k v d) ''PK'' = dget d ''PK''" "k \<noteq> ''SK'' \<Longrightarrow> dget (optional_text k v d) ''SK'' = dget d ''SK''"
  by (auto simp: optional_text_def dget_or_def split: option.split list.split)

lemma invocation_item_key:
  "dget (invocation_item r) ''PK'' = PStr (invocation_pk r)" "dget (invocation_item r) ''SK'' = PStr (invocation_sk r)"
  by (simp_all add: invocation_item_def optional_text_keys) (simp_all add: dget_or_def)

lemma storable_dset: "storable (PDict d) \<Longrightarrow> storable v \<Longrightarrow> storable (PDict (dset k v d))"
  by (auto simp: list_all_iff dest!: in_dsetD)

lemma storable_optional: "storable (PDict d) \<Longrightarrow> storable (PDict (optional_text k v d))"
  by (auto simp: optional_text_def storable_dset simp del: storable.simps(4) split: option.split list.split)

definition counts_fit :: "invocation_record \<Rightarrow> bool" where
  "counts_fit r \<longleftrightarrow> list_all (\<lambda>i. abs i < 10 ^ 38)
     ([inv_input_tokens r, inv_output_tokens r, inv_latency_ms r, inv_ttl r] @ (case inv_ttft_ms r of None \<Rightarrow> [] | Some t \<Rightarrow> [t]))"

lemma invocation_item_storable: "counts_fit r \<Longrightarrow> storable (PDict (invocation_item r))"
  unfolding invocation_item_def by (intro storable_optional) (auto simp: counts_fit_def split: option.splits)

text \<open>Records whose construction succeeds.\<close>

definition log_ok :: "invocation_log \<Rightarrow> bool" where
  "log_ok il \<longleftrightarrow> (case il_jitter il of None \<Rightarrow> True | Some j \<Rightarrow> length j = jitter_length)
     \<and> (case il_ttft_ms il of None \<Rightarrow> True | Some t \<Rightarrow> 1 \<le> t)"

lemma log_ok_init: "log_ok il \<Longrightarrow> invocation_post_init (invocation_of_log ctx agent now il) = Inr (invocation_of_log ctx agent now il)"
  by (auto simp: invocation_post_init_Inr log_ok_def invocation_of_log_def split: option.splits)

definition counts_fit_log :: "invocation_log \<Rightarrow> rat \<Rightarrow> bool" where
  "counts_fit_log il now \<longleftrightarrow> list_all (\<lambda>i. abs i < 10 ^ 38)
     ([il_input_tokens il, il_output_tokens il, il_latency_ms il, trunc_rat now + invocation_ttl_seconds]
      @ (case il_ttft_ms il of None \<Rightarrow> [] | Some t \<Rightarrow> [t]))"

lemma log_invocation_rows:
  assumes law: "dynamo_ok (br_aws br) rows" and frame: "bridge_frame br rows" and ok: "log_ok il"
    and clock: "br_clock br w = (Inr now, w1)" and fit: "counts_fit_log il now"
  shows "\<exists>c w'. log_invocation br cfg ctx agent il w = (Inr c, w')
    \<and> rows w' = set_row (rows w) (bs_invocations_table cfg) (tenant_pk (tc_tenant_id ctx)) (invocation_sk (invocation_of_log ctx agent now il))
        (Some (invocation_item (invocation_of_log ctx agent now il)))"
proof -
  let ?r = "invocation_of_log ctx agent now il"
  have "leaves rows (br_clock br)" using frame by (simp add: bridge_frame_def)
  from leavesD[OF this clock] have w1: "rows w1 = rows w" .
  have pk: "invocation_pk ?r = tenant_pk (tc_tenant_id ctx)" by (simp add: invocation_pk_def tenant_pk_def invocation_of_log_def)
  have own: "own_key ctx (invocation_pk ?r)" by (simp add: pk)
  have store: "storable (PDict (invocation_item ?r))"
    using fit by (intro invocation_item_storable) (simp add: counts_fit_def counts_fit_log_def invocation_of_log_def)
  let ?rest = "io_bind (emit_invocation_metrics br ctx agent (il_status il) (il_latency_ms il) (il_input_tokens il) (il_output_tokens il)) (\<lambda>_.
        io_bind (case (il_mode il, il_ttft_ms il) of
                   (MODE_STREAMING, Some t) \<Rightarrow> emit_ttft_metric br agent (il_runtime_region il) t
                 | _ \<Rightarrow> io_return ()) (\<lambda>_.
        io_bind (br_clock br) (\<lambda>clock.
        io_bind (count_tokens br ctx agent clock il) (\<lambda>c. io_return (Some c)))))"
  have rest: "leaves rows ?rest"
    unfolding emit_invocation_metrics_def emit_ttft_metric_def Let_def
    by (intro leaves_rules(4) emit_leaves[OF frame] count_tokens_leaves[OF frame])
      (use frame emit_leaves[OF frame] in \<open>auto simp: leaves_rules bridge_frame_def split: invocation_mode.split option.split\<close>)
  have "io_post (io_bind (ts_put_item (br_aws br) ctx (bs_invocations_table cfg) (invocation_item ?r) None []) (\<lambda>_. ?rest)) w1
    (\<lambda>c w'. rows w' = set_row (rows w) (bs_invocations_table cfg) (invocation_pk ?r) (invocation_sk ?r) (Some (invocation_item ?r)))"
  proof (rule client_put_post[OF law own invocation_item_key])
    fix e assume "put_result None (invocation_item ?r) (bs_invocations_table cfg) (invocation_pk ?r) (invocation_sk ?r) (rows w1) = Inl e"
    then show "rows w1 = set_row (rows w) (bs_invocations_table cfg) (invocation_pk ?r) (invocation_sk ?r) (Some (invocation_item ?r))"
      using store by (simp add: put_result_def condition_holds_def put_if_absent_def if_present_def del: storable.simps)
  next
    fix w2 assume "rows w2 = set_row (rows w1) (bs_invocations_table cfg) (invocation_pk ?r) (invocation_sk ?r) (Some (invocation_item ?r))"
    then show "io_post ?rest w2
      (\<lambda>c w'. rows w' = set_row (rows w) (bs_invocations_table cfg) (invocation_pk ?r) (invocation_sk ?r) (Some (invocation_item ?r)))"
      by (intro io_post_leaves[OF rest]) (simp only: w1)
  qed simp
  then show ?thesis
    using log_invocation_returns[of br cfg ctx agent il w]
    unfolding log_invocation_def pk[symmetric]
    by (auto simp: io_catch_def io_post_def io_bind_def clock log_ok_init[OF ok] io_lift_def io_return_def split: prod.splits sum.splits)
qed

end
