(* ===== verification/BridgeRuntime.thy ===== *)
theory BridgeRuntime
  imports BridgeTelemetry
begin

text \<open>
  Calling an agent (\<open>bridge/runtime_calls.py\<close>, \<open>role_resolver.py\<close>, \<open>lock_manager.py\<close> and \<open>invoke_agent\<close> of \<open>route_adapter.py\<close>): which
  runtime is called with whose credentials, what becomes of its answer, and the response when it fails. The functions are composed as
  they are when \<open>bridge/handler.py\<close> is loaded.
\<close>

section \<open>ARNs of roles and runtimes\<close>

definition validate_execution_role_arn :: "string \<Rightarrow> string \<Rightarrow> string res" where
  "validate_execution_role_arn role_arn expected_account_id =
     (case match_role_arn role_arn of
        None \<Rightarrow> Inl (ValueError ''Tenant execution role ARN is malformed'')
      | Some account \<Rightarrow>
          if account \<noteq> expected_account_id then Inl (ValueError ''Tenant execution role ARN account mismatch'') else Inr role_arn)"

definition validate_runtime_arn :: "string \<Rightarrow> runtime_arn_match res" where
  "validate_runtime_arn runtime_arn =
     (case match_runtime_arn runtime_arn of None \<Rightarrow> Inl (ValueError ''Agent runtime ARN is malformed'') | Some m \<Rightarrow> Inr m)"

definition validate_runtime_endpoint :: "runtime_arn_match \<Rightarrow> string option \<Rightarrow> string option \<Rightarrow> string option res" where
  "validate_runtime_endpoint m endpoint_arn endpoint_name =
     (case (endpoint_arn, endpoint_name) of
        (None, None) \<Rightarrow> Inr None
      | (Some arn, Some name) \<Rightarrow>
          (case match_endpoint_arn arn of
             None \<Rightarrow> Inl (ValueError ''Agent runtime endpoint ARN is malformed'')
           | Some (em, eid) \<Rightarrow>
               if em \<noteq> m then Inl (ValueError ''Agent runtime endpoint ARN does not match runtime ARN'')
               else if \<not> starts_with eid (name @ ''-'')
               then Inl (ValueError ''Agent runtime endpoint ARN does not match endpoint name'')
               else Inr (Some name))
      | _ \<Rightarrow> Inl (ValueError ''Agent runtime endpoint ARN and name must both be configured''))"

text \<open>\<open>s.replace(a, b, 1)\<close>.\<close>

definition replace_once :: "string \<Rightarrow> string \<Rightarrow> string \<Rightarrow> string" where
  "replace_once a b s =
     (if str_contains s a then (case cut_at a s of (x, y) \<Rightarrow> x @ b @ y) else s)"

section \<open>The tenant's role (\<open>role_resolver.py\<close>)\<close>

definition get_tenant_record :: "'w bridge \<Rightarrow> bridge_settings \<Rightarrow> tenant_context \<Rightarrow> ('w, pydict option) io" where
  "get_tenant_record br cfg ctx =
     io_catch (ts_get_item (br_aws br) ctx (bs_tenants_table cfg) (tenant_row_key (tc_tenant_id ctx)) []) (\<lambda>_. io_return None)"

definition resolve_tenant_execution_role :: "'w bridge \<Rightarrow> bridge_settings \<Rightarrow> string \<Rightarrow> ('w, string option) io" where
  "resolve_tenant_execution_role br cfg tenant_id =
     io_catch (br_get_parameter br (bs_role_param cfg tenant_id)) (\<lambda>_. io_return None)"

definition assume_tenant_role :: "'w bridge \<Rightarrow> string \<Rightarrow> string \<Rightarrow> ('w, pydict) io" where
  "assume_tenant_role br role_arn session_name = br_assume_role br role_arn (take 64 session_name)"

text \<open>\<open>handler.assume_tenant_role\<close>: the session is named after the tenant.\<close>

definition handler_assume_role :: "'w bridge \<Rightarrow> string \<Rightarrow> string \<Rightarrow> ('w, pydict) io" where
  "handler_assume_role br tenant_id role_arn = assume_tenant_role br role_arn (''invoke-'' @ take 8 tenant_id)"

definition nonempty_text :: "string option \<Rightarrow> string option" where
  "nonempty_text s = (case s of Some (c # r) \<Rightarrow> Some (c # r) | _ \<Rightarrow> None)"

text \<open>The role a tenant's record or its parameter names.\<close>

definition tenant_role :: "'w bridge \<Rightarrow> bridge_settings \<Rightarrow> tenant_context \<Rightarrow> pydict \<Rightarrow> ('w, string option) io" where
  "tenant_role br cfg ctx tenant =
     (case coerce_optional_string (py_or (dget tenant ''executionRoleArn'') (dget tenant ''execution_role_arn'')) of
        Some r \<Rightarrow> io_return (Some r)
      | None \<Rightarrow> io_bind (resolve_tenant_execution_role br cfg (tc_tenant_id ctx)) (\<lambda>r. io_return (nonempty_text r)))"

definition expected_account :: "pydict \<Rightarrow> string" where
  "expected_account tenant = opt_or (coerce_optional_string (py_or (dget tenant ''accountId'') (dget tenant ''account_id''))) []"

definition checked_role :: "pydict \<Rightarrow> string \<Rightarrow> string res" where
  "checked_role tenant role_arn =
     (if expected_account tenant = [] then Inr role_arn else validate_execution_role_arn role_arn (expected_account tenant))"

section \<open>Failures\<close>

definition elapsed_ms :: "rat \<Rightarrow> rat \<Rightarrow> int" where
  "elapsed_ms now start = trunc_rat ((now - start) * 1000)"

definition plain_log :: "string \<Rightarrow> invocation_status \<Rightarrow> int \<Rightarrow> invocation_mode \<Rightarrow> string \<Rightarrow> string option \<Rightarrow> invocation_log" where
  "plain_log invocation_id status latency mode region session_id =
     \<lparr>il_invocation_id = invocation_id, il_status = status, il_latency_ms = latency, il_mode = mode, il_runtime_region = region,
      il_input_tokens = 0, il_output_tokens = 0, il_estimated_tokens = 0, il_model_id = None, il_job_id = None,
      il_session_id = session_id, il_error_code = None, il_jitter = None, il_ttft_ms = None\<rparr>"

text \<open>\<open>handler.log_invocation\<close>: with a jitter of its own.\<close>

definition jittered_log ::
  "'w bridge \<Rightarrow> bridge_settings \<Rightarrow> tenant_context \<Rightarrow> agent_record \<Rightarrow> invocation_log \<Rightarrow> ('w, tpm_counter_result option) io" where
  "jittered_log br cfg ctx agent il =
     io_bind (br_jitter br) (\<lambda>j. log_invocation br cfg ctx agent (il\<lparr>il_jitter := Some j\<rparr>))"

record failure_info =
  fi_status :: int
  fi_code :: string
  fi_message :: string

definition failure_info_of :: "'w bridge \<Rightarrow> exc \<Rightarrow> failure_info" where
  "failure_info_of br e =
     (case br_client_failure br e of
        Some f \<Rightarrow> \<lparr>fi_status = (case cf_status f of None \<Rightarrow> 502 | Some n \<Rightarrow> n),
                   fi_code = opt_or (cf_code f) ''RUNTIME_INVOCATION_FAILED'',
                   fi_message = opt_or (cf_message f) ''Agent runtime invocation failed''\<rparr>
      | None \<Rightarrow> \<lparr>fi_status = 502, fi_code = ''RUNTIME_INVOCATION_FAILED'',
                 fi_message = opt_or (Some (br_error_text br e)) ''Agent runtime invocation failed''\<rparr>)"

text \<open>The running call: agent, tenant, prompt, session, request, and the invocation with its start.\<close>

record invocation =
  iv_agent :: agent_record
  iv_ctx :: tenant_context
  iv_prompt :: string
  iv_session_id :: "string option"
  iv_request_id :: string
  iv_id :: string
  iv_start :: rat
  iv_estimate :: int

definition runtime_failure_response ::
  "'w bridge \<Rightarrow> bridge_settings \<Rightarrow> invocation \<Rightarrow> string \<Rightarrow> int \<Rightarrow> exc \<Rightarrow> ('w, pydict) io" where
  "runtime_failure_response br cfg iv region estimated e =
     (let f = failure_info_of br e; agent = iv_agent iv; ctx = iv_ctx iv in
      io_bind (if br_client_failure br e \<noteq> None \<and> fi_code f = ''ThrottlingException''
               then emit_bedrock_throttle_metric br ctx agent region else io_return ()) (\<lambda>_.
      io_bind (br_clock br) (\<lambda>now.
      io_bind (jittered_log br cfg ctx agent
                 ((plain_log (iv_id iv) INV_ERROR (elapsed_ms now (iv_start iv)) (invocation_mode_of agent) region (iv_session_id iv))
                    \<lparr>il_error_code := Some (fi_code f), il_estimated_tokens := estimated\<rparr>)) (\<lambda>_.
      io_return (bridge_error (fi_status f) (fi_code f) (fi_message f) (iv_request_id iv))))))"

section \<open>Bodies\<close>

definition build_runtime_payload :: "invocation \<Rightarrow> pydict" where
  "build_runtime_payload iv =
     [(''prompt'', PStr (iv_prompt iv)), (''input'', PStr (iv_prompt iv)),
      (''mode'', PStr (invocation_mode_value (invocation_mode_of (iv_agent iv)))), (''appid'', PStr (tc_app_id (iv_ctx iv))),
      (''tenantId'', PStr (tc_tenant_id (iv_ctx iv))), (''agentName'', PStr (agent_name (iv_agent iv))),
      (''agentVersion'', PStr (agent_version (iv_agent iv)))]
     @ (case nonempty_text (iv_session_id iv) of None \<Rightarrow> [] | Some s \<Rightarrow> [(''sessionId'', PStr s)])"

text \<open>The chunks of a body with the time of the first one that is not empty.\<close>

fun read_chunks :: "('w, rat) io \<Rightarrow> rat \<Rightarrow> string res list \<Rightarrow> string \<Rightarrow> int option \<Rightarrow> ('w, string \<times> int option) io" where
  "read_chunks clock start [] bytes ttft = io_return (bytes, ttft)"
| "read_chunks clock start (Inl e # cs) bytes ttft = io_raise e"
| "read_chunks clock start (Inr c # cs) bytes ttft =
     (if c = [] then read_chunks clock start cs bytes ttft
      else (case ttft of
              Some t \<Rightarrow> read_chunks clock start cs (bytes @ c) ttft
            | None \<Rightarrow> io_bind clock (\<lambda>now. read_chunks clock start cs (bytes @ c) (Some (max 1 (elapsed_ms now start))))))"

definition read_runtime_response_body :: "'w bridge \<Rightarrow> rat \<Rightarrow> runtime_body \<Rightarrow> ('w, string \<times> int option) io" where
  "read_runtime_response_body br start body =
     (case body of
        BodyStream cs \<Rightarrow> read_chunks (br_clock br) start cs [] None
      | BodyRead r \<Rightarrow>
          io_bind (io_lift r) (\<lambda>bytes.
            if bytes = [] then io_return ([], None)
            else io_bind (br_clock br) (\<lambda>now. io_return (bytes, Some (max 1 (elapsed_ms now start)))))
      | BodyBytes b \<Rightarrow> io_return (b, None)
      | BodyOther \<Rightarrow> io_return ([], None))"

text \<open>Without streaming a body is read at once.\<close>

definition read_whole_body :: "runtime_body \<Rightarrow> string res" where
  "read_whole_body body =
     (case body of
        BodyStream cs \<Rightarrow> bind_res (all_res cs) (\<lambda>bs. Inr (concat bs))
      | BodyRead r \<Rightarrow> r | BodyBytes b \<Rightarrow> Inr b | BodyOther \<Rightarrow> Inr [])"

section \<open>The agent runtime\<close>

record runtime_plan =
  rp_arn :: string
  rp_qualifier :: "string option"
  rp_credentials :: pydict

text \<open>The runtime an agent is called at: its own, moved to the active region when it has no endpoint.\<close>

definition runtime_target :: "string \<Rightarrow> invocation \<Rightarrow> (pydict + string \<times> string option) res" where
  "runtime_target region iv =
     (let agent = iv_agent iv; request_id = iv_request_id iv;
          invalid = (\<lambda>m. Inl (bridge_error 500 ''INVALID_RUNTIME'' m request_id)) in
      case coerce_optional_string (opt_val (ar_runtime_arn agent)) of
        None \<Rightarrow> Inr (invalid ''Agent runtime ARN not configured'')
      | Some arn \<Rightarrow>
          bind_res (validate_runtime_arn arn) (\<lambda>m.
            let endpoint_arn = coerce_optional_string (opt_val (ar_runtime_endpoint_arn agent));
                endpoint_name = coerce_optional_string (opt_val (ar_runtime_endpoint_name agent)) in
            if rm_region m \<noteq> region \<and> endpoint_arn \<noteq> None
            then Inr (invalid ''Agent runtime endpoint region does not match active runtime region'')
            else
              (let arn = (if rm_region m \<noteq> region then replace_once ('':'' @ rm_region m @ '':'') ('':'' @ region @ '':'') arn else arn) in
               bind_res (validate_runtime_arn arn) (\<lambda>m.
                 case validate_runtime_endpoint m endpoint_arn endpoint_name of
                   Inl (ValueError msg) \<Rightarrow> Inr (invalid msg)
                 | Inl e \<Rightarrow> Inl e
                 | Inr q \<Rightarrow> Inr (Inr (arn, q))))))"

text \<open>The credentials of the tenant's role.\<close>

definition tenant_credentials :: "'w bridge \<Rightarrow> bridge_settings \<Rightarrow> invocation \<Rightarrow> ('w, pydict + pydict) io" where
  "tenant_credentials br cfg iv =
     (let ctx = iv_ctx iv; request_id = iv_request_id iv in
      io_bind (get_tenant_record br cfg ctx) (\<lambda>found.
        case found of
          None \<Rightarrow> io_return (Inl (bridge_error 404 ''NOT_FOUND'' ''Tenant metadata not found'' request_id))
        | Some tenant \<Rightarrow>
            if tenant = [] then io_return (Inl (bridge_error 404 ''NOT_FOUND'' ''Tenant metadata not found'' request_id))
            else
              io_bind (tenant_role br cfg ctx tenant) (\<lambda>role. case role of
                 None \<Rightarrow> io_return (Inl (bridge_error 500 ''INVALID_RUNTIME'' ''Tenant execution role ARN not configured'' request_id))
               | Some arn \<Rightarrow>
                   (case checked_role tenant arn of
                      Inl (ValueError msg) \<Rightarrow> io_return (Inl (bridge_error 500 ''INVALID_RUNTIME'' msg request_id))
                    | Inl e \<Rightarrow> io_raise e
                    | Inr arn \<Rightarrow> io_bind (handler_assume_role br (tc_tenant_id ctx) arn) (\<lambda>c. io_return (Inr c))))))"

definition prepare_runtime :: "'w bridge \<Rightarrow> bridge_settings \<Rightarrow> string \<Rightarrow> invocation \<Rightarrow> ('w, pydict + runtime_plan) io" where
  "prepare_runtime br cfg region iv =
     io_bind (io_lift (runtime_target region iv)) (\<lambda>target. case target of
         Inl answer \<Rightarrow> io_return (Inl answer)
       | Inr (arn, q) \<Rightarrow>
           io_bind (tenant_credentials br cfg iv) (\<lambda>c. case c of
               Inl answer \<Rightarrow> io_return (Inl answer)
             | Inr creds \<Rightarrow> io_return (Inr \<lparr>rp_arn = arn, rp_qualifier = q, rp_credentials = creds\<rparr>)))"

text \<open>The client of a session with these credentials: a missing part is a \<open>KeyError\<close>.\<close>

definition session_credentials :: "pydict \<Rightarrow> pydict res" where
  "session_credentials creds =
     (if creds = [] then Inr []
      else
        (let part = (\<lambda>k. case dict_get creds k of None \<Rightarrow> Inl (KeyError k) | Some v \<Rightarrow> Inr v) in
         bind_res (part ''AccessKeyId'') (\<lambda>a. bind_res (part ''SecretAccessKey'') (\<lambda>b. bind_res (part ''SessionToken'') (\<lambda>c.
           Inr [(''aws_access_key_id'', a), (''aws_secret_access_key'', b), (''aws_session_token'', c)])))))"

definition invoke_kwargs :: "runtime_plan \<Rightarrow> invocation \<Rightarrow> pydict" where
  "invoke_kwargs plan iv =
     [(''agentRuntimeArn'', PStr (rp_arn plan)), (''payload'', PStr (utf8_encode (json_dumps (PDict (build_runtime_payload iv)))))]
     @ (case nonempty_text (iv_session_id iv) of None \<Rightarrow> [] | Some s \<Rightarrow> [(''runtimeSessionId'', PStr s)])
     @ (case nonempty_text (rp_qualifier plan) of None \<Rightarrow> [] | Some q \<Rightarrow> [(''qualifier'', PStr q)])"

definition rate_limit_fields :: "tpm_counter_result option \<Rightarrow> rat \<Rightarrow> pydict" where
  "rate_limit_fields c start = map (\<lambda>(k, v). (k, PStr v)) (build_rate_limit_headers start c None None 0 (Some start))"

definition http_answer :: "int \<Rightarrow> pydict \<Rightarrow> string \<Rightarrow> pydict" where
  "http_answer status headers body = [(''statusCode'', PInt status), (''headers'', PDict headers), (''body'', PStr body)]"

definition estimate_or :: "int \<Rightarrow> string \<Rightarrow> int" where
  "estimate_or estimate prompt = (if estimate = 0 then estimate_tokens_from_prompt prompt else estimate)"

text \<open>\<open>log_result_with_tpm\<close>: the record of a call, with the estimate of the request.\<close>

definition log_with_estimate ::
  "'w bridge \<Rightarrow> bridge_settings \<Rightarrow> invocation \<Rightarrow> invocation_log \<Rightarrow> ('w, tpm_counter_result option) io" where
  "log_with_estimate br cfg iv il = jittered_log br cfg (iv_ctx iv) (iv_agent iv) (il\<lparr>il_estimated_tokens := iv_estimate iv\<rparr>)"

definition usage_log :: "invocation \<Rightarrow> invocation_status \<Rightarrow> rat \<Rightarrow> string \<Rightarrow> string option \<Rightarrow> token_usage \<Rightarrow> int option \<Rightarrow> invocation_log" where
  "usage_log iv status now region session_id usage ttft =
     (plain_log (iv_id iv) status (elapsed_ms now (iv_start iv)) (invocation_mode_of (iv_agent iv)) region session_id)
       \<lparr>il_input_tokens := tu_input_tokens usage, il_output_tokens := tu_output_tokens usage,
        il_estimated_tokens := estimate_or (iv_estimate iv) (iv_prompt iv), il_model_id := tu_model_id usage, il_ttft_ms := ttft\<rparr>"

text \<open>Any error of the call is answered by the failure response, with the headers of an empty window.\<close>

definition or_failure :: "'w bridge \<Rightarrow> bridge_settings \<Rightarrow> invocation \<Rightarrow> string \<Rightarrow> ('w, pydict) io \<Rightarrow> ('w, pydict) io" where
  "or_failure br cfg iv region run =
     io_catch run (\<lambda>e.
       io_bind (runtime_failure_response br cfg iv region 0 e) (\<lambda>answer.
         io_return (dset ''headers'' (PDict (dupdate (dict_or_empty (dget answer ''headers'')) (rate_limit_fields None (iv_start iv)))) answer)))"

definition read_body :: "'w bridge \<Rightarrow> invocation \<Rightarrow> runtime_body \<Rightarrow> ('w, string \<times> int option) io" where
  "read_body br iv body =
     (if invocation_mode_of (iv_agent iv) = MODE_STREAMING then read_runtime_response_body br (iv_start iv) body
      else io_bind (io_lift (read_whole_body body)) (\<lambda>b. io_return (b, None)))"

definition call_runtime :: "'w bridge \<Rightarrow> bridge_settings \<Rightarrow> string \<Rightarrow> invocation \<Rightarrow> runtime_plan \<Rightarrow> ('w, pydict) io" where
  "call_runtime br cfg region iv plan =
     io_bind (io_lift (session_credentials (rp_credentials plan))) (\<lambda>creds.
     io_bind (br_invoke_runtime br region creds (invoke_kwargs plan iv)) (\<lambda>(answer, body).
     io_bind (read_body br iv body) (\<lambda>(bytes, ttft).
     io_bind (io_lift (utf8_decode bytes)) (\<lambda>body_text.
     io_bind (io_lift (extract_token_usage body_text)) (\<lambda>usage.
     io_bind (br_clock br) (\<lambda>now.
     io_bind (log_with_estimate br cfg iv (usage_log iv INV_SUCCESS now region (iv_session_id iv) usage ttft)) (\<lambda>counted.
     io_bind (io_lift (py_int (dget_or answer ''statusCode'' (PInt 200)))) (\<lambda>status.
     io_return
       (http_answer status
          (dupdate
            ([(''Content-Type'', PStr (py_str (dget_or answer ''contentType'' (PStr ''application/json''))))]
             @ (case coerce_optional_string (dget answer ''runtimeSessionId'') of
                  None \<Rightarrow> [] | Some s \<Rightarrow> [(''x-runtime-session-id'', PStr s)]))
            (rate_limit_fields counted (iv_start iv)))
          body_text)))))))))"

definition invoke_real_runtime :: "'w bridge \<Rightarrow> bridge_settings \<Rightarrow> string \<Rightarrow> invocation \<Rightarrow> ('w, pydict) io" where
  "invoke_real_runtime br cfg region iv =
     io_bind (prepare_runtime br cfg region iv) (\<lambda>p. case p of
         Inl answer \<Rightarrow> io_return answer
       | Inr plan \<Rightarrow> or_failure br cfg iv region (call_runtime br cfg region iv plan))"

section \<open>The mock runtime\<close>

definition without_end_slashes :: "string \<Rightarrow> string" where
  "without_end_slashes url = rev (dropWhile (\<lambda>c. c = CHR ''/'') (rev url))"

text \<open>The lines of an event stream: the text parts joined, the session of the last session event.\<close>

fun mock_events :: "string list \<Rightarrow> string option \<Rightarrow> string \<Rightarrow> (string option \<times> string) res" where
  "mock_events [] session text_so_far = Inr (session, text_so_far)"
| "mock_events (line # ls) session text_so_far =
     (if line = [] then mock_events ls session text_so_far
      else bind_res (utf8_decode line) (\<lambda>line.
        let payload = (if starts_with line ''data:'' then py_strip (drop 5 line) else py_strip line) in
        if payload = ''[DONE]'' then mock_events ls session text_so_far
        else (case json_loads payload of
                Inl e \<Rightarrow> mock_events ls session text_so_far
              | Inr v \<Rightarrow> bind_res (need_dict v) (\<lambda>d.
                  mock_events ls
                    (if dget d ''type'' = PStr ''session'' \<and> truthy (dget d ''sessionId'') then Some (py_str (dget d ''sessionId'')) else session)
                    (if dget d ''type'' = PStr ''text'' then text_so_far @ py_str (dget_or d ''content'' (PStr [])) else text_so_far)))))"

definition mock_runtime_response_body :: "mock_answer \<Rightarrow> string option \<Rightarrow> (string \<times> string option) res" where
  "mock_runtime_response_body answer session_id =
     (case ma_text answer of
        Some s \<Rightarrow> Inr (s, session_id)
      | None \<Rightarrow> bind_res (mock_events (ma_lines answer) session_id []) (\<lambda>(session, out).
          Inr (json_dumps (PDict
                 ([(''output'', PStr out), (''usage'', PDict [(''inputTokens'', PInt 0), (''outputTokens'', PInt 0)])]
                  @ (case nonempty_text session of None \<Rightarrow> [] | Some s \<Rightarrow> [(''sessionId'', PStr s)]))), session)))"

definition invoke_mock_runtime :: "'w bridge \<Rightarrow> bridge_settings \<Rightarrow> string \<Rightarrow> invocation \<Rightarrow> ('w, pydict) io" where
  "invoke_mock_runtime br cfg url iv =
     or_failure br cfg iv ''mock-runtime''
       (io_bind (br_http_post br (without_end_slashes url) (build_runtime_payload iv)) (\<lambda>answer.
        io_bind (br_clock br) (\<lambda>now.
        io_bind (io_lift (mock_runtime_response_body answer (iv_session_id iv))) (\<lambda>(body_text, session).
        io_bind (io_lift (extract_token_usage body_text)) (\<lambda>usage.
        io_bind (log_with_estimate br cfg iv
                   (usage_log iv (if ma_ok answer then INV_SUCCESS else INV_ERROR) now ''mock-runtime'' session usage None)) (\<lambda>counted.
        io_return (http_answer (ma_status answer)
          (dupdate [(''Content-Type'', PStr (case ma_content_type answer of None \<Rightarrow> ''application/json'' | Some c \<Rightarrow> c))]
             (rate_limit_fields counted (iv_start iv))) body_text)))))))"

section \<open>Streaming from the mock runtime\<close>

definition stream_preamble :: "int \<Rightarrow> pydict \<Rightarrow> string" where
  "stream_preamble status headers =
     utf8_encode (json_dumps (PDict [(''statusCode'', PInt status), (''headers'', PDict headers)])) @ [CHR 0x00]"

definition send_streaming_response :: "'w bridge \<Rightarrow> int \<Rightarrow> string \<Rightarrow> pydict \<Rightarrow> ('w, unit) io" where
  "send_streaming_response br status body headers =
     io_bind (br_stream_write br (stream_preamble status headers)) (\<lambda>_.
       if body \<noteq> [] then br_stream_write br body else io_return ())"

fun forward_lines :: "'w bridge \<Rightarrow> rat \<Rightarrow> string res list \<Rightarrow> int option \<Rightarrow> ('w, int option) io" where
  "forward_lines br start [] ttft = io_return ttft"
| "forward_lines br start (Inl e # ls) ttft = io_raise e"
| "forward_lines br start (Inr line # ls) ttft =
     (if line = [] then forward_lines br start ls ttft
      else io_bind (case ttft of
                      Some t \<Rightarrow> io_return t
                    | None \<Rightarrow> io_bind (br_clock br) (\<lambda>now. io_return (max 1 (elapsed_ms now start)))) (\<lambda>t.
           io_bind (br_stream_write br (line @ [CHR 0x0A, CHR 0x0A])) (\<lambda>_. forward_lines br start ls (Some t))))"

text \<open>An error before the first byte of the response leaves the function; a later one becomes a failure response.\<close>

definition handle_streaming_invocation :: "'w bridge \<Rightarrow> bridge_settings \<Rightarrow> string \<Rightarrow> bool \<Rightarrow> invocation \<Rightarrow> ('w, pydict option) io" where
  "handle_streaming_invocation br cfg url has_stream iv =
     (if \<not> has_stream
      then io_return (Some (bridge_error 500 ''INTERNAL_ERROR'' ''Streaming invocation requires a response stream'' (iv_request_id iv)))
      else
        io_bind (br_http_stream br (without_end_slashes url) (build_runtime_payload iv)) (\<lambda>ls.
        io_bind (send_streaming_response br 200 [] (dupdate [(''Content-Type'', PStr ''text/event-stream'')]
                   (rate_limit_fields None (iv_start iv)))) (\<lambda>_.
        io_try
          (io_bind (forward_lines br (iv_start iv) ls None) (\<lambda>ttft.
           io_bind (br_clock br) (\<lambda>now.
           jittered_log br cfg (iv_ctx iv) (iv_agent iv)
             ((plain_log (iv_id iv) INV_SUCCESS (elapsed_ms now (iv_start iv)) (invocation_mode_of (iv_agent iv)) ''mock-runtime''
                 (Some (opt_or (iv_session_id iv) ''mock-session-id'')))\<lparr>il_ttft_ms := ttft\<rparr>))))
          (\<lambda>r. case r of
             Inr c \<Rightarrow> io_return None
           | Inl e \<Rightarrow> io_bind (runtime_failure_response br cfg iv ''mock-runtime'' 0 e) (\<lambda>answer. io_return (Some answer))))))"

section \<open>An invocation\<close>

text \<open>The model a token budget is charged to when an invocation is corrected.\<close>

definition corrected_model :: "agent_record \<Rightarrow> string" where
  "corrected_model agent = opt_or (ar_model_id agent) (agent_name agent)"

definition perform_tpm_correction :: "'w bridge \<Rightarrow> invocation \<Rightarrow> pydict \<Rightarrow> ('w, unit) io" where
  "perform_tpm_correction br iv answer =
     (if invocation_mode_of (iv_agent iv) = MODE_STREAMING then io_return ()
      else
        io_bind (io_lift (extract_token_usage (py_str (dget_or answer ''body'' (PStr ''{}''))))) (\<lambda>usage.
          if total_tokens usage > 0 \<or> iv_estimate iv > 0
          then io_bind (br_clock br) (\<lambda>now.
                 io_bind (limiter_correct_usage (br_tpm br) None (br_counter br) now (tc_tenant_id (iv_ctx iv))
                    (corrected_model (iv_agent iv)) (iv_estimate iv) (total_tokens usage)) (\<lambda>_. io_return ()))
          else io_return ()))"

definition corrected :: "'w bridge \<Rightarrow> invocation \<Rightarrow> ('w, pydict) io \<Rightarrow> ('w, pydict) io" where
  "corrected br iv run =
     io_bind run (\<lambda>answer.
       if dget answer ''statusCode'' = PInt 200
       then io_bind (perform_tpm_correction br iv answer) (\<lambda>_. io_return answer) else io_return answer)"

text \<open>\<open>is_runtime_unavailable_error\<close> and the disabled failover (\<open>lock_manager.trigger_failover\<close>), which answers nothing.\<close>

definition is_runtime_unavailable_error :: "'w bridge \<Rightarrow> exc \<Rightarrow> bool" where
  "is_runtime_unavailable_error br e =
     (case br_client_failure br e of
        Some f \<Rightarrow> cf_code f = Some ''ServiceUnavailableException''
      | None \<Rightarrow> br_unreachable br e)"

definition trigger_failover :: "string \<Rightarrow> ('w, string option) io" where
  "trigger_failover current_region = io_return None"

definition throttled_response :: "'w bridge \<Rightarrow> bridge_settings \<Rightarrow> string \<Rightarrow> invocation \<Rightarrow> ('w, pydict) io" where
  "throttled_response br cfg region iv =
     io_bind (br_clock br) (\<lambda>now.
     io_bind (log_with_estimate br cfg iv
        ((plain_log (iv_id iv) INV_ERROR (elapsed_ms now (iv_start iv)) (invocation_mode_of (iv_agent iv)) region (iv_session_id iv))
           \<lparr>il_error_code := Some ''THROTTLED''\<rparr>)) (\<lambda>counted.
     let answer = bridge_error 429 ''THROTTLED'' ''Agent runtime throttled'' (iv_request_id iv);
         headers = dset ''Retry-After'' (PStr ''1'') (dict_or_empty (dget answer ''headers''))
     in io_return (dset ''headers'' (PDict (dupdate headers (rate_limit_fields counted (iv_start iv)))) answer)))"

definition failed_invocation :: "'w bridge \<Rightarrow> bridge_settings \<Rightarrow> string \<Rightarrow> invocation \<Rightarrow> exc \<Rightarrow> ('w, pydict) io" where
  "failed_invocation br cfg region iv e =
     (case br_client_failure br e of
        Some f \<Rightarrow>
          if cf_code f = Some ''ThrottlingException'' then throttled_response br cfg region iv
          else if is_runtime_unavailable_error br e
          then io_bind (trigger_failover region) (\<lambda>_. runtime_failure_response br cfg iv region (iv_estimate iv) e)
          else runtime_failure_response br cfg iv region (iv_estimate iv) e
      | None \<Rightarrow>
          if is_runtime_unavailable_error br e
          then io_bind (trigger_failover region) (\<lambda>_. runtime_failure_response br cfg iv region (iv_estimate iv) e)
          else runtime_failure_response br cfg iv region (iv_estimate iv) e)"

record invoke_request =
  iq_agent :: agent_record
  iq_ctx :: tenant_context
  iq_prompt :: string
  iq_session_id :: "string option"
  iq_request_id :: string
  iq_has_stream :: bool
  iq_estimate :: int

definition start_invocation :: "invoke_request \<Rightarrow> string \<Rightarrow> rat \<Rightarrow> invocation" where
  "start_invocation q invocation_id start =
     \<lparr>iv_agent = iq_agent q, iv_ctx = iq_ctx q, iv_prompt = iq_prompt q, iv_session_id = iq_session_id q,
      iv_request_id = iq_request_id q, iv_id = invocation_id, iv_start = start, iv_estimate = iq_estimate q\<rparr>"

definition needed :: "pydict \<Rightarrow> string \<Rightarrow> pyval res" where
  "needed d k = (case dict_get d k of None \<Rightarrow> Inl (KeyError k) | Some v \<Rightarrow> Inr v)"

definition run_real :: "'w bridge \<Rightarrow> bridge_settings \<Rightarrow> string \<Rightarrow> invocation \<Rightarrow> ('w, pydict) io" where
  "run_real br cfg region iv =
     io_catch (corrected br iv (invoke_real_runtime br cfg region iv)) (failed_invocation br cfg region iv)"

definition some_answer :: "('w, pydict) io \<Rightarrow> ('w, pydict option) io" where
  "some_answer run = io_bind run (\<lambda>answer. io_return (Some answer))"

definition invoke_agent :: "'w bridge \<Rightarrow> bridge_settings \<Rightarrow> invoke_request \<Rightarrow> ('w, pydict option) io" where
  "invoke_agent br cfg q =
     io_bind (get_config br cfg False) (\<lambda>config.
     io_bind (io_lift (needed config ''runtime_region'')) (\<lambda>region.
     io_bind (br_uuid4 br) (\<lambda>invocation_id.
     io_bind (br_clock br) (\<lambda>start.
       let mode = invocation_mode_of (iq_agent q); iv = start_invocation q invocation_id start in
       if mode = MODE_ASYNC
       then io_return (Some (bridge_error 422 ''UNSUPPORTED_INVOCATION_MODE''
              ''Async invocation is not supported by the v0.2 platform contract'' (iq_request_id q)))
       else (case coerce_optional_string (dget config ''mock_runtime_url'') of
               Some url \<Rightarrow>
                 if iq_has_stream q \<and> mode = MODE_STREAMING then handle_streaming_invocation br cfg url True iv
                 else some_answer (corrected br iv (invoke_mock_runtime br cfg url iv))
             | None \<Rightarrow> some_answer (run_real br cfg (py_str region) iv))))))"

end
