(* ===== verification/BridgeInvocation.thy ===== *)
theory BridgeInvocation
  imports BridgeRuntime
begin

text \<open>
  What an invocation promises: the runtime it calls and the credentials it calls it with are the agent's and the tenant's own, it always
  ends in a response, and a call that succeeds leaves one record of its tokens. The sample at the end runs one invocation.
\<close>

section \<open>Moving a runtime to the active region\<close>

lemma split_on_sep_append: "split_on c (a @ c # b) = split_on c a @ split_on c b"
proof (induction a)
  case (Cons x a)
  then show ?case by (cases "split_on c a") auto
qed simp

lemma starts_with_field:
  assumes "c \<notin> set f" "c \<notin> set r"
  shows "starts_with (f @ c # s) (r @ [c]) \<longleftrightarrow> f = r"
  using assms
proof (induction f arbitrary: r)
  case Nil
  then show ?case by (cases r) auto
next
  case (Cons x f)
  then show ?case by (cases r) auto
qed

lemma cut_at_field:
  assumes "c \<notin> set a"
  shows "cut_at (c # r) (a @ c # s) =
    (if starts_with s r then (a, drop (length r) s) else (case cut_at (c # r) s of (x, y) \<Rightarrow> (a @ c # x, y)))"
  using assms
proof (induction a)
  case (Cons x a)
  then have "x \<noteq> c" by auto
  with Cons show ?case by (auto split: prod.splits)
qed (simp split: prod.splits)

lemma cut_at_contains: "\<not> str_contains s p \<Longrightarrow> cut_at p s = (s, [])"
  by (induction p s rule: cut_at.induct) auto

lemma match_runtime_arn_parts:
  "match_runtime_arn s = Some m \<longleftrightarrow>
     split_on (CHR '':'') s = [''arn'', rm_partition m, ''bedrock-agentcore'', rm_region m, rm_account_id m, ''runtime/'' @ rm_runtime_id m]
     \<and> rm_partition m \<in> set aws_partitions \<and> region_field (rm_region m) \<and> account_field (rm_account_id m)
     \<and> rm_runtime_id m \<noteq> [] \<and> list_all resource_char (rm_runtime_id m)"
proof
  assume m: "match_runtime_arn s = Some m"
  obtain a p v r c x where "split_on (CHR '':'') s = [a, p, v, r, c, x]"
    using m by (auto simp: match_runtime_arn_def split: list.splits)
  with m show "split_on (CHR '':'') s = [''arn'', rm_partition m, ''bedrock-agentcore'', rm_region m, rm_account_id m, ''runtime/'' @ rm_runtime_id m]
     \<and> rm_partition m \<in> set aws_partitions \<and> region_field (rm_region m) \<and> account_field (rm_account_id m)
     \<and> rm_runtime_id m \<noteq> [] \<and> list_all resource_char (rm_runtime_id m)"
    by (auto simp: match_runtime_arn_def Let_def starts_with_iff remove_prefix_def split: if_splits)
next
  assume p: "split_on (CHR '':'') s = [''arn'', rm_partition m, ''bedrock-agentcore'', rm_region m, rm_account_id m, ''runtime/'' @ rm_runtime_id m]
     \<and> rm_partition m \<in> set aws_partitions \<and> region_field (rm_region m) \<and> account_field (rm_account_id m)
     \<and> rm_runtime_id m \<noteq> [] \<and> list_all resource_char (rm_runtime_id m)"
  have "remove_prefix (''runtime/'' @ t) ''runtime/'' = t" for t by (simp add: remove_prefix_def starts_with_def)
  with p show "match_runtime_arn s = Some m" by (simp add: match_runtime_arn_def Let_def starts_with_def)
qed

text \<open>Replacing the first \<open>:old:\<close> of a text of colon-separated fields.\<close>

lemma cut_at_fields:
  assumes "pre \<noteq> []" "post \<noteq> []" "r \<notin> set (tl pre)" "\<forall>x \<in> set (pre @ [r]). CHR '':'' \<notin> set x"
  shows "cut_at ('':'' @ r @ '':'') (str_join '':'' (pre @ r # post)) = (str_join '':'' pre, str_join '':'' post)"
  using assms
proof (induction pre rule: induct_list012)
  case (2 a)
  then obtain b bs where post: "post = b # bs" by (cases post) auto
  have "str_join '':'' ([a] @ r # post) = a @ CHR '':'' # (r @ CHR '':'' # str_join '':'' post)" by (simp add: post)
  then show ?case using 2 by (simp add: cut_at_field starts_with_field)
next
  case (3 a b bs)
  have "str_join '':'' ((a # b # bs) @ r # post) = a @ CHR '':'' # str_join '':'' ((b # bs) @ r # post)" by simp
  moreover have "\<not> starts_with (str_join '':'' ((b # bs) @ r # post)) (r @ '':'')"
  proof -
    have "\<exists>t. str_join '':'' ((b # bs) @ r # post) = b @ CHR '':'' # t" by (cases bs) auto
    moreover have "b \<noteq> r" "CHR '':'' \<notin> set b" "CHR '':'' \<notin> set r" using 3 by auto
    ultimately show ?thesis using starts_with_field by fastforce
  qed
  ultimately show ?case using 3 by (simp add: cut_at_field)
qed simp

lemma replace_field:
  assumes s: "split_on (CHR '':'') s = pre @ r # post" and "pre \<noteq> []" "post \<noteq> []" "r \<notin> set (tl pre)"
  shows "split_on (CHR '':'') (replace_once ('':'' @ r @ '':'') ('':'' @ new @ '':'') s) = pre @ split_on (CHR '':'') new @ post"
proof -
  have clean: "\<forall>x \<in> set (pre @ r # post). CHR '':'' \<notin> set x" using split_on_parts[of _ "CHR '':''" s] s by simp
  have whole: "s = str_join '':'' (pre @ r # post)" using join_split_on[of "CHR '':''" s] s by simp
  have cut: "cut_at ('':'' @ r @ '':'') s = (str_join '':'' pre, str_join '':'' post)"
    unfolding whole by (rule cut_at_fields) (use assms clean in auto)
  have found: "str_contains s ('':'' @ r @ '':'')"
  proof (rule ccontr)
    assume "\<not> str_contains s ('':'' @ r @ '':'')"
    from cut_at_contains[OF this] cut have "str_join '':'' pre = s" "str_join '':'' post = []" by simp_all
    moreover have "split_on (CHR '':'') (str_join '':'' pre) = pre" using clean assms(2) by (intro split_on_join) auto
    ultimately show False using s by simp
  qed
  have "replace_once ('':'' @ r @ '':'') ('':'' @ new @ '':'') s = str_join '':'' pre @ CHR '':'' # new @ CHR '':'' # str_join '':'' post"
    unfolding replace_once_def if_P[OF found] cut by simp
  moreover have "split_on (CHR '':'') (str_join '':'' xs) = xs" if "xs \<noteq> []" "set xs \<subseteq> set pre \<union> set post" for xs
    by (rule split_on_join) (use that clean in auto)
  ultimately show ?thesis using assms(2,3) by (simp add: split_on_sep_append)
qed

lemma single_field: "split_on c new @ rest = q # rest' \<Longrightarrow> length rest = length rest' \<Longrightarrow> q = new \<and> rest = rest'"
  using join_split_on[of c new] by (cases "split_on c new") (auto dest: arg_cong[of _ _ length])

lemma only_field: "[q] = split_on c new \<Longrightarrow> q = new"
  using single_field[of c new "[]" q "[]"] by simp

lemma moved_region:
  assumes m: "match_runtime_arn s = Some m" and region: "region \<notin> set aws_partitions" "rm_region m \<noteq> region"
    and m': "match_runtime_arn (replace_once ('':'' @ rm_region m @ '':'') ('':'' @ region @ '':'') s) = Some m'"
  shows "m' = m\<lparr>rm_region := region\<rparr>"
proof -
  let ?s = "replace_once ('':'' @ rm_region m @ '':'') ('':'' @ region @ '':'') s"
  have s: "split_on (CHR '':'') s = [''arn'', rm_partition m, ''bedrock-agentcore'', rm_region m, rm_account_id m, ''runtime/'' @ rm_runtime_id m]"
    using m by (simp only: match_runtime_arn_parts)
  have s': "split_on (CHR '':'') ?s = [''arn'', rm_partition m', ''bedrock-agentcore'', rm_region m', rm_account_id m', ''runtime/'' @ rm_runtime_id m']"
    and part': "rm_partition m' \<in> set aws_partitions"
    using m' by (simp_all only: match_runtime_arn_parts)
  consider "rm_region m = rm_partition m" | "rm_region m \<noteq> rm_partition m" "rm_region m = ''bedrock-agentcore''"
    | "rm_region m \<noteq> rm_partition m" "rm_region m \<noteq> ''bedrock-agentcore''" by blast
  then show ?thesis
  proof cases
    case 1
    then have "split_on (CHR '':'') ?s = [''arn''] @ split_on (CHR '':'') region
        @ [''bedrock-agentcore'', rm_region m, rm_account_id m, ''runtime/'' @ rm_runtime_id m]"
      using s by (intro replace_field) simp_all
    with s' have "rm_partition m' = region" by (auto dest!: single_field only_field)
    with part' region show ?thesis by simp
  next
    case 2
    then have "split_on (CHR '':'') ?s = [''arn'', rm_partition m] @ split_on (CHR '':'') region
        @ [rm_region m, rm_account_id m, ''runtime/'' @ rm_runtime_id m]"
      using s by (intro replace_field) simp_all
    with s' have "''bedrock-agentcore'' = region" by (auto dest!: single_field only_field)
    with 2 region show ?thesis by simp
  next
    case 3
    then have "split_on (CHR '':'') ?s = [''arn'', rm_partition m, ''bedrock-agentcore''] @ split_on (CHR '':'') region
        @ [rm_account_id m, ''runtime/'' @ rm_runtime_id m]"
      using s by (intro replace_field) simp_all
    with s' have "rm_partition m' = rm_partition m \<and> rm_region m' = region \<and> rm_account_id m' = rm_account_id m
       \<and> ''runtime/'' @ rm_runtime_id m' = ''runtime/'' @ rm_runtime_id m"
      by (auto dest!: single_field only_field)
    then show ?thesis by (cases m; cases m') simp
  qed
qed

section \<open>A runtime is called as the tenant\<close>

text \<open>
  The calls of a runtime an invocation may make: the runtime of the agent, in the region of the call, with the session of a role that
  the tenant's own record or parameter names, and in the tenant's account when the record names one.
\<close>

definition names_role :: "'w bridge \<Rightarrow> bridge_settings \<Rightarrow> string \<Rightarrow> pydict \<Rightarrow> string \<Rightarrow> bool" where
  "names_role br cfg tenant_id tenant role \<longleftrightarrow>
     (case coerce_optional_string (py_or (dget tenant ''executionRoleArn'') (dget tenant ''execution_role_arn'')) of
        Some r \<Rightarrow> role = r
      | None \<Rightarrow> \<exists>v v'. br_get_parameter br (bs_role_param cfg tenant_id) v = (Inr (Some role), v'))
   \<and> (expected_account tenant \<noteq> [] \<longrightarrow> match_role_arn role = Some (expected_account tenant))"

definition tenant_session :: "'w bridge \<Rightarrow> bridge_settings \<Rightarrow> string \<Rightarrow> pydict option \<Rightarrow> pydict \<Rightarrow> bool" where
  "tenant_session br cfg tenant_id row creds \<longleftrightarrow>
     (\<exists>tenant role v v'. row = Some tenant \<and> names_role br cfg tenant_id tenant role
        \<and> br_assume_role br role (''invoke-'' @ take 8 tenant_id) v = (Inr creds, v'))"

definition agent_runtime :: "agent_record \<Rightarrow> string \<Rightarrow> string \<times> string option \<Rightarrow> bool" where
  "agent_runtime agent region target \<longleftrightarrow>
     (\<exists>arn m m'. coerce_optional_string (opt_val (ar_runtime_arn agent)) = Some arn
        \<and> match_runtime_arn arn = Some m \<and> match_runtime_arn (fst target) = Some m'
        \<and> (region \<notin> set aws_partitions \<longrightarrow> m' = m\<lparr>rm_region := region\<rparr>)
        \<and> (rm_region m = region \<longrightarrow> fst target = arn)
        \<and> (\<forall>name. snd target = Some name \<longrightarrow> fst target = arn \<and> rm_region m = region
             \<and> coerce_optional_string (opt_val (ar_runtime_endpoint_name agent)) = Some name
             \<and> (\<exists>earn eid. coerce_optional_string (opt_val (ar_runtime_endpoint_arn agent)) = Some earn
                  \<and> match_endpoint_arn earn = Some (m, eid) \<and> starts_with eid (name @ ''-''))))"

lemma validate_runtime_endpoint_cases:
  assumes "validate_runtime_endpoint m endpoint_arn endpoint_name = Inr q"
  shows "q = endpoint_name \<and> (\<forall>name. q = Some name \<longrightarrow>
    (\<exists>earn eid. endpoint_arn = Some earn \<and> match_endpoint_arn earn = Some (m, eid) \<and> starts_with eid (name @ ''-'')))"
  using assms by (auto simp: validate_runtime_endpoint_def split: option.splits if_splits)

lemma runtime_target_belongs:
  assumes "runtime_target region iv = Inr (Inr target)"
  shows "agent_runtime (iv_agent iv) region target"
proof -
  let ?agent = "iv_agent iv"
  let ?earn = "coerce_optional_string (opt_val (ar_runtime_endpoint_arn ?agent))"
  let ?ename = "coerce_optional_string (opt_val (ar_runtime_endpoint_name ?agent))"
  obtain arn m where arn: "coerce_optional_string (opt_val (ar_runtime_arn ?agent)) = Some arn" "match_runtime_arn arn = Some m"
    using assms by (auto simp: runtime_target_def Let_def validate_runtime_arn_def split: option.splits)
  let ?arn = "if rm_region m \<noteq> region then replace_once ('':'' @ rm_region m @ '':'') ('':'' @ region @ '':'') arn else arn"
  have stays: "rm_region m = region \<or> ?earn = None"
    using assms arn by (auto simp: runtime_target_def Let_def validate_runtime_arn_def split: if_splits)
  obtain m' q where m': "match_runtime_arn ?arn = Some m'" and q: "validate_runtime_endpoint m' ?earn ?ename = Inr q" "target = (?arn, q)"
    using assms arn stays by (auto simp: runtime_target_def Let_def validate_runtime_arn_def split: if_splits option.splits sum.splits exc.splits)
  have moved: "m' = m\<lparr>rm_region := region\<rparr>" if "region \<notin> set aws_partitions"
    using m' arn(2) moved_region[OF arn(2) that, of m'] by (cases "rm_region m = region") auto
  have same: "m' = m" if "rm_region m = region" using that m' arn(2) by simp
  note endpoint = validate_runtime_endpoint_cases[OF q(1)]
  have "?arn = arn \<and> rm_region m = region" if "q = Some name" for name using endpoint stays that by auto
  then show ?thesis
    unfolding agent_runtime_def using arn m' q(2) moved same endpoint by (intro exI[of _ arn] exI[of _ m] exI[of _ m']) auto
qed

lemma tenant_credentials_belong:
  assumes law: "dynamo_ok (br_aws br) rows" and run: "tenant_credentials br cfg iv w = (Inr (Inr creds), w')"
  shows "tenant_session br cfg (tc_tenant_id (iv_ctx iv))
    (rows w (bs_tenants_table cfg) (tenant_pk (tc_tenant_id (iv_ctx iv))) ''METADATA'') creds"
proof -
  let ?ctx = "iv_ctx iv" and ?tid = "tc_tenant_id (iv_ctx iv)"
  have "ts_get_item (br_aws br) ?ctx (bs_tenants_table cfg) (tenant_row_key ?tid) [] w
    = (Inr (rows w (bs_tenants_table cfg) (tenant_pk ?tid) ''METADATA''), w)"
    unfolding tenant_row_key_def by (rule client_get[OF law]) simp
  then have get: "get_tenant_record br cfg ?ctx w = (Inr (rows w (bs_tenants_table cfg) (tenant_pk ?tid) ''METADATA''), w)"
    by (simp add: get_tenant_record_def io_catch_def)
  obtain tenant role w1 where tenant: "rows w (bs_tenants_table cfg) (tenant_pk ?tid) ''METADATA'' = Some tenant"
    and role: "tenant_role br cfg ?ctx tenant w = (Inr (Some role), w1)" and checked: "checked_role tenant role = Inr role"
    and assumed: "br_assume_role br role (take 64 (''invoke-'' @ take 8 ?tid)) w1 = (Inr creds, w')"
    using run by (auto simp: tenant_credentials_def Let_def io_bind_def get handler_assume_role_def assume_tenant_role_def
        checked_role_def validate_execution_role_arn_def split: option.splits if_splits prod.splits sum.splits exc.splits)
  have "names_role br cfg ?tid tenant role"
    using role checked
    by (auto simp: names_role_def tenant_role_def checked_role_def validate_execution_role_arn_def resolve_tenant_execution_role_def
        io_bind_def io_catch_def nonempty_text_def split: option.splits if_splits prod.splits sum.splits list.splits)
  then show ?thesis
    unfolding tenant_session_def using tenant assumed by (intro exI[of _ tenant] exI[of _ role] exI[of _ w1] exI[of _ w']) simp
qed

definition tenant_call :: "'w bridge \<Rightarrow> bridge_settings \<Rightarrow> agent_record \<Rightarrow> string \<Rightarrow> pydict option \<Rightarrow> string \<Rightarrow> pydict \<Rightarrow> pydict \<Rightarrow> bool" where
  "tenant_call br cfg agent tenant_id row region creds kwargs \<longleftrightarrow>
     (\<exists>assumed target. tenant_session br cfg tenant_id row assumed \<and> session_credentials assumed = Inr creds
        \<and> agent_runtime agent region target \<and> dget kwargs ''agentRuntimeArn'' = PStr (fst target)
        \<and> dict_get kwargs ''qualifier'' = map_option PStr (nonempty_text (snd target)))"

text \<open>The bridge with its runtime behind a guard: only an allowed call reaches it, any other is handed elsewhere.\<close>

definition guarded ::
  "(string \<Rightarrow> pydict \<Rightarrow> pydict \<Rightarrow> bool) \<Rightarrow> (string \<Rightarrow> pydict \<Rightarrow> pydict \<Rightarrow> ('w, pydict \<times> runtime_body) io) \<Rightarrow> 'w bridge \<Rightarrow> 'w bridge" where
  "guarded allowed other br =
     br\<lparr>br_invoke_runtime := \<lambda>r c k. if allowed r c k then br_invoke_runtime br r c k else other r c k\<rparr>"

lemma guarded_fields [simp]:
  "br_aws (guarded a h br) = br_aws br" "br_tpm (guarded a h br) = br_tpm br" "br_counter (guarded a h br) = br_counter br"
  "br_clock (guarded a h br) = br_clock br" "br_uuid4 (guarded a h br) = br_uuid4 br" "br_jitter (guarded a h br) = br_jitter br"
  "br_put_metrics (guarded a h br) = br_put_metrics br" "br_get_parameters (guarded a h br) = br_get_parameters br"
  "br_get_parameter (guarded a h br) = br_get_parameter br" "br_http_get (guarded a h br) = br_http_get br"
  "br_http_post (guarded a h br) = br_http_post br" "br_http_stream (guarded a h br) = br_http_stream br"
  "br_assume_role (guarded a h br) = br_assume_role br" "br_stream_write (guarded a h br) = br_stream_write br"
  "br_client_failure (guarded a h br) = br_client_failure br" "br_error_text (guarded a h br) = br_error_text br"
  "br_unreachable (guarded a h br) = br_unreachable br"
  by (simp_all add: guarded_def)

lemma guarded_metrics [simp]:
  "emit (guarded a h br) = emit br" "count_tokens (guarded a h br) = count_tokens br"
  by (simp_all add: fun_eq_iff emit_def count_tokens_def)

lemma guarded_telemetry [simp]:
  "get_config (guarded a h br) = get_config br" "log_invocation (guarded a h br) = log_invocation br"
  "emit_bedrock_throttle_metric (guarded a h br) = emit_bedrock_throttle_metric br"
  unfolding fun_eq_iff get_config_def fetch_ssm_config_def fetch_appconfig_config_def log_invocation_def
      emit_invocation_metrics_def emit_ttft_metric_def emit_bedrock_throttle_metric_def guarded_metrics guarded_fields by simp_all

lemma guarded_forward [simp]: "forward_lines (guarded a h br) start ls t = forward_lines br start ls t"
proof (induction ls arbitrary: t)
  case (Cons l ls)
  then show ?case by (cases l) (simp_all cong: option.case_cong)
qed simp

lemma guarded_read [simp]: "read_body (guarded a h br) = read_body br"
  unfolding fun_eq_iff read_body_def read_runtime_response_body_def guarded_fields by simp

lemma guarded_role [simp]: "tenant_role (guarded a h br) = tenant_role br"
  unfolding fun_eq_iff tenant_role_def resolve_tenant_execution_role_def guarded_fields by simp

lemma guarded_steps [simp]:
  "jittered_log (guarded a h br) = jittered_log br" "failure_info_of (guarded a h br) = failure_info_of br"
  "perform_tpm_correction (guarded a h br) = perform_tpm_correction br"
  "prepare_runtime (guarded a h br) = prepare_runtime br"
  "send_streaming_response (guarded a h br) = send_streaming_response br"
  "is_runtime_unavailable_error (guarded a h br) = is_runtime_unavailable_error br"
  unfolding fun_eq_iff jittered_log_def failure_info_of_def perform_tpm_correction_def prepare_runtime_def tenant_credentials_def
      get_tenant_record_def handler_assume_role_def assume_tenant_role_def
      send_streaming_response_def is_runtime_unavailable_error_def guarded_telemetry guarded_fields guarded_role by simp_all

lemma guarded_answers [simp]:
  "runtime_failure_response (guarded a h br) = runtime_failure_response br" "log_with_estimate (guarded a h br) = log_with_estimate br"
  unfolding fun_eq_iff runtime_failure_response_def log_with_estimate_def guarded_steps guarded_fields guarded_telemetry by simp_all

lemma guarded_runs [simp]:
  "or_failure (guarded a h br) = or_failure br" "corrected (guarded a h br) = corrected br"
  "throttled_response (guarded a h br) = throttled_response br"
  unfolding fun_eq_iff or_failure_def corrected_def throttled_response_def guarded_answers guarded_steps guarded_fields by simp_all

lemma guarded_invocations [simp]:
  "failed_invocation (guarded a h br) = failed_invocation br" "invoke_mock_runtime (guarded a h br) = invoke_mock_runtime br"
  "handle_streaming_invocation (guarded a h br) = handle_streaming_invocation br"
  unfolding fun_eq_iff failed_invocation_def invoke_mock_runtime_def handle_streaming_invocation_def guarded_runs guarded_answers
    guarded_steps guarded_fields guarded_forward by simp_all

lemma io_bind_same: "(\<And>x w'. m w = (Inr x, w') \<Longrightarrow> f x w' = g x w') \<Longrightarrow> io_bind m f w = io_bind m g w"
  by (auto simp: io_bind_def split: prod.splits sum.splits)

lemma invoke_kwargs_reads:
  "dget (invoke_kwargs plan iv) ''agentRuntimeArn'' = PStr (rp_arn plan)"
  "dict_get (invoke_kwargs plan iv) ''qualifier'' = map_option PStr (nonempty_text (rp_qualifier plan))"
  by (auto simp: invoke_kwargs_def dget_or_def dict_get_def split: option.split)

lemma guarded_call:
  assumes "\<And>creds. session_credentials (rp_credentials plan) = Inr creds \<Longrightarrow> a region creds (invoke_kwargs plan iv)"
  shows "call_runtime (guarded a h br) cfg region iv plan = call_runtime br cfg region iv plan"
proof (cases "session_credentials (rp_credentials plan)")
  case (Inr creds)
  with assms[OF Inr] have "br_invoke_runtime (guarded a h br) region creds (invoke_kwargs plan iv) = br_invoke_runtime br region creds (invoke_kwargs plan iv)"
    by (simp add: guarded_def)
  with Inr show ?thesis by (simp add: call_runtime_def)
qed (simp add: call_runtime_def)

lemma prepared_call:
  assumes law: "dynamo_ok (br_aws br) rows" and run: "prepare_runtime br cfg region iv w = (Inr (Inr plan), w')"
    and creds: "session_credentials (rp_credentials plan) = Inr creds"
  shows "tenant_call br cfg (iv_agent iv) (tc_tenant_id (iv_ctx iv))
    (rows w (bs_tenants_table cfg) (tenant_pk (tc_tenant_id (iv_ctx iv))) ''METADATA'') region creds (invoke_kwargs plan iv)"
proof -
  from run have target: "runtime_target region iv = Inr (Inr (rp_arn plan, rp_qualifier plan))"
    and assumed: "tenant_credentials br cfg iv w = (Inr (Inr (rp_credentials plan)), w')"
    by (auto simp: prepare_runtime_def io_bind_def split: prod.splits sum.splits)
  show ?thesis
    unfolding tenant_call_def
    by (intro exI[of _ "rp_credentials plan"] exI[of _ "(rp_arn plan, rp_qualifier plan)"])
      (simp add: creds invoke_kwargs_reads runtime_target_belongs[OF target] tenant_credentials_belong[OF law assumed])
qed

lemma guarded_real:
  assumes law: "dynamo_ok (br_aws br) rows"
    and allowed: "\<And>creds kwargs. tenant_call br cfg (iv_agent iv) (tc_tenant_id (iv_ctx iv))
      (rows w (bs_tenants_table cfg) (tenant_pk (tc_tenant_id (iv_ctx iv))) ''METADATA'') region creds kwargs \<Longrightarrow> a region creds kwargs"
  shows "run_real (guarded a h br) cfg region iv w = run_real br cfg region iv w"
proof -
  have "invoke_real_runtime (guarded a h br) cfg region iv w = invoke_real_runtime br cfg region iv w"
    unfolding invoke_real_runtime_def guarded_steps guarded_runs
  proof (rule io_bind_same)
    fix p w' assume run: "prepare_runtime br cfg region iv w = (Inr p, w')"
    show "(case p of Inl answer \<Rightarrow> io_return answer | Inr plan \<Rightarrow> or_failure br cfg iv region (call_runtime (guarded a h br) cfg region iv plan)) w'
      = (case p of Inl answer \<Rightarrow> io_return answer | Inr plan \<Rightarrow> or_failure br cfg iv region (call_runtime br cfg region iv plan)) w'"
    proof (cases p)
      case (Inr plan)
      then have "call_runtime (guarded a h br) cfg region iv plan = call_runtime br cfg region iv plan"
        using prepared_call[OF law] run by (intro guarded_call allowed) blast
      with Inr show ?thesis by simp
    qed simp
  qed
  then show ?thesis by (simp add: run_real_def io_catch_def corrected_def io_bind_def)
qed

lemma get_config_leaves: "bridge_frame br rows \<Longrightarrow> leaves rows (get_config br cfg force)"
proof -
  assume frame: "bridge_frame br rows"
  then have services: "leaves rows (br_clock br)" "\<And>n. leaves rows (br_get_parameters br n)" "\<And>u. leaves rows (br_http_get br u)"
    by (simp_all add: bridge_frame_def)
  have appconfig: "leaves rows (fetch_appconfig_config br cfg)"
    unfolding fetch_appconfig_config_def
    by (intro leaves_option leaves_rules leaves_catch) (auto intro!: leaves_rules leaves_catch services split: prod.splits)
  have fetch: "leaves rows (fetch_ssm_config br cfg)"
    unfolding fetch_ssm_config_def by (intro leaves_rules(4) leaves_option appconfig services) (auto intro: leaves_rules)
  have get: "leaves rows (provider_get (br_clock br) (fetch_ssm_config br cfg) (config_defaults cfg) 60 force new_provider)"
    using leavesD[OF fetch] leavesD[OF services(1)]
    by (auto simp: leaves_def provider_get_def io_bind_def io_try_def new_provider_def Let_def split: prod.splits sum.splits bool.splits)
  show ?thesis unfolding get_config_def by (intro leaves_rules(4)[OF get]) (auto intro: leaves_rules)
qed


section \<open>An invocation always answers\<close>

definition answers :: "('w, 'a) io \<Rightarrow> bool" where
  "answers m \<longleftrightarrow> (\<forall>w. \<exists>x w'. m w = (Inr x, w'))"

lemma answersE:
  assumes "answers m"
  obtains x w' where "m w = (Inr x, w')"
  using assms unfolding answers_def by blast

lemma answers_rules:
  "answers (io_return x)" "answers m \<Longrightarrow> (\<And>x. answers (f x)) \<Longrightarrow> answers (io_bind m f)"
  "(\<And>e. answers (h e)) \<Longrightarrow> answers (io_catch m h)" "(\<And>r. answers (k r)) \<Longrightarrow> answers (io_try m k)"
  "(b \<Longrightarrow> answers m) \<Longrightarrow> (\<not> b \<Longrightarrow> answers n) \<Longrightarrow> answers (if b then m else n)"
proof -
  show "answers (io_return x)" by (simp add: answers_def)
  show "answers (io_bind m f)" if "answers m" "\<And>x. answers (f x)"
    unfolding answers_def
  proof
    fix w from that(1) obtain x w1 where "m w = (Inr x, w1)" by (rule answersE)
    with that(2)[of x] show "\<exists>y w'. io_bind m f w = (Inr y, w')" by (auto simp: io_bind_def answers_def)
  qed
  show "answers (io_catch m h)" if "\<And>e. answers (h e)"
    unfolding answers_def
  proof
    fix w show "\<exists>y w'. io_catch m h w = (Inr y, w')"
    proof (cases "m w")
      case (Pair r w1)
      with that show ?thesis by (cases r) (auto simp: io_catch_def answers_def)
    qed
  qed
  show "answers (io_try m k)" if "\<And>r. answers (k r)" using that by (auto simp: answers_def io_try_def split: prod.splits)
  show "(b \<Longrightarrow> answers m) \<Longrightarrow> (\<not> b \<Longrightarrow> answers n) \<Longrightarrow> answers (if b then m else n)" by simp
qed

text \<open>What an answer of the function URL carries: a status.\<close>

definition has_status :: "pydict \<Rightarrow> bool" where
  "has_status d \<longleftrightarrow> (\<exists>n. dget d ''statusCode'' = PInt n)"

definition replies :: "('w, pydict) io \<Rightarrow> bool" where
  "replies m \<longleftrightarrow> (\<forall>w. \<exists>d w'. m w = (Inr d, w') \<and> has_status d)"

definition status_only :: "('w, pydict) io \<Rightarrow> bool" where
  "status_only m \<longleftrightarrow> (\<forall>w d w'. m w = (Inr d, w') \<longrightarrow> has_status d)"

lemma bridge_error_status: "has_status (bridge_error n c m r)"
  by (simp add: has_status_def bridge_error_def dget_or_def)

lemma header_keeps_status: "has_status d \<Longrightarrow> has_status (dset ''headers'' h d)"
  by (auto simp: has_status_def dget_or_def)

lemma http_answer_status: "has_status (http_answer n h b)"
  by (simp add: has_status_def http_answer_def dget_or_def)

lemma replies_bind: "answers m \<Longrightarrow> (\<And>x. replies (f x)) \<Longrightarrow> replies (io_bind m f)"
  unfolding replies_def io_bind_def answers_def by (metis (no_types, lifting) old.sum.simps(6) split_conv)

lemma replies_return: "has_status d \<Longrightarrow> replies (io_return d)"
  by (simp add: replies_def)

lemma replies_then: "replies m \<Longrightarrow> (\<And>d. has_status d \<Longrightarrow> replies (f d)) \<Longrightarrow> replies (io_bind m f)"
  unfolding replies_def io_bind_def by (metis (no_types, lifting) old.sum.simps(6) split_conv)

lemma jittered_log_answers: "answers (br_jitter br) \<Longrightarrow> answers (jittered_log br cfg ctx agent il)"
  unfolding jittered_log_def by (rule answers_rules(2)) (simp_all add: answers_def log_invocation_returns)

lemma failure_replies:
  assumes "answers (br_clock br)" "answers (br_jitter br)"
  shows "replies (runtime_failure_response br cfg iv region n e)"
  unfolding runtime_failure_response_def Let_def emit_bedrock_throttle_metric_def emit_def
  by (intro replies_bind answers_rules assms jittered_log_answers replies_return bridge_error_status)

lemma throttled_replies:
  assumes "answers (br_clock br)" "answers (br_jitter br)"
  shows "replies (throttled_response br cfg region iv)"
  unfolding throttled_response_def Let_def log_with_estimate_def
  by (intro replies_bind assms jittered_log_answers replies_return header_keeps_status bridge_error_status)

lemma failed_replies:
  assumes "answers (br_clock br)" "answers (br_jitter br)"
  shows "replies (failed_invocation br cfg region iv e)"
  unfolding failed_invocation_def trigger_failover_def io_bind_steps
  by (auto intro: failure_replies throttled_replies assms split: option.split)

lemma replies_catch: "status_only m \<Longrightarrow> (\<And>e. replies (h e)) \<Longrightarrow> replies (io_catch m h)"
  by (auto simp: status_only_def replies_def io_catch_def split: prod.splits sum.splits)

lemma call_runtime_status: "status_only (call_runtime br cfg region iv plan)"
  unfolding status_only_def call_runtime_def by (auto simp: io_bind_def http_answer_status split: prod.splits sum.splits)

lemma prepare_runtime_status: "prepare_runtime br cfg region iv w = (Inr (Inl d), w') \<Longrightarrow> has_status d"
  by (auto simp: prepare_runtime_def tenant_credentials_def runtime_target_def Let_def io_bind_def bridge_error_status bind_res_def
      split: prod.splits sum.splits option.splits if_splits exc.splits)

lemma real_runtime_status:
  assumes "answers (br_clock br)" "answers (br_jitter br)"
  shows "status_only (invoke_real_runtime br cfg region iv)"
proof -
  have "replies (or_failure br cfg iv region (call_runtime br cfg region iv plan))" for plan
    unfolding or_failure_def
    by (intro replies_catch call_runtime_status replies_then failure_replies assms replies_return header_keeps_status)
  then have "status_only (or_failure br cfg iv region (call_runtime br cfg region iv plan))" for plan
    unfolding replies_def status_only_def by (metis (no_types, lifting) Pair_inject sum.inject(2))
  then show ?thesis
    unfolding status_only_def invoke_real_runtime_def
    by (auto simp: io_bind_def dest: prepare_runtime_status split: prod.splits sum.splits)
qed

lemma run_real_replies:
  assumes "answers (br_clock br)" "answers (br_jitter br)"
  shows "replies (run_real br cfg region iv)"
proof -
  have "status_only (corrected br iv (invoke_real_runtime br cfg region iv))"
    using real_runtime_status[OF assms, of cfg region iv]
    by (fastforce simp: status_only_def corrected_def io_bind_def split: prod.splits sum.splits if_splits)
  then show ?thesis unfolding run_real_def by (intro replies_catch failed_replies assms)
qed

lemma get_config_region:
  assumes "answers (br_clock br)"
  shows "\<exists>c w'. get_config br cfg force w = (Inr c, w') \<and> dict_get c ''runtime_region'' \<noteq> None"
proof -
  obtain now w1 where now: "br_clock br w = (Inr now, w1)" using assms by (rule answersE)
  obtain r w2 where r: "fetch_ssm_config br cfg w1 = (r, w2)" by (cases "fetch_ssm_config br cfg w1")
  have "dict_get c ''runtime_region'' \<noteq> None" if "r = Inr c" for c
    using r that
    by (auto simp: fetch_ssm_config_def fetch_appconfig_config_def io_bind_def io_catch_def io_return_def io_lift_def dict_get_def
        split: prod.splits sum.splits option.splits if_splits)
  then show ?thesis
    by (cases r; cases force) (auto simp: get_config_def provider_get_def io_bind_def io_try_def now r new_provider_def Let_def config_defaults_def dict_get_def)
qed

text \<open>
  Property C38. While the clock and the random names answer, an invocation of a real runtime always ends in a response with a status:
  no error of AWS, of the token counters, of the runtime, of its body or of its tokens leaves \<open>invoke_agent\<close>.
\<close>

theorem invocation_always_answers:
  assumes "answers (br_clock br)" and "answers (br_jitter br)" and "answers (br_uuid4 br)"
  shows "(\<exists>d w'. invoke_agent br cfg q w = (Inr (Some d), w') \<and> has_status d)
    \<or> (\<exists>config w' url. get_config br cfg False w = (Inr config, w') \<and> coerce_optional_string (dget config ''mock_runtime_url'') = Some url)"
proof -
  obtain c w1 region where c: "get_config br cfg False w = (Inr c, w1)" "dict_get c ''runtime_region'' = Some region"
    using get_config_region[OF assms(1), of cfg False w] by auto
  obtain i w2 where i: "br_uuid4 br w1 = (Inr i, w2)" using assms(3) by (rule answersE)
  obtain s w3 where s: "br_clock br w2 = (Inr s, w3)" using assms(1) by (rule answersE)
  obtain d w4 where d: "run_real br cfg (py_str region) (start_invocation q i s) w3 = (Inr d, w4)" "has_status d"
    using run_real_replies[OF assms(1,2), of cfg "py_str region" "start_invocation q i s"] unfolding replies_def by blast
  show ?thesis
  proof (cases "coerce_optional_string (dget c ''mock_runtime_url'')")
    case None
    then show ?thesis
      using d by (auto simp: invoke_agent_def io_bind_def c needed_def i s Let_def some_answer_def bridge_error_status)
  qed (use c in blast)
qed

section \<open>A successful call is recorded\<close>

definition storable_record :: "invocation_record \<Rightarrow> bool" where
  "storable_record r \<longleftrightarrow> counts_fit r \<and> (case inv_jitter r of None \<Rightarrow> True | Some j \<Rightarrow> length j = jitter_length)"

text \<open>What the record of a call of a tenant says when its runtime used some tokens.\<close>

definition records_usage :: "invocation \<Rightarrow> token_usage \<Rightarrow> invocation_record \<Rightarrow> bool" where
  "records_usage iv usage r \<longleftrightarrow>
     inv_invocation_id r = iv_id iv \<and> inv_tenant_id r = tc_tenant_id (iv_ctx iv) \<and> inv_status r = INV_SUCCESS
   \<and> inv_agent_name r = agent_name (iv_agent iv) \<and> inv_input_tokens r = tu_input_tokens usage \<and> inv_output_tokens r = tu_output_tokens usage"

lemma read_chunks_leaves:
  assumes "leaves rows clock"
  shows "leaves rows (read_chunks clock start cs bytes ttft)"
proof (induction cs arbitrary: bytes ttft)
  case (Cons c cs)
  then show ?case
  proof (cases c)
    case (Inl e)
    then show ?thesis by (simp add: leaves_def)
  qed (use Cons assms in \<open>auto intro!: leaves_rules leaves_option\<close>)
qed (simp add: leaves_rules)

lemma read_chunks_ttft:
  "read_chunks clock start cs bytes ttft w = (Inr (b, Some t), w') \<Longrightarrow> (\<And>u. ttft = Some u \<Longrightarrow> 1 \<le> u) \<Longrightarrow> 1 \<le> t"
proof (induction cs arbitrary: bytes ttft w)
  case (Cons c cs)
  then show ?case
    by (cases c; cases ttft) (fastforce simp: io_bind_def split: if_splits prod.splits sum.splits)+
qed simp

lemma read_body_leaves:
  assumes "bridge_frame br rows"
  shows "leaves rows (read_body br iv body)"
proof -
  have clock: "leaves rows (br_clock br)" using assms by (simp add: bridge_frame_def)
  show ?thesis
    unfolding read_body_def read_runtime_response_body_def
    by (cases body) (auto intro!: leaves_rules read_chunks_leaves clock)
qed

lemma read_body_ttft: "read_body br iv body w = (Inr (b, Some t), w') \<Longrightarrow> 1 \<le> t"
  by (auto simp: read_body_def read_runtime_response_body_def io_bind_def split: if_splits prod.splits sum.splits runtime_body.splits
      dest!: read_chunks_ttft)

lemma jittered_log_rows:
  assumes law: "dynamo_ok (br_aws br) rows" and frame: "bridge_frame br rows" and clock: "answers (br_clock br)"
    and ttft: "\<And>t. il_ttft_ms il = Some t \<Longrightarrow> 1 \<le> t"
    and run: "jittered_log br cfg ctx agent il w = (Inr c, w')"
  shows "\<exists>r now j. r = invocation_of_log ctx agent now (il\<lparr>il_jitter := Some j\<rparr>) \<and> (storable_record r \<longrightarrow>
    rows w' = set_row (rows w) (bs_invocations_table cfg) (tenant_pk (tc_tenant_id ctx)) (invocation_sk r) (Some (invocation_item r)))"
proof -
  let ?il = "\<lambda>j. il\<lparr>il_jitter := Some j\<rparr>"
  obtain j w1 where j: "br_jitter br w = (Inr j, w1)" and log: "log_invocation br cfg ctx agent (?il j) w1 = (Inr c, w')"
    using run by (auto simp: jittered_log_def io_bind_def split: prod.splits sum.splits)
  have "leaves rows (br_jitter br)" using frame by (simp add: bridge_frame_def)
  from leavesD[OF this j] have w1: "rows w1 = rows w" .
  obtain now w2 where now: "br_clock br w1 = (Inr now, w2)" using clock by (rule answersE)
  let ?r = "invocation_of_log ctx agent now (?il j)"
  have "rows w' = set_row (rows w) (bs_invocations_table cfg) (tenant_pk (tc_tenant_id ctx)) (invocation_sk ?r) (Some (invocation_item ?r))"
    if "storable_record ?r"
  proof -
    have ok: "log_ok (?il j)" and fit: "counts_fit_log (?il j) now"
      using that ttft
      by (auto simp: storable_record_def log_ok_def counts_fit_def counts_fit_log_def invocation_of_log_def split: option.split)
    from log_invocation_rows[OF law frame ok now fit, of cfg ctx agent] log w1 show ?thesis by auto
  qed
  then show ?thesis by blast
qed

lemma call_runtime_records:
  assumes law: "dynamo_ok (br_aws br) rows" and frame: "bridge_frame br rows" and clock: "answers (br_clock br)"
    and run: "call_runtime br cfg region iv plan w = (Inr answer, w')"
  shows "\<exists>usage r. extract_token_usage (py_str (dget answer ''body'')) = Inr usage \<and> records_usage iv usage r \<and> (storable_record r \<longrightarrow>
    rows w' = set_row (rows w) (bs_invocations_table cfg) (tenant_pk (tc_tenant_id (iv_ctx iv))) (invocation_sk r) (Some (invocation_item r)))"
proof -
  obtain creds ans body w1 bytes ttft w2 said usage clk0 w3 c where
      called: "br_invoke_runtime br region creds (invoke_kwargs plan iv) w = (Inr (ans, body), w1)"
    and read: "read_body br iv body w1 = (Inr (bytes, ttft), w2)"
    and usage: "extract_token_usage said = Inr usage" and clk0: "br_clock br w2 = (Inr clk0, w3)"
    and log: "log_with_estimate br cfg iv (usage_log iv INV_SUCCESS clk0 region (iv_session_id iv) usage ttft) w3 = (Inr c, w')"
    and answer: "dget answer ''body'' = PStr said"
    using run by (auto simp: call_runtime_def io_bind_def http_answer_def dget_or_def split: prod.splits sum.splits)
  have leave: "leaves rows (br_invoke_runtime br region creds (invoke_kwargs plan iv))" "leaves rows (br_clock br)"
    using frame by (simp_all add: bridge_frame_def)
  have w3: "rows w3 = rows w"
    using leavesD[OF leave(1) called] leavesD[OF read_body_leaves[OF frame] read] leavesD[OF leave(2) clk0] by simp
  let ?il = "(usage_log iv INV_SUCCESS clk0 region (iv_session_id iv) usage ttft)\<lparr>il_estimated_tokens := iv_estimate iv\<rparr>"
  have log': "jittered_log br cfg (iv_ctx iv) (iv_agent iv) ?il w3 = (Inr c, w')" using log by (simp add: log_with_estimate_def)
  have ttft: "1 \<le> t" if "il_ttft_ms ?il = Some t" for t using that read read_body_ttft by (auto simp: usage_log_def)
  obtain r clk j where r: "r = invocation_of_log (iv_ctx iv) (iv_agent iv) clk (?il\<lparr>il_jitter := Some j\<rparr>)" and "storable_record r \<longrightarrow>
    rows w' = set_row (rows w3) (bs_invocations_table cfg) (tenant_pk (tc_tenant_id (iv_ctx iv))) (invocation_sk r) (Some (invocation_item r))"
    using jittered_log_rows[OF law frame clock ttft log'] by blast
  moreover have "records_usage iv usage r" by (simp add: r records_usage_def invocation_of_log_def usage_log_def plain_log_def)
  ultimately show ?thesis using usage answer w3 by auto
qed


section \<open>A sample tenant and its runtime\<close>

definition sample_answer_body :: string where
  "sample_answer_body = json_dumps (PDict [(''output'', PStr ''hello''), (''usage'', PDict [(''inputTokens'', PInt 12), (''outputTokens'', PInt 30)])])"

definition sample_bridge :: "map_world bridge" where
  "sample_bridge = \<lparr>
     br_aws = map_aws, br_s3 = td_s3 map_deps,
     br_tpm = \<lparr>vk_exchange = (\<lambda>e s w. (Inl OverflowError, w)), vk_put_metric = (\<lambda>d w. (Inr (), w)), vk_log = (\<lambda>m w. w)\<rparr>,
     br_counter = Inr None, br_clock = (\<lambda>w. (Inr 90, w)), br_uuid4 = (\<lambda>w. (Inr ''c0ffee'', w)), br_jitter = (\<lambda>w. (Inr ''a7'', w)),
     br_put_metrics = (\<lambda>m w. (Inr (), w)), br_get_parameters = (\<lambda>n w. (Inr [], w)), br_get_parameter = (\<lambda>n w. (Inr None, w)),
     br_http_get = (\<lambda>u w. (Inl OverflowError, w)), br_http_post = (\<lambda>u p w. (Inl OverflowError, w)),
     br_http_stream = (\<lambda>u p w. (Inl OverflowError, w)),
     br_assume_role = (\<lambda>r n w. (Inr [(''AccessKeyId'', PStr r), (''SecretAccessKey'', PStr n), (''SessionToken'', PStr ''t'')], w)),
     br_invoke_runtime = (\<lambda>r c k w. (Inr ([], BodyBytes sample_answer_body), w)), br_stream_write = (\<lambda>s w. (Inr (), w)),
     br_client_failure = (\<lambda>e. None), br_error_text = (\<lambda>e. ''failed''), br_unreachable = (\<lambda>e. False)\<rparr>"

definition sample_bridge_settings :: bridge_settings where
  "sample_bridge_settings = \<lparr>bs_tenants_table = ''tenants'', bs_invocations_table = ''invocations'', bs_agents_table = ''agents'',
     bs_sessions_table = ''sessions'', bs_jobs = \<lparr>js_table = ''jobs'', js_bucket = None, js_expiry = 900\<rparr>, bs_appconfig = (None, None, None),
     bs_region_param = ''region'', bs_mock_url_param = ''mock'', bs_valkey_param = ''valkey'', bs_role_param = (\<lambda>t. ''role/'' @ t),
     bs_serving_region = ''eu-west-1'', bs_entra_audience = None, bs_ag_ui_scope = ''scope''\<rparr>"

definition sample_role :: string where
  "sample_role = ''arn:aws:iam::123456789012:role/acme-agents''"

definition sample_runtime :: string where
  "sample_runtime = ''arn:aws:bedrock-agentcore:eu-central-1:123456789012:runtime/echo''"

definition sample_tenant_rows :: rows where
  "sample_tenant_rows = set_row no_rows ''tenants'' (tenant_pk ''acme'') ''METADATA''
     (Some [(''executionRoleArn'', PStr sample_role), (''accountId'', PStr ''123456789012'')])"

definition sample_request :: invoke_request where
  "sample_request = \<lparr>iq_agent = sample_agent\<lparr>ar_runtime_arn := Some sample_runtime\<rparr>, iq_ctx = sample_caller, iq_prompt = ''hi'',
     iq_session_id = None, iq_request_id = ''req-1'', iq_has_stream = False, iq_estimate = 1\<rparr>"

definition sample_invocation :: invocation where
  "sample_invocation = start_invocation sample_request ''c0ffee'' 90"

definition sample_plan :: runtime_plan where
  "sample_plan = \<lparr>rp_arn = ''arn:aws:bedrock-agentcore:eu-west-1:123456789012:runtime/echo'', rp_qualifier = None,
     rp_credentials = [(''AccessKeyId'', PStr sample_role), (''SecretAccessKey'', PStr ''invoke-acme''), (''SessionToken'', PStr ''t'')]\<rparr>"

definition invocation_status_code :: "('w, pydict option) io \<Rightarrow> 'w \<Rightarrow> pyval" where
  "invocation_status_code m w = (case m w of (Inr (Some d), _) \<Rightarrow> dget d ''statusCode'' | _ \<Rightarrow> PNone)"

lemma sample_bridge_ok:
  "dynamo_ok (br_aws sample_bridge) fst" "bridge_frame sample_bridge fst" "answers (br_clock sample_bridge)"
  "answers (br_jitter sample_bridge)" "answers (br_uuid4 sample_bridge)"
  using map_dynamo_ok by (simp_all add: sample_bridge_def bridge_frame_def leaves_def answers_def)

lemma sample_prepared:
  "fst (prepare_runtime sample_bridge sample_bridge_settings ''eu-west-1'' sample_invocation (sample_tenant_rows, [])) = Inr (Inr sample_plan)"
  by code_simp

lemma sample_called:
  "invocation_status_code (invoke_agent sample_bridge sample_bridge_settings sample_request) (sample_tenant_rows, []) = PInt 200"
  by code_simp

definition called_body :: "('w, pydict) io \<Rightarrow> 'w \<Rightarrow> string option" where
  "called_body m w = (case m w of (Inr d, _) \<Rightarrow> Some (py_str (dget d ''body'')) | _ \<Rightarrow> None)"

lemma sample_body:
  "called_body (call_runtime sample_bridge sample_bridge_settings ''eu-west-1'' sample_invocation sample_plan) (sample_tenant_rows, [])
     = Some sample_answer_body"
  by code_simp

lemma sample_usage:
  "extract_token_usage sample_answer_body = Inr \<lparr>tu_input_tokens = 12, tu_output_tokens = 30, tu_model_id = None\<rparr>"
  by code_simp



theorem invocation_always_answers_witness:
  "\<exists>d w'. invoke_agent sample_bridge sample_bridge_settings sample_request (sample_tenant_rows, []) = (Inr (Some d), w') \<and> has_status d"
proof -
  have "get_config sample_bridge sample_bridge_settings False w
    = (Inr [(''runtime_region'', PStr ''eu-west-1''), (''mock_runtime_url'', PNone), (''valkey_endpoint'', PNone)], w)" for w
    by (simp add: get_config_def provider_get_def io_bind_def io_try_def fetch_ssm_config_def fetch_appconfig_config_def appconfig_ids_def
        sample_bridge_def sample_bridge_settings_def new_provider_def named_parameters_def dget_or_def dict_get_def Let_def)
  then show ?thesis
    using invocation_always_answers[OF sample_bridge_ok(3-5), of sample_bridge_settings sample_request "(sample_tenant_rows, [])"]
    by (auto simp: dget_or_def)
qed

end
