(* ===== verification/BridgeHandler.thy ===== *)
theory BridgeHandler
  imports BridgeInvocation CapabilityClient
begin

text \<open>
  The requests of the bridge (\<open>bridge/handler.py\<close>, \<open>invocation_engine.py\<close> and the paths and the session bootstrap of
  \<open>route_adapter.py\<close>): who calls, which route is taken, and the gates in front of an invocation.
\<close>

section \<open>Paths\<close>

text \<open>The parts of a path without the empty ones, and without a stage before the version.\<close>

definition normalize_contract_path :: "string \<Rightarrow> string" where
  "normalize_contract_path path =
     (let parts = filter (\<lambda>p. p \<noteq> []) (split_on (CHR ''/'') path);
          parts = (case parts of a # b # rest \<Rightarrow> if a \<noteq> ''v1'' \<and> b = ''v1'' then b # rest else parts | _ \<Rightarrow> parts)
      in ''/'' @ str_join ''/'' parts)"

definition is_agents_list_path :: "string \<Rightarrow> bool" where
  "is_agents_list_path path \<longleftrightarrow> normalize_contract_path path = ''/v1/agents''"

definition is_agent_detail_path :: "string \<Rightarrow> pyval \<Rightarrow> bool" where
  "is_agent_detail_path path agent \<longleftrightarrow> truthy agent \<and> normalize_contract_path path = ''/v1/agents/'' @ py_str agent"

definition is_agent_bootstrap_path :: "string \<Rightarrow> pyval \<Rightarrow> bool" where
  "is_agent_bootstrap_path path agent \<longleftrightarrow>
     truthy agent \<and> normalize_contract_path path = ''/v1/agents/'' @ py_str agent @ ''/bootstrap''"

definition is_job_contract_path :: "string \<Rightarrow> pyval \<Rightarrow> bool" where
  "is_job_contract_path path job_id \<longleftrightarrow> truthy job_id \<and> normalize_contract_path path = ''/v1/jobs/'' @ py_str job_id"

definition is_invoke_contract_path :: "string \<Rightarrow> string option \<Rightarrow> bool" where
  "is_invoke_contract_path path agent =
     (case nonempty_text agent of None \<Rightarrow> False | Some a \<Rightarrow> ends_with path (''/agents/'' @ a @ ''/invoke''))"

section \<open>The gates of an invocation (\<open>invocation_engine.handle_invoke_request\<close>)\<close>

definition estimate_tokens :: "string \<Rightarrow> int" where
  "estimate_tokens s = (if s = [] then 0 else max 1 (int (length s div 4)))"

text \<open>The model whose counter is checked.\<close>

definition checked_model :: "agent_record \<Rightarrow> string" where
  "checked_model agent = TenantStore.opt_or (ar_model_id agent) ''unknown''"

definition invoke_limit :: "capability_policy option \<Rightarrow> agent_record \<Rightarrow> tenant_tier \<Rightarrow> int" where
  "invoke_limit policy agent tier = (case policy of None \<Rightarrow> 0 | Some p \<Rightarrow> get_tpm_limit p (checked_model agent) tier)"

definition tpm_answer :: "string \<Rightarrow> string \<Rightarrow> rate_limit_result \<Rightarrow> pydict" where
  "tpm_answer request_id model r =
     [(''statusCode'', PInt 429),
      (''headers'', PDict [(''Content-Type'', PStr ''application/json''), (''x-amzn-RequestId'', PStr request_id),
         (''X-RateLimit-Limit-TPM'', PStr (show_int (rl_limit r))), (''X-RateLimit-Used-TPM'', PStr (show_int (rl_used r))),
         (''X-RateLimit-Reset'', PStr (show_int (rl_reset_seconds r)))]),
      (''body'', PStr (json_dumps (PDict [(''error'', PDict [(''code'', PStr ''THROTTLED_TPM''),
         (''message'', PStr (''TPM limit exceeded for model '' @ quoted_name model)), (''requestId'', PStr request_id)])])))]"

text \<open>The token budget: nothing when it allows the request, the answer otherwise.\<close>

definition tpm_gate ::
  "'w bridge \<Rightarrow> tenant_context \<Rightarrow> capability_policy option \<Rightarrow> agent_record \<Rightarrow> string \<Rightarrow> int \<Rightarrow> string \<Rightarrow> ('w, pydict option) io" where
  "tpm_gate br ctx policy agent agent_name' estimate request_id =
     (let model = checked_model agent; limit = invoke_limit policy agent (tc_tier ctx);
          check = io_bind (br_clock br) (\<lambda>now.
            io_bind (limiter_check_and_increment (br_tpm br) None (br_counter br) now (tc_tenant_id ctx) model limit estimate) (\<lambda>r.
              if rl_allowed r then io_return None
              else io_bind (emit_tpm_limit_exceeded_metric br ctx agent_name') (\<lambda>_. io_return (Some (tpm_answer request_id model r)))))
      in if limit > 0 then check
         else io_bind (io_lift (limiter_redis None (br_counter br))) (\<lambda>client.
           if client \<noteq> None then check else io_return None))"

definition denied :: "digest \<Rightarrow> capability_policy option \<Rightarrow> tenant_context \<Rightarrow> string \<Rightarrow> bool" where
  "denied sha256 policy ctx capability =
     (case policy of None \<Rightarrow> False | Some p \<Rightarrow> \<not> is_enabled sha256 p capability (tc_tenant_id ctx) (tier_value (tc_tier ctx)))"

text \<open>
  The route from the parsed body on: the agent, the tier, the two capabilities, the token budget, the call. \<open>call\<close> is the \<open>invoke_agent\<close>
  of the source's signature.
\<close>

definition gated_invocation ::
  "'w bridge \<Rightarrow> bridge_settings \<Rightarrow> digest \<Rightarrow> capability_policy option \<Rightarrow> (invoke_request \<Rightarrow> ('w, pydict option) io) \<Rightarrow> tenant_context \<Rightarrow>
     string \<Rightarrow> bool \<Rightarrow> string \<Rightarrow> string \<times> string option \<Rightarrow> ('w, pydict option) io" where
  "gated_invocation br cfg sha256 policy call ctx request_id has_stream agent_name' = (\<lambda>(prompt, session_id).
     io_bind (resolve_agent_record (br_aws br) (bs_agents_table cfg) agent_name' None) (\<lambda>found. case found of
         None \<Rightarrow> io_return (Some (agent_not_found agent_name' request_id))
       | Some agent \<Rightarrow>
           let refuse = (\<lambda>m. io_return (Some (bridge_error 403 ''FORBIDDEN'' m request_id))) in
           if tc_tier ctx < ar_tier_minimum agent then refuse ''Tenant tier insufficient for this agent''
           else if denied sha256 policy ctx ''agents.invoke'' then refuse ''Agent invocation capability disabled''
           else if denied sha256 policy ctx (''agents.'' @ agent_name')
           then refuse (''Access to agent '' @ quoted_name agent_name' @ '' is not enabled for this tenant'')
           else
             (let estimate = estimate_tokens prompt in
              io_bind (tpm_gate br ctx policy agent agent_name' estimate request_id) (\<lambda>limited. case limited of
                  Some answer \<Rightarrow> io_return (Some answer)
                | None \<Rightarrow> call \<lparr>iq_agent = agent, iq_ctx = ctx, iq_prompt = prompt, iq_session_id = session_id,
                    iq_request_id = request_id, iq_has_stream = has_stream, iq_estimate = estimate\<rparr>))))"

text \<open>\<open>json.loads(event.get("body") or "{}")\<close>.\<close>

definition parse_invoke_body :: "pydict \<Rightarrow> pyval res" where
  "parse_invoke_body event =
     (case py_or (dget event ''body'') (PStr ''{}'') of PStr s \<Rightarrow> json_loads s | _ \<Rightarrow> Inl (TypeError ''the JSON object must be str''))"

definition handle_invoke_request ::
  "'w bridge \<Rightarrow> bridge_settings \<Rightarrow> digest \<Rightarrow> capability_policy option \<Rightarrow> (invoke_request \<Rightarrow> ('w, pydict option) io) \<Rightarrow> tenant_context \<Rightarrow>
     string \<times> bool \<Rightarrow> string \<Rightarrow> pydict \<Rightarrow> pydict \<Rightarrow> ('w, pydict option) io" where
  "handle_invoke_request br cfg sha256 policy call ctx rq path path_params event =
     (let (request_id, has_stream) = rq;
          agent = coerce_optional_string (dget path_params ''agentName'');
          bad = (\<lambda>m. io_return (Some (bridge_error 400 ''INVALID_REQUEST'' m request_id))) in
      if path \<noteq> [] \<and> \<not> is_invoke_contract_path path agent
      then io_return (Some (bridge_error 404 ''NOT_FOUND'' ''Route not found'' request_id))
      else (case agent of
         None \<Rightarrow> bad ''Missing agentName in path''
       | Some name \<Rightarrow>
           (case parse_invoke_body event of
              Inl (ValueError m) \<Rightarrow> bad ''Invalid JSON in request body''
            | Inl e \<Rightarrow> io_raise e
            | Inr v \<Rightarrow>
                io_bind (io_lift (need_dict v)) (\<lambda>body.
                  case coerce_optional_string (dget body ''input'') of
                    None \<Rightarrow> bad (''Missing '' @ quoted_name ''input'' @ '' in request body'')
                  | Some prompt \<Rightarrow>
                      gated_invocation br cfg sha256 policy call ctx request_id has_stream name
                        (prompt, coerce_optional_string (dget body ''sessionId''))))))"

section \<open>The session of a front end\<close>

definition session_item :: "tenant_context \<Rightarrow> string \<Rightarrow> string \<Rightarrow> rat \<Rightarrow> pydict" where
  "session_item ctx session_id runtime_session_id now =
     [(''PK'', PStr (tenant_pk (tc_tenant_id ctx))), (''SK'', PStr (''SESSION#'' @ session_id)),
      (''tenant_id'', PStr (tc_tenant_id ctx)), (''app_id'', PStr (tc_app_id ctx)), (''session_id'', PStr session_id),
      (''runtime_session_id'', PStr runtime_session_id), (''bootstrap_type'', PStr ''ag_ui''), (''created_at'', PStr (isoformat_utc now))]"

definition session_scope :: "bridge_settings \<Rightarrow> string" where
  "session_scope cfg = (case nonempty_text (bs_entra_audience cfg) of None \<Rightarrow> bs_ag_ui_scope cfg | Some a \<Rightarrow> a @ ''/'' @ bs_ag_ui_scope cfg)"

definition session_answer :: "bridge_settings \<Rightarrow> agent_record \<Rightarrow> string \<Rightarrow> string \<Rightarrow> string \<Rightarrow> pydict" where
  "session_answer cfg agent endpoint session_id runtime_session_id =
     json_answer 200 (PDict
       [(''agentName'', PStr (agent_name agent)), (''sessionId'', PStr session_id), (''runtimeSessionId'', PStr runtime_session_id),
        (''transport'', PStr (transport_value (agui_transport (ar_ag_ui agent)))), (''connectUrl'', PStr endpoint),
        (''tokenRefreshPath'', PStr ''/v1/bff/token-refresh''), (''sessionKeepalivePath'', PStr ''/v1/bff/session-keepalive''),
        (''auth'', PDict [(''scopes'', PList [PStr (session_scope cfg)])])])"

definition cp_put_session :: "'w aws \<Rightarrow> string \<Rightarrow> pydict \<Rightarrow> ('w, unit) io" where
  "cp_put_session sv table item = base_put_item cp_validate_pk sv table item None []"

definition bootstrap_agent_session :: "'w bridge \<Rightarrow> bridge_settings \<Rightarrow> string \<Rightarrow> tenant_context \<Rightarrow> string \<Rightarrow> ('w, pydict) io" where
  "bootstrap_agent_session br cfg name ctx request_id =
     io_bind (resolve_agent_record (br_aws br) (bs_agents_table cfg) name None) (\<lambda>found. case found of
         None \<Rightarrow> io_return (agent_not_found name request_id)
       | Some agent \<Rightarrow>
           (case (agui_enabled (ar_ag_ui agent), nonempty_text (agui_endpoint (ar_ag_ui agent))) of
              (True, Some endpoint) \<Rightarrow>
                io_bind (br_uuid4 br) (\<lambda>session_id.
                io_bind (br_uuid4 br) (\<lambda>runtime_session_id.
                io_bind (br_clock br) (\<lambda>now.
                io_try (cp_put_session (br_aws br) (bs_sessions_table cfg) (session_item ctx session_id runtime_session_id now)) (\<lambda>r.
                  io_return (case r of
                     Inl e \<Rightarrow> bridge_error 500 ''INTERNAL_ERROR'' ''Failed to persist AG-UI bootstrap session'' request_id
                   | Inr u \<Rightarrow> session_answer cfg agent endpoint session_id runtime_session_id)))))
            | _ \<Rightarrow> io_return (bridge_error 404 ''NOT_FOUND'' (''Agent '' @ quoted_name name @ '' is not AG-UI enabled'') request_id)))"

section \<open>The handler\<close>

definition bridge_authorizer_map :: "pydict \<Rightarrow> pydict res" where
  "bridge_authorizer_map event =
     bind_res (need_dict (dget_or event ''requestContext'' (PDict []))) (\<lambda>rc.
       Inr (case as_dict (dget_or rc ''authorizer'' (PDict [])) of
              None \<Rightarrow> []
            | Some a \<Rightarrow> (case as_dict (dget a ''lambda'') of Some l \<Rightarrow> l | None \<Rightarrow> a)))"

text \<open>A claim of the authorizer under one of two names; the gateway hands on texts.\<close>

definition auth_text :: "pydict \<Rightarrow> string \<Rightarrow> string \<Rightarrow> string \<Rightarrow> string" where
  "auth_text auth k k' other = py_str (py_or (py_or (dget auth k) (dget auth k')) (PStr other))"

definition caller_tier :: "pydict \<Rightarrow> tenant_tier res" where
  "caller_tier auth =
     (case py_or (dget auth ''tier'') (PStr ''standard'') of
        PStr s \<Rightarrow> Inr (case tier_of (py_lower s) of Some t \<Rightarrow> t | None \<Rightarrow> STANDARD)
      | _ \<Rightarrow> Inl (AttributeError ''lower''))"

definition bridge_caller :: "pydict \<Rightarrow> tenant_context res" where
  "bridge_caller event =
     bind_res (bridge_authorizer_map event) (\<lambda>auth.
     bind_res (caller_tier auth) (\<lambda>tier.
       Inr \<lparr>tc_tenant_id = auth_text auth ''tenantId'' ''tenantid'' ''unknown'',
            tc_app_id = auth_text auth ''appId'' ''appid'' ''unknown'', tc_tier = tier,
            tc_sub = auth_text auth ''sub'' ''sub'' ''system''\<rparr>))"

text \<open>\<open>isinstance(result, dict)\<close> with a stream: the answer is written to it.\<close>

definition stream_answer :: "'w bridge \<Rightarrow> bool \<Rightarrow> pydict option \<Rightarrow> ('w, pydict option) io" where
  "stream_answer br has_stream answer =
     (case (has_stream, answer) of
        (True, Some d) \<Rightarrow>
          io_bind (io_lift (py_int (dget_or d ''statusCode'' (PInt 200)))) (\<lambda>status.
          io_bind (send_streaming_response br status (utf8_encode (py_str (dget_or d ''body'' (PStr []))))
                     (dict_or_empty (dget d ''headers''))) (\<lambda>_. io_return None))
      | _ \<Rightarrow> io_return answer)"

definition ends_some :: "('w, pydict) io \<Rightarrow> ('w, pydict option) loop" where
  "ends_some m = loop_ends (some_answer m)"

definition route_request ::
  "'w bridge \<Rightarrow> bridge_settings \<Rightarrow> digest \<Rightarrow> capability_policy \<Rightarrow> tenant_context \<Rightarrow> string \<times> bool \<Rightarrow> string \<Rightarrow> pydict \<Rightarrow> pydict \<Rightarrow>
     ('w, pydict option) loop" where
  "route_request br cfg sha256 policy ctx rq path path_params event =
     (let request_id = fst rq; http_method = map ascii_upper (py_str (dget_or event ''httpMethod'' (PStr [])));
          agent = dget path_params ''agentName''; job_id = dget path_params ''jobId'';
          invoke_policy = (if appconfig_ids cfg = None then None else Some policy) in
      if http_method = ''GET'' \<and> is_agents_list_path path
      then loop_bind (list_agents (br_aws br) (bs_agents_table cfg) sha256 (Some policy) ctx) (\<lambda>d. loop_ends (io_return (Some d)))
      else if http_method = ''GET'' \<and> is_agent_detail_path path agent
      then ends_some (get_agent_detail (br_aws br) (bs_agents_table cfg) sha256 (Some policy) (Some ctx) path_params request_id)
      else if http_method = ''POST'' \<and> is_agent_bootstrap_path path agent
      then ends_some (bootstrap_agent_session br cfg (py_str agent) ctx request_id)
      else if http_method = ''GET'' \<and> is_job_contract_path path job_id
      then ends_some (get_job_status (br_aws br) (br_s3 br) (bs_jobs cfg) ctx path_params request_id)
      else loop_ends (handle_invoke_request br cfg sha256 invoke_policy (invoke_agent br cfg) ctx rq path path_params event))"

text \<open>A path that is given is a text; the capability client is made for the request.\<close>

definition handler ::
  "'w bridge \<Rightarrow> bridge_settings \<Rightarrow> digest \<Rightarrow> cap_client \<Rightarrow> string \<Rightarrow> bool \<Rightarrow> pydict \<Rightarrow> ('w, pydict option) loop" where
  "handler br cfg sha256 client request_id has_stream event =
     loop_bind (loop_ends (io_lift (bridge_caller event))) (\<lambda>ctx.
     loop_bind (loop_ends (io_lift (need_dict (py_or (dget event ''pathParameters'') (PDict []))))) (\<lambda>path_params.
     loop_bind (loop_ends (io_lift (case dget_or event ''path'' (PStr []) of PStr s \<Rightarrow> Inr s | _ \<Rightarrow> Inl (AttributeError ''split'')))) (\<lambda>path.
     loop_bind (route_request br cfg sha256 (fst (fetch_policy client)) ctx (request_id, has_stream) path path_params event) (\<lambda>answer.
       loop_ends (stream_answer br has_stream answer)))))"

section \<open>Nothing passes the gates unchecked\<close>

text \<open>
  What an admitted request says: the agent is one the registry offers under the name of the path, the tenant's tier reaches its minimum,
  both capabilities are granted when a policy applies, and a positive limit with a counter was not passed.
\<close>

definition budget_allows :: "'w bridge \<Rightarrow> tenant_context \<Rightarrow> int \<Rightarrow> string \<Rightarrow> int \<Rightarrow> bool" where
  "budget_allows br ctx limit model estimate \<longleftrightarrow>
     (\<exists>now w r w'. limiter_check_and_increment (br_tpm br) None (br_counter br) now (tc_tenant_id ctx) model limit estimate w = (Inr r, w')
        \<and> rl_allowed r)"

definition admitted ::
  "'w bridge \<Rightarrow> bridge_settings \<Rightarrow> digest \<Rightarrow> capability_policy option \<Rightarrow> tenant_context \<Rightarrow> pydict \<Rightarrow> invoke_request \<Rightarrow> bool" where
  "admitted br cfg sha256 policy ctx path_params q \<longleftrightarrow>
     (\<exists>name w w'. coerce_optional_string (dget path_params ''agentName'') = Some name
        \<and> resolve_agent_record (br_aws br) (bs_agents_table cfg) name None w = (Inr (Some (iq_agent q)), w')
        \<and> iq_ctx q = ctx \<and> ar_tier_minimum (iq_agent q) \<le> tc_tier ctx
        \<and> (\<forall>p. policy = Some p \<longrightarrow>
             is_enabled sha256 p ''agents.invoke'' (tc_tenant_id ctx) (tier_value (tc_tier ctx))
           \<and> is_enabled sha256 p (''agents.'' @ name) (tc_tenant_id ctx) (tier_value (tc_tier ctx)))
        \<and> iq_estimate q = estimate_tokens (iq_prompt q)
        \<and> (invoke_limit policy (iq_agent q) (tc_tier ctx) > 0 \<or> br_counter br \<noteq> Inr None \<longrightarrow>
             budget_allows br ctx (invoke_limit policy (iq_agent q) (tc_tier ctx)) (checked_model (iq_agent q)) (iq_estimate q)))"

lemma tpm_gate_open:
  assumes "tpm_gate br ctx policy agent name estimate request_id w = (Inr None, w')"
  shows "invoke_limit policy agent (tc_tier ctx) > 0 \<or> br_counter br \<noteq> Inr None \<Longrightarrow>
    budget_allows br ctx (invoke_limit policy agent (tc_tier ctx)) (checked_model agent) estimate"
  using assms
  unfolding tpm_gate_def Let_def budget_allows_def
  by (auto simp: io_bind_def limiter_redis_def client_or_default_def split: if_splits prod.splits sum.splits)

lemma gated_only_admitted:
  assumes name: "coerce_optional_string (dget path_params ''agentName'') = Some name"
  shows "gated_invocation br cfg sha256 policy (\<lambda>q. if admitted br cfg sha256 policy ctx path_params q then call q else other q)
      ctx request_id has_stream name ps w
    = gated_invocation br cfg sha256 policy call ctx request_id has_stream name ps w"
proof (cases ps)
  case (Pair prompt session_id)
  have "admitted br cfg sha256 policy ctx path_params \<lparr>iq_agent = agent, iq_ctx = ctx, iq_prompt = prompt, iq_session_id = session_id,
        iq_request_id = request_id, iq_has_stream = has_stream, iq_estimate = estimate_tokens prompt\<rparr>"
    if found: "resolve_agent_record (br_aws br) (bs_agents_table cfg) name None w = (Inr (Some agent), w1)"
      and tier: "\<not> tc_tier ctx < ar_tier_minimum agent"
      and caps: "\<not> denied sha256 policy ctx ''agents.invoke''" "\<not> denied sha256 policy ctx (''agents.'' @ name)"
      and gate: "tpm_gate br ctx policy agent name (estimate_tokens prompt) request_id w1 = (Inr None, w2)"
    for agent w1 w2
    unfolding admitted_def
    using name found tier caps tpm_gate_open[OF gate] by (intro exI[of _ name] exI[of _ w] exI[of _ w1]) (auto simp: denied_def)
  then show ?thesis
    unfolding gated_invocation_def Pair prod.case
    by (intro io_bind_same) (auto simp: Let_def intro!: io_bind_same split: option.split)
qed

text \<open>
  Property C11. The call of an agent stands behind its gates: handing \<open>handle_invoke_request\<close> an \<open>invoke_agent\<close> that acts only on
  requests that are admitted changes nothing. An admitted request is for the offered version of the agent named by the path, its caller
  reaches the agent's tier, both capabilities are granted when a policy applies, and the token budget allowed its estimate.
\<close>

theorem invocation_passes_every_gate:
  "handle_invoke_request br cfg sha256 policy (\<lambda>q. if admitted br cfg sha256 policy ctx path_params q then call q else other q)
      ctx rq path path_params event
   = handle_invoke_request br cfg sha256 policy call ctx rq path path_params event"
proof (rule ext)
  fix w
  show "handle_invoke_request br cfg sha256 policy (\<lambda>q. if admitted br cfg sha256 policy ctx path_params q then call q else other q)
      ctx rq path path_params event w
   = handle_invoke_request br cfg sha256 policy call ctx rq path path_params event w"
  proof (cases "coerce_optional_string (dget path_params ''agentName'')")
    case (Some name)
    show ?thesis
      unfolding handle_invoke_request_def Let_def Some
      by (auto simp: io_bind_def gated_only_admitted[OF Some] split: prod.splits sum.splits exc.splits option.splits)
  qed (simp add: handle_invoke_request_def Let_def split: prod.splits)
qed

section \<open>The counter that is checked is not the counter that is corrected\<close>

text \<open>
  An agent of the registry has no model: its estimate is reserved under \<open>unknown\<close>, and the correction is made under the agent's name.
\<close>

lemma counter_key_model: "counter_key tenant_id m k e = counter_key tenant_id m' k e \<longleftrightarrow> m = m'"
  by (simp add: counter_key_def)

lemma registry_agents_have_no_model: "agent_record_from_item item = Inr r \<Longrightarrow> ar_model_id r = None"
  by (auto simp: agent_record_from_item_def bind_res_def Let_def split: sum.splits option.splits if_splits)

text \<open>
  For every agent of the registry the counter that reserves an estimate and the counter that corrects it have different keys
  (unless the agent is called \<open>unknown\<close>), so a reservation is never settled by the tokens an invocation really used.
\<close>

theorem correction_misses_the_reservation:
  assumes "agent_record_from_item item = Inr agent" and "agent_name agent \<noteq> ''unknown''" "agent_name agent \<noteq> []"
  shows "counter_key tenant_id (corrected_model agent) ''tpm'' expiry \<noteq> counter_key tenant_id (checked_model agent) ''tpm'' expiry"
  using assms registry_agents_have_no_model[OF assms(1)]
  by (simp add: counter_key_model corrected_model_def checked_model_def TenantStore.opt_or_def)

definition sample_echo :: agent_record where
  "sample_echo = (case agent_record_from_item (sample_version ''1.10.0'' ''promoted'') of Inr r \<Rightarrow> r | _ \<Rightarrow> sample_agent)"

theorem correction_misses_the_reservation_witness:
  "counter_key ''acme'' (corrected_model sample_echo) ''tpm'' 120 \<noteq> counter_key ''acme'' (checked_model sample_echo) ''tpm'' 120"
proof -
  have "agent_record_from_item (sample_version ''1.10.0'' ''promoted'') = Inr sample_echo" "agent_name sample_echo = ''echo''"
    by code_simp+
  from correction_misses_the_reservation[OF this(1)] this(2) show ?thesis by simp
qed

end
