(* ===== verification/BffSession.thy ===== *)
theory BffSession
  imports Resp Json Calendar TenantApi
begin

text \<open>
  The session service of the front end (\<open>bff/handler.py\<close>): the exchange of a user's token for one with platform scopes, and the ping that
  keeps a runtime session alive. The secrets resolved from the store live in the module, beside the world.
\<close>

section \<open>Services\<close>

text \<open>
  What an HTTP call brings: the body that is read, an error status with its body, or no connection. Reading may fail; other exceptions of
  the library leave the call.
\<close>

datatype http_outcome = HttpAnswer "string res" | HttpRefused int "string res" | HttpUnreachable

record bff_settings =
  bf_client_id :: "string option"
  bf_client_secret :: "string option"
  bf_tenant_id :: "string option"
  bf_token_endpoint :: "string option"
  bf_audience :: "string option"
  bf_client_id_arn :: "string option"
  bf_client_secret_arn :: "string option"
  bf_ping_url :: "string option"

record 'w bff_services =
  bv_clock :: "('w, rat) io"
  bv_get_secret :: "string \<Rightarrow> ('w, pyval) io"
  bv_retry_jitter :: "rat \<Rightarrow> ('w, rat) io"
  bv_sleep :: "rat \<Rightarrow> ('w, unit) io"
  bv_post :: "string \<Rightarrow> (string \<times> string) list \<Rightarrow> ('w, http_outcome) io"
  bv_get :: "string \<Rightarrow> (string \<times> string) list \<Rightarrow> ('w, http_outcome) io"

type_synonym secret_cache = "string \<Rightarrow> (string \<times> rat) option"

section \<open>Answers\<close>

definition bff_response :: "int \<Rightarrow> pydict \<Rightarrow> pydict" where
  "bff_response status_code body =
     [(''statusCode'', PInt status_code), (''headers'', PDict [(''Content-Type'', PStr ''application/json'')]),
      (''body'', PStr (json_dumps (PDict body)))]"

definition bff_error :: "int \<Rightarrow> string \<Rightarrow> string \<Rightarrow> string \<Rightarrow> pydict" where
  "bff_error status_code code message request_id =
     bff_response status_code [(''error'', PDict [(''code'', PStr code), (''message'', PStr message), (''requestId'', PStr request_id)])]"

section \<open>The event\<close>

definition bff_authorizer :: "pydict \<Rightarrow> pydict" where
  "bff_authorizer event =
     (case as_dict (dget (dict_or_empty (dget event ''requestContext'')) ''authorizer'') of
        None \<Rightarrow> []
      | Some a \<Rightarrow> (case as_dict (dget a ''lambda'') of Some l \<Rightarrow> l | None \<Rightarrow> a))"

definition tenant_and_app :: "pydict \<Rightarrow> string option \<times> string option" where
  "tenant_and_app event =
     (let auth = bff_authorizer event in
      (coerce_optional_string (py_or (dget auth ''tenantid'') (dget auth ''tenantId'')),
       coerce_optional_string (py_or (dget auth ''appid'') (dget auth ''appId''))))"

definition authorization_prefix :: string where
  "authorization_prefix = ''bearer ''"

text \<open>The first header named \<open>authorization\<close>, in whatever case, and only that one.\<close>

definition bearer_token :: "pydict \<Rightarrow> string option" where
  "bearer_token event =
     (case as_dict (dget event ''headers'') of
        None \<Rightarrow> None
      | Some headers \<Rightarrow>
          (case find (\<lambda>(k, v). py_lower k = ''authorization'') headers of
             None \<Rightarrow> None
           | Some (k, v) \<Rightarrow>
               (case coerce_optional_string v of
                  None \<Rightarrow> None
                | Some h \<Rightarrow>
                    if \<not> starts_with (py_lower h) authorization_prefix then None
                    else (let token = py_strip (drop (length authorization_prefix) h) in if token = [] then None else Some token))))"

definition bff_method :: "pydict \<Rightarrow> string" where
  "bff_method event =
     map ascii_upper
       (if truthy (dget event ''httpMethod'') then py_str (dget event ''httpMethod'')
        else (case as_dict (dget (dict_or_empty (dget event ''requestContext'')) ''http'') of
                None \<Rightarrow> []
              | Some http \<Rightarrow> py_str (py_or (dget http ''method'') (PStr []))))"

definition bff_path :: "pydict \<Rightarrow> string" where
  "bff_path event =
     (let rc = dict_or_empty (dget event ''requestContext''); http = dict_or_empty (dget rc ''http'') in
      py_str (py_or (dget event ''path'') (py_or (dget http ''path'') (py_or (dget rc ''resourcePath'') (py_or (dget event ''resource'') (PStr []))))))"

definition bff_request_id :: "pydict \<Rightarrow> string option \<Rightarrow> string" where
  "bff_request_id event aws_request_id =
     (case aws_request_id of
        Some (c # s) \<Rightarrow> c # s
      | _ \<Rightarrow> py_str (py_or (dget (dict_or_empty (dget event ''requestContext'')) ''requestId'') (PStr ''unknown'')))"

definition bff_json_body :: "pydict \<Rightarrow> pydict res" where
  "bff_json_body event =
     (case dget event ''body'' of
        PNone \<Rightarrow> Inl (ValueError ''Request body is required'')
      | PStr s \<Rightarrow>
          (case json_loads s of
             Inl e \<Rightarrow> Inl (ValueError ''Malformed JSON body'')
           | Inr v \<Rightarrow> (case as_dict v of None \<Rightarrow> Inl (ValueError ''JSON body must be an object'') | Some d \<Rightarrow> Inr d))
      | _ \<Rightarrow> Inl (ValueError ''Request body must be a JSON string''))"

section \<open>Secrets\<close>

definition secret_ttl :: rat where
  "secret_ttl = 300"

definition secret_fetch_retries :: nat where
  "secret_fetch_retries = 3"

text \<open>
  The attempts at reading a secret, counted upwards: a failure is followed by a pause unless it was the last one, an empty answer by the
  next attempt at once.
\<close>

fun secret_attempts :: "'w bff_services \<Rightarrow> string \<Rightarrow> rat \<Rightarrow> nat \<Rightarrow> nat \<Rightarrow> (secret_cache \<times> 'w, string option) io" where
  "secret_attempts sv arn now attempt 0 = io_return None"
| "secret_attempts sv arn now attempt (Suc left) =
     io_try (on_world (bv_get_secret sv arn)) (\<lambda>r. case r of
         Inr (PStr (c # s)) \<Rightarrow> (\<lambda>(cache, w). (Inr (Some (c # s)), (cache(arn \<mapsto> (c # s, now + secret_ttl)), w)))
       | Inr v \<Rightarrow> secret_attempts sv arn now (attempt + 1) left
       | Inl e \<Rightarrow>
           if left = 0 then io_return None
           else io_bind (on_world (io_bind (bv_retry_jitter sv (of_nat attempt / 10)) (bv_sleep sv))) (\<lambda>_.
                  secret_attempts sv arn now (attempt + 1) left))"

definition direct_secret :: "string option \<Rightarrow> string \<Rightarrow> (secret_cache \<times> 'w, string) io" where
  "direct_secret direct message =
     (case direct of Some (c # s) \<Rightarrow> io_return (c # s) | _ \<Rightarrow> io_raise (ValueError message))"

definition resolve_secret :: "'w bff_services \<Rightarrow> string option \<Rightarrow> string option \<Rightarrow> string \<Rightarrow> (secret_cache \<times> 'w, string) io" where
  "resolve_secret sv secret_arn direct field_name =
     (case secret_arn of
        Some (a # rest) \<Rightarrow>
          (let arn = a # rest in
           io_bind (on_world (bv_clock sv)) (\<lambda>now (cache, w).
             (case cache arn of
                Some (v, expiry) \<Rightarrow> if now < expiry then io_return v else
                  io_bind (secret_attempts sv arn now 1 secret_fetch_retries) (\<lambda>found. case found of
                    Some v \<Rightarrow> io_return v | None \<Rightarrow> direct_secret direct (field_name @ '' is not configured and secret fetch failed''))
              | None \<Rightarrow>
                  io_bind (secret_attempts sv arn now 1 secret_fetch_retries) (\<lambda>found. case found of
                    Some v \<Rightarrow> io_return v | None \<Rightarrow> direct_secret direct (field_name @ '' is not configured and secret fetch failed'')))
             (cache, w)))
      | _ \<Rightarrow> direct_secret direct (field_name @ '' is not configured''))"

section \<open>The exchange of a token\<close>

definition scope_letter :: "char \<Rightarrow> bool" where
  "scope_letter c \<longleftrightarrow> (let n = code_point c in (65 \<le> n \<and> n \<le> 90) \<or> (97 \<le> n \<and> n \<le> 122))"

definition scope_char :: "char \<Rightarrow> bool" where
  "scope_char c \<longleftrightarrow> scope_letter c \<or> is_digit c \<or> c \<in> {CHR ''.'', CHR ''_'', CHR ''-''}"

text \<open>\<open>_ALLOWED_SCOPE_NAME_RE.fullmatch\<close>.\<close>

definition allowed_scope_name :: "string \<Rightarrow> bool" where
  "allowed_scope_name s \<longleftrightarrow> s \<noteq> [] \<and> scope_letter (hd s) \<and> list_all scope_char (tl s) \<and> length s \<le> 128"

definition validate_scope :: "string \<Rightarrow> string \<Rightarrow> string res" where
  "validate_scope audience scope =
     (let prefix = audience @ ''/'' in
      if \<not> starts_with scope prefix then Inl (ValueError ''scopes must target the approved platform audience'')
      else (let name = remove_prefix scope prefix in
        if name = ''.default'' then Inl (ValueError ''scopes must not request /.default'')
        else if \<not> allowed_scope_name name
        then Inl (ValueError (''scope '' @ [CHR 0x27] @ scope @ [CHR 0x27] @ '' is not an approved platform scope''))
        else Inr scope))"

fun validate_scopes :: "string \<Rightarrow> string list \<Rightarrow> string list res" where
  "validate_scopes audience [] = Inr []"
| "validate_scopes audience (s # ss) =
     bind_res (validate_scope audience s) (\<lambda>v. bind_res (validate_scopes audience ss) (\<lambda>vs. Inr (v # vs)))"

definition validate_refresh_scopes :: "bff_settings \<Rightarrow> string list \<Rightarrow> string list res" where
  "validate_refresh_scopes cfg scopes =
     (case bf_audience cfg of
        Some (c # a) \<Rightarrow> validate_scopes (c # a) scopes
      | _ \<Rightarrow> Inl (ValueError ''ENTRA_AUDIENCE is not configured''))"

definition entra_token_endpoint :: "bff_settings \<Rightarrow> string res" where
  "entra_token_endpoint cfg =
     (case bf_token_endpoint cfg of
        Some (c # e) \<Rightarrow> Inr (c # e)
      | _ \<Rightarrow> (case bf_tenant_id cfg of
                Some (c # t) \<Rightarrow> Inr (''https://login.microsoftonline.com/'' @ (c # t) @ ''/oauth2/v2.0/token'')
              | _ \<Rightarrow> Inl (ValueError ''ENTRA_TENANT_ID is not configured'')))"

definition obo_form :: "string \<Rightarrow> string \<Rightarrow> string \<Rightarrow> string list \<Rightarrow> (string \<times> string) list" where
  "obo_form client_id client_secret assertion scopes =
     [(''client_id'', client_id), (''client_secret'', client_secret), (''grant_type'', ''urn:ietf:params:oauth:grant-type:jwt-bearer''),
      (''requested_token_use'', ''on_behalf_of''), (''assertion'', assertion), (''scope'', str_join '' '' scopes)]"

definition answer_json :: "string res \<Rightarrow> pyval res" where
  "answer_json body =
     bind_res body (\<lambda>bytes. bind_res (utf8_decode bytes) (\<lambda>payload. if payload = [] then Inr (PDict []) else json_loads payload))"

text \<open>The exchange: the parsed answer, or what the endpoint refused with. The form is encoded by the library that posts it.\<close>

definition token_answer :: "http_outcome \<Rightarrow> (http_outcome + pydict) res" where
  "token_answer outcome =
     (case outcome of
        HttpAnswer body \<Rightarrow> bind_res (answer_json body) (\<lambda>v.
          case as_dict v of None \<Rightarrow> Inl (ValueError ''Token refresh response must be a JSON object'') | Some d \<Rightarrow> Inr (Inr d))
      | refused \<Rightarrow> Inr (Inl refused))"

definition exchange_obo_token ::
  "'w bff_services \<Rightarrow> bff_settings \<Rightarrow> string \<Rightarrow> string list \<Rightarrow> (secret_cache \<times> 'w, http_outcome + pydict) io" where
  "exchange_obo_token sv cfg assertion scopes =
     io_bind (io_lift (entra_token_endpoint cfg)) (\<lambda>endpoint.
     io_bind (resolve_secret sv (bf_client_id_arn cfg) (bf_client_id cfg) ''entra_client_id'') (\<lambda>client_id.
     io_bind (resolve_secret sv (bf_client_secret_arn cfg) (bf_client_secret cfg) ''entra_client_secret'') (\<lambda>client_secret.
     io_bind (on_world (bv_post sv endpoint (obo_form client_id client_secret assertion scopes))) (\<lambda>outcome.
       io_lift (token_answer outcome)))))"

definition http_error_detail :: "int \<Rightarrow> string res \<Rightarrow> string" where
  "http_error_detail code body =
     (let payload = (case bind_res body utf8_decode of Inl e \<Rightarrow> [] | Inr p \<Rightarrow> p) in
      if payload = [] then ''Token exchange failed with HTTP '' @ show_int code
      else (case json_loads payload of
              Inl e \<Rightarrow> take 500 payload
            | Inr v \<Rightarrow>
                (case as_dict v of
                   None \<Rightarrow> take 500 payload
                 | Some d \<Rightarrow>
                     (case coerce_optional_string (dget d ''error_description'') of
                        Some t \<Rightarrow> t
                      | None \<Rightarrow> (case coerce_optional_string (dget d ''error'') of Some t \<Rightarrow> t | None \<Rightarrow> take 500 payload)))))"

definition refused_answer :: "string \<Rightarrow> http_outcome \<Rightarrow> pydict" where
  "refused_answer request_id outcome =
     (case outcome of
        HttpRefused code body \<Rightarrow>
          (let detail = http_error_detail code body in
           case map_of [(400, ''INVALID_REQUEST''), (401, ''UNAUTHENTICATED''), (403, ''FORBIDDEN''), (429, ''TOO_MANY_REQUESTS'')] code of
             Some c \<Rightarrow> bff_error code c detail request_id
           | None \<Rightarrow> bff_error 503 ''SERVICE_UNAVAILABLE'' detail request_id)
      | _ \<Rightarrow> bff_error 503 ''SERVICE_UNAVAILABLE'' ''Token refresh service unavailable'' request_id)"

text \<open>\<open>_iso(_now_utc() + timedelta(seconds=s))\<close>; a date after the year 9999 overflows.\<close>

definition iso_after :: "'w bff_services \<Rightarrow> int \<Rightarrow> (secret_cache \<times> 'w, string) io" where
  "iso_after sv s =
     io_bind (on_world (bv_clock sv)) (\<lambda>now.
       if now + of_int s \<ge> 253402300800 then io_raise OverflowError else io_return (iso_utc (now + of_int s)))"

definition expires_in :: "pydict \<Rightarrow> int res" where
  "expires_in token_payload =
     (case py_int (dget_or token_payload ''expires_in'' (PInt 3600)) of
        Inr n \<Rightarrow> Inr (max 0 n)
      | Inl (TypeError m) \<Rightarrow> Inr 3600
      | Inl (ValueError m) \<Rightarrow> Inr 3600
      | Inl e \<Rightarrow> Inl e)"

definition refreshed :: "'w bff_services \<Rightarrow> string list \<Rightarrow> string \<Rightarrow> pydict \<Rightarrow> (secret_cache \<times> 'w, pydict) io" where
  "refreshed sv scopes request_id token_payload =
     io_bind (io_lift (expires_in token_payload)) (\<lambda>s.
       case coerce_optional_string (dget token_payload ''access_token'') of
         None \<Rightarrow> io_return (bff_error 503 ''SERVICE_UNAVAILABLE'' ''Token refresh response missing access_token'' request_id)
       | Some token \<Rightarrow>
           io_bind (iso_after sv s) (\<lambda>expires_at.
             io_return (bff_response 200
               [(''accessToken'', PStr token), (''tokenType'', PStr ''Bearer''), (''expiresAt'', PStr expires_at),
                (''scope'', PStr (case coerce_optional_string (dget token_payload ''scope'') of Some s \<Rightarrow> s | None \<Rightarrow> str_join '' '' scopes))])))"

text \<open>The scopes of a request, or why they are refused.\<close>

definition requested_scopes :: "bff_settings \<Rightarrow> pydict \<Rightarrow> string list res" where
  "requested_scopes cfg body =
     (case dget body ''scopes'' of
        PList (v # vs) \<Rightarrow>
          (let scopes = filter (\<lambda>s. s \<noteq> []) (map (\<lambda>v. py_strip (py_str v)) (v # vs)) in
           if scopes = [] then Inl (ValueError ''scopes must contain non-empty values'')
           else if coerce_optional_string (dget body ''audience'') \<noteq> None
           then Inl (ValueError ''audience is not supported; request only approved platform scopes'')
           else validate_refresh_scopes cfg scopes)
      | _ \<Rightarrow> Inl (ValueError ''scopes must be a non-empty array''))"

definition handle_token_refresh :: "'w bff_services \<Rightarrow> bff_settings \<Rightarrow> pydict \<Rightarrow> string \<Rightarrow> (secret_cache \<times> 'w, pydict) io" where
  "handle_token_refresh sv cfg event request_id =
     (case bearer_token event of
        None \<Rightarrow> io_return (bff_error 401 ''UNAUTHENTICATED'' ''Missing Authorization header'' request_id)
      | Some token \<Rightarrow>
          (case bind_res (bff_json_body event) (requested_scopes cfg) of
             Inl (ValueError m) \<Rightarrow> io_return (bff_error 400 ''INVALID_REQUEST'' m request_id)
           | Inl e \<Rightarrow> io_raise e
           | Inr scopes \<Rightarrow>
               io_try (exchange_obo_token sv cfg token scopes) (\<lambda>r. case r of
                   Inl (ValueError m) \<Rightarrow> io_return (bff_error 503 ''SERVICE_UNAVAILABLE'' m request_id)
                 | Inl e \<Rightarrow> io_raise e
                 | Inr (Inl refused) \<Rightarrow> io_return (refused_answer request_id refused)
                 | Inr (Inr token_payload) \<Rightarrow> refreshed sv scopes request_id token_payload)))"

section \<open>Keeping a session alive\<close>

definition ping_url :: "string \<Rightarrow> string" where
  "ping_url base = (if ends_with (py_rstrip_char (CHR ''/'') base) ''/ping'' then base else py_rstrip_char (CHR ''/'') base @ ''/ping'')"

definition ping_headers :: "string \<Rightarrow> string \<Rightarrow> string \<Rightarrow> string \<Rightarrow> (string \<times> string) list" where
  "ping_headers tenant_id app_id session_id agent =
     [(''x-tenant-id'', tenant_id), (''x-app-id'', app_id), (''x-session-id'', session_id), (''x-agent-name'', agent)]"

text \<open>The ping: its answer is parsed although nothing of it is used.\<close>

definition ping_runtime_session ::
  "'w bff_services \<Rightarrow> bff_settings \<Rightarrow> string \<times> string \<Rightarrow> string \<Rightarrow> string \<Rightarrow> (secret_cache \<times> 'w, http_outcome option) io" where
  "ping_runtime_session sv cfg caller session_id agent =
     (case bf_ping_url cfg of
        Some (c # base) \<Rightarrow>
          io_bind (on_world (bv_get sv (ping_url (c # base)) (ping_headers (fst caller) (snd caller) session_id agent))) (\<lambda>outcome.
            case outcome of
              HttpAnswer body \<Rightarrow> io_bind (io_lift (answer_json body)) (\<lambda>_. io_return None)
            | refused \<Rightarrow> io_return (Some refused))
      | _ \<Rightarrow> io_raise (ValueError ''RUNTIME_PING_URL is not configured''))"

definition keepalive_seconds :: int where
  "keepalive_seconds = 15 * 60"

definition handle_session_keepalive ::
  "'w bff_services \<Rightarrow> bff_settings \<Rightarrow> pydict \<Rightarrow> string \<times> string \<Rightarrow> string \<Rightarrow> (secret_cache \<times> 'w, pydict) io" where
  "handle_session_keepalive sv cfg event caller request_id =
     (let bad = (\<lambda>m. io_return (bff_error 400 ''INVALID_REQUEST'' m request_id)) in
      case bff_json_body event of
        Inl (ValueError m) \<Rightarrow> bad m
      | Inl e \<Rightarrow> io_raise e
      | Inr body \<Rightarrow>
          (case (coerce_optional_string (dget body ''sessionId''), coerce_optional_string (dget body ''agentName'')) of
             (None, _) \<Rightarrow> bad ''sessionId is required''
           | (_, None) \<Rightarrow> bad ''agentName is required''
           | (Some session_id, Some agent) \<Rightarrow>
               io_try (ping_runtime_session sv cfg caller session_id agent) (\<lambda>r. case r of
                   Inl (ValueError m) \<Rightarrow> io_return (bff_error 503 ''SERVICE_UNAVAILABLE'' m request_id)
                 | Inl e \<Rightarrow> io_raise e
                 | Inr (Some (HttpRefused code b)) \<Rightarrow>
                     io_return (if code = 404 then bff_error 404 ''NOT_FOUND'' ''Session not found'' request_id
                                else bff_error 500 ''INTERNAL_ERROR'' (''Runtime ping failed: '' @ show_int code) request_id)
                 | Inr (Some unreachable) \<Rightarrow> io_return (bff_error 500 ''INTERNAL_ERROR'' ''Failed to ping runtime session'' request_id)
                 | Inr None \<Rightarrow>
                     io_bind (iso_after sv keepalive_seconds) (\<lambda>expires_at. io_return (bff_response 202
                       [(''sessionId'', PStr session_id), (''status'', PStr ''accepted''), (''expiresAt'', PStr expires_at)])))))"

section \<open>The handler\<close>

definition bff_handler :: "'w bff_services \<Rightarrow> bff_settings \<Rightarrow> string option \<Rightarrow> pydict \<Rightarrow> (secret_cache \<times> 'w, pydict) io" where
  "bff_handler sv cfg aws_request_id event =
     (let request_id = bff_request_id event aws_request_id;
          missing = io_return (bff_error 404 ''NOT_FOUND'' ''Route not found'' request_id) in
      case tenant_and_app event of
        (Some tenant_id, Some app_id) \<Rightarrow>
          if bff_method event \<noteq> ''POST'' then missing
          else if ends_with (bff_path event) ''/v1/bff/token-refresh'' then handle_token_refresh sv cfg event request_id
          else if ends_with (bff_path event) ''/v1/bff/session-keepalive''
          then handle_session_keepalive sv cfg event (tenant_id, app_id) request_id
          else missing
      | _ \<Rightarrow> io_return (bff_error 401 ''UNAUTHENTICATED'' ''Missing tenant context'' request_id))"

section \<open>Tokens are exchanged for platform scopes only\<close>

definition platform_scope :: "string \<Rightarrow> string \<Rightarrow> bool" where
  "platform_scope audience scope \<longleftrightarrow> (\<exists>name. scope = audience @ ''/'' @ name \<and> allowed_scope_name name)"

lemma validate_scope_platform: "validate_scope audience scope = Inr s \<Longrightarrow> s = scope \<and> platform_scope audience scope"
  by (auto simp: validate_scope_def platform_scope_def Let_def starts_with_iff remove_prefix_def split: if_splits)

lemma validate_scopes_platform:
  "validate_scopes audience scopes = Inr vs \<Longrightarrow> vs = scopes \<and> list_all (platform_scope audience) scopes"
  by (induction scopes arbitrary: vs) (auto simp: bind_res_eq_Inr dest!: validate_scope_platform)

lemma requested_scopes_platform:
  assumes "requested_scopes cfg body = Inr scopes"
  shows "\<exists>audience. bf_audience cfg = Some audience \<and> audience \<noteq> [] \<and> scopes \<noteq> [] \<and> list_all (platform_scope audience) scopes"
proof -
  obtain ss where "ss \<noteq> []" "validate_refresh_scopes cfg ss = Inr scopes"
    using assms by (auto simp: requested_scopes_def Let_def split: pyval.splits list.splits if_splits)
  then show ?thesis
    by (auto simp: validate_refresh_scopes_def split: option.splits list.splits dest!: validate_scopes_platform)
qed

text \<open>The form the caller may have posted: the caller's own token, for platform scopes.\<close>

definition own_exchange :: "bff_settings \<Rightarrow> pydict \<Rightarrow> (string \<times> string) list \<Rightarrow> bool" where
  "own_exchange cfg event form \<longleftrightarrow>
     (\<exists>token audience scopes client_id client_secret. bearer_token event = Some token \<and> bf_audience cfg = Some audience \<and> audience \<noteq> []
        \<and> scopes \<noteq> [] \<and> list_all (platform_scope audience) scopes \<and> form = obo_form client_id client_secret token scopes)"

definition guarded_post ::
  "((string \<times> string) list \<Rightarrow> bool) \<Rightarrow> (string \<Rightarrow> (string \<times> string) list \<Rightarrow> ('w, http_outcome) io) \<Rightarrow> 'w bff_services \<Rightarrow> 'w bff_services" where
  "guarded_post allowed other sv = sv\<lparr>bv_post := \<lambda>url form. if allowed form then bv_post sv url form else other url form\<rparr>"

lemma guarded_post_fields [simp]:
  "bv_clock (guarded_post a h sv) = bv_clock sv" "bv_get_secret (guarded_post a h sv) = bv_get_secret sv"
  "bv_retry_jitter (guarded_post a h sv) = bv_retry_jitter sv" "bv_sleep (guarded_post a h sv) = bv_sleep sv"
  "bv_get (guarded_post a h sv) = bv_get sv"
  by (simp_all add: guarded_post_def)

lemma guarded_attempts [simp]: "secret_attempts (guarded_post a h sv) arn now n left = secret_attempts sv arn now n left"
  by (induction left arbitrary: n) (simp_all cong: sum.case_cong pyval.case_cong list.case_cong)

lemma guarded_resolve [simp]: "resolve_secret (guarded_post a h sv) = resolve_secret sv"
  unfolding resolve_secret_def fun_eq_iff guarded_post_fields guarded_attempts by simp

lemma guarded_later [simp]:
  "iso_after (guarded_post a h sv) = iso_after sv" "ping_runtime_session (guarded_post a h sv) = ping_runtime_session sv"
  unfolding fun_eq_iff iso_after_def ping_runtime_session_def guarded_post_fields by simp_all

lemma guarded_answers_bff [simp]:
  "refreshed (guarded_post a h sv) = refreshed sv" "handle_session_keepalive (guarded_post a h sv) = handle_session_keepalive sv"
  unfolding refreshed_def handle_session_keepalive_def fun_eq_iff guarded_later by simp_all

lemma guarded_exchange:
  assumes "\<And>client_id client_secret. a (obo_form client_id client_secret token scopes)"
  shows "exchange_obo_token (guarded_post a h sv) cfg token scopes = exchange_obo_token sv cfg token scopes"
proof -
  have "bv_post (guarded_post a h sv) url (obo_form i s token scopes) = bv_post sv url (obo_form i s token scopes)" for url i s
    using assms by (simp add: guarded_post_def)
  then show ?thesis by (simp add: exchange_obo_token_def)
qed

text \<open>
  Property C9. The service exchanges nothing but the caller's own bearer token, and only for scopes of the configured audience whose name is
  an approved one (so never for \<open>.default\<close>, nor without an audience): behind a guard that lets only such forms reach the token endpoint
  every request goes exactly as without it, whatever its headers and body are.
\<close>

theorem exchanges_platform_scopes_only:
  "bff_handler (guarded_post (own_exchange cfg event) other sv) cfg aws_request_id event = bff_handler sv cfg aws_request_id event"
proof -
  have same: "handle_token_refresh (guarded_post (own_exchange cfg event) other sv) cfg event request_id = handle_token_refresh sv cfg event request_id"
    for request_id
  proof (cases "bearer_token event")
    case (Some token)
    show ?thesis
    proof (cases "bind_res (bff_json_body event) (requested_scopes cfg)")
      case (Inr scopes)
      then obtain body where "requested_scopes cfg body = Inr scopes" by (auto simp: bind_res_eq_Inr)
      from requested_scopes_platform[OF this] Some
      have "own_exchange cfg event (obo_form i s token scopes)" for i s unfolding own_exchange_def by blast
      then have "exchange_obo_token (guarded_post (own_exchange cfg event) other sv) cfg token scopes = exchange_obo_token sv cfg token scopes"
        by (rule guarded_exchange)
      then show ?thesis unfolding handle_token_refresh_def Some Inr by simp
    qed (simp add: handle_token_refresh_def Some)
  qed (simp add: handle_token_refresh_def)
  show ?thesis unfolding bff_handler_def same guarded_answers_bff by (rule refl)
qed

lemma approved_is_not_default: "\<not> allowed_scope_name ''.default''"
  by code_simp

section \<open>Where a secret comes from\<close>

text \<open>A store that answers from a script, and the reference: the first text among the answers that are asked for.\<close>

definition scripted_store :: "rat \<Rightarrow> pyval res list bff_services" where
  "scripted_store now = \<lparr>
     bv_clock = (\<lambda>w. (Inr now, w)),
     bv_get_secret = (\<lambda>arn w. case w of [] \<Rightarrow> (Inl OverflowError, []) | r # rs \<Rightarrow> (r, rs)),
     bv_retry_jitter = (\<lambda>d w. (Inr d, w)), bv_sleep = (\<lambda>d w. (Inr (), w)),
     bv_post = (\<lambda>u f w. (Inr HttpUnreachable, w)), bv_get = (\<lambda>u h w. (Inr HttpUnreachable, w))\<rparr>"

definition secret_text :: "pyval res \<Rightarrow> string option" where
  "secret_text r = (case r of Inr (PStr (c # s)) \<Rightarrow> Some (c # s) | _ \<Rightarrow> None)"

fun first_secret :: "pyval res list \<Rightarrow> string option" where
  "first_secret [] = None"
| "first_secret (r # rs) = (case secret_text r of Some v \<Rightarrow> Some v | None \<Rightarrow> first_secret rs)"

lemma attempts_first_secret:
  assumes "n \<le> length rs"
  shows "\<exists>rs'. secret_attempts (scripted_store now) arn t a n (cache, rs) = (Inr (first_secret (take n rs)),
    (case first_secret (take n rs) of None \<Rightarrow> cache | Some v \<Rightarrow> cache(arn \<mapsto> (v, t + secret_ttl)), rs'))"
  using assms
proof (induction n arbitrary: rs a)
  case (Suc n)
  then obtain r rest where rs: "rs = r # rest" "n \<le> length rest" by (cases rs) auto
  have get: "on_world (bv_get_secret (scripted_store now) arn) (cache, r # rest) = (r, (cache, rest))"
    and pause: "on_world (io_bind (bv_retry_jitter (scripted_store now) d) (bv_sleep (scripted_store now))) (cache, rest) = (Inr (), (cache, rest))" for d
    by (simp_all add: on_world_def scripted_store_def io_bind_def)
  have later: "\<exists>rs'. secret_attempts (scripted_store now) arn t (a + 1) n (cache, rest) = (Inr (first_secret (take n rest)),
    (case first_secret (take n rest) of None \<Rightarrow> cache | Some v \<Rightarrow> cache(arn \<mapsto> (v, t + secret_ttl)), rs'))" by (rule Suc.IH) (rule rs(2))
  show ?case
  proof (cases r)
    case (Inl e)
    with later get show ?thesis
      by (cases "n = 0") (simp_all add: io_try_def io_bind_def pause rs(1) secret_text_def)
  next
    case (Inr v)
    with later get show ?thesis
      by (cases v) (auto simp: io_try_def rs(1) secret_text_def split: list.split)
  qed
qed simp

theorem secret_is_resolved_in_order:
  assumes "3 \<le> length rs" and "arn \<noteq> []"
  shows "\<exists>s'. resolve_secret (scripted_store now) (Some arn) direct field_name (cache, rs) =
    (case cache arn of
       Some (v, expiry) \<Rightarrow> if now < expiry then Inr v else
         (case first_secret (take 3 rs) of Some v \<Rightarrow> Inr v | None \<Rightarrow> (case direct of Some (c # d) \<Rightarrow> Inr (c # d)
            | _ \<Rightarrow> Inl (ValueError (field_name @ '' is not configured and secret fetch failed''))))
     | None \<Rightarrow>
         (case first_secret (take 3 rs) of Some v \<Rightarrow> Inr v | None \<Rightarrow> (case direct of Some (c # d) \<Rightarrow> Inr (c # d)
            | _ \<Rightarrow> Inl (ValueError (field_name @ '' is not configured and secret fetch failed'')))), s')"
proof -
  obtain b bs where arn: "arn = b # bs" using assms(2) by (cases arn) auto
  obtain rs' where fetched: "secret_attempts (scripted_store now) arn now 1 secret_fetch_retries (cache, rs) = (Inr (first_secret (take 3 rs)),
    (case first_secret (take 3 rs) of None \<Rightarrow> cache | Some v \<Rightarrow> cache(arn \<mapsto> (v, now + secret_ttl)), rs'))"
    using attempts_first_secret[OF assms(1), of now arn now 1 cache] by (auto simp: secret_fetch_retries_def)
  have clock: "on_world (bv_clock (scripted_store now)) s = (Inr now, s)" for s by (cases s) (simp add: on_world_def scripted_store_def)
  show ?thesis
    using fetched
    by (auto simp: resolve_secret_def arn io_bind_def clock Let_def direct_secret_def split: option.split list.split)
qed

end
