(* ===== verification/TenantProvisioner.thy ===== *)
theory TenantProvisioner
  imports TenantLifecycle JsonRoundtrip
begin

text \<open>
  The function that provisions a tenant's stack (\<open>tenant_provisioner/handler.py\<close>): a state machine calls it to start, to poll and to
  report the end. CloudFormation and EventBridge are parameters, and so is what their errors say.
\<close>

section \<open>Services and answers\<close>

record 'w provisioner =
  pv_describe :: "string \<Rightarrow> ('w, pydict) io"
  pv_create_stack :: "pydict \<Rightarrow> ('w, unit) io"
  pv_update_stack :: "pydict \<Rightarrow> ('w, unit) io"
  pv_put_events :: "pydict \<Rightarrow> ('w, unit) io"
  pv_code :: "exc \<Rightarrow> string option"
  pv_text :: "exc \<Rightarrow> string"

text \<open>The end of a call: an answer, or the exception on which the state machine tries again.\<close>

datatype provision_outcome = Answered pydict | RetryLater string

definition in_progress_statuses :: "string list" where
  "in_progress_statuses =
     [''CREATE_IN_PROGRESS'', ''UPDATE_IN_PROGRESS'', ''UPDATE_COMPLETE_CLEANUP_IN_PROGRESS'', ''UPDATE_ROLLBACK_IN_PROGRESS'',
      ''UPDATE_ROLLBACK_COMPLETE_CLEANUP_IN_PROGRESS'', ''IMPORT_IN_PROGRESS'', ''IMPORT_ROLLBACK_IN_PROGRESS'', ''REVIEW_IN_PROGRESS'',
      ''ROLLBACK_IN_PROGRESS'']"

definition failed_statuses :: "string list" where
  "failed_statuses =
     [''CREATE_FAILED'', ''ROLLBACK_COMPLETE'', ''ROLLBACK_FAILED'', ''UPDATE_ROLLBACK_COMPLETE'', ''UPDATE_ROLLBACK_FAILED'',
      ''DELETE_COMPLETE'', ''DELETE_FAILED'']"

definition ready_statuses :: "string list" where
  "ready_statuses = [''CREATE_COMPLETE'', ''UPDATE_COMPLETE'']"

section \<open>The event\<close>

text \<open>\<open>str(v or "").strip()\<close>.\<close>

definition stripped :: "pyval \<Rightarrow> string" where
  "stripped v = py_strip (py_str (py_or v (PStr [])))"

definition event_detail :: "pydict \<Rightarrow> pydict" where
  "event_detail event = (case as_dict (dget event ''detail'') of Some d \<Rightarrow> d | None \<Rightarrow> event)"

definition detail_tenant_id :: "pydict \<Rightarrow> string res" where
  "detail_tenant_id detail =
     (if stripped (dget detail ''tenantId'') = [] then Inl (ValueError ''Missing tenantId'') else Inr (stripped (dget detail ''tenantId'')))"

definition home_account :: "string \<Rightarrow> string res" where
  "home_account function_arn =
     (case drop 4 (split_on (CHR '':'') function_arn) of [] \<Rightarrow> Inl (ExternalErr ''list index out of range'') | a # _ \<Rightarrow> Inr a)"

definition provision_account :: "pydict \<Rightarrow> string \<Rightarrow> string res" where
  "provision_account detail function_arn =
     bind_res (home_account function_arn) (\<lambda>home.
       let provided = stripped (dget detail ''accountId'') in
       if provided = [] then Inr home
       else bind_res (require_aws_account_id (PStr provided) ''accountId'') (\<lambda>account.
         if account \<noteq> home then Inl (ValueError ''accountId must equal the platform home account'') else Inr account))"

definition env_value :: "environ \<Rightarrow> string \<Rightarrow> string res" where
  "env_value env k = (case env k of None \<Rightarrow> Inl (KeyError k) | Some v \<Rightarrow> Inr v)"

definition stack_name :: "environ \<Rightarrow> string \<Rightarrow> string res" where
  "stack_name env tenant_id = bind_res (env_value env ''PLATFORM_ENV'') (\<lambda>e. Inr (''platform-tenant-'' @ tenant_id @ ''-'' @ e))"

definition stack_parameter :: "string \<Rightarrow> string \<Rightarrow> pyval" where
  "stack_parameter k v = PDict [(''ParameterKey'', PStr k), (''ParameterValue'', PStr v)]"

definition stack_parameters :: "pydict \<Rightarrow> string \<Rightarrow> pyval list res" where
  "stack_parameters detail function_arn =
     bind_res (detail_tenant_id detail) (\<lambda>tenant_id.
     bind_res (provision_account detail function_arn) (\<lambda>account.
       let tier = py_strip (py_str (py_or (dget detail ''tier'') (PStr ''basic''))); tier = (if tier = [] then ''basic'' else tier) in
       Inr ([stack_parameter ''tenantId'' tenant_id, stack_parameter ''tier'' tier, stack_parameter ''accountId'' account]
         @ (case dget detail ''monthlyBudgetUsd'' of PNone \<Rightarrow> [] | b \<Rightarrow> [stack_parameter ''monthlyBudgetUsd'' (py_str b)]))))"

section \<open>Stacks\<close>

definition stack_outputs :: "pydict \<Rightarrow> pydict res" where
  "stack_outputs stack =
     bind_res (py_iter (dget_or stack ''Outputs'' (PList []))) (\<lambda>os.
     bind_res (map_res need_dict os) (\<lambda>ds.
       Inr (fold (\<lambda>o' d. dset (py_str (dget o' ''OutputKey'')) (PStr (py_str (dget o' ''OutputValue''))) d)
             (filter (\<lambda>o'. truthy (dget o' ''OutputKey'') \<and> truthy (dget o' ''OutputValue'')) ds) [])))"

definition describe_stack :: "'w provisioner \<Rightarrow> string \<Rightarrow> ('w, pydict) io" where
  "describe_stack pv name =
     io_bind (pv_describe pv name) (\<lambda>answer.
       case py_or (dget answer ''Stacks'') (PList []) of
         PList [] \<Rightarrow> io_raise (RuntimeErr (''Stack '' @ name @ '' not found''))
       | PList (v # vs) \<Rightarrow> io_lift (need_dict v)
       | _ \<Rightarrow> io_raise (TypeError ''not subscriptable''))"

definition stack_status :: "pydict \<Rightarrow> string res" where
  "stack_status stack = (case dict_get stack ''StackStatus'' of None \<Rightarrow> Inl (KeyError ''StackStatus'') | Some v \<Rightarrow> Inr (py_str v))"

datatype stack_operation = CREATE_STACK | UPDATE_STACK

fun operation_text :: "stack_operation \<Rightarrow> string" where
  "operation_text CREATE_STACK = ''CREATE''"
| "operation_text UPDATE_STACK = ''UPDATE''"

text \<open>A stack that CloudFormation does not know is created.\<close>

definition choose_operation :: "'w provisioner \<Rightarrow> string \<Rightarrow> ('w, stack_operation) io" where
  "choose_operation pv name =
     io_try (describe_stack pv name) (\<lambda>r. case r of
         Inr stack \<Rightarrow> io_return UPDATE_STACK
       | Inl e \<Rightarrow> if pv_code pv e = Some ''ValidationError'' then io_return CREATE_STACK else io_raise e)"

definition stack_request :: "string \<Rightarrow> string \<Rightarrow> pyval list \<Rightarrow> pydict" where
  "stack_request name url params =
     [(''StackName'', PStr name), (''TemplateURL'', PStr url), (''Parameters'', PList params),
      (''Capabilities'', PList [PStr ''CAPABILITY_NAMED_IAM''])]"

definition stack_tags :: "string \<Rightarrow> string \<Rightarrow> pydict" where
  "stack_tags tenant_id e =
     [(''OnFailure'', PStr ''ROLLBACK''),
      (''Tags'', PList [PDict [(''Key'', PStr ''tenantid''), (''Value'', PStr tenant_id)],
                        PDict [(''Key'', PStr ''platform:env''), (''Value'', PStr e)]])]"

record stack_plan =
  sp_tenant :: string
  sp_name :: string
  sp_env :: string
  sp_url :: string
  sp_params :: "pyval list"
  sp_account :: string

definition plan_of :: "environ \<Rightarrow> pydict \<Rightarrow> string \<Rightarrow> stack_plan res" where
  "plan_of env detail function_arn =
     bind_res (detail_tenant_id detail) (\<lambda>tenant_id.
     bind_res (stack_name env tenant_id) (\<lambda>name.
     bind_res (env_value env ''TENANT_STACK_TEMPLATE_URL'') (\<lambda>url.
     bind_res (stack_parameters detail function_arn) (\<lambda>params.
     bind_res (provision_account detail function_arn) (\<lambda>account.
     bind_res (env_value env ''PLATFORM_ENV'') (\<lambda>e.
       Inr \<lparr>sp_tenant = tenant_id, sp_name = name, sp_env = e, sp_url = url, sp_params = params, sp_account = account\<rparr>))))))"

definition apply_stack :: "'w provisioner \<Rightarrow> stack_plan \<Rightarrow> stack_operation \<Rightarrow> ('w, unit) io" where
  "apply_stack pv sp op =
     (let req = stack_request (sp_name sp) (sp_url sp) (sp_params sp) in
      case op of
        CREATE_STACK \<Rightarrow> pv_create_stack pv (req @ stack_tags (sp_tenant sp) (sp_env sp))
      | UPDATE_STACK \<Rightarrow> pv_update_stack pv req)"

definition start_answer :: "stack_plan \<Rightarrow> pydict \<Rightarrow> stack_operation \<Rightarrow> string \<Rightarrow> string \<Rightarrow> pydict" where
  "start_answer sp detail op status state =
     [(''status'', PStr status), (''tenantId'', PStr (sp_tenant sp)), (''appId'', dget detail ''appId''), (''tier'', dget detail ''tier''),
      (''accountId'', PStr (sp_account sp)), (''stackName'', PStr (sp_name sp)), (''operation'', PStr (operation_text op)),
      (''provisioningState'', PStr state)]"

definition start_provisioning :: "'w provisioner \<Rightarrow> environ \<Rightarrow> string \<Rightarrow> pydict \<Rightarrow> ('w, pydict) io" where
  "start_provisioning pv env function_arn event =
     (let detail = event_detail event in
      io_bind (io_lift (plan_of env detail function_arn)) (\<lambda>sp.
      io_bind (choose_operation pv (sp_name sp)) (\<lambda>op.
      io_try (apply_stack pv sp op) (\<lambda>r. case r of
          Inr u \<Rightarrow> io_return (start_answer sp detail op ''STARTED'' ''IN_PROGRESS'')
        | Inl e \<Rightarrow>
            if pv_code pv e \<noteq> None \<and> str_contains (pv_text pv e) ''No updates are to be performed''
            then io_bind (describe_stack pv (sp_name sp)) (\<lambda>stack.
                 io_bind (io_lift (stack_status stack)) (\<lambda>status.
                 io_bind (io_lift (stack_outputs stack)) (\<lambda>outputs.
                 io_return (start_answer sp detail op ''SUCCESS'' ''READY'' @ [(''stackStatus'', PStr status), (''outputs'', PDict outputs)]))))
            else io_raise e))))"

definition state_of_status :: "string \<Rightarrow> pydict" where
  "state_of_status status =
     (if status \<in> set ready_statuses then [(''provisioningState'', PStr ''READY'')]
      else if status \<in> set failed_statuses then [(''provisioningState'', PStr ''FAILED''), (''reason'', PStr status)]
      else if status \<in> set in_progress_statuses then [(''provisioningState'', PStr ''IN_PROGRESS'')]
      else [(''provisioningState'', PStr ''FAILED''), (''reason'', PStr status)])"

definition poll_provisioning :: "'w provisioner \<Rightarrow> pydict \<Rightarrow> ('w, pydict) io" where
  "poll_provisioning pv event =
     (let name = stripped (dget event ''stackName''); tenant_id = stripped (dget event ''tenantId'') in
      if name = [] \<or> tenant_id = [] then io_raise (ValueError ''stackName and tenantId are required'')
      else
        io_bind (describe_stack pv name) (\<lambda>stack.
        io_bind (io_lift (stack_status stack)) (\<lambda>status.
        io_bind (io_lift (stack_outputs stack)) (\<lambda>outputs.
        io_return
          ([(''tenantId'', PStr tenant_id), (''appId'', dget event ''appId''), (''tier'', dget event ''tier''),
            (''accountId'', dget event ''accountId''), (''stackName'', PStr name), (''stackStatus'', PStr status),
            (''outputs'', PDict outputs)] @ state_of_status status)))))"

section \<open>The report\<close>

definition completion_types :: "(string \<times> string) list" where
  "completion_types = [(''provisioned'', ''tenant.provisioned''), (''failed'', ''tenant.provisioning_failed'')]"

definition completion_fields :: "pydict \<Rightarrow> pydict" where
  "completion_fields event = map (\<lambda>k. (k, dget event k)) [''tenantId'', ''appId'', ''tier'', ''accountId'', ''stackName'', ''stackStatus'']"

definition completion_detail :: "pydict \<Rightarrow> pydict" where
  "completion_detail event =
     (let detail = completion_fields event;
          detail = (case as_dict (dget event ''outputs'') of None \<Rightarrow> detail | Some o' \<Rightarrow> dupdate detail o')
      in if dget event ''reason'' = PNone then detail else dset ''reason'' (dget event ''reason'') detail)"

definition completion_entry :: "environ \<Rightarrow> string \<Rightarrow> pydict \<Rightarrow> pydict" where
  "completion_entry env detail_type detail =
     [(''Source'', PStr ''platform.tenant_provisioner''), (''DetailType'', PStr detail_type), (''Detail'', PStr (json_dumps (PDict detail))),
      (''EventBusName'', PStr (case env ''EVENT_BUS_NAME'' of None \<Rightarrow> ''default'' | Some b \<Rightarrow> b))]"

definition emit_completion :: "'w provisioner \<Rightarrow> environ \<Rightarrow> pydict \<Rightarrow> ('w, pydict) io" where
  "emit_completion pv env event =
     (case map_of completion_types (stripped (dget event ''resultType'')) of
        None \<Rightarrow> io_raise (ValueError (''resultType must be '' @ [CHR 0x27] @ ''provisioned'' @ [CHR 0x27] @ '' or '' @ [CHR 0x27] @ ''failed'' @ [CHR 0x27]))
      | Some detail_type \<Rightarrow>
          (let detail = completion_detail event in
           io_bind (pv_put_events pv (completion_entry env detail_type detail)) (\<lambda>_.
             io_return [(''status'', PStr ''EMITTED''), (''detailType'', PStr detail_type), (''tenantId'', dget detail ''tenantId'')])))"

section \<open>The handler\<close>

definition is_retryable :: "'w provisioner \<Rightarrow> exc \<Rightarrow> bool" where
  "is_retryable pv e =
     (case pv_code pv e of
        None \<Rightarrow> False
      | Some code \<Rightarrow>
          code \<in> {''Throttling'', ''ThrottlingException'', ''RequestLimitExceeded'', ''ProvisionedThroughputExceededException'',
                  ''ServiceUnavailable'', ''InternalFailure''}
          \<or> (code = ''ValidationError'' \<and> str_contains (pv_text pv e) ''Another update is currently in progress''))"

definition provision_action :: "pydict \<Rightarrow> string" where
  "provision_action event =
     (let action = py_lower (stripped (dget event ''action'')) in
      if action = [] \<and> as_dict (dget event ''detail'') \<noteq> None then ''start'' else action)"

definition run_action :: "'w provisioner \<Rightarrow> environ \<Rightarrow> string \<Rightarrow> pydict \<Rightarrow> ('w, pydict) io" where
  "run_action pv env function_arn event =
     (let action = provision_action event in
      if action = ''start'' then start_provisioning pv env function_arn event
      else if action = ''poll'' then poll_provisioning pv event
      else if action = ''emit-result'' then emit_completion pv env event
      else io_raise (ValueError (''Unsupported action: '' @ action)))"

text \<open>The answer for a failed start or poll; only a missing environment can still raise.\<close>

definition failed_answer :: "'w provisioner \<Rightarrow> environ \<Rightarrow> pydict \<Rightarrow> exc \<Rightarrow> pydict res" where
  "failed_answer pv env event e =
     (let detail = event_detail event; given = (\<lambda>k. py_or (dget detail k) (dget event k)); tenant_id = stripped (given ''tenantId'') in
      bind_res (if truthy (dget event ''stackName'') then Inr (dget event ''stackName'')
                else bind_res (stack_name env tenant_id) (\<lambda>n. Inr (PStr n))) (\<lambda>name.
        Inr [(''tenantId'', PStr tenant_id), (''appId'', given ''appId''), (''tier'', given ''tier''), (''accountId'', given ''accountId''),
             (''stackName'', name), (''provisioningState'', PStr ''FAILED''), (''reason'', PStr (pv_text pv e)),
             (''stackStatus'', PStr ''ERROR''), (''outputs'', PDict [])]))"

definition provisioner_handler :: "'w provisioner \<Rightarrow> environ \<Rightarrow> string \<Rightarrow> pydict \<Rightarrow> ('w, provision_outcome) io" where
  "provisioner_handler pv env function_arn event =
     io_try (run_action pv env function_arn event) (\<lambda>r. case r of
         Inr answer \<Rightarrow> io_return (Answered answer)
       | Inl e \<Rightarrow>
           if is_retryable pv e then io_return (RetryLater (pv_text pv e))
           else if provision_action event \<in> {''start'', ''poll''}
           then io_bind (io_lift (failed_answer pv env event e)) (\<lambda>answer. io_return (Answered answer))
           else io_raise e)"

section \<open>The state machine always learns a state\<close>

definition tells_state :: "pydict \<Rightarrow> bool" where
  "tells_state d \<longleftrightarrow> dget d ''provisioningState'' \<in> {PStr ''READY'', PStr ''IN_PROGRESS'', PStr ''FAILED''}"

lemma start_answer_tells: "state \<in> {''READY'', ''IN_PROGRESS''} \<Longrightarrow> tells_state (start_answer sp detail op status state @ rest)"
  by (auto simp: tells_state_def start_answer_def dget_or_def)

lemma poll_answer_tells:
  "tells_state ([(''tenantId'', a), (''appId'', b), (''tier'', c), (''accountId'', d), (''stackName'', e), (''stackStatus'', f), (''outputs'', g)]
     @ state_of_status status)"
  by (auto simp: tells_state_def state_of_status_def dget_or_def)

lemma failed_answer_tells: "failed_answer pv env event e = Inr d \<Longrightarrow> tells_state d"
  by (auto simp: failed_answer_def tells_state_def Let_def bind_res_eq_Inr dget_or_def)

lemma failed_answer_given: "env ''PLATFORM_ENV'' = Some stage \<Longrightarrow> \<exists>d. failed_answer pv env event e = Inr d"
  by (auto simp: failed_answer_def Let_def stack_name_def env_value_def)

lemma run_action_tells:
  assumes "provision_action event \<in> {''start'', ''poll''}" and "run_action pv env function_arn event w = (Inr d, w')"
  shows "tells_state d"
proof -
  have start: "tells_state d" if "start_provisioning pv env function_arn event w = (Inr d, w')"
    using that start_answer_tells[of _ _ _ _ _ "[]"]
    by (auto simp: start_provisioning_def Let_def io_bind_def io_try_def start_answer_tells split: prod.splits sum.splits if_splits)
  have poll: "tells_state d" if "poll_provisioning pv event w = (Inr d, w')"
    using that poll_answer_tells
    by (fastforce simp: poll_provisioning_def Let_def io_bind_def simp del: append_Cons append_Nil split: prod.splits sum.splits if_splits)
  show ?thesis using assms start poll by (auto simp: run_action_def Let_def)
qed

text \<open>
  Property C39. A start or a poll always tells the state machine how it stands, READY, IN_PROGRESS or FAILED, or asks it to try again, and
  that only for an error that is transient: no error of CloudFormation, of the event or of a stack's answer ends the step otherwise.
\<close>

theorem provisioning_always_tells_state:
  assumes "env ''PLATFORM_ENV'' = Some stage" and "provision_action event \<in> {''start'', ''poll''}"
  shows "(\<exists>d w'. provisioner_handler pv env function_arn event w = (Inr (Answered d), w') \<and> tells_state d)
    \<or> (\<exists>e w'. provisioner_handler pv env function_arn event w = (Inr (RetryLater (pv_text pv e)), w') \<and> is_retryable pv e)"
proof (cases "run_action pv env function_arn event w")
  case (Pair r w1)
  show ?thesis
  proof (cases r)
    case (Inr d)
    with Pair run_action_tells[OF assms(2)] show ?thesis by (auto simp: provisioner_handler_def io_try_def)
  next
    case (Inl e)
    with Pair assms(2) failed_answer_given[where env = env and pv = pv and event = event and e = e, OF assms(1)] show ?thesis
      by (auto simp: provisioner_handler_def io_try_def io_bind_def dest: failed_answer_tells)
  qed
qed

definition broken_provisioner :: "unit provisioner" where
  "broken_provisioner = \<lparr>pv_describe = (\<lambda>n w. (Inl (ExternalErr ''AccessDenied''), w)), pv_create_stack = (\<lambda>k w. (Inr (), w)),
     pv_update_stack = (\<lambda>k w. (Inr (), w)), pv_put_events = (\<lambda>e w. (Inr (), w)), pv_code = (\<lambda>e. Some ''AccessDenied''), pv_text = (\<lambda>e. ''denied'')\<rparr>"

definition sample_start :: pydict where
  "sample_start = [(''detail'', PDict [(''tenantId'', PStr ''acme''), (''tier'', PStr ''basic'')])]"

theorem provisioning_always_tells_state_witness:
  "\<exists>d. fst (provisioner_handler broken_provisioner (\<lambda>k. Some ''dev'') ''arn:aws:lambda:eu-west-2:123456789012:function:f'' sample_start ())
      = Inr (Answered d) \<and> tells_state d"
proof -
  have "provision_action sample_start \<in> {''start'', ''poll''}" by code_simp
  moreover have "\<not> is_retryable broken_provisioner e" for e by (simp add: is_retryable_def broken_provisioner_def)
  ultimately show ?thesis
    using provisioning_always_tells_state[of "\<lambda>k. Some ''dev''" _ sample_start broken_provisioner "''arn:aws:lambda:eu-west-2:123456789012:function:f''" "()"]
    by fastforce
qed

section \<open>Only the tenant's own stack is touched\<close>

definition own_stack :: "environ \<Rightarrow> pydict \<Rightarrow> string \<Rightarrow> pydict \<Rightarrow> bool" where
  "own_stack env detail function_arn req \<longleftrightarrow>
     (\<exists>tenant_id e home. detail_tenant_id detail = Inr tenant_id \<and> env ''PLATFORM_ENV'' = Some e \<and> home_account function_arn = Inr home
        \<and> dget req ''StackName'' = PStr (''platform-tenant-'' @ tenant_id @ ''-'' @ e)
        \<and> (\<exists>tier rest. dget req ''Parameters'' = PList ([stack_parameter ''tenantId'' tenant_id, stack_parameter ''tier'' tier,
             stack_parameter ''accountId'' home] @ rest)))"

definition guarded_stacks ::
  "(pydict \<Rightarrow> bool) \<Rightarrow> (pydict \<Rightarrow> ('w, unit) io) \<Rightarrow> 'w provisioner \<Rightarrow> 'w provisioner" where
  "guarded_stacks allowed other pv =
     pv\<lparr>pv_create_stack := \<lambda>req. if allowed req then pv_create_stack pv req else other req,
        pv_update_stack := \<lambda>req. if allowed req then pv_update_stack pv req else other req\<rparr>"

lemma guarded_stacks_fields [simp]:
  "pv_describe (guarded_stacks a h pv) = pv_describe pv" "pv_put_events (guarded_stacks a h pv) = pv_put_events pv"
  "pv_code (guarded_stacks a h pv) = pv_code pv" "pv_text (guarded_stacks a h pv) = pv_text pv"
  by (simp_all add: guarded_stacks_def)

lemma guarded_stack_steps [simp]:
  "describe_stack (guarded_stacks a h pv) = describe_stack pv" "choose_operation (guarded_stacks a h pv) = choose_operation pv"
  "poll_provisioning (guarded_stacks a h pv) = poll_provisioning pv" "emit_completion (guarded_stacks a h pv) = emit_completion pv"
  "is_retryable (guarded_stacks a h pv) = is_retryable pv" "failed_answer (guarded_stacks a h pv) = failed_answer pv"
  unfolding fun_eq_iff describe_stack_def choose_operation_def poll_provisioning_def emit_completion_def is_retryable_def failed_answer_def
    guarded_stacks_fields by simp_all

lemma account_is_home: "provision_account detail function_arn = Inr account \<Longrightarrow> home_account function_arn = Inr account"
  by (auto simp: provision_account_def Let_def bind_res_eq_Inr split: if_splits)

lemma planned_stack_is_own:
  assumes "plan_of env detail function_arn = Inr sp"
  shows "own_stack env detail function_arn (stack_request (sp_name sp) (sp_url sp) (sp_params sp) @ rest)"
  using assms account_is_home[of detail function_arn]
  by (auto simp: own_stack_def plan_of_def stack_parameters_def stack_name_def env_value_def Let_def bind_res_eq_Inr stack_request_def dget_or_def
      split: option.splits)

text \<open>
  Property C26. Behind a guard that lets only requests for the stack named after the tenant of the event pass, with that tenant and the
  account of the function itself among its parameters, the provisioner does exactly what it does without it: no event makes it create or
  update another stack, or one for another account.
\<close>

theorem only_the_own_stack_is_touched:
  "provisioner_handler (guarded_stacks (own_stack env (event_detail event) function_arn) other pv) env function_arn event
   = provisioner_handler pv env function_arn event"
proof -
  let ?g = "guarded_stacks (own_stack env (event_detail event) function_arn) other pv"
  have apply_same: "apply_stack ?g sp op = apply_stack pv sp op" if "plan_of env (event_detail event) function_arn = Inr sp" for sp op
    using planned_stack_is_own[OF that] planned_stack_is_own[OF that, of "[]"]
    by (cases op) (simp_all add: apply_stack_def Let_def guarded_stacks_def)
  have "start_provisioning ?g env function_arn event = start_provisioning pv env function_arn event"
  proof (cases "plan_of env (event_detail event) function_arn")
    case (Inr sp)
    show ?thesis unfolding start_provisioning_def Let_def Inr io_bind_steps guarded_stack_steps guarded_stacks_fields apply_same[OF Inr] by (rule refl)
  qed (simp add: start_provisioning_def)
  then have "run_action ?g env function_arn event = run_action pv env function_arn event" by (simp add: run_action_def Let_def)
  then show ?thesis unfolding provisioner_handler_def guarded_stack_steps guarded_stacks_fields by simp
qed

section \<open>What the tenant API makes of the report\<close>

text \<open>EventBridge hands an entry on as an event whose detail is the parsed text.\<close>

definition delivered_as :: "pydict \<Rightarrow> pydict \<Rightarrow> bool" where
  "delivered_as entry event \<longleftrightarrow>
     (\<exists>v. json_loads (py_str (dget entry ''Detail'')) = Inr v
        \<and> event = [(''detail-type'', dget entry ''DetailType''), (''source'', dget entry ''Source''), (''detail'', v)])"

text \<open>Outputs of a stack that do not take the names of the report's own fields.\<close>

definition plain_outputs :: "pydict \<Rightarrow> bool" where
  "plain_outputs event \<longleftrightarrow> (\<forall>k \<in> {''tenantId'', ''status'', ''provisioningStatus''}. k \<notin> fst ` set (dict_or_empty (dget event ''outputs'')))"

lemma completion_reads:
  assumes "plain_outputs event"
  shows "dget (completion_detail event) ''tenantId'' = dget event ''tenantId''" "dget (completion_detail event) ''status'' = PNone"
    "dget (completion_detail event) ''provisioningStatus'' = PNone"
proof -
  have same: "dget (completion_detail event) k = dget (completion_fields event) k"
    if "k \<notin> fst ` set (dict_or_empty (dget event ''outputs''))" "k \<noteq> ''reason''" for k
  proof -
    have "map_of (rev (dict_or_empty (dget event ''outputs''))) k = None" using that(1) by (simp add: map_of_eq_None_iff)
    then show ?thesis
      using that(2) by (simp add: completion_detail_def Let_def dget_or_def map_of_dupdate dict_or_empty_def split: option.splits)
  qed
  have "dget (completion_fields event) ''tenantId'' = dget event ''tenantId''" "dget (completion_fields event) ''status'' = PNone"
    "dget (completion_fields event) ''provisioningStatus'' = PNone" by (simp_all add: completion_fields_def dget_or_def)
  then show "dget (completion_detail event) ''tenantId'' = dget event ''tenantId''" "dget (completion_detail event) ''status'' = PNone"
    "dget (completion_detail event) ''provisioningStatus'' = PNone"
    using assms by (simp_all add: plain_outputs_def same)
qed

lemma report_reaches_the_tenant:
  assumes "plain_outputs event" and "coerce_optional_string (dget event ''tenantId'') = Some tenant_id"
    and "map_of completion_types (stripped (dget event ''resultType'')) = Some detail_type" and "json_clean (PDict (completion_detail event))"
    and "delivered_as (completion_entry env detail_type (completion_detail event)) delivered"
  shows "reported delivered tenant_id (if detail_type = ''tenant.provisioned'' then ''ready'' else ''failed'') (completion_detail event)"
proof -
  have delivered: "dget delivered ''detail-type'' = PStr detail_type" "dget delivered ''detail'' = PDict (completion_detail event)"
      "dget_or delivered ''detail'' (PDict []) = PDict (completion_detail event)"
  proof -
    let ?e = "completion_entry env detail_type (completion_detail event)"
    have entry: "py_str (dget ?e ''Detail'') = json_dumps (PDict (completion_detail event))" "dget ?e ''DetailType'' = PStr detail_type"
      by (simp_all add: completion_entry_def dget_or_def del: json_dumps.simps)
    obtain v where v: "json_loads (py_str (dget ?e ''Detail'')) = Inr v"
      and event: "delivered = [(''detail-type'', dget ?e ''DetailType''), (''source'', dget ?e ''Source''), (''detail'', v)]"
      using assms(5) unfolding delivered_as_def by blast
    have "v = PDict (completion_detail event)" using v json_roundtrip[OF assms(4)] unfolding entry by (simp del: json_dumps.simps)
    then show "dget delivered ''detail-type'' = PStr detail_type" "dget delivered ''detail'' = PDict (completion_detail event)"
      "dget_or delivered ''detail'' (PDict []) = PDict (completion_detail event)"
      unfolding event entry by (simp_all add: dget_or_def)
  qed
  have none: "coerce_optional_string PNone = None" by (simp add: coerce_optional_string_def)
  have "detail_type \<in> {''tenant.provisioned'', ''tenant.provisioning_failed''}"
    using assms(3) by (auto simp: completion_types_def split: if_splits)
  then have "provisioning_status_of delivered (completion_detail event)
      = Some (if detail_type = ''tenant.provisioned'' then ''ready'' else ''failed'')"
    by (elim insertE) (simp_all add: provisioning_status_of_def none completion_reads[OF assms(1)] delivered(1))
  then show ?thesis
    by (simp add: reported_def need_dict_def delivered(3) completion_reads(1)[OF assms(1)] assms(2) provisioning_statuses_def)
qed

lemma reported_once: "reported event tid status detail \<Longrightarrow> reported event tid' status' detail' \<Longrightarrow> tid' = tid \<and> status' = status \<and> detail' = detail"
  by (auto simp: reported_def)


definition sample_report :: pydict where
  "sample_report = [(''resultType'', PStr ''provisioned''), (''tenantId'', PStr ''acme''),
     (''outputs'', PDict [(''ExecutionRoleArn'', PStr ''arn:aws:iam::123456789012:role/acme'')])]"

definition sample_delivered :: pydict where
  "sample_delivered = [(''detail-type'', PStr ''tenant.provisioned''), (''source'', PStr ''platform.tenant_provisioner''),
     (''detail'', PDict (completion_detail sample_report))]"

lemma sample_report_ok:
  "plain_outputs sample_report" "coerce_optional_string (dget sample_report ''tenantId'') = Some ''acme''"
  "map_of completion_types (stripped (dget sample_report ''resultType'')) = Some ''tenant.provisioned''"
  "json_clean (PDict (completion_detail sample_report))"
  by code_simp+

lemma sample_delivered_as: "delivered_as (completion_entry (\<lambda>k. None) ''tenant.provisioned'' (completion_detail sample_report)) sample_delivered"
  unfolding delivered_as_def
  using json_roundtrip[OF sample_report_ok(4)]
  by (simp add: completion_entry_def dget_or_def sample_delivered_def del: json_dumps.simps)


end
