(* ===== verification/DiagnosticsTools.thy ===== *)
theory DiagnosticsTools
  imports GatewayRequest JsonRoundtrip Calendar TenantApi
begin

text \<open>
  The tools of the platform's diagnostics agent (\<open>platform_tools/diagnostics_handler.py\<close>): the trust in the gateway's scoped token, the
  reports on health, tenants and errors, and the runbooks. The tables, the clock, the secret store and the JWT library are parameters; the
  cached signing key is the state beside the world.
\<close>

section \<open>Surroundings\<close>

record 'w diagnostics =
  dg_aws :: "'w aws"
  dg_env :: environ
  dg_clock :: "('w, rat) io"
  dg_get_secret :: "string \<Rightarrow> ('w, string option) io"
  dg_decode :: "string \<Rightarrow> string \<Rightarrow> string \<Rightarrow> string \<Rightarrow> ('w, pydict) io"
  dg_is_jwt_error :: "exc \<Rightarrow> bool"
  dg_text :: "exc \<Rightarrow> string"

definition diag_tenants_table :: "environ \<Rightarrow> string" where
  "diag_tenants_table env = env_or env ''TENANTS_TABLE_NAME'' ''platform-tenants''"

definition diag_invocations_table :: "environ \<Rightarrow> string" where
  "diag_invocations_table env = env_or env ''INVOCATIONS_TABLE_NAME'' ''platform-invocations''"

definition serving_runtime_region :: string where
  "serving_runtime_region = ''eu-west-2''"

definition health_window_minutes :: int where
  "health_window_minutes = 15"

definition recent_errors_window_minutes :: int where
  "recent_errors_window_minutes = 60"

definition error_statuses :: "string list" where
  "error_statuses = [''error'', ''timeout'', ''throttled'']"

section \<open>Runbooks\<close>

record runbook =
  rb_title :: string
  rb_trigger :: string
  rb_steps :: "string list"

definition runbooks :: "(string \<times> runbook) list" where
  "runbooks =
     [(''RUNBOOK-001'',
       \<lparr>rb_title = ''Runtime Region Degradation'',
        rb_trigger = ''ServiceUnavailableException from the active runtime region ('' @ serving_runtime_region @ '').'',
        rb_steps = [''1. Verify regional outage via Service Health Dashboard or CloudWatch metrics.'',
          ''2. Confirm the platform is in degraded runtime mode.'',
          ''3. Pause tenant-impacting release activity while the outage is active.'',
          ''4. Track AWS recovery and update tenant communications.'',
          ''5. Verify new invocations succeed in the serving region after recovery.'']\<rparr>),
      (''RUNBOOK-002'',
       \<lparr>rb_title = ''AgentCore Quota Monitoring'',
        rb_trigger = ''ConcurrentSessions utilisation > 70%.'',
        rb_steps = [''1. Check /v1/platform/quota to see current regional utilisation.'',
          ''2. Identify if any single tenant is responsible for the surge.'',
          ''3. If utilisation > 80%, initiate RUNBOOK-004 (Quota Increase).'',
          ''4. If utilisation > 90% and approval is slow, consider '' @ [CHR 0x27] @ ''Option B'' @ [CHR 0x27] @ '' (Account Split).'']\<rparr>),
      (''RUNBOOK-003'',
       \<lparr>rb_title = ''Tenant Access Violation'',
        rb_trigger = ''TenantAccessViolation alarm or security event log.'',
        rb_steps = [''1. Identify the caller tenant and the target tenant from the logs.'',
          ''2. Determine if the attempt was a misconfiguration or a malicious probe.'',
          ''3. Suspend the caller tenant if necessary via POST /v1/platform/ops/tenants/{id}/suspend.'',
          ''4. Page the security team if a persistent breach is suspected.'']\<rparr>),
      (''RUNBOOK-005'',
       \<lparr>rb_title = ''DLQ Management'',
        rb_trigger = ''DLQ CloudWatch alarm.'',
        rb_steps = [''1. Inspect the messages in the DLQ via GET /v1/platform/ops/dlq/{name}.'',
          ''2. Identify the root cause (e.g., timeout, downstream error).'',
          ''3. Fix the underlying issue.'',
          ''4. Redrive the messages via POST /v1/platform/ops/dlq/{name}/redrive.'']\<rparr>),
      (''RUNBOOK-007'',
       \<lparr>rb_title = ''Deployment Rollback'',
        rb_trigger = ''Failed deployment or regression detected post-release.'',
        rb_steps = [''1. Identify the failing function(s).'',
          ''2. Perform a Lambda alias rollback via POST /v1/platform/ops/lambda-rollback.'',
          ''3. Verify the previous version is stable.'',
          ''4. Update the issue and investigate the root cause.'']\<rparr>)]"

definition runbook_answer :: "string \<Rightarrow> runbook \<Rightarrow> pydict" where
  "runbook_answer rid rb =
     [(''runbookId'', PStr rid), (''title'', PStr (rb_title rb)), (''trigger'', PStr (rb_trigger rb)),
      (''steps'', PList (map PStr (rb_steps rb)))]"

definition runbook_title :: "string \<times> runbook \<Rightarrow> pyval" where
  "runbook_title e = PDict [(''runbookId'', PStr (fst e)), (''title'', PStr (rb_title (snd e)))]"

text \<open>\<open>v.upper()\<close> and \<open>v.lower()\<close> of a value that should be a text.\<close>

definition need_text :: "string \<Rightarrow> pyval \<Rightarrow> string res" where
  "need_text meth v = (case v of PStr s \<Rightarrow> Inr s | _ \<Rightarrow> Inl (AttributeError meth))"

definition get_runbook_guidance :: "pyval \<Rightarrow> pyval \<Rightarrow> pydict res" where
  "get_runbook_guidance query runbook_id =
     (let available = [(''availableRunbooks'', PList (map runbook_title runbooks))] in
      if truthy runbook_id
      then bind_res (need_text ''upper'' runbook_id) (\<lambda>rid.
             case map_of runbooks (py_upper rid) of
               Some rb \<Rightarrow> Inr (runbook_answer (py_upper rid) rb)
             | None \<Rightarrow> Inr [(''error'', PStr (''Runbook '' @ rid @ '' not found''))])
      else if truthy query
      then bind_res (need_text ''lower'' query) (\<lambda>q.
             let matches = filter (\<lambda>(rid, rb). str_contains (py_lower (rb_title rb)) (py_lower q) \<or> str_contains (py_lower rid) (py_lower q)) runbooks in
             Inr (if matches = [] then available else [(''matches'', PList (map runbook_title matches))]))
      else Inr available)"

section \<open>The trust in a scoped token\<close>

definition diag_header :: "pyval \<Rightarrow> string \<Rightarrow> string option" where
  "diag_header headers name =
     (case as_dict headers of
        None \<Rightarrow> None
      | Some hs \<Rightarrow> map_option (\<lambda>(k, v). py_str v) (find (\<lambda>(k, v). py_lower k = py_lower name \<and> v \<noteq> PNone) hs))"

definition diag_bearer_token :: "pyval \<Rightarrow> string option" where
  "diag_bearer_token headers =
     (case diag_header headers ''Authorization'' of
        None \<Rightarrow> None
      | Some h \<Rightarrow>
          if \<not> starts_with h ''Bearer '' then None
          else (let token = py_strip (drop (length ''Bearer '') h) in if token = [] then None else Some token))"

definition cached_signing_key :: "key_cache \<Rightarrow> rat \<Rightarrow> string option" where
  "cached_signing_key cache now = (case cache of (Some (c # k), expiry) \<Rightarrow> if now < expiry then Some (c # k) else None | _ \<Rightarrow> None)"

definition diag_signing_key :: "'w diagnostics \<Rightarrow> (key_cache \<times> 'w, string option) io" where
  "diag_signing_key dg =
     (case (env_set (dg_env dg) ''SCOPED_TOKEN_SIGNING_KEY'', env_or (dg_env dg) ''PLATFORM_ENV'' ''prod'' = ''local'') of
        (Some explicit, True) \<Rightarrow> io_return (Some explicit)
      | _ \<Rightarrow>
          (case env_set (dg_env dg) ''SCOPED_TOKEN_SIGNING_KEY_SECRET_ARN'' of
             None \<Rightarrow> io_return None
           | Some secret_arn \<Rightarrow>
               io_bind (on_world (dg_clock dg)) (\<lambda>now (cache, w).
                 case cached_signing_key cache now of
                   Some key \<Rightarrow> (Inr (Some key), (cache, w))
                 | None \<Rightarrow>
                     (case dg_get_secret dg secret_arn w of
                        (Inr (Some (c # k)), w') \<Rightarrow> (Inr (Some (c # k)), ((Some (c # k), now + 300), w'))
                      | (_, w') \<Rightarrow> (Inr None, (cache, w'))))))"

definition claims_trusted :: "string \<Rightarrow> pydict \<Rightarrow> bool" where
  "claims_trusted tool_name claims \<longleftrightarrow>
     dget claims ''tenantid'' = PStr ''platform'' \<and> truthy (dget claims ''appid'') \<and> dget claims ''scope_tool'' = PStr tool_name
     \<and> truthy (dget claims ''acting_sub'')"

definition trusted_platform_context :: "'w diagnostics \<Rightarrow> pyval \<Rightarrow> string \<Rightarrow> (key_cache \<times> 'w, (string \<times> string) option) io" where
  "trusted_platform_context dg headers tool_name =
     (case diag_bearer_token headers of
        None \<Rightarrow> io_return None
      | Some token \<Rightarrow>
          io_bind (diag_signing_key dg) (\<lambda>key. case key of
              None \<Rightarrow> io_return None
            | Some signing_key \<Rightarrow>
                io_try (on_world (dg_decode dg token signing_key (''tool:'' @ tool_name)
                          (env_or (dg_env dg) ''SCOPED_TOKEN_ISSUER'' ''platform-gateway''))) (\<lambda>r. case r of
                    Inl e \<Rightarrow> if dg_is_jwt_error dg e then io_return None else io_raise e
                  | Inr claims \<Rightarrow> io_return
                      (if claims_trusted tool_name claims then Some (py_str (dget claims ''tenantid''), py_str (dget claims ''appid''))
                       else None))))"

section \<open>Reading the invocations\<close>

definition status_value :: "pydict \<Rightarrow> string" where
  "status_value item = py_lower (py_str (dget_or item ''status'' (PStr [])))"

definition is_error_item :: "pydict \<Rightarrow> bool" where
  "is_error_item item \<longleftrightarrow> status_value item \<in> set error_statuses"

definition tenant_id_of_item :: "pydict \<Rightarrow> string option" where
  "tenant_id_of_item item =
     (let raw = py_or (dget item ''tenantId'') (dget item ''tenant_id'');
          pk = py_str (dget_or item ''PK'' (PStr []));
          raw = (if truthy raw then raw else if starts_with pk ''TENANT#'' then PStr (remove_prefix pk ''TENANT#'') else PNone)
      in if truthy raw \<and> raw \<noteq> PStr ''platform'' then Some (py_str raw) else None)"

definition tenant_ids_of :: "pydict list \<Rightarrow> string list" where
  "tenant_ids_of items = sort_by str_le (remdups (List.map_filter tenant_id_of_item items))"

definition diag_tenant_ids :: "'w diagnostics \<Rightarrow> ('w, string list) loop" where
  "diag_tenant_ids dg =
     loop_bind (cp_scan_all (dg_aws dg) (diag_tenants_table (dg_env dg)) (Some (KwCond (AttrEq ''SK'' ''METADATA''))) None None) (\<lambda>items.
       loop_ends (io_return (tenant_ids_of items)))"

definition since_key :: "rat \<Rightarrow> condition" where
  "since_key since = KeyGt ''SK'' (''INV#'' @ isoformat_utc since)"

definition tenant_recent :: "'w diagnostics \<Rightarrow> string \<Rightarrow> rat \<Rightarrow> ('w, pydict list) loop" where
  "tenant_recent dg tenant_id since =
     cp_query_all (dg_aws dg) (diag_invocations_table (dg_env dg)) (Some (''TENANT#'' @ tenant_id)) None (Some (since_key since)) None None False []"

fun recent_of_tenants :: "'w diagnostics \<Rightarrow> rat \<Rightarrow> string list \<Rightarrow> ('w, pydict list) loop" where
  "recent_of_tenants dg since [] = loop_ends (io_return [])"
| "recent_of_tenants dg since (t # ts) =
     loop_bind (tenant_recent dg t since) (\<lambda>xs. loop_bind (recent_of_tenants dg since ts) (\<lambda>ys. loop_ends (io_return (xs @ ys))))"

definition recent_invocations :: "'w diagnostics \<Rightarrow> rat \<Rightarrow> ('w, pydict list \<times> string list) loop" where
  "recent_invocations dg since =
     loop_bind (diag_tenant_ids dg) (\<lambda>tenant_ids.
     loop_bind (recent_of_tenants dg since tenant_ids) (\<lambda>recent. loop_ends (io_return (recent, tenant_ids))))"

definition recent_error_invocations :: "'w diagnostics \<Rightarrow> rat \<Rightarrow> pyval \<Rightarrow> ('w, pydict list) loop" where
  "recent_error_invocations dg since tenant_id =
     loop_bind
       (if truthy tenant_id then tenant_recent dg (py_str tenant_id) since
        else loop_bind (recent_invocations dg since) (\<lambda>(recent, ids). loop_ends (io_return recent)))
       (\<lambda>candidates. loop_ends (io_return (filter is_error_item candidates)))"

definition format_invocation_error :: "pydict \<Rightarrow> pyval" where
  "format_invocation_error item =
     (let either = (\<lambda>a b. py_or (dget item a) (dget item b)) in
      PDict [(''timestamp'', dget item ''timestamp''), (''type'', PStr ''invocation_error''), (''tenantId'', either ''tenant_id'' ''tenantId''),
             (''appId'', either ''app_id'' ''appId''), (''agentName'', either ''agent_name'' ''agentName''),
             (''runtimeRegion'', either ''runtime_region'' ''runtimeRegion''), (''status'', PStr (status_value item)),
             (''errorCode'', either ''error_code'' ''errorCode'')])"

section \<open>The reports\<close>

definition health_signals :: "string \<Rightarrow> string \<Rightarrow> pydict" where
  "health_signals region_status reason =
     [(''source'', PStr ''platform-invocations''),
      (''regions'', PList [PDict [(''region'', PStr serving_runtime_region), (''status'', PStr region_status)]]),
      (''services'', PDict [(''RuntimeInvocations'', PStr region_status)]),
      (''signals'', PList [PDict [(''name'', PStr ''recent_invocations''), (''source'', PStr ''platform-invocations''),
         (''state'', PStr region_status), (''reason'', PStr reason)]])]"

text \<open>The status, that of the region, and the reason.\<close>

definition health_verdict :: "string list \<Rightarrow> pydict list \<Rightarrow> string \<times> string \<times> string" where
  "health_verdict tenant_ids recent =
     (if tenant_ids = [] then (''unknown'', ''unknown'', ''not_configured'')
      else if recent = [] then (''unknown'', ''unknown'', ''no_recent_invocations'')
      else if length (filter is_error_item recent) \<noteq> 0 then (''degraded'', ''degraded'', ''recent_invocation_errors'')
      else (''healthy'', ''operational'', ''recent_invocations_successful''))"

definition health_answer :: "rat \<Rightarrow> (pydict list \<times> string list) res \<Rightarrow> pydict" where
  "health_answer now r =
     (case r of
        Inl e \<Rightarrow> [(''status'', PStr ''unknown'')] @ health_signals ''unknown'' ''signal_unavailable'' @ [(''timestamp'', PStr (isoformat_utc now))]
      | Inr (recent, tenant_ids) \<Rightarrow>
          (let (status, region_status, reason) = health_verdict tenant_ids recent in
           [(''status'', PStr status)] @ health_signals region_status reason
           @ [(''summary'', PDict [(''configuredTenants'', PInt (int (length tenant_ids))), (''recentInvocations'', PInt (int (length recent))),
                (''errors'', PInt (int (length (filter is_error_item recent)))), (''windowMinutes'', PInt health_window_minutes)]),
              (''timestamp'', PStr (isoformat_utc now))]))"

definition get_platform_health :: "'w diagnostics \<Rightarrow> ('w, pydict) loop" where
  "get_platform_health dg =
     loop_bind (loop_ends (dg_clock dg)) (\<lambda>now.
     loop_try (recent_invocations dg (now - of_int (60 * health_window_minutes))) (\<lambda>r. loop_ends (io_return (health_answer now r))))"

definition get_tenant_status_report :: "'w diagnostics \<Rightarrow> pyval \<Rightarrow> ('w, pydict) io" where
  "get_tenant_status_report dg tenant_id =
     (let tid = py_str tenant_id in
      io_bind (cp_get_item (dg_aws dg) (diag_tenants_table (dg_env dg)) [(''PK'', PStr (''TENANT#'' @ tid)), (''SK'', PStr ''METADATA'')] []) (\<lambda>found.
      case found of
        Some (f # fs) \<Rightarrow>
          (let tenant = f # fs in
           io_bind (dg_clock dg) (\<lambda>now.
           io_bind (cp_query (dg_aws dg) (diag_invocations_table (dg_env dg)) (Some (''TENANT#'' @ tid)) None
                      \<lparr>qa_sk = Some (since_key (now - 3600)), qa_filter = None, qa_index = None, qa_limit = Some 20, qa_forward = False,
                       qa_start = None, qa_extra = []\<rparr>) (\<lambda>page.
           io_return
             [(''tenantId'', tenant_id),
              (''displayName'', py_or (dget tenant ''displayName'') (dget_or tenant ''display_name'' (PStr ''Unknown''))),
              (''status'', dget_or tenant ''status'' (PStr ''active'')), (''tier'', dget_or tenant ''tier'' (PStr ''basic'')),
              (''recentInvocations'', PInt (int (length (pi_items page)))),
              (''lastUpdated'', py_or (dget tenant ''updatedAt'') (dget tenant ''updated_at''))])))
      | _ \<Rightarrow> io_return [(''error'', PStr (''Tenant '' @ tid @ '' not found''))]))"

definition errors_answer :: "pydict list res \<Rightarrow> pydict" where
  "errors_answer r =
     (case r of
        Inl e \<Rightarrow> [(''events'', PList []), (''count'', PInt 0), (''source'', PStr ''platform-invocations''), (''status'', PStr ''unknown''),
                  (''reason'', PStr ''signal_unavailable'')]
      | Inr items \<Rightarrow>
          [(''events'', PList (map format_invocation_error items)), (''count'', PInt (int (length items))),
           (''source'', PStr ''platform-invocations''), (''status'', PStr ''ok'')])"

definition get_recent_errors :: "'w diagnostics \<Rightarrow> pyval \<Rightarrow> ('w, pydict) loop" where
  "get_recent_errors dg tenant_id =
     loop_bind (loop_ends (dg_clock dg)) (\<lambda>now.
     loop_try (recent_error_invocations dg (now - of_int (60 * recent_errors_window_minutes)) tenant_id) (\<lambda>r.
       loop_ends (io_return (errors_answer r))))"

section \<open>The handler\<close>

definition rpc_result :: "pydict \<Rightarrow> pydict \<Rightarrow> pydict" where
  "rpc_result event result = [(''jsonrpc'', PStr ''2.0''), (''id'', dget event ''id''), (''result'', PDict result)]"

definition rpc_error :: "pydict \<Rightarrow> int \<Rightarrow> string \<Rightarrow> pydict" where
  "rpc_error event code message =
     [(''jsonrpc'', PStr ''2.0''), (''id'', dget event ''id''), (''error'', PDict [(''code'', PInt code), (''message'', PStr message)])]"

text \<open>The name of the tool and its arguments.\<close>

definition tool_call :: "pydict \<Rightarrow> (pyval \<times> pyval) res" where
  "tool_call event =
     (let params = dget_or event ''params'' (PDict []) in
      if dget event ''method'' = PStr ''tools/call''
      then bind_res (need_dict params) (\<lambda>p. Inr (dget p ''name'', dget_or p ''arguments'' (PDict [])))
      else Inr (dget event ''method'', params))"

definition tenant_argument :: "pyval \<Rightarrow> pyval res" where
  "tenant_argument tool_params = bind_res (need_dict tool_params) (\<lambda>p. Inr (py_or (dget p ''tenant_id'') (dget p ''tenantId'')))"

text \<open>The result of a tool, or nothing for a name that is no tool.\<close>

definition run_tool :: "'w diagnostics \<Rightarrow> string \<Rightarrow> pyval \<Rightarrow> ('w, pydict option) loop" where
  "run_tool dg tool_name tool_params =
     (let found = (\<lambda>m. loop_bind m (\<lambda>r. loop_ends (io_return (Some r)))) in
      if tool_name = ''get_platform_health'' then found (get_platform_health dg)
      else if tool_name = ''get_tenant_status''
      then found (loop_bind (loop_ends (io_lift (tenant_argument tool_params))) (\<lambda>tid.
             loop_ends (if \<not> truthy tid then io_raise (ValueError ''tenant_id is required'') else get_tenant_status_report dg tid)))
      else if tool_name = ''get_recent_errors''
      then found (loop_bind (loop_ends (io_lift (tenant_argument tool_params))) (\<lambda>tid. get_recent_errors dg tid))
      else if tool_name = ''get_runbook_guidance''
      then found (loop_ends (io_lift (bind_res (need_dict tool_params) (\<lambda>p.
             get_runbook_guidance (dget p ''query'') (py_or (dget p ''runbook_id'') (dget p ''runbookId''))))))
      else loop_ends (io_return None))"

definition tool_answer :: "'w diagnostics \<Rightarrow> pydict \<Rightarrow> string \<Rightarrow> pydict option res \<Rightarrow> pydict" where
  "tool_answer dg event tool_name r =
     (case r of
        Inl e \<Rightarrow> rpc_error event (-32603) (dg_text dg e)
      | Inr None \<Rightarrow> rpc_error event (-32601) (''Method not found: '' @ tool_name)
      | Inr (Some result) \<Rightarrow> rpc_result event result)"

definition loop_on_world :: "('w, 'a) loop \<Rightarrow> ('c \<times> 'w, 'a) loop" where
  "loop_on_world m s = (case m (snd s) of None \<Rightarrow> None | Some (r, w) \<Rightarrow> Some (r, (fst s, w)))"

definition diagnostics_handler :: "'w diagnostics \<Rightarrow> pydict \<Rightarrow> (key_cache \<times> 'w, pydict) loop" where
  "diagnostics_handler dg event =
     loop_bind (loop_ends (io_lift (tool_call event))) (\<lambda>(name, tool_params).
       case name of
         PStr (c # cs) \<Rightarrow>
           loop_bind (loop_ends (trusted_platform_context dg (py_or (dget event ''headers'') (PDict [])) (c # cs))) (\<lambda>context.
             case context of
               None \<Rightarrow> loop_ends (io_return (rpc_error event (-32003) ''Access denied: trusted scoped token required''))
             | Some who \<Rightarrow>
                 loop_try (loop_on_world (run_tool dg (c # cs) tool_params)) (\<lambda>r. loop_ends (io_return (tool_answer dg event (c # cs) r))))
       | v \<Rightarrow> loop_ends (io_return (rpc_error event (-32601) (''Method not found: '' @ py_str v))))"

section \<open>What reaches the tools\<close>

lemma answered_with_result:
  assumes "diagnostics_handler dg event s = Some (Inr answer, s')" and "dict_get answer ''result'' \<noteq> None"
  shows "\<exists>c cs tool_params who s1. tool_call event = Inr (PStr (c # cs), tool_params)
    \<and> trusted_platform_context dg (py_or (dget event ''headers'') (PDict [])) (c # cs) s = (Inr (Some who), s1)"
proof -
  have no_result: "dict_get (rpc_error event code m) ''result'' = None" for code m by (simp add: rpc_error_def dict_get_def)
  obtain name tool_params where call: "tool_call event = Inr (name, tool_params)"
    using assms(1) by (cases "tool_call event") (auto simp: diagnostics_handler_def loop_bind_def loop_ends_def)
  obtain c cs where name: "name = PStr (c # cs)"
  proof (cases "\<exists>c cs. name = PStr (c # cs)")
    case False
    then have "answer = rpc_error event (-32601) (''Method not found: '' @ py_str name)"
      using assms(1) call by (auto simp: diagnostics_handler_def loop_bind_def loop_ends_def split: pyval.splits list.splits)
    with assms(2) no_result show ?thesis by simp
  qed (use that in blast)
  obtain r s1 where trust: "trusted_platform_context dg (py_or (dget event ''headers'') (PDict [])) (c # cs) s = (r, s1)" by (metis surj_pair)
  obtain who where "r = Inr (Some who)"
  proof (cases r)
    case (Inl e)
    with assms(1) call name trust show ?thesis by (simp add: diagnostics_handler_def loop_bind_def loop_ends_def)
  next
    case (Inr found)
    with assms call name trust no_result that show ?thesis
      by (cases found) (auto simp: diagnostics_handler_def loop_bind_def loop_ends_def)
  qed
  with call name trust show ?thesis by blast
qed

text \<open>
  What is relied on of the JWT library: an encoded token is a text without white space at its ends, and a decoded one gives the claims
  it was made of, for the audience they name.
\<close>

definition scoped_jwt_ok :: "'w diagnostics \<Rightarrow> (pydict \<Rightarrow> string \<Rightarrow> string) \<Rightarrow> bool" where
  "scoped_jwt_ok dg encode \<longleftrightarrow>
     (\<forall>claims key. py_strip (encode claims key) = encode claims key)
   \<and> (\<forall>claims key key' tool_name issuer w c w'.
        dg_decode dg (encode claims key) key' (''tool:'' @ tool_name) issuer w = (Inr c, w') \<longrightarrow>
          c = claims \<and> dget claims ''aud'' = PStr (''tool:'' @ tool_name))"

definition every_authorization :: "pydict \<Rightarrow> string \<Rightarrow> bool" where
  "every_authorization headers token \<longleftrightarrow> (\<forall>(k, v) \<in> set headers. py_lower k = ''authorization'' \<longrightarrow> v = PStr (''Bearer '' @ token))"

lemma bearer_of_every:
  assumes "every_authorization headers token" and "py_strip token = token" and "diag_bearer_token (PDict headers) = Some t"
  shows "t = token"
proof -
  have low: "py_lower ''Authorization'' = ''authorization''" by code_simp
  obtain h where h: "diag_header (PDict headers) ''Authorization'' = Some h" and t: "starts_with h ''Bearer ''" "py_strip (drop (length ''Bearer '') h) = t"
    using assms(3) by (auto simp: diag_bearer_token_def Let_def split: option.splits if_splits)
  obtain k v where "find (\<lambda>(k, v). py_lower k = ''authorization'' \<and> v \<noteq> PNone) headers = Some (k, v)" "h = py_str v"
    using h by (auto simp: diag_header_def low)
  then have "(k, v) \<in> set headers" "py_lower k = ''authorization''" by (auto simp: find_Some_iff in_set_conv_nth)
  with assms(1) have "v = PStr (''Bearer '' @ token)" by (auto simp: every_authorization_def)
  with t \<open>h = py_str v\<close> assms(2) show ?thesis by simp
qed

lemma trusted_claims_of_token:
  assumes "scoped_jwt_ok dg encode" and "every_authorization headers (encode claims key)"
    and "trusted_platform_context dg (PDict headers) tool_name s = (Inr (Some who), s')"
  shows "claims_trusted tool_name claims \<and> dget claims ''aud'' = PStr (''tool:'' @ tool_name)"
proof -
  have stripped: "py_strip (encode claims key) = encode claims key" using assms(1) by (simp add: scoped_jwt_ok_def)
  obtain t where t: "diag_bearer_token (PDict headers) = Some t"
    using assms(3) by (cases "diag_bearer_token (PDict headers)") (simp_all add: trusted_platform_context_def)
  then have token: "t = encode claims key" using bearer_of_every[OF assms(2) stripped] by blast
  obtain key' s1 r s2 where decoded: "on_world (dg_decode dg (encode claims key) key' (''tool:'' @ tool_name)
        (env_or (dg_env dg) ''SCOPED_TOKEN_ISSUER'' ''platform-gateway'')) s1 = (r, s2)"
    and outcome: "(case r of Inl e \<Rightarrow> if dg_is_jwt_error dg e then io_return None else io_raise e
        | Inr c \<Rightarrow> io_return (if claims_trusted tool_name c then Some (py_str (dget c ''tenantid''), py_str (dget c ''appid'')) else None)) s2
        = (Inr (Some who), s')"
    using assms(3) t token
    by (auto simp: trusted_platform_context_def io_bind_def io_try_def split: prod.splits sum.splits option.splits)
  obtain c where c: "r = Inr c" using outcome by (cases r) (auto split: if_splits)
  with outcome have "claims_trusted tool_name c" by (simp split: if_splits)
  moreover have "c = claims \<and> dget claims ''aud'' = PStr (''tool:'' @ tool_name)"
    using assms(1) decoded c unfolding scoped_jwt_ok_def on_world_def by (fastforce split: prod.splits)
  ultimately show ?thesis by blast
qed

lemma scoped_claims_trusted:
  "claims_trusted tool_name (scoped_claims issuer now ttl jti tenant_id app_id tier acting_sub scope_tool session_id request_id)
     \<longleftrightarrow> tenant_id = ''platform'' \<and> app_id \<noteq> [] \<and> scope_tool = tool_name \<and> acting_sub \<noteq> []"
  by (auto simp: claims_trusted_def scoped_claims_def dget_or_def)

text \<open>The tool a request of the gateway is about, which its scoped token names.\<close>

definition called_tool :: "pydict \<Rightarrow> string" where
  "called_tool gr =
     (case extract_tool_name (request_method gr) (request_body_of gr) of
        None \<Rightarrow> request_method gr
      | Some n \<Rightarrow> if n = [] then request_method gr else n)"

lemma forwarded_token:
  assumes "process_request g event s = (Inr out, s')" and "is_forward out"
  shows "\<exists>auth payload s1 issuer now ttl jti tier sub session_id request_id key.
      gw_get_header (request_headers_of (event_gateway_request event)) ''Authorization'' = Some auth
    \<and> on_world (validate_bearer_token g (split_max (CHR '' '') 1 auth ! 1)) s = (Inr (Some payload), s1)
    \<and> every_authorization (out_headers out) (gw_encode g (scoped_claims issuer now ttl jti (acting_tenant (event_gateway_request event) payload)
         (claim_text payload ''appid'' []) tier sub (called_tool (event_gateway_request event)) session_id request_id) key)"
proof -
  let ?gr = "event_gateway_request event"
  from process_forward[OF assms] obtain auth payload s1 where verified:
    "gw_get_header (request_headers_of ?gr) ''Authorization'' = Some auth"
    "on_world (validate_bearer_token g (split_max (CHR '' '') 1 auth ! 1)) s = (Inr (Some payload), s1)"
    and run: "authorise_request g ?gr payload s1 = (Inr out, s')" by blast
  from authorise_forward[OF run assms(2)] obtain tn s2 token injected where
    admitted: "on_world (validate_tool_access (gw_aws g) (gw_sha g) (env_or (gw_env g) ''TOOLS_TABLE'' ''platform-tools'') (gw_policy g)
                  (request_method ?gr) (request_body_of ?gr) ?gr (dget (request_body_of ?gr) ''id'')
                  (acting_tenant ?gr payload) (claim_text payload ''tier'' ''basic'')) s1 = (Inr (tn, None), s2)"
    and issued: "issue_scoped_token g (acting_tenant ?gr payload) (claim_text payload ''appid'' [])
         (claim_text payload ''tier'' ''basic'') (claim_text payload ''sub'' ''unknown'')
         (case tn of None \<Rightarrow> request_method ?gr | Some n \<Rightarrow> if n = [] then request_method ?gr else n)
         (gw_get_header (request_headers_of ?gr) ''Mcp-Session-Id'') (dget (request_body_of ?gr) ''id'') s2 = (Inr token, s')"
    and injected: "injected_headers token (acting_tenant ?gr payload) (claim_text payload ''appid'' [])
         (claim_text payload ''tier'' ''basic'') (claim_text payload ''sub'' ''unknown'') = Inr injected"
    and out: "out_headers out = map (\<lambda>(k, v). (k, PStr v)) (transformed_headers (request_headers_of ?gr) injected)" by blast
  have named: "tn = extract_tool_name (request_method ?gr) (request_body_of ?gr)"
  proof (cases "request_method ?gr = ''tools/call''")
    case True
    with admitted show ?thesis by (auto simp: on_world_def split: prod.splits dest!: validate_tool_access_call)
  next
    case False
    with admitted show ?thesis by (auto simp: on_world_def validate_tool_access_def)
  qed
  obtain key where token: "token = gw_encode g (scoped_claims (env_or (gw_env g) ''SCOPED_TOKEN_ISSUER'' ''platform-gateway'')
      (trunc_rat (gw_now g)) (scoped_token_ttl_seconds (gw_env g)) (gw_uuid g) (acting_tenant ?gr payload) (claim_text payload ''appid'' [])
      (claim_text payload ''tier'' ''basic'') (claim_text payload ''sub'' ''unknown'') (called_tool ?gr)
      (gw_get_header (request_headers_of ?gr) ''Mcp-Session-Id'') (dget (request_body_of ?gr) ''id'')) key"
    using issued unfolding issue_scoped_token_def called_tool_def named io_bind_def by (auto split: prod.splits sum.splits)
  have "every_authorization (out_headers out) token"
    using injected_headers_eq[OF injected] by (auto simp: every_authorization_def out dest: transformed_headers_auth)
  with verified token show ?thesis by blast
qed

text \<open>
  Property C27. From the gateway to the tools: when a diagnostics tool answers a request that carries the headers the gateway passed on, the
  request was for that very tool, and the verified token of the caller either belongs to the platform's own tenant or names an operator
  role for one of the four diagnostics tools. A scoped token of another tenant or for another tool opens none of them.
\<close>

theorem diagnostics_only_for_operators:
  assumes "process_request g event s = (Inr out, s')" and "is_forward out" and "scoped_jwt_ok dg (gw_encode g)"
    and "dget rq ''headers'' = PDict (out_headers out)"
    and "diagnostics_handler dg rq t = Some (Inr answer, t')" and "dict_get answer ''result'' \<noteq> None"
  shows "\<exists>auth payload s1 tool_params.
      gw_get_header (request_headers_of (event_gateway_request event)) ''Authorization'' = Some auth
    \<and> on_world (validate_bearer_token g (split_max (CHR '' '') 1 auth ! 1)) s = (Inr (Some payload), s1)
    \<and> tool_call rq = Inr (PStr (called_tool (event_gateway_request event)), tool_params)
    \<and> (claim_text payload ''tenantid'' [] = ''platform''
       \<or> (called_tool (event_gateway_request event) \<in> set platform_diagnostics_tools
          \<and> (\<exists>r \<in> set (roles_from_payload payload). r = ''Platform.Admin'' \<or> r = ''Platform.Operator'')))"
proof -
  let ?gr = "event_gateway_request event"
  from forwarded_token[OF assms(1,2)] obtain auth payload s1 issuer now ttl jti tier sub session_id request_id key where verified:
    "gw_get_header (request_headers_of ?gr) ''Authorization'' = Some auth"
    "on_world (validate_bearer_token g (split_max (CHR '' '') 1 auth ! 1)) s = (Inr (Some payload), s1)"
    and carried: "every_authorization (out_headers out) (gw_encode g (scoped_claims issuer now ttl jti (acting_tenant ?gr payload)
         (claim_text payload ''appid'' []) tier sub (called_tool ?gr) session_id request_id) key)" by blast
  from answered_with_result[OF assms(5,6)] obtain c cs tool_params who t1 where
    call: "tool_call rq = Inr (PStr (c # cs), tool_params)"
    and trust: "trusted_platform_context dg (py_or (PDict (out_headers out)) (PDict [])) (c # cs) t = (Inr (Some who), t1)"
    unfolding assms(4) by blast
  have "py_or (PDict (out_headers out)) (PDict []) = PDict (out_headers out)" by (simp add: py_or_def)
  from trusted_claims_of_token[OF assms(3) carried trust[unfolded this]]
  have acting: "acting_tenant ?gr payload = ''platform''" and tool: "called_tool ?gr = c # cs" by (simp_all add: scoped_claims_trusted)
  from platform_only_for_operators[OF acting] have "claim_text payload ''tenantid'' [] = ''platform''
       \<or> (called_tool ?gr \<in> set platform_diagnostics_tools
          \<and> (\<exists>r \<in> set (roles_from_payload payload). r = ''Platform.Admin'' \<or> r = ''Platform.Operator''))"
    by (auto simp: called_tool_def platform_diagnostics_tools_def)
  with verified call[folded tool] show ?thesis by blast
qed

section \<open>A concrete gateway with its tools\<close>

text \<open>Tokens that are the text of their claims.\<close>

definition sample_encode :: "pydict \<Rightarrow> string \<Rightarrow> string" where
  "sample_encode claims key = (if json_clean (PDict claims) then json_dumps (PDict claims) else ''?'')"

definition sample_decode :: "string \<Rightarrow> string \<Rightarrow> string \<Rightarrow> string \<Rightarrow> (nat, pydict) io" where
  "sample_decode token key audience issuer =
     (case json_loads token of
        Inr (PDict claims) \<Rightarrow> if dget claims ''aud'' = PStr audience then io_return claims else io_raise (ExternalErr ''InvalidAudienceError'')
      | _ \<Rightarrow> io_raise (ExternalErr ''DecodeError''))"

definition sample_tools :: "nat diagnostics" where
  "sample_tools = \<lparr>dg_aws = gw_store, dg_env = gw_sample_env, dg_clock = io_return 90, dg_get_secret = (\<lambda>a. io_return None),
     dg_decode = sample_decode, dg_is_jwt_error = (\<lambda>e. True), dg_text = (\<lambda>e. [])\<rparr>"

lemma stripped_object: "py_strip (CHR 0x7B # s @ [CHR 0x7D]) = CHR 0x7B # s @ [CHR 0x7D]"
proof -
  have "\<not> py_space (CHR 0x7B)" "\<not> py_space (CHR 0x7D)" by code_simp+
  then show ?thesis by (simp add: py_strip_def py_lstrip_def py_rstrip_def)
qed

lemma sample_jwt_ok: "scoped_jwt_ok sample_tools sample_encode"
proof -
  have "py_strip (sample_encode claims key) = sample_encode claims key" for claims key
  proof (cases "json_clean (PDict claims)")
    case True
    then show ?thesis using stripped_object by (simp add: sample_encode_def)
  next
    case False
    then have "sample_encode claims key = ''?''" unfolding sample_encode_def by (rule if_not_P)
    moreover have "py_strip ''?'' = ''?''" by code_simp
    ultimately show ?thesis by simp
  qed
  moreover have "c = claims \<and> dget claims ''aud'' = PStr (''tool:'' @ tool_name)"
    if "dg_decode sample_tools (sample_encode claims key) key' (''tool:'' @ tool_name) issuer w = (Inr c, w')" for claims key key' tool_name issuer w c w'
  proof (cases "json_clean (PDict claims)")
    case True
    with that json_roundtrip[OF True] show ?thesis
      by (simp add: sample_tools_def sample_decode_def sample_encode_def del: json_dumps.simps split: if_splits)
  next
    case False
    then have "sample_encode claims key = ''?''" unfolding sample_encode_def by (rule if_not_P)
    moreover have "is_err (json_loads ''?'')" by code_simp
    ultimately show ?thesis using that by (cases "json_loads ''?''") (simp_all add: sample_tools_def sample_decode_def)
  qed
  ultimately show ?thesis unfolding scoped_jwt_ok_def by blast
qed

definition operator_gateway :: "(nat, string) gateway" where
  "operator_gateway = gw_sample\<lparr>
     gw_aws := gw_store\<lparr>aw_get_item := \<lambda>t kw. io_return (Some [(''enabled'', PBool True)])\<rparr>,
     gw_jwt := \<lparr>jl_signing_key = (\<lambda>t. io_return ''key''),
       jl_decode = (\<lambda>t k a i. io_return [(''tenantid'', PStr ''acme''), (''appid'', PStr ''ops''), (''roles'', PStr ''Platform.Operator'')])\<rparr>,
     gw_encode := sample_encode\<rparr>"

definition guidance_request :: pydict where
  "guidance_request = [(''method'', PStr ''tools/call''), (''params'', PDict [(''name'', PStr ''get_runbook_guidance''),
     (''arguments'', PDict [(''runbookId'', PStr ''runbook-005'')])])]"

definition guidance_event :: pydict where
  "guidance_event = [(''mcp'', PDict [(''gatewayRequest'', PDict
     [(''headers'', PDict [(''Authorization'', PStr ''Bearer user'')]), (''body'', PDict guidance_request)])])]"

lemma guidance_run:
  "case process_request operator_gateway guidance_event ((None, 0), 0) of
     (Inr out, s') \<Rightarrow> is_forward out \<and>
       (case diagnostics_handler sample_tools (guidance_request @ [(''headers'', PDict (out_headers out))]) ((None, 0), 0) of
          Some (Inr answer, t') \<Rightarrow> dict_get answer ''result'' \<noteq> None
        | _ \<Rightarrow> False)
   | _ \<Rightarrow> False"
  by code_simp

theorem diagnostics_only_for_operators_witness:
  "\<exists>payload auth s1. on_world (validate_bearer_token operator_gateway (split_max (CHR '' '') 1 auth ! 1)) ((None, 0) :: key_cache, 0) = (Inr (Some payload), s1)
     \<and> (claim_text payload ''tenantid'' [] = ''platform''
       \<or> (called_tool (event_gateway_request guidance_event) \<in> set platform_diagnostics_tools
          \<and> (\<exists>r \<in> set (roles_from_payload payload). r = ''Platform.Admin'' \<or> r = ''Platform.Operator'')))"
proof -
  obtain out s' where forwarded: "process_request operator_gateway guidance_event ((None, 0), 0) = (Inr out, s')" "is_forward out"
    using guidance_run by (auto split: prod.splits sum.splits)
  let ?rq = "guidance_request @ [(''headers'', PDict (out_headers out))]"
  obtain answer t' where answered: "diagnostics_handler sample_tools ?rq ((None, 0), 0) = Some (Inr answer, t')" "dict_get answer ''result'' \<noteq> None"
    using guidance_run unfolding forwarded(1) by (auto split: prod.splits sum.splits option.splits)
  have jwt: "scoped_jwt_ok sample_tools (gw_encode operator_gateway)" using sample_jwt_ok by (simp add: operator_gateway_def)
  have headers: "dget ?rq ''headers'' = PDict (out_headers out)" by (simp add: guidance_request_def dget_or_def)
  from diagnostics_only_for_operators[OF forwarded jwt headers answered] show ?thesis by blast
qed

section \<open>The reports never fail\<close>

text \<open>
  While the clock answers, the reports on health and errors end with an answer whenever the reads end, and say so when the tables fail:
  \<open>unknown\<close>, never \<open>healthy\<close> or \<open>ok\<close>.
\<close>

theorem unreadable_is_unknown:
  assumes "dg_clock dg w = (Inr now, w1)" and "recent_invocations dg (now - 900) w1 = Some (Inl e, w2)"
  shows "\<exists>d. get_platform_health dg w = Some (Inr d, w2) \<and> dget d ''status'' = PStr ''unknown''"
    and "get_platform_health dg w = Some (Inr d, w2) \<Longrightarrow> dget d ''summary'' = PNone"
  using assms
  by (auto simp: get_platform_health_def loop_bind_def loop_ends_def loop_try_def health_window_minutes_def health_answer_def health_signals_def
      dget_or_def)

theorem healthy_means_no_errors:
  assumes "get_platform_health dg w = Some (Inr d, w')" and "dget d ''status'' = PStr ''healthy''"
  shows "\<exists>now w1 recent tenant_ids. dg_clock dg w = (Inr now, w1)
    \<and> recent_invocations dg (now - 900) w1 = Some (Inr (recent, tenant_ids), w')
    \<and> recent \<noteq> [] \<and> (\<forall>item \<in> set recent. status_value item \<notin> {''error'', ''timeout'', ''throttled''})"
proof -
  obtain now w1 where clock: "dg_clock dg w = (Inr now, w1)"
    using assms(1) by (auto simp: get_platform_health_def loop_bind_def loop_ends_def split: prod.splits sum.splits)
  obtain r w2 where read: "recent_invocations dg (now - 900) w1 = Some (r, w2)"
    using assms(1) clock
    by (auto simp: get_platform_health_def loop_bind_def loop_ends_def loop_try_def health_window_minutes_def split: option.splits prod.splits)
  have d: "d = health_answer now r" "w' = w2"
    using assms(1) clock read by (simp_all add: get_platform_health_def loop_bind_def loop_ends_def loop_try_def health_window_minutes_def)
  obtain recent tenant_ids where r: "r = Inr (recent, tenant_ids)"
    using assms(2) d(1) by (cases r) (auto simp: health_answer_def health_signals_def dget_or_def)
  have "fst (health_verdict tenant_ids recent) = ''healthy''"
    using assms(2) d(1) r by (simp add: health_answer_def dget_or_def split: prod.splits)
  then have "recent \<noteq> []" "filter is_error_item recent = []" by (auto simp: health_verdict_def split: if_splits)
  with clock read d(2) r show ?thesis by (fastforce simp: filter_empty_conv is_error_item_def error_statuses_def)
qed

end
