(* ===== verification/AgentManifest.thy ===== *)
theory AgentManifest
  imports BridgeDiscovery
begin

text \<open>
  The manifest of an agent (\<open>scripts/agent_manifest.py\<close>): the tables of \<open>pyproject.toml\<close> read with all their errors collected, and the
  contract an accepted manifest satisfies. The TOML parser is outside: it brings a table, a message, or finds no file.
\<close>

section \<open>The manifest\<close>

datatype toml_file = NoToml | BadToml string | Toml pydict

record agent_llm_config =
  lc_model_id :: "string option"
  lc_max_tokens :: "int option"

record agent_runtime_config =
  rc_entrypoint :: "string option"
  rc_protocol :: string
  rc_port :: int

record agent_evaluations_config =
  ec_threshold :: pyfloat
  ec_region :: string

record agent_manifest =
  am_project_name :: string
  am_version :: string
  am_name :: string
  am_owner_team :: string
  am_tier_minimum :: tenant_tier
  am_handler :: string
  am_invocation_mode :: invocation_mode
  am_streaming_enabled :: bool
  am_duration :: int
  am_deployment :: string
  am_runtime :: agent_runtime_config
  am_llm :: agent_llm_config
  am_evaluations :: agent_evaluations_config
  am_ag_ui :: agent_ag_ui_config

definition valid_deployment_types :: "string list" where
  "valid_deployment_types = [''container'', ''zip'']"

definition valid_runtime_protocols :: "string list" where
  "valid_runtime_protocols = [''a2a'', ''agui'', ''http'', ''mcp'']"

definition default_protocol_ports :: "(string \<times> int) list" where
  "default_protocol_ports = [(''http'', 8080), (''mcp'', 8000), (''a2a'', 9000), (''agui'', 8080)]"

definition default_evaluation_region :: string where
  "default_evaluation_region = ''eu-central-1''"

definition manifest_keys :: "string list" where
  "manifest_keys = [''name'', ''owner_team'', ''tier_minimum'', ''handler'', ''invocation_mode'', ''streaming_enabled'',
     ''estimated_duration_seconds'', ''llm'', ''deployment'', ''runtime'', ''evaluations'', ''ag_ui'']"

section \<open>Fields, each with the errors it adds\<close>

type_synonym 'a checked = "'a \<times> string list"

definition require_table :: "pydict \<Rightarrow> string \<Rightarrow> string \<Rightarrow> pydict checked" where
  "require_table data key table_label =
     (case as_dict (dget data key) of Some d \<Rightarrow> (d, []) | None \<Rightarrow> ([], [''Missing '' @ table_label @ '' section'']))"

definition optional_table :: "pydict \<Rightarrow> string \<Rightarrow> string \<Rightarrow> pydict checked" where
  "optional_table data key table =
     (case dget_or data key (PDict []) of
        PNone \<Rightarrow> ([], [])
      | PDict d \<Rightarrow> (d, [])
      | v \<Rightarrow> ([], [''Invalid '' @ table @ '': expected table, got '' @ type_name v]))"

definition missing_field :: "string \<Rightarrow> string \<Rightarrow> string" where
  "missing_field table key = ''Missing required field: '' @ table @ ''.'' @ key"

definition required_string :: "pydict \<Rightarrow> string \<Rightarrow> string \<Rightarrow> string checked" where
  "required_string data key table =
     (case dget data key of
        PStr s \<Rightarrow> if py_strip s = [] then ([], [missing_field table key]) else (py_strip s, [])
      | _ \<Rightarrow> ([], [missing_field table key]))"

definition invalid_field :: "string \<Rightarrow> string \<Rightarrow> string \<Rightarrow> string" where
  "invalid_field table key expected = ''Invalid '' @ table @ ''.'' @ key @ '': expected '' @ expected"

definition optional_string :: "pydict \<Rightarrow> string \<Rightarrow> string option \<Rightarrow> string \<Rightarrow> string option checked" where
  "optional_string data key dflt table =
     (case dget_or data key (opt_pstr dflt) of
        PNone \<Rightarrow> (None, [])
      | PStr s \<Rightarrow> if py_strip s = [] then (dflt, [invalid_field table key ''non-empty string'']) else (Some (py_strip s), [])
      | _ \<Rightarrow> (dflt, [invalid_field table key ''non-empty string'']))"

definition optional_bool :: "pydict \<Rightarrow> string \<Rightarrow> bool \<Rightarrow> string \<Rightarrow> bool checked" where
  "optional_bool data key dflt table =
     (case dget_or data key (PBool dflt) of
        PBool b \<Rightarrow> (b, [])
      | v \<Rightarrow> (dflt, [invalid_field table key (''bool, got '' @ type_name v)]))"

definition optional_int :: "pydict \<Rightarrow> string \<Rightarrow> int option \<Rightarrow> string \<Rightarrow> int option checked" where
  "optional_int data key dflt table =
     (case dget_or data key (case dflt of None \<Rightarrow> PNone | Some i \<Rightarrow> PInt i) of
        PNone \<Rightarrow> (None, [])
      | PInt i \<Rightarrow> (Some i, [])
      | v \<Rightarrow> (dflt, [invalid_field table key (''int, got '' @ type_name v)]))"

text \<open>An integer is taken as the float of its value.\<close>

definition optional_float :: "pydict \<Rightarrow> string \<Rightarrow> pyfloat \<Rightarrow> string \<Rightarrow> pyfloat checked" where
  "optional_float data key dflt table =
     (case dget_or data key (PFloat dflt) of
        PFloat f \<Rightarrow> (f, [])
      | PInt i \<Rightarrow> (FFin (of_int i) (show_int i @ ''.0''), [])
      | v \<Rightarrow> (dflt, [invalid_field table key (''number, got '' @ type_name v)]))"

definition required_enum :: "(string \<Rightarrow> 'a option) \<Rightarrow> 'a \<Rightarrow> string list \<Rightarrow> pydict \<Rightarrow> string \<Rightarrow> string \<Rightarrow> 'a checked" where
  "required_enum member first_member options data key table =
     (case dget data key of
        PStr s \<Rightarrow>
          if py_strip s = [] then (first_member, [missing_field table key])
          else (case member (py_strip s) of
                  Some m \<Rightarrow> (m, [])
                | None \<Rightarrow> (first_member,
                    [''Invalid '' @ table @ ''.'' @ key @ '': '' @ quoted_name s @ ''. Must be one of: '' @ str_join '', '' options]))
      | _ \<Rightarrow> (first_member, [missing_field table key]))"

definition res_option :: "'a res \<Rightarrow> 'a option" where
  "res_option r = (case r of Inl e \<Rightarrow> None | Inr x \<Rightarrow> Some x)"

definition check_unknown_keys :: "pydict \<Rightarrow> string list \<Rightarrow> string \<Rightarrow> string list" where
  "check_unknown_keys data allowed table =
     (let unknown = sort_by str_le (filter (\<lambda>k. k \<notin> set allowed) (remdups (map fst data))) in
      if unknown = [] then [] else [''Unknown keys in '' @ table @ '': '' @ str_join '', '' unknown])"

text \<open>The error \<open>m\<close> when the condition holds.\<close>

definition flag :: "bool \<Rightarrow> string \<Rightarrow> string list" where
  "flag b m = (if b then [m] else [])"

section \<open>The sections of a manifest\<close>

definition core_table :: string where
  "core_table = ''[tool.agentcore]''"

definition identity_errors :: "string \<Rightarrow> string \<Rightarrow> string \<Rightarrow> string \<Rightarrow> int option \<Rightarrow> string list" where
  "identity_errors agent project_name name hdl duration =
     flag (project_name \<noteq> [] \<and> project_name \<noteq> agent)
       (''Project name mismatch: [project].name '' @ quoted_name project_name @ '' does not match directory name '' @ quoted_name agent)
   @ flag (name \<noteq> [] \<and> name \<noteq> agent)
       (''Agent name mismatch: manifest name '' @ quoted_name name @ '' does not match directory name '' @ quoted_name agent)
   @ flag (project_name \<noteq> [] \<and> name \<noteq> [] \<and> project_name \<noteq> name)
       (''Name mismatch: [project].name '' @ quoted_name project_name @ '' does not match [tool.agentcore].name '' @ quoted_name name)
   @ flag (hdl \<noteq> [] \<and> CHR '':'' \<notin> set hdl)
       (''Invalid handler: [tool.agentcore].handler must be in '' @ quoted_name ''module:function'' @ '' form'')
   @ flag (case duration of None \<Rightarrow> False | Some d \<Rightarrow> d \<le> 0)
       ''Invalid estimated_duration_seconds: [tool.agentcore].estimated_duration_seconds must be greater than 0''"

definition read_llm :: "pydict \<Rightarrow> agent_llm_config checked" where
  "read_llm manifest =
     (let table = ''[tool.agentcore.llm]'';
          (llm, e1) = optional_table manifest ''llm'' table;
          (model_id, e2) = optional_string llm ''model_id'' None table;
          (max_tokens, e3) = optional_int llm ''max_tokens'' None table
      in (\<lparr>lc_model_id = model_id, lc_max_tokens = max_tokens\<rparr>,
          e1 @ check_unknown_keys llm [''model_id'', ''max_tokens''] table @ e2 @ e3
          @ flag (case max_tokens of None \<Rightarrow> False | Some m \<Rightarrow> m \<le> 0)
              ''Invalid max_tokens: [tool.agentcore.llm].max_tokens must be greater than 0''))"

definition must_be_one_of :: "string \<Rightarrow> string \<Rightarrow> string list \<Rightarrow> string" where
  "must_be_one_of what v options = ''Invalid '' @ what @ '': '' @ quoted_name v @ ''. Must be one of: '' @ str_join '', '' options"

text \<open>The default is a text, so the type always is one.\<close>

definition read_deployment :: "pydict \<Rightarrow> string checked" where
  "read_deployment manifest =
     (let table = ''[tool.agentcore.deployment]'';
          (deployment, e1) = optional_table manifest ''deployment'' table;
          (deployment_type, e2) = optional_string deployment ''type'' (Some ''zip'') table;
          t = opt_or deployment_type ''None''
      in (t, e1 @ check_unknown_keys deployment [''type''] table @ e2
             @ flag (t \<notin> set valid_deployment_types) (must_be_one_of ''deployment type'' t valid_deployment_types)))"

definition runtime_port_of :: "string \<Rightarrow> int option \<Rightarrow> int" where
  "runtime_port_of protocol port =
     (case port of
        Some p \<Rightarrow> if p \<noteq> 0 then p else (case map_of default_protocol_ports protocol of Some q \<Rightarrow> q | None \<Rightarrow> 8080)
      | None \<Rightarrow> (case map_of default_protocol_ports protocol of Some q \<Rightarrow> q | None \<Rightarrow> 8080))"

text \<open>The protocol as it was given, and with its default.\<close>

definition runtime_errors :: "string \<Rightarrow> string option \<Rightarrow> string \<Rightarrow> string \<Rightarrow> int option \<Rightarrow> string list" where
  "runtime_errors deployment_type entrypoint given protocol port =
     (let non_http = (protocol \<in> {''mcp'', ''a2a'', ''agui''}) in
      flag (given \<notin> set valid_runtime_protocols) (must_be_one_of ''runtime protocol'' given valid_runtime_protocols)
    @ flag (case port of None \<Rightarrow> False | Some p \<Rightarrow> \<not> (1 \<le> p \<and> p \<le> 65535))
        ''Invalid runtime port: [tool.agentcore.runtime].port must be 1-65535''
    @ flag (deployment_type = ''zip'' \<and> non_http)
        (''Invalid runtime protocol: ZIP deployment only supports [tool.agentcore.runtime].protocol = '' @ quoted_name ''http'')
    @ flag (deployment_type = ''zip'' \<and> entrypoint \<noteq> None)
        ''Invalid runtime entrypoint: [tool.agentcore.runtime].entrypoint is only supported for container deployments''
    @ flag (deployment_type = ''container'' \<and> non_http \<and> entrypoint = None)
        ''Missing runtime entrypoint: [tool.agentcore.runtime].entrypoint is required for non-HTTP container deployments''
    @ (case map_of default_protocol_ports protocol of
         None \<Rightarrow> []
       | Some expected \<Rightarrow> flag (runtime_port_of protocol port \<noteq> expected)
           (''Invalid runtime port: [tool.agentcore.runtime].protocol '' @ quoted_name protocol @ '' requires port '' @ show_int expected)))"

definition read_runtime :: "pydict \<Rightarrow> string \<Rightarrow> agent_runtime_config checked" where
  "read_runtime manifest deployment_type =
     (let table = ''[tool.agentcore.runtime]'';
          (runtime, e1) = optional_table manifest ''runtime'' table;
          (entrypoint, e2) = optional_string runtime ''entrypoint'' None table;
          (protocol, e3) = optional_string runtime ''protocol'' (Some ''http'') table;
          (port, e4) = optional_int runtime ''port'' None table;
          p = opt_or protocol ''http''
      in (\<lparr>rc_entrypoint = entrypoint, rc_protocol = p, rc_port = runtime_port_of p port\<rparr>,
          e1 @ check_unknown_keys runtime [''entrypoint'', ''protocol'', ''port''] table @ e2 @ e3 @ e4
          @ runtime_errors deployment_type entrypoint (opt_or protocol ''None'') p port))"

definition in_unit_interval :: "pyfloat \<Rightarrow> bool" where
  "in_unit_interval f \<longleftrightarrow> (case f of FFin r t \<Rightarrow> 0 \<le> r \<and> r \<le> 1 | _ \<Rightarrow> False)"

definition read_evaluations :: "pydict \<Rightarrow> agent_evaluations_config checked" where
  "read_evaluations manifest =
     (let table = ''[tool.agentcore.evaluations]'';
          (evaluations, e1) = optional_table manifest ''evaluations'' table;
          (threshold, e2) = optional_float evaluations ''threshold'' (FFin (8 / 10) ''0.8'') table;
          (region, e3) = optional_string evaluations ''evaluation_region'' (Some default_evaluation_region) table
      in (\<lparr>ec_threshold = threshold, ec_region = opt_or region default_evaluation_region\<rparr>,
          e1 @ check_unknown_keys evaluations [''threshold'', ''evaluation_region''] table @ e2 @ e3
          @ flag (\<not> in_unit_interval threshold) ''Invalid threshold: [tool.agentcore.evaluations].threshold must be 0.0-1.0''))"

definition read_ag_ui :: "pydict \<Rightarrow> string \<Rightarrow> agent_ag_ui_config checked" where
  "read_ag_ui manifest deployment_type =
     (let table = ''[tool.agentcore.ag_ui]'';
          (ag_ui, e1) = optional_table manifest ''ag_ui'' table;
          (enabled, e2) = optional_bool ag_ui ''enabled'' False table;
          (transport_raw, e3) = optional_string ag_ui ''transport'' (Some ''sse'') table;
          (endpoint, e4) = optional_string ag_ui ''endpoint'' None table;
          (transport, e5) = (case res_option (transport_of_text (opt_or transport_raw ''sse'')) of
              Some t \<Rightarrow> (t, [])
            | None \<Rightarrow> (AGUI_SSE, [''Invalid transport: [tool.agentcore.ag_ui].transport must be one of: sse, websocket'']))
      in (\<lparr>agui_enabled = enabled, agui_transport = transport, agui_endpoint = endpoint\<rparr>,
          e1 @ check_unknown_keys ag_ui [''enabled'', ''transport'', ''endpoint''] table @ e2 @ e3 @ e4 @ e5
          @ flag (enabled \<and> deployment_type \<noteq> ''container'')
              (''Invalid AG-UI configuration: [tool.agentcore.ag_ui].enabled requires [tool.agentcore.deployment].type = ''
               @ [CHR 0x22] @ ''container'' @ [CHR 0x22])
          @ flag (enabled \<and> endpoint = None)
              ''Missing required field: [tool.agentcore.ag_ui].endpoint when AG-UI is enabled''))"

section \<open>Loading\<close>

text \<open>The fields of the two tables, and every error in the order it is found.\<close>

definition read_fields :: "string \<Rightarrow> pydict \<Rightarrow> pydict \<Rightarrow> agent_manifest checked" where
  "read_fields agent project manifest =
     (let (project_name, e4) = required_string project ''name'' ''[project]'';
          (version, e5) = required_string project ''version'' ''[project]'';
          e6 = check_unknown_keys manifest manifest_keys core_table;
          (name, e7) = required_string manifest ''name'' core_table;
          (owner_team, e8) = required_string manifest ''owner_team'' core_table;
          (hdl, e9) = required_string manifest ''handler'' core_table;
          (tier, e10) = required_enum tier_of BASIC [''basic'', ''standard'', ''premium''] manifest ''tier_minimum'' core_table;
          (mode, e11) = required_enum (\<lambda>s. res_option (mode_of_text s)) MODE_SYNC [''sync'', ''streaming'', ''async'']
                          manifest ''invocation_mode'' core_table;
          (streaming, e12) = optional_bool manifest ''streaming_enabled'' False core_table;
          (duration, e13) = optional_int manifest ''estimated_duration_seconds'' (Some 5) core_table;
          e14 = identity_errors agent project_name name hdl duration;
          (llm, e15) = read_llm manifest;
          (deployment, e16) = read_deployment manifest;
          (runtime, e17) = read_runtime manifest deployment;
          (evaluations, e18) = read_evaluations manifest;
          (ag_ui, e19) = read_ag_ui manifest deployment
      in (\<lparr>am_project_name = project_name, am_version = version, am_name = name, am_owner_team = owner_team, am_tier_minimum = tier,
           am_handler = hdl, am_invocation_mode = mode, am_streaming_enabled = streaming,
           am_duration = (case duration of None \<Rightarrow> 5 | Some d \<Rightarrow> if d = 0 then 5 else d),
           am_deployment = deployment, am_runtime = runtime, am_llm = llm, am_evaluations = evaluations, am_ag_ui = ag_ui\<rparr>,
          e4 @ e5 @ e6 @ e7 @ e8 @ e9 @ e10 @ e11 @ e12 @ e13 @ e14 @ e15 @ e16 @ e17 @ e18 @ e19))"

definition read_manifest :: "string \<Rightarrow> pydict \<Rightarrow> agent_manifest checked" where
  "read_manifest agent data =
     (let (project, e1) = require_table data ''project'' ''[project]'';
          (tool_table, e2) = require_table data ''tool'' ''[tool]'';
          (manifest, e3) = require_table tool_table ''agentcore'' core_table;
          (m, errors) = read_fields agent project manifest
      in (m, e1 @ e2 @ e3 @ errors))"

text \<open>\<open>ManifestValidationError\<close> carries the list of errors.\<close>

definition load_agent_manifest :: "string \<Rightarrow> string \<Rightarrow> toml_file \<Rightarrow> string list + agent_manifest" where
  "load_agent_manifest agent toml_path file =
     (case file of
        NoToml \<Rightarrow> Inl [''pyproject.toml not found for agent '' @ quoted_name agent @ '' at '' @ toml_path]
      | BadToml m \<Rightarrow> Inl [''Failed to parse '' @ toml_path @ '': '' @ m]
      | Toml data \<Rightarrow> (case read_manifest agent data of (manifest, errors) \<Rightarrow> if errors \<noteq> [] then Inl errors else Inr manifest))"

section \<open>The contract\<close>

definition plain_text :: "string \<Rightarrow> bool" where
  "plain_text s \<longleftrightarrow> s \<noteq> [] \<and> py_strip s = s"

definition plain_option :: "string option \<Rightarrow> bool" where
  "plain_option v \<longleftrightarrow> (case v of None \<Rightarrow> True | Some s \<Rightarrow> plain_text s)"

definition llm_ok :: "agent_llm_config \<Rightarrow> bool" where
  "llm_ok c \<longleftrightarrow> plain_option (lc_model_id c) \<and> (case lc_max_tokens c of None \<Rightarrow> True | Some n \<Rightarrow> 0 < n)"

text \<open>Every protocol has its port; a ZIP deployment speaks HTTP and has no entry point, a container of another protocol has one.\<close>

definition runtime_ok :: "string \<Rightarrow> agent_runtime_config \<Rightarrow> bool" where
  "runtime_ok deployment c \<longleftrightarrow>
     map_of default_protocol_ports (rc_protocol c) = Some (rc_port c) \<and> plain_option (rc_entrypoint c)
   \<and> (if deployment = ''zip'' then rc_protocol c = ''http'' \<and> rc_entrypoint c = None
      else rc_protocol c = ''http'' \<or> rc_entrypoint c \<noteq> None)"

definition evaluations_ok :: "agent_evaluations_config \<Rightarrow> bool" where
  "evaluations_ok c \<longleftrightarrow> in_unit_interval (ec_threshold c) \<and> plain_text (ec_region c)"

definition ag_ui_ok :: "string \<Rightarrow> agent_ag_ui_config \<Rightarrow> bool" where
  "ag_ui_ok deployment c \<longleftrightarrow>
     plain_option (agui_endpoint c) \<and> (if agui_enabled c then deployment = ''container'' \<and> agui_endpoint c \<noteq> None else True)"

definition manifest_ok :: "string \<Rightarrow> agent_manifest \<Rightarrow> bool" where
  "manifest_ok agent m \<longleftrightarrow>
     plain_text agent \<and> am_project_name m = agent \<and> am_name m = agent \<and> plain_text (am_version m) \<and> plain_text (am_owner_team m)
   \<and> plain_text (am_handler m) \<and> CHR '':'' \<in> set (am_handler m) \<and> 0 < am_duration m \<and> am_deployment m \<in> {''zip'', ''container''}
   \<and> llm_ok (am_llm m) \<and> runtime_ok (am_deployment m) (am_runtime m) \<and> evaluations_ok (am_evaluations m)
   \<and> ag_ui_ok (am_deployment m) (am_ag_ui m)"

section \<open>What is read without errors\<close>

named_theorems checked_reads \<open>what a field that adds no error is\<close>

lemma flag_Nil [simp]: "flag b m = [] \<longleftrightarrow> \<not> b"
  by (simp add: flag_def)

lemma required_string_ok [checked_reads]: "snd (required_string d k t) = [] \<Longrightarrow> plain_text (fst (required_string d k t))"
  by (auto simp: required_string_def plain_text_def split: pyval.splits if_splits)

lemma plain_options [simp]: "plain_option None" "plain_option (Some s) \<longleftrightarrow> plain_text s"
  by (simp_all add: plain_option_def)

lemma optional_string_ok [checked_reads]:
  "snd (optional_string d k dflt t) = [] \<Longrightarrow> plain_option dflt \<Longrightarrow> plain_option (fst (optional_string d k dflt t))"
  by (auto simp: optional_string_def plain_text_def split: pyval.splits if_splits)

lemma plain_defaults [simp]: "plain_text ''zip''" "plain_text ''http''" "plain_text ''sse''" "plain_text default_evaluation_region"
  by code_simp+

lemma plain_opt_or: "plain_option v \<Longrightarrow> plain_text s \<Longrightarrow> plain_text (opt_or v s)"
  by (auto simp: opt_or_def split: option.splits)

lemma read_llm_ok [checked_reads]: "snd (read_llm manifest) = [] \<Longrightarrow> llm_ok (fst (read_llm manifest))"
  by (simp add: read_llm_def llm_ok_def Let_def case_prod_beta optional_string_ok split: option.splits)

lemma read_deployment_ok: "snd (read_deployment manifest) = [] \<Longrightarrow> fst (read_deployment manifest) \<in> {''zip'', ''container''}"
  by (auto simp: read_deployment_def valid_deployment_types_def Let_def case_prod_beta)

lemma protocol_ports: "p \<in> set valid_runtime_protocols \<Longrightarrow> \<exists>q. map_of default_protocol_ports p = Some q"
  by (auto simp: valid_runtime_protocols_def default_protocol_ports_def)

lemma runtime_errors_ok:
  assumes "runtime_errors deployment entrypoint (opt_or protocol ''None'') (opt_or protocol ''http'') port = []"
    and "plain_option entrypoint" and "deployment \<in> {''zip'', ''container''}"
  shows "runtime_ok deployment \<lparr>rc_entrypoint = entrypoint, rc_protocol = opt_or protocol ''http'',
    rc_port = runtime_port_of (opt_or protocol ''http'') port\<rparr>"
proof -
  have given: "opt_or protocol ''None'' \<in> set valid_runtime_protocols" using assms(1) by (simp add: runtime_errors_def Let_def)
  have "''None'' \<notin> set valid_runtime_protocols" by code_simp
  with given obtain p where p: "opt_or protocol ''http'' = p" "p \<in> set valid_runtime_protocols"
    by (cases protocol) (auto simp: opt_or_def split: if_splits)
  obtain q where q: "map_of default_protocol_ports p = Some q" using protocol_ports[OF p(2)] by blast
  have port: "runtime_port_of p port = q" using assms(1) by (simp add: runtime_errors_def Let_def p(1) q)
  define non_http where "non_http \<longleftrightarrow> p \<in> {''mcp'', ''a2a'', ''agui''}"
  have zip: "deployment = ''zip'' \<Longrightarrow> \<not> non_http \<and> entrypoint = None"
    and container: "deployment = ''container'' \<Longrightarrow> non_http \<Longrightarrow> entrypoint \<noteq> None"
    using assms(1) unfolding runtime_errors_def Let_def p(1) non_http_def[symmetric] append_is_Nil_conv flag_Nil by (blast, simp)
  have "p \<in> {''mcp'', ''a2a'', ''agui''} \<or> p = ''http''" using p(2) by (auto simp: valid_runtime_protocols_def)
  then show ?thesis using assms(2,3) zip container q by (auto simp: runtime_ok_def p(1) port non_http_def)
qed

lemma read_runtime_ok:
  "snd (read_runtime manifest deployment) = [] \<Longrightarrow> deployment \<in> {''zip'', ''container''} \<Longrightarrow> runtime_ok deployment (fst (read_runtime manifest deployment))"
  unfolding read_runtime_def Let_def case_prod_beta fst_conv snd_conv
  by (rule runtime_errors_ok) (simp_all add: optional_string_ok)

lemma read_evaluations_ok [checked_reads]: "snd (read_evaluations manifest) = [] \<Longrightarrow> evaluations_ok (fst (read_evaluations manifest))"
  by (simp add: read_evaluations_def evaluations_ok_def Let_def case_prod_beta optional_string_ok plain_opt_or)

lemma read_ag_ui_ok [checked_reads]: "snd (read_ag_ui manifest deployment) = [] \<Longrightarrow> ag_ui_ok deployment (fst (read_ag_ui manifest deployment))"
  by (auto simp: read_ag_ui_def ag_ui_ok_def Let_def case_prod_beta optional_string_ok)

lemma identity_ok:
  assumes "identity_errors agent project_name name hdl duration = []" and "plain_text project_name" and "plain_text name" and "plain_text hdl"
  shows "project_name = agent \<and> name = agent \<and> CHR '':'' \<in> set hdl \<and> (case duration of None \<Rightarrow> True | Some d \<Rightarrow> 0 < d)"
  using assms by (auto simp: identity_errors_def plain_text_def split: option.splits)

lemma read_fields_ok:
  assumes "snd (read_fields agent project manifest) = []"
  shows "manifest_ok agent (fst (read_fields agent project manifest))"
proof -
  let ?duration = "fst (optional_int manifest ''estimated_duration_seconds'' (Some 5) core_table)"
  note parts = assms[unfolded read_fields_def Let_def case_prod_beta fst_conv snd_conv append_is_Nil_conv]
  have deployment: "fst (read_deployment manifest) \<in> {''zip'', ''container''}" using parts by (intro read_deployment_ok) (elim conjE)
  have texts: "plain_text (fst (required_string project ''name'' ''[project]''))" "plain_text (fst (required_string manifest ''name'' core_table))"
      "plain_text (fst (required_string manifest ''handler'' core_table))"
    using parts by (simp_all add: required_string_ok)
  have "identity_errors agent (fst (required_string project ''name'' ''[project]'')) (fst (required_string manifest ''name'' core_table))
      (fst (required_string manifest ''handler'' core_table)) ?duration = []" using parts by (elim conjE)
  note identity = identity_ok[OF this texts]
  show ?thesis
    unfolding manifest_ok_def
    using parts identity texts deployment
    by (auto simp: read_fields_def Let_def case_prod_beta checked_reads read_runtime_ok split: option.splits)
qed

lemma read_manifest_ok:
  assumes "read_manifest agent data = (m, [])"
  shows "manifest_ok agent m"
  using assms read_fields_ok by (fastforce simp: read_manifest_def Let_def case_prod_beta)

section \<open>Writing a manifest\<close>

text \<open>The document of a manifest, every field written out.\<close>

definition text_entry :: "string \<Rightarrow> string option \<Rightarrow> pydict" where
  "text_entry k v = (case v of None \<Rightarrow> [] | Some s \<Rightarrow> [(k, PStr s)])"

definition llm_toml :: "agent_llm_config \<Rightarrow> pydict" where
  "llm_toml c = text_entry ''model_id'' (lc_model_id c) @ (case lc_max_tokens c of None \<Rightarrow> [] | Some n \<Rightarrow> [(''max_tokens'', PInt n)])"

definition runtime_toml :: "agent_runtime_config \<Rightarrow> pydict" where
  "runtime_toml c = text_entry ''entrypoint'' (rc_entrypoint c) @ [(''protocol'', PStr (rc_protocol c)), (''port'', PInt (rc_port c))]"

definition evaluations_toml :: "agent_evaluations_config \<Rightarrow> pydict" where
  "evaluations_toml c = [(''threshold'', PFloat (ec_threshold c)), (''evaluation_region'', PStr (ec_region c))]"

definition ag_ui_toml :: "agent_ag_ui_config \<Rightarrow> pydict" where
  "ag_ui_toml c =
     [(''enabled'', PBool (agui_enabled c)), (''transport'', PStr (transport_value (agui_transport c)))] @ text_entry ''endpoint'' (agui_endpoint c)"

definition core_toml :: "agent_manifest \<Rightarrow> pydict" where
  "core_toml m =
     [(''name'', PStr (am_name m)), (''owner_team'', PStr (am_owner_team m)), (''tier_minimum'', PStr (tier_value (am_tier_minimum m))),
      (''handler'', PStr (am_handler m)), (''invocation_mode'', PStr (invocation_mode_value (am_invocation_mode m))),
      (''streaming_enabled'', PBool (am_streaming_enabled m)), (''estimated_duration_seconds'', PInt (am_duration m)),
      (''llm'', PDict (llm_toml (am_llm m))), (''deployment'', PDict [(''type'', PStr (am_deployment m))]),
      (''runtime'', PDict (runtime_toml (am_runtime m))), (''evaluations'', PDict (evaluations_toml (am_evaluations m))),
      (''ag_ui'', PDict (ag_ui_toml (am_ag_ui m)))]"

definition project_toml :: "agent_manifest \<Rightarrow> pydict" where
  "project_toml m = [(''name'', PStr (am_project_name m)), (''version'', PStr (am_version m))]"

definition manifest_toml :: "agent_manifest \<Rightarrow> pydict" where
  "manifest_toml m = [(''project'', PDict (project_toml m)), (''tool'', PDict [(''agentcore'', PDict (core_toml m))])]"

lemma known_keys: "fst ` set d \<subseteq> set allowed \<Longrightarrow> check_unknown_keys d allowed table = []"
proof -
  assume "fst ` set d \<subseteq> set allowed"
  then have "filter (\<lambda>k. k \<notin> set allowed) (remdups (map fst d)) = []" by (auto simp: filter_empty_conv)
  then show ?thesis by (simp add: check_unknown_keys_def sort_by_def)
qed

lemma keys_text_entry: "fst ` set (text_entry k v) \<subseteq> {k}"
  by (cases v) (simp_all add: text_entry_def)

lemma optional_table_of: "dget_or d k (PDict []) = PDict t \<Longrightarrow> optional_table d k label = (t, [])"
  by (simp add: optional_table_def)

lemma required_string_of: "dget d k = PStr s \<Longrightarrow> plain_text s \<Longrightarrow> required_string d k t = (s, [])"
  by (simp add: required_string_def plain_text_def)

lemma optional_string_of: "dget_or d k (opt_pstr dflt) = PStr s \<Longrightarrow> plain_text s \<Longrightarrow> optional_string d k dflt t = (Some s, [])"
  by (simp add: optional_string_def plain_text_def)

lemma plain_values [simp]: "plain_text (tier_value t)" "plain_text (invocation_mode_value md)" "plain_text (transport_value tr)"
proof -
  show "plain_text (tier_value t)" by (cases t; hypsubst; code_simp)
  show "plain_text (invocation_mode_value md)" by (cases md; hypsubst; code_simp)
  show "plain_text (transport_value tr)" by (cases tr; hypsubst; code_simp)
qed

lemma modes_of_values [simp]: "mode_of_text (invocation_mode_value md) = Inr md" "transport_of_text (transport_value tr) = Inr tr"
  by (cases md; hypsubst; code_simp) (cases tr; hypsubst; code_simp)

lemma read_llm_of:
  assumes "dget_or d ''llm'' (PDict []) = PDict (llm_toml c)" and "llm_ok c"
  shows "read_llm d = (c, [])"
proof -
  have "fst ` set (llm_toml c) \<subseteq> set [''model_id'', ''max_tokens'']"
    using keys_text_entry[of "''model_id''"] by (auto simp: llm_toml_def split: option.splits)
  note known = known_keys[OF this]
  have "optional_string (llm_toml c) ''model_id'' None t = (lc_model_id c, [])" for t
    using assms(2) by (cases "lc_model_id c"; cases "lc_max_tokens c")
      (auto simp: optional_string_def llm_toml_def llm_ok_def text_entry_def dget_or_def plain_text_def opt_pstr_def)
  moreover have "optional_int (llm_toml c) ''max_tokens'' None t = (lc_max_tokens c, [])" for t
    by (cases "lc_model_id c"; cases "lc_max_tokens c") (auto simp: optional_int_def llm_toml_def text_entry_def dget_or_def)
  moreover have "\<lparr>lc_model_id = lc_model_id c, lc_max_tokens = lc_max_tokens c\<rparr> = c" by (cases c) simp
  ultimately show ?thesis
    using assms(2) by (auto simp: read_llm_def Let_def optional_table_of[OF assms(1)] known llm_ok_def flag_def split: option.splits)
qed

lemma read_deployment_of:
  assumes "dget_or d ''deployment'' (PDict []) = PDict [(''type'', PStr t)]" and "t \<in> {''zip'', ''container''}"
  shows "read_deployment d = (t, [])"
proof -
  have "plain_text ''container''" by code_simp
  with assms(2) have "plain_text t" by auto
  then have "optional_string [(''type'', PStr t)] ''type'' (Some ''zip'') l = (Some t, [])" for l
    by (intro optional_string_of) (simp_all add: dget_or_def)
  moreover have "opt_or (Some t) ''None'' = t" using \<open>plain_text t\<close> by (simp add: opt_or_def plain_text_def)
  ultimately show ?thesis
    using assms(2) by (auto simp: read_deployment_def Let_def optional_table_of[OF assms(1)] known_keys valid_deployment_types_def)
qed

lemma read_evaluations_of:
  assumes "dget_or d ''evaluations'' (PDict []) = PDict (evaluations_toml c)" and "evaluations_ok c"
  shows "read_evaluations d = (c, [])"
proof -
  have "optional_string (evaluations_toml c) ''evaluation_region'' (Some default_evaluation_region) l = (Some (ec_region c), [])" for l
    using assms(2) by (intro optional_string_of) (simp_all add: dget_or_def evaluations_toml_def evaluations_ok_def)
  moreover have "optional_float (evaluations_toml c) ''threshold'' f l = (ec_threshold c, [])" for f l
    by (simp add: optional_float_def evaluations_toml_def dget_or_def)
  moreover have "fst ` set (evaluations_toml c) \<subseteq> set [''threshold'', ''evaluation_region'']" by (simp add: evaluations_toml_def)
  moreover have "\<lparr>ec_threshold = ec_threshold c, ec_region = ec_region c\<rparr> = c" by (cases c) simp
  ultimately show ?thesis
    using assms(2) by (auto simp: flag_def read_evaluations_def Let_def optional_table_of[OF assms(1)] known_keys evaluations_ok_def opt_or_def plain_text_def)
qed

lemma read_ag_ui_of:
  assumes "dget_or d ''ag_ui'' (PDict []) = PDict (ag_ui_toml c)" and "ag_ui_ok deployment c"
  shows "read_ag_ui d deployment = (c, [])"
proof -
  have "optional_bool (ag_ui_toml c) ''enabled'' b l = (agui_enabled c, [])" for b l
    by (simp add: optional_bool_def ag_ui_toml_def dget_or_def)
  moreover have "optional_string (ag_ui_toml c) ''transport'' (Some ''sse'') l = (Some (transport_value (agui_transport c)), [])" for l
    by (intro optional_string_of) (simp_all add: dget_or_def ag_ui_toml_def)
  moreover have "optional_string (ag_ui_toml c) ''endpoint'' None l = (agui_endpoint c, [])" for l
    using assms(2) by (cases "agui_endpoint c")
      (auto simp: optional_string_def ag_ui_toml_def ag_ui_ok_def text_entry_def dget_or_def plain_text_def opt_pstr_def)
  moreover have "fst ` set (ag_ui_toml c) \<subseteq> set [''enabled'', ''transport'', ''endpoint'']"
    using keys_text_entry[of "''endpoint''"] by (auto simp: ag_ui_toml_def)
  moreover have "opt_or (Some (transport_value (agui_transport c))) ''sse'' = transport_value (agui_transport c)"
    using plain_values(3)[of "agui_transport c"] by (simp add: opt_or_def plain_text_def)
  moreover have "\<lparr>agui_enabled = agui_enabled c, agui_transport = agui_transport c, agui_endpoint = agui_endpoint c\<rparr> = c" by (cases c) simp
  ultimately show ?thesis
    using assms(2) by (auto simp: flag_def read_ag_ui_def Let_def optional_table_of[OF assms(1)] known_keys ag_ui_ok_def res_option_def split: if_splits)
qed

lemma read_runtime_of:
  assumes "dget_or d ''runtime'' (PDict []) = PDict (runtime_toml c)" and "runtime_ok deployment c" and "deployment \<in> {''zip'', ''container''}"
  shows "read_runtime d deployment = (c, [])"
proof -
  define p where "p = rc_protocol c"
  have p: "(p, rc_port c) \<in> set default_protocol_ports" and expected: "map_of default_protocol_ports p = Some (rc_port c)"
    using assms(2) by (simp_all add: runtime_ok_def p_def map_of_SomeD)
  then have port: "rc_port c \<noteq> 0" "1 \<le> rc_port c" "rc_port c \<le> 65535" by (auto simp: default_protocol_ports_def)
  have plains: "plain_text ''http''" "plain_text ''mcp''" "plain_text ''a2a''" "plain_text ''agui''" by code_simp+
  with p have plain: "plain_text p" by (auto simp: default_protocol_ports_def)
  have valid: "p \<in> set valid_runtime_protocols" using p by (auto simp: default_protocol_ports_def valid_runtime_protocols_def)
  have texts: "optional_string (runtime_toml c) ''protocol'' (Some ''http'') l = (Some p, [])" for l
    using plain by (intro optional_string_of) (cases "rc_entrypoint c"; simp add: dget_or_def runtime_toml_def text_entry_def p_def)
  have entry: "optional_string (runtime_toml c) ''entrypoint'' None l = (rc_entrypoint c, [])" for l
    using assms(2) by (cases "rc_entrypoint c")
      (auto simp: optional_string_def runtime_toml_def runtime_ok_def text_entry_def dget_or_def plain_text_def opt_pstr_def)
  have int: "optional_int (runtime_toml c) ''port'' None l = (Some (rc_port c), [])" for l
    by (cases "rc_entrypoint c") (simp_all add: optional_int_def runtime_toml_def text_entry_def dget_or_def)
  have "fst ` set (runtime_toml c) \<subseteq> set [''entrypoint'', ''protocol'', ''port'']"
    using keys_text_entry[of "''entrypoint''"] by (auto simp: runtime_toml_def)
  note known = known_keys[OF this]
  have given: "opt_or (Some p) x = p" for x using plain by (simp add: opt_or_def plain_text_def)
  have same: "runtime_port_of p (Some (rc_port c)) = rc_port c" using port by (simp add: runtime_port_of_def)
  define non_http where "non_http \<longleftrightarrow> p \<in> {''mcp'', ''a2a'', ''agui''}"
  have http: "non_http \<longleftrightarrow> p \<noteq> ''http''" using valid by (auto simp: non_http_def valid_runtime_protocols_def)
  have "runtime_errors deployment (rc_entrypoint c) p p (Some (rc_port c)) = []"
    unfolding runtime_errors_def Let_def non_http_def[symmetric] http
    using assms(2) valid port expected same by (auto simp: flag_def runtime_ok_def p_def split: if_splits)
  moreover have "\<lparr>rc_entrypoint = rc_entrypoint c, rc_protocol = p, rc_port = rc_port c\<rparr> = c" by (cases c) (simp add: p_def)
  ultimately show ?thesis
    by (simp add: read_runtime_def Let_def optional_table_of[OF assms(1)] known texts entry int given same)
qed

lemma required_enum_of:
  assumes "dget d k = PStr s" and "plain_text s" and "member s = Some m"
  shows "required_enum member f options d k t = (m, [])"
  using assms by (simp add: required_enum_def plain_text_def)

lemma read_fields_of:
  assumes "manifest_ok agent m"
  shows "read_fields agent (project_toml m) (core_toml m) = (m, [])"
proof -
  have get: "dget (core_toml m) ''name'' = PStr (am_name m)" "dget (core_toml m) ''owner_team'' = PStr (am_owner_team m)"
    "dget (core_toml m) ''handler'' = PStr (am_handler m)" "dget (core_toml m) ''tier_minimum'' = PStr (tier_value (am_tier_minimum m))"
    "dget (core_toml m) ''invocation_mode'' = PStr (invocation_mode_value (am_invocation_mode m))"
    "dget_or (core_toml m) ''streaming_enabled'' (PBool False) = PBool (am_streaming_enabled m)"
    "dget_or (core_toml m) ''estimated_duration_seconds'' (PInt 5) = PInt (am_duration m)"
    "dget (project_toml m) ''name'' = PStr (am_project_name m)" "dget (project_toml m) ''version'' = PStr (am_version m)"
    by (simp_all add: core_toml_def project_toml_def dget_or_def)
  have parts: "dget_or (core_toml m) ''llm'' (PDict []) = PDict (llm_toml (am_llm m))"
    "dget_or (core_toml m) ''deployment'' (PDict []) = PDict [(''type'', PStr (am_deployment m))]"
    "dget_or (core_toml m) ''runtime'' (PDict []) = PDict (runtime_toml (am_runtime m))"
    "dget_or (core_toml m) ''evaluations'' (PDict []) = PDict (evaluations_toml (am_evaluations m))"
    "dget_or (core_toml m) ''ag_ui'' (PDict []) = PDict (ag_ui_toml (am_ag_ui m))"
    by (simp_all add: core_toml_def dget_or_def)
  note ok = assms[unfolded manifest_ok_def]
  have known: "check_unknown_keys (core_toml m) manifest_keys t = []" for t by (rule known_keys) (simp add: core_toml_def manifest_keys_def)
  have strings: "required_string (project_toml m) ''name'' t = (am_project_name m, [])" "required_string (project_toml m) ''version'' t = (am_version m, [])"
    "required_string (core_toml m) ''name'' t = (am_name m, [])" "required_string (core_toml m) ''owner_team'' t = (am_owner_team m, [])"
    "required_string (core_toml m) ''handler'' t = (am_handler m, [])" for t
    using ok by (simp_all add: required_string_of get)
  have enums: "required_enum tier_of f options (core_toml m) ''tier_minimum'' t = (am_tier_minimum m, [])"
    "required_enum (\<lambda>s. res_option (mode_of_text s)) f' options (core_toml m) ''invocation_mode'' t = (am_invocation_mode m, [])" for f f' options t
    by (rule required_enum_of, rule get, simp, simp add: res_option_def)+
  have others: "optional_bool (core_toml m) ''streaming_enabled'' False t = (am_streaming_enabled m, [])"
    "optional_int (core_toml m) ''estimated_duration_seconds'' (Some 5) t = (Some (am_duration m), [])" for t
    by (simp_all add: optional_bool_def optional_int_def get)
  have identity: "identity_errors agent (am_project_name m) (am_name m) (am_handler m) (Some (am_duration m)) = []"
    using ok by (simp add: identity_errors_def flag_def)
  have sections: "read_llm (core_toml m) = (am_llm m, [])" "read_deployment (core_toml m) = (am_deployment m, [])"
    "read_runtime (core_toml m) (am_deployment m) = (am_runtime m, [])" "read_evaluations (core_toml m) = (am_evaluations m, [])"
    "read_ag_ui (core_toml m) (am_deployment m) = (am_ag_ui m, [])"
    using ok parts by (simp_all add: read_llm_of read_deployment_of read_runtime_of read_evaluations_of read_ag_ui_of)
  have "am_duration m \<noteq> 0" using ok by simp
  moreover have "\<lparr>am_project_name = am_project_name m, am_version = am_version m, am_name = am_name m, am_owner_team = am_owner_team m,
      am_tier_minimum = am_tier_minimum m, am_handler = am_handler m, am_invocation_mode = am_invocation_mode m,
      am_streaming_enabled = am_streaming_enabled m, am_duration = am_duration m, am_deployment = am_deployment m,
      am_runtime = am_runtime m, am_llm = am_llm m, am_evaluations = am_evaluations m, am_ag_ui = am_ag_ui m\<rparr> = m" by (cases m) simp
  ultimately show ?thesis by (simp add: read_fields_def Let_def strings enums others identity sections known)
qed


end
