(* ===== verification/AgentRegistration.thy ===== *)
theory AgentRegistration
  imports AgentManifest AgentRegistry JsonRoundtrip
begin

text \<open>
  The registration of a built agent (\<open>scripts/register_agent.py\<close>): its manifest and what the deployment left in the parameter store make the
  body that is posted to the registry of the tenant API. The parameter store, the clock, the settings, the credentials file and the HTTP call
  are parameters.
\<close>

section \<open>Surroundings\<close>

record 'w registrar =
  rg_region :: "string option"
  rg_get_parameter :: "string \<Rightarrow> ('w, string) io"
  rg_not_found :: "exc \<Rightarrow> bool"
  rg_now :: "('w, rat) io"
  rg_commit_sha :: "string option"
  rg_pipeline_url :: "string option"
  rg_job_id :: "string option"
  rg_api_base_url :: "string option"
  rg_access_token :: "string option"
  rg_credentials :: "('w, pydict option) io"
  rg_post :: "string \<Rightarrow> string \<Rightarrow> pydict \<Rightarrow> ('w, unit) io"

text \<open>A parameter that does not exist is \<open>None\<close>; every other error of the store is passed on.\<close>

definition get_ssm_param :: "'w registrar \<Rightarrow> string \<Rightarrow> ('w, string option) io" where
  "get_ssm_param rg name =
     io_try (rg_get_parameter rg name) (\<lambda>r. case r of
         Inr v \<Rightarrow> io_return (Some v)
       | Inl e \<Rightarrow> if rg_not_found rg e then io_return None else io_raise e)"

text \<open>\<open>except LookupError\<close>.\<close>

definition lookup_or_none :: "('w, string option) io \<Rightarrow> ('w, string option) io" where
  "lookup_or_none m =
     io_catch m (\<lambda>e. case e of KeyError k \<Rightarrow> io_return None | e \<Rightarrow> io_raise e)"

definition given :: "string option \<Rightarrow> string option" where
  "given v = (case v of Some (c # s) \<Rightarrow> Some (c # s) | _ \<Rightarrow> None)"

section \<open>The endpoint of the runtime\<close>

definition endpoint_parameters :: "string \<Rightarrow> (string \<times> string) list" where
  "endpoint_parameters env =
     [(''runtimeEndpointArn'', ''/platform/'' @ env @ ''/agentcore/runtime-endpoint-arn''),
      (''runtimeEndpointName'', ''/platform/'' @ env @ ''/agentcore/runtime-endpoint-name''),
      (''runtimeEndpointVersion'', ''/platform/'' @ env @ ''/agentcore/runtime-endpoint-version'')]"

text \<open>The metadata that is there, and the keys that are missing.\<close>

fun read_endpoint_parameters :: "'w registrar \<Rightarrow> (string \<times> string) list \<Rightarrow> ('w, (string \<times> string) list \<times> string list) io" where
  "read_endpoint_parameters rg [] = io_return ([], [])"
| "read_endpoint_parameters rg ((key, name) # rest) =
     io_bind (lookup_or_none (get_ssm_param rg name)) (\<lambda>v.
     io_bind (read_endpoint_parameters rg rest) (\<lambda>(metadata, missing).
       io_return (case given v of Some s \<Rightarrow> ((key, s) # metadata, missing) | None \<Rightarrow> (metadata, key # missing))))"

definition runtime_endpoint_metadata :: "'w registrar \<Rightarrow> string \<Rightarrow> ('w, (string \<times> string) list) io" where
  "runtime_endpoint_metadata rg env =
     io_bind (read_endpoint_parameters rg (endpoint_parameters env)) (\<lambda>(metadata, missing).
       if missing \<noteq> []
       then io_raise (RuntimeErr (''Incomplete runtime endpoint metadata in SSM: missing '' @ str_join '', '' (sort_by str_le missing)))
       else io_return metadata)"

definition metadata_text :: "(string \<times> string) list \<Rightarrow> string \<Rightarrow> string res" where
  "metadata_text metadata k = (case map_of metadata k of Some v \<Rightarrow> Inr v | None \<Rightarrow> Inl (KeyError k))"

definition validate_runtime_endpoint_metadata :: "string \<Rightarrow> (string \<times> string) list \<Rightarrow> unit res" where
  "validate_runtime_endpoint_metadata runtime_arn metadata =
     (if metadata = [] then Inr ()
      else (case match_runtime_arn runtime_arn of
              None \<Rightarrow> Inl (RuntimeErr ''Runtime endpoint metadata requires a valid runtime ARN'')
            | Some runtime_match \<Rightarrow>
                bind_res (metadata_text metadata ''runtimeEndpointArn'') (\<lambda>endpoint_arn.
                case match_endpoint_arn endpoint_arn of
                  None \<Rightarrow> Inl (RuntimeErr ''Runtime endpoint ARN from SSM is malformed'')
                | Some (shared, endpoint_id) \<Rightarrow>
                    if shared \<noteq> runtime_match then Inl (RuntimeErr ''Runtime endpoint ARN from SSM does not match runtime ARN'')
                    else bind_res (metadata_text metadata ''runtimeEndpointName'') (\<lambda>endpoint_name.
                      if \<not> starts_with endpoint_id (endpoint_name @ ''-'')
                      then Inl (RuntimeErr ''Runtime endpoint ARN from SSM does not match runtime endpoint name'')
                      else Inr ()))))"

section \<open>The body\<close>

record layer_metadata =
  lm_hash :: string
  lm_layer_key :: string
  lm_script_key :: string

definition registration_body ::
  "'w registrar \<Rightarrow> string \<Rightarrow> agent_manifest \<Rightarrow> layer_metadata \<Rightarrow> string \<Rightarrow> (string \<times> string) list \<Rightarrow> string \<Rightarrow> pydict" where
  "registration_body rg agent m layers runtime_arn metadata deployed_at =
     dupdate
       [(''agentName'', PStr agent), (''version'', PStr (am_version m)), (''ownerTeam'', PStr (am_owner_team m)),
        (''tierMinimum'', PStr (tier_value (am_tier_minimum m))), (''layerHash'', PStr (lm_hash layers)),
        (''layerS3Key'', PStr (lm_layer_key layers)), (''scriptS3Key'', PStr (lm_script_key layers)), (''deployedAt'', PStr deployed_at),
        (''invocationMode'', PStr (invocation_mode_value (am_invocation_mode m))), (''streamingEnabled'', PBool (am_streaming_enabled m)),
        (''status'', PStr ''built''), (''runtimeArn'', PStr runtime_arn)]
       (map (\<lambda>(k, v). (k, PStr v)) metadata @
        [(''modelId'', opt_pstr (lc_model_id (am_llm m))), (''estimatedDurationSeconds'', PInt (am_duration m)),
         (''commitSha'', opt_pstr (rg_commit_sha rg)), (''pipelineUrl'', opt_pstr (rg_pipeline_url rg)), (''jobId'', opt_pstr (rg_job_id rg)),
         (''agUi'', PDict [(''enabled'', PBool (agui_enabled (am_ag_ui m))),
            (''transport'', PStr (transport_value (agui_transport (am_ag_ui m)))), (''endpoint'', opt_pstr (agui_endpoint (am_ag_ui m)))])])"

section \<open>The script\<close>

text \<open>The keys of the layers: a container has none; \<open>None\<close> when the deployment left them incomplete.\<close>

definition layer_parameters :: "'w registrar \<Rightarrow> string \<Rightarrow> string \<Rightarrow> string \<Rightarrow> ('w, layer_metadata option) io" where
  "layer_parameters rg env agent deployment_type =
     (if deployment_type = ''container'' then io_return (Some \<lparr>lm_hash = [], lm_layer_key = [], lm_script_key = []\<rparr>)
      else
        io_bind (get_ssm_param rg (''/platform/layers/'' @ env @ ''/'' @ agent @ ''/hash'')) (\<lambda>h.
        io_bind (get_ssm_param rg (''/platform/layers/'' @ env @ ''/'' @ agent @ ''/s3-key'')) (\<lambda>l.
        io_bind (get_ssm_param rg (''/platform/agents/'' @ env @ ''/'' @ agent @ ''/script-s3-key'')) (\<lambda>s.
          io_return (case (given h, given l, given s) of
              (Some h, Some l, Some s) \<Rightarrow> Some \<lparr>lm_hash = h, lm_layer_key = l, lm_script_key = s\<rparr>
            | _ \<Rightarrow> None)))))"

text \<open>
  The endpoint, checked against the runtime; a \<open>RuntimeError\<close> and a missing canonical ARN give \<open>None\<close>.
\<close>

definition checked_endpoint :: "'w registrar \<Rightarrow> string \<Rightarrow> string \<Rightarrow> string option \<Rightarrow> ('w, (string \<times> string) list option) io" where
  "checked_endpoint rg env runtime_arn canonical =
     io_catch
       (io_bind (runtime_endpoint_metadata rg env) (\<lambda>metadata.
          if given canonical = None then io_return None
          else io_bind (io_lift (validate_runtime_endpoint_metadata runtime_arn metadata)) (\<lambda>_. io_return (Some metadata))))
       (\<lambda>e. case e of RuntimeErr m \<Rightarrow> io_return None | e \<Rightarrow> io_raise e)"

text \<open>The body of the registration, or \<open>None\<close> where the script gives up.\<close>

definition prepare_registration :: "'w registrar \<Rightarrow> string \<Rightarrow> string \<Rightarrow> agent_manifest \<Rightarrow> ('w, pydict option) io" where
  "prepare_registration rg env agent m =
     io_bind (io_lift (case rg_region rg of None \<Rightarrow> Inl (RuntimeErr ''AWS_REGION must be set'') | Some r \<Rightarrow> Inr r)) (\<lambda>region.
     io_bind (get_ssm_param rg (''/platform/agents/'' @ env @ ''/'' @ agent @ ''/runtime-arn'')) (\<lambda>found. case given found of
         None \<Rightarrow> io_return None
       | Some runtime_arn \<Rightarrow>
           io_bind (lookup_or_none (get_ssm_param rg (''/platform/'' @ env @ ''/agentcore/runtime-arn''))) (\<lambda>canonical.
           if given canonical \<noteq> None \<and> canonical \<noteq> Some runtime_arn then io_return None
           else
             io_bind (layer_parameters rg env agent (am_deployment m)) (\<lambda>layers. case layers of
                 None \<Rightarrow> io_return None
               | Some lm \<Rightarrow>
                   io_bind (rg_now rg) (\<lambda>now.
                   io_bind (checked_endpoint rg env runtime_arn canonical) (\<lambda>endpoint. case endpoint of
                       None \<Rightarrow> io_return None
                     | Some metadata \<Rightarrow> io_return (Some (registration_body rg agent m lm runtime_arn metadata (isoformat_utc now)))))))))"

text \<open>The token of the call, the local credentials last; reading these never fails the script.\<close>

definition registration_token :: "'w registrar \<Rightarrow> string \<Rightarrow> string option \<Rightarrow> ('w, pyval) io" where
  "registration_token rg env token =
     (case (given token, given (rg_access_token rg)) of
        (Some t, _) \<Rightarrow> io_return (PStr t)
      | (None, Some t) \<Rightarrow> io_return (PStr t)
      | (None, None) \<Rightarrow>
          io_catch (io_bind (rg_credentials rg) (\<lambda>creds. case creds of
              None \<Rightarrow> io_return PNone
            | Some c \<Rightarrow> io_lift
                (bind_res (need_dict (dget_or c ''profiles'' (PDict []))) (\<lambda>profiles.
                 bind_res (need_dict (dget_or profiles env (PDict []))) (\<lambda>profile. Inr (dget profile ''accessToken''))))))
            (\<lambda>e. io_return PNone))"

definition register_agent :: "'w registrar \<Rightarrow> string \<Rightarrow> toml_file \<Rightarrow> string \<Rightarrow> string \<Rightarrow> string option \<Rightarrow> string option \<Rightarrow> ('w, bool) io" where
  "register_agent rg toml_path file agent env api_base_url token =
     (case load_agent_manifest agent toml_path file of
        Inl errors \<Rightarrow> io_return False
      | Inr m \<Rightarrow>
          io_bind (prepare_registration rg env agent m) (\<lambda>prepared. case prepared of
              None \<Rightarrow> io_return False
            | Some body \<Rightarrow>
                (case (given api_base_url, given (rg_api_base_url rg)) of
                   (None, None) \<Rightarrow> io_return False
                 | (u, v) \<Rightarrow>
                     io_bind (registration_token rg env token) (\<lambda>t.
                       if \<not> truthy t then io_return False
                       else io_try (rg_post rg (py_rstrip_char (CHR ''/'') (the (if u = None then v else u)) @ ''/v1/platform/agents'') (py_str t) body) (\<lambda>r.
                              io_return (\<not> is_err r))))))"

section \<open>What is posted\<close>

definition endpoint_keys :: "string list" where
  "endpoint_keys = [''runtimeEndpointArn'', ''runtimeEndpointName'', ''runtimeEndpointVersion'']"

text \<open>A body made of a manifest, and an endpoint that is complete and belongs to the runtime.\<close>

definition prepared_body :: "'w registrar \<Rightarrow> string \<Rightarrow> agent_manifest \<Rightarrow> layer_metadata \<Rightarrow> string \<Rightarrow> (string \<times> string) list \<Rightarrow> pydict \<Rightarrow> bool" where
  "prepared_body rg agent m lm runtime_arn metadata body \<longleftrightarrow>
     (\<exists>deployed_at. body = registration_body rg agent m lm runtime_arn metadata deployed_at)
   \<and> runtime_arn \<noteq> [] \<and> map fst metadata = endpoint_keys \<and> list_all (\<lambda>(k, v). v \<noteq> []) metadata
   \<and> validate_runtime_endpoint_metadata runtime_arn metadata = Inr ()
   \<and> (am_deployment m = ''container'' \<or> (lm_hash lm \<noteq> [] \<and> lm_layer_key lm \<noteq> [] \<and> lm_script_key lm \<noteq> []))"

lemma given_Some: "given v = Some s \<longleftrightarrow> v = Some s \<and> s \<noteq> []"
  by (auto simp: given_def split: option.splits list.splits)

lemma read_endpoint_complete:
  "read_endpoint_parameters rg params w = (Inr (metadata, []), w') \<Longrightarrow>
     map fst metadata = map fst params \<and> list_all (\<lambda>(k, v). v \<noteq> []) metadata"
  by (induction rg params arbitrary: metadata w rule: read_endpoint_parameters.induct)
    (auto simp: io_bind_def given_Some split: prod.splits sum.splits option.splits)

lemma prepared_registration:
  assumes "prepare_registration rg env agent m w = (Inr (Some body), w')"
  shows "\<exists>lm runtime_arn metadata. prepared_body rg agent m lm runtime_arn metadata body"
proof -
  have layers: "am_deployment m = ''container'' \<or> (lm_hash lm \<noteq> [] \<and> lm_layer_key lm \<noteq> [] \<and> lm_script_key lm \<noteq> [])"
    if "layer_parameters rg env agent (am_deployment m) u = (Inr (Some lm), u')" for lm u u'
    using that by (auto simp: layer_parameters_def io_bind_def given_Some split: prod.splits sum.splits option.splits if_splits)
  have endpoint: "map fst metadata = endpoint_keys \<and> list_all (\<lambda>(k, v). v \<noteq> []) metadata
      \<and> validate_runtime_endpoint_metadata runtime_arn metadata = Inr ()"
    if run: "checked_endpoint rg env runtime_arn canonical u = (Inr (Some metadata), u')" for metadata runtime_arn canonical u u'
  proof -
    obtain u1 where "read_endpoint_parameters rg (endpoint_parameters env) u = (Inr (metadata, []), u1)"
      and "validate_runtime_endpoint_metadata runtime_arn metadata = Inr ()"
      using run by (auto simp: checked_endpoint_def io_catch_def io_bind_def runtime_endpoint_metadata_def
          split: prod.splits sum.splits if_splits exc.splits)
    then show ?thesis using read_endpoint_complete[of rg "endpoint_parameters env"] by (auto simp: endpoint_parameters_def endpoint_keys_def)
  qed
  from assms obtain runtime_arn lm metadata now canonical u u1 u2 u3 where
    "runtime_arn \<noteq> []" "layer_parameters rg env agent (am_deployment m) u = (Inr (Some lm), u1)"
    "checked_endpoint rg env runtime_arn canonical u2 = (Inr (Some metadata), u3)"
    "body = registration_body rg agent m lm runtime_arn metadata (isoformat_utc now)"
    by (auto simp: prepare_registration_def io_bind_def given_Some split: prod.splits sum.splits option.splits if_splits)
  with layers endpoint show ?thesis unfolding prepared_body_def by blast
qed

section \<open>What the registry makes of it\<close>

definition endpoint_list :: "string \<Rightarrow> string \<Rightarrow> string \<Rightarrow> (string \<times> string) list" where
  "endpoint_list a n v = [(''runtimeEndpointArn'', a), (''runtimeEndpointName'', n), (''runtimeEndpointVersion'', v)]"

lemma registration_body_flat:
  "registration_body rg agent m lm arn (endpoint_list a n v) t =
     [(''agentName'', PStr agent), (''version'', PStr (am_version m)), (''ownerTeam'', PStr (am_owner_team m)),
        (''tierMinimum'', PStr (tier_value (am_tier_minimum m))), (''layerHash'', PStr (lm_hash lm)),
        (''layerS3Key'', PStr (lm_layer_key lm)), (''scriptS3Key'', PStr (lm_script_key lm)), (''deployedAt'', PStr t),
        (''invocationMode'', PStr (invocation_mode_value (am_invocation_mode m))), (''streamingEnabled'', PBool (am_streaming_enabled m)),
        (''status'', PStr ''built''), (''runtimeArn'', PStr arn), (''runtimeEndpointArn'', PStr a), (''runtimeEndpointName'', PStr n),
        (''runtimeEndpointVersion'', PStr v), (''modelId'', opt_pstr (lc_model_id (am_llm m))),
        (''estimatedDurationSeconds'', PInt (am_duration m)),
         (''commitSha'', opt_pstr (rg_commit_sha rg)), (''pipelineUrl'', opt_pstr (rg_pipeline_url rg)), (''jobId'', opt_pstr (rg_job_id rg)),
         (''agUi'', PDict [(''enabled'', PBool (agui_enabled (am_ag_ui m))),
            (''transport'', PStr (transport_value (agui_transport (am_ag_ui m)))), (''endpoint'', opt_pstr (agui_endpoint (am_ag_ui m)))])]"
  by (simp add: registration_body_def endpoint_list_def dset_def)

text \<open>The stored version. A model or an AG-UI endpoint that is not there is stored as the text of \<open>None\<close>.\<close>

definition registered_item :: "string \<Rightarrow> agent_manifest \<Rightarrow> layer_metadata \<Rightarrow> string \<Rightarrow> string \<Rightarrow> string \<Rightarrow> string \<Rightarrow> string \<Rightarrow> pydict" where
  "registered_item agent m lm arn a n v now_iso =
     (let endpoint = PStr (opt_or (agui_endpoint (am_ag_ui m)) ''None''); transport = PStr (transport_value (agui_transport (am_ag_ui m)));
          enabled = PBool (agui_enabled (am_ag_ui m)) in
      agent_key agent (am_version m) @
      [(''agent_name'', PStr agent), (''version'', PStr (am_version m)), (''status'', PStr ''built''), (''owner_team'', PStr (am_owner_team m)),
       (''tier_minimum'', PStr (tier_value (am_tier_minimum m))),
       (''invocation_mode'', PStr (invocation_mode_value (am_invocation_mode m))), (''streaming_enabled'', PBool (am_streaming_enabled m)),
       (''layer_hash'', PStr (py_strip (lm_hash lm))), (''layer_s3_key'', PStr (py_strip (lm_layer_key lm))),
       (''script_s3_key'', PStr (py_strip (lm_script_key lm))), (''deployed_at'', PStr now_iso), (''created_at'', PStr now_iso),
       (''updated_at'', PStr now_iso), (''model_id'', PStr (opt_or (lc_model_id (am_llm m)) ''None'')),
       (''estimated_duration_seconds'', PInt (am_duration m)), (''runtime_arn'', PStr arn), (''runtime_endpoint_arn'', PStr a),
       (''runtime_endpoint_name'', PStr n), (''runtime_endpoint_version'', PStr v),
       (''ag_ui'', PDict [(''enabled'', enabled), (''transport'', transport), (''endpoint'', endpoint)]),
       (''ag_ui_enabled'', enabled), (''ag_ui_transport'', transport), (''ag_ui_endpoint'', endpoint)])"

lemma strip_plain: "plain_text s \<Longrightarrow> py_strip s = s" "plain_text s \<Longrightarrow> s \<noteq> []"
  by (simp_all add: plain_text_def)

lemma strip_option: "plain_option v \<Longrightarrow> py_strip (py_str (opt_pstr v)) = opt_or v ''None''"
proof -
  assume "plain_option v"
  moreover have "py_strip ''None'' = ''None''" by code_simp
  ultimately show ?thesis by (cases v) (auto simp: opt_pstr_def opt_or_def plain_text_def)
qed

lemma endpoint_accepted:
  assumes "validate_runtime_endpoint_metadata arn (endpoint_list a n v) = Inr ()" and "plain_text arn" "plain_text a" "plain_text n" "plain_text v"
  shows "validate_layer_metadata_invariants (registered_item agent m lm arn a n v now_iso) = Inr ()"
    and "validate_runtime_endpoint_invariants (registered_item agent m lm arn a n v now_iso) = Inr ()"
proof -
  have texts: "text_field (registered_item agent m lm arn a n v now_iso) ''runtime_arn'' [] = arn"
    "text_field (registered_item agent m lm arn a n v now_iso) ''runtime_endpoint_arn'' [] = a"
    "text_field (registered_item agent m lm arn a n v now_iso) ''runtime_endpoint_name'' [] = n"
    "text_field (registered_item agent m lm arn a n v now_iso) ''runtime_endpoint_version'' [] = v"
    using assms(2-5) by (simp_all add: text_field_def registered_item_def Let_def agent_key_def row_key_def dget_or_def strip_plain)
  show "validate_layer_metadata_invariants (registered_item agent m lm arn a n v now_iso) = Inr ()"
    using strip_plain(2)[OF assms(2)] by (simp add: validate_layer_metadata_invariants_def texts)
  show "validate_runtime_endpoint_invariants (registered_item agent m lm arn a n v now_iso) = Inr ()"
    using assms(1) strip_plain(2)[OF assms(3)] strip_plain(2)[OF assms(4)] strip_plain(2)[OF assms(5)]
    by (auto simp: validate_runtime_endpoint_invariants_def Let_def texts runtime_endpoint_fields_def validate_runtime_endpoint_metadata_def
        endpoint_list_def metadata_text_def split: option.splits prod.splits if_splits)
qed

lemma completed_item:
  assumes "manifest_ok agent m" and "validate_runtime_endpoint_metadata arn (endpoint_list a n v) = Inr ()"
    and "plain_text arn" "plain_text a" "plain_text n" "plain_text v"
    and "body = registration_body rg agent m lm arn (endpoint_list a n v) t"
  shows "complete_agent_item body (base_agent_item body agent (am_version m) BUILT (invocation_mode_value (am_invocation_mode m)) now_iso)
    = Inr (registered_item agent m lm arn a n v now_iso)"
proof -
  note ok = assms(1)[unfolded manifest_ok_def]
  have model: "py_strip (py_str (opt_pstr (lc_model_id (am_llm m)))) = opt_or (lc_model_id (am_llm m)) ''None''"
    and endpoint: "py_strip (py_str (opt_pstr (agui_endpoint (am_ag_ui m)))) = opt_or (agui_endpoint (am_ag_ui m)) ''None''"
    using ok by (simp_all add: strip_option llm_ok_def ag_ui_ok_def)
  have transport: "py_strip (transport_value tr) = transport_value tr" for tr by (simp add: strip_plain)
  have some: "opt_or (agui_endpoint (am_ag_ui m)) ''None'' \<noteq> []"
    using ok by (cases "agui_endpoint (am_ag_ui m)") (auto simp: opt_or_def ag_ui_ok_def plain_text_def)
  have ui: "ag_ui_of_body body = (agui_enabled (am_ag_ui m), transport_value (agui_transport (am_ag_ui m)),
      PStr (opt_or (agui_endpoint (am_ag_ui m)) ''None''))"
    by (simp add: assms(7) registration_body_flat ag_ui_of_body_def Let_def dget_or_def dict_or_empty_def endpoint transport some)
  have "complete_agent_item body (base_agent_item body agent (am_version m) BUILT (invocation_mode_value (am_invocation_mode m)) now_iso)
    = bind_res (validate_layer_metadata_invariants (registered_item agent m lm arn a n v now_iso)) (\<lambda>_.
      bind_res (validate_runtime_endpoint_invariants (registered_item agent m lm arn a n v now_iso)) (\<lambda>_. Inr (registered_item agent m lm arn a n v now_iso)))"
    unfolding complete_agent_item_def ui
    using ok assms(3-6)
    by (simp add: assms(7) registration_body_flat base_agent_item_def copy_text_def dict_get_def text_field_def dget_or_def agent_key_def
        row_key_def registered_item_def Let_def dset_def model strip_plain)
  then show ?thesis using endpoint_accepted[OF assms(2-6)] by simp
qed

text \<open>The record the bridge makes of a registered version.\<close>

definition discovered :: "string \<Rightarrow> agent_manifest \<Rightarrow> string \<Rightarrow> string \<Rightarrow> string \<Rightarrow> string \<Rightarrow> pydict \<Rightarrow> bool" where
  "discovered agent m arn a n v item \<longleftrightarrow>
     (\<exists>r. agent_record_from_item item = Inr r \<and> agent_name r = agent \<and> agent_version r = am_version m \<and> ar_owner_team r = am_owner_team m
        \<and> ar_tier_minimum r = am_tier_minimum m \<and> invocation_mode_of r = am_invocation_mode m
        \<and> ar_streaming_enabled r = am_streaming_enabled m \<and> ar_status r = BUILT \<and> ar_runtime_arn r = Some arn
        \<and> ar_estimated_duration_seconds r = Some (am_duration m) \<and> ar_runtime_endpoint_arn r = Some a
        \<and> ar_runtime_endpoint_name r = Some n \<and> ar_runtime_endpoint_version r = Some v
        \<and> agui_enabled (ar_ag_ui r) = agui_enabled (am_ag_ui m) \<and> agui_transport (ar_ag_ui r) = agui_transport (am_ag_ui m)
        \<and> agui_endpoint (ar_ag_ui r) = Some (opt_or (agui_endpoint (am_ag_ui m)) ''None''))"

lemma coerce_plain: "plain_text s \<Longrightarrow> coerce_optional_string (PStr s) = Some s"
  by (simp add: coerce_optional_string_def plain_text_def)

lemma registered_is_discovered:
  assumes "manifest_ok agent m" and "plain_text arn" "plain_text a" "plain_text n" "plain_text v"
  shows "discovered agent m arn a n v (registered_item agent m lm arn a n v now_iso)"
proof -
  note ok = assms(1)[unfolded manifest_ok_def]
  let ?item = "registered_item agent m lm arn a n v now_iso"
  let ?endpoint = "opt_or (agui_endpoint (am_ag_ui m)) ''None''"
  have none: "plain_text ''None''" by code_simp
  then have endpoint: "plain_text ?endpoint" using ok by (intro plain_opt_or) (simp_all add: ag_ui_ok_def)
  have tier: "tier_of_text (tier_value t) = Inr t" for t by (simp add: tier_of_text_def)
  have status: "status_of_text ''built'' = Inr BUILT" by code_simp
  have get: "dget ?item ''runtime_arn'' = PStr arn" "dget ?item ''runtime_endpoint_arn'' = PStr a" "dget ?item ''runtime_endpoint_name'' = PStr n"
    "dget ?item ''runtime_endpoint_version'' = PStr v" "dget ?item ''estimated_duration_seconds'' = PInt (am_duration m)"
    "dget_or ?item ''tier_minimum'' (PStr ''basic'') = PStr (tier_value (am_tier_minimum m))"
    "dget_or ?item ''invocation_mode'' (PStr ''sync'') = PStr (invocation_mode_value (am_invocation_mode m))"
    "dget_or ?item ''status'' (PStr ''promoted'') = PStr ''built''"
    "dget_or ?item ''streaming_enabled'' (PBool False) = PBool (am_streaming_enabled m)"
    "stored_text ?item ''agent_name'' = agent" "stored_text ?item ''version'' = am_version m" "stored_text ?item ''owner_team'' = am_owner_team m"
    by (simp_all add: registered_item_def Let_def agent_key_def row_key_def dget_or_def stored_text_def)
  have ui: "ag_ui_config_of (ag_ui_item_of ?item) = Inr \<lparr>agui_enabled = agui_enabled (am_ag_ui m),
      agui_transport = agui_transport (am_ag_ui m), agui_endpoint = Some ?endpoint\<rparr>"
    by (simp add: registered_item_def Let_def agent_key_def row_key_def dget_or_def ag_ui_item_of_def ag_ui_config_of_def coerce_plain[OF endpoint])
  show ?thesis
    unfolding discovered_def agent_record_from_item_def Let_def get ui
    by (simp add: coerce_plain assms tier status stored_int_def)
qed

lemma registered_storable: "am_duration m < 10 ^ 38 \<Longrightarrow> manifest_ok agent m \<Longrightarrow> storable (PDict (registered_item agent m lm arn a n v now_iso))"
  by (simp add: registered_item_def Let_def agent_key_def row_key_def manifest_ok_def)


section \<open>A concrete registration\<close>

definition sample_registrar :: "unit registrar" where
  "sample_registrar = \<lparr>rg_region = Some ''eu-west-2'', rg_get_parameter = (\<lambda>n. io_return ''v''), rg_not_found = (\<lambda>e. False), rg_now = io_return 90,
     rg_commit_sha = Some ''abc'', rg_pipeline_url = None, rg_job_id = None, rg_api_base_url = Some ''https://api'', rg_access_token = None,
     rg_credentials = io_return None, rg_post = (\<lambda>u t b. io_return ())\<rparr>"

definition sample_manifest :: agent_manifest where
  "sample_manifest =
     \<lparr>am_project_name = ''echo-agent'', am_version = ''1.0.0'', am_name = ''echo-agent'', am_owner_team = ''core'', am_tier_minimum = STANDARD,
      am_handler = ''app:run'', am_invocation_mode = MODE_STREAMING, am_streaming_enabled = True, am_duration = 30, am_deployment = ''container'',
      am_runtime = \<lparr>rc_entrypoint = None, rc_protocol = ''http'', rc_port = 8080\<rparr>,
      am_llm = \<lparr>lc_model_id = None, lc_max_tokens = Some 1024\<rparr>,
      am_evaluations = \<lparr>ec_threshold = FFin (1 / 2) ''0.5'', ec_region = ''eu-central-1''\<rparr>,
      am_ag_ui = \<lparr>agui_enabled = False, agui_transport = AGUI_SSE, agui_endpoint = None\<rparr>\<rparr>"

definition sample_runtime_arn :: string where
  "sample_runtime_arn = ''arn:aws:bedrock-agentcore:eu-west-2:123456789012:runtime/echo-abcdefghij''"

definition sample_endpoint_arn :: string where
  "sample_endpoint_arn = ''arn:aws:bedrock-agentcore:eu-west-2:123456789012:runtime/echo-abcdefghij/runtime-endpoint/live-abcdefghij''"

definition sample_body :: pydict where
  "sample_body = registration_body sample_registrar ''echo-agent'' sample_manifest \<lparr>lm_hash = [], lm_layer_key = [], lm_script_key = []\<rparr>
     sample_runtime_arn (endpoint_list sample_endpoint_arn ''live'' ''1'') ''2026-03-01T00:00:00+00:00''"

lemma sample_body_ok:
  "manifest_ok ''echo-agent'' sample_manifest" "canonical_tenant_id (PStr ''echo-agent'') False = Inr ''echo-agent''"
  "validate_runtime_endpoint_metadata sample_runtime_arn (endpoint_list sample_endpoint_arn ''live'' ''1'') = Inr ()"
  "list_all plain_text [sample_runtime_arn, sample_endpoint_arn, ''live'', ''1'']" "json_clean (PDict sample_body)"
  "is_admin sample_operator" "is_platform_actor sample_operator"
  by code_simp+


section \<open>Nothing else is posted\<close>

definition guarded_registrar :: "(pydict \<Rightarrow> bool) \<Rightarrow> (string \<Rightarrow> string \<Rightarrow> pydict \<Rightarrow> ('w, unit) io) \<Rightarrow> 'w registrar \<Rightarrow> 'w registrar" where
  "guarded_registrar allowed other rg = rg\<lparr>rg_post := \<lambda>url t body. if allowed body then rg_post rg url t body else other url t body\<rparr>"

lemma guarded_registrar_fields [simp]:
  "rg_region (guarded_registrar a h rg) = rg_region rg" "rg_get_parameter (guarded_registrar a h rg) = rg_get_parameter rg"
  "rg_not_found (guarded_registrar a h rg) = rg_not_found rg" "rg_now (guarded_registrar a h rg) = rg_now rg"
  "rg_commit_sha (guarded_registrar a h rg) = rg_commit_sha rg" "rg_pipeline_url (guarded_registrar a h rg) = rg_pipeline_url rg"
  "rg_job_id (guarded_registrar a h rg) = rg_job_id rg" "rg_api_base_url (guarded_registrar a h rg) = rg_api_base_url rg"
  "rg_access_token (guarded_registrar a h rg) = rg_access_token rg" "rg_credentials (guarded_registrar a h rg) = rg_credentials rg"
  by (simp_all add: guarded_registrar_def)

lemma guarded_parameters [simp]: "get_ssm_param (guarded_registrar a h rg) = get_ssm_param rg"
  unfolding fun_eq_iff get_ssm_param_def guarded_registrar_fields by simp

lemma guarded_endpoint_parameters [simp]: "read_endpoint_parameters (guarded_registrar a h rg) params = read_endpoint_parameters rg params"
  by (induction rg params rule: read_endpoint_parameters.induct) simp_all

lemma guarded_preparation [simp]:
  "prepare_registration (guarded_registrar a h rg) = prepare_registration rg" "registration_token (guarded_registrar a h rg) = registration_token rg"
  unfolding fun_eq_iff prepare_registration_def registration_token_def layer_parameters_def checked_endpoint_def runtime_endpoint_metadata_def
    registration_body_def guarded_registrar_fields guarded_parameters guarded_endpoint_parameters by simp_all

text \<open>
  The script posts nothing but bodies made of the agent's own accepted manifest, with a complete endpoint of the very runtime that was
  deployed: behind a guard that lets only these pass it does exactly what it does without it.
\<close>

theorem only_prepared_bodies_are_posted:
  "register_agent (guarded_registrar (\<lambda>body. \<exists>m lm runtime_arn metadata. load_agent_manifest agent toml_path file = Inr m
       \<and> prepared_body rg agent m lm runtime_arn metadata body) other rg) toml_path file agent env url token
   = register_agent rg toml_path file agent env url token"
proof (cases "load_agent_manifest agent toml_path file")
  case (Inr m)
  let ?g = "guarded_registrar (\<lambda>body. \<exists>m' lm runtime_arn metadata. Inr m = (Inr m' :: string list + agent_manifest)
       \<and> prepared_body rg agent m' lm runtime_arn metadata body) other rg"
  have "rg_post ?g u t body = rg_post rg u t body" if "prepare_registration rg env agent m w = (Inr (Some body), w')" for u t body w w'
    using prepared_registration[OF that] by (auto simp: guarded_registrar_def)
  then show ?thesis
    unfolding register_agent_def Inr by (auto simp: fun_eq_iff io_bind_def io_try_def split: prod.splits sum.splits option.splits)
qed (simp add: register_agent_def)

end
