(* ===== verification/Spec2Isabelle.thy ===== *)
theory Spec2Isabelle
  imports CapabilityClient ObjectStore Audit_Records TpmWindow Authoriser GatewayResponse Webhook ApiIsolation Billing BridgeHandler BffSession TenantProvisioner DiagnosticsTools AgentRegistration
begin

text \<open>
  A verification library for the multi-tenant agent platform: its tenant isolation, its admission decisions, its
  management API, the invocation of agents and their accounting, modelled on the Python sources under \<open>src/src\<close>,
  \<open>src/gateway/interceptors\<close> and the scripts under \<open>src/scripts\<close> that put agents into the registry.

  \<^bold>\<open>The program.\<close> A request to the platform is admitted by the Lambda authoriser (a Cognito token or a signed AWS
  role), which hands the tenant downstream. The tenant API keeps tenants, invitations, webhooks, exports and the versions of
  agents; the tenant provisioner builds a tenant's stack in its account and reports by events, which the API turns into
  the tenant's state. The bridge looks an agent up, passes the request through its gates (tier, capability, a budget of tokens per
  minute counted in Valkey), assumes the tenant's role, calls the runtime and records the use; billing adds a day's records to
  the month and suspends a tenant over its budget. The front-end service (BFF) refreshes tokens and keeps sessions alive. Agents call
  tools through a gateway whose REQUEST interceptor verifies the token again, checks the tool registry and the capability policy, and
  replaces the user's token by a scoped one; the RESPONSE interceptor filters listings and redacts personal data. The diagnostics
  tools are called that way. Every component reaches DynamoDB and S3 through the data access library, which pins the tenant. Finished
  jobs start webhook deliveries.

  \<^bold>\<open>Theories.\<close> All of them rest on \<open>Prelude\<close> (Python strings, exceptions and the \<open>io\<close> monad: a computation takes
  the world, returns an exception or a result, and the world it leaves; \<open>io_post\<close> is its Hoare triple) and \<open>PyValue\<close> (the
  dynamic values of JSON and DynamoDB items, \<open>int\<close>, truth, dictionaries). A call of a service is a parameter, a function of the world.
    \<^item> \<open>Json\<close>, \<open>JsonRoundtrip\<close>: \<open>json.loads\<close> and \<open>json.dumps\<close>. The decoder runs on fuel computed from the text; the
      lemmas show that a longer fuel gives the same result, and that what was written is read back. \<open>Base64\<close>, \<open>Calendar\<close>,
      \<open>Arns\<close>: the encodings, dates and resource names the code parses.
    \<^item> \<open>Domains\<close>, \<open>Audit_Records\<close>: the records and enumerations of \<open>data_access/domains\<close> with their keys.
    \<^item> \<open>DataAccess\<close>: the tenant-scoped and the control-plane DynamoDB clients of \<open>data_access/client.py\<close>. Isolation is
      shown twice, as the violation raised on each operation and as indistinguishability of two accounts that
      agree on the tenant. The pagination loops are \<open>partial_function (option)\<close>; what they return and that they return
      are separate theorems. \<open>DynamoTables\<close> states what the code relies on in DynamoDB itself (keys, conditions, \<open>SET\<close> expressions) as
      the predicate \<open>dynamo_ok\<close>, with a map of rows that satisfies it.
    \<^item> \<open>ObjectStore\<close>: the S3 client. \<open>Capability\<close>, \<open>CapabilityClient\<close>: the policy, its parser and the
      client that keeps the last good document, as a refinement of ``the newest readable document''.
    \<^item> \<open>Resp\<close>: the wire format of Valkey, encoding and reading, with the sockets cut into arbitrary pieces.
    \<^item> \<open>TpmLimiter\<close>, \<open>TpmWindow\<close>: the limiter of \<open>bridge/tpm_limiter.py\<close> and its Lua script. The script is interpreted
      over the commands of Valkey, whose laws are the locale \<open>valkey\<close>; a map with expiry times instantiates it.
    \<^item> \<open>SigV4\<close>, \<open>Authoriser\<close>: both paths of the authoriser, with the route classes.
    \<^item> \<open>GatewayRequest\<close>, \<open>GatewayResponse\<close>: the two interceptors, each from the event to the answer. The locale
      \<open>tier_gate\<close> is the contract their tier checks share.
    \<^item> \<open>TenantApi\<close>, \<open>TenantStore\<close>, \<open>TenantRecords\<close>, \<open>TenantLifecycle\<close>, \<open>TenantInvites\<close>, \<open>WebhookRegistry\<close>,
      \<open>TenantAudit\<close>, \<open>OpsControl\<close>, \<open>AgentRegistry\<close>, \<open>ApiHandler\<close>: the tenant API, module by module (\<open>tenant_api/*.py\<close>):
      callers and validation, clients, one handler per route, the state machine of agent versions, the dispatcher. \<open>ApiIsolation\<close>
      shows for the whole API that a tenant's caller leaves the rows of the others alone.
    \<^item> \<open>TenantProvisioner\<close>: the provisioner's actions and polling, and the loop between its reports and the API's event handler.
    \<^item> \<open>BridgeDiscovery\<close>, \<open>BridgeTelemetry\<close>, \<open>BridgeRuntime\<close>, \<open>BridgeInvocation\<close>, \<open>BridgeHandler\<close>: resolving and listing
      agents, the records of an invocation, the call of the runtime as the tenant, the engine with its budget, and the Lambda handler.
    \<^item> \<open>Billing\<close>: the daily run, from the records to the month's totals and the suspension.
    \<^item> \<open>BffSession\<close>: token exchange on behalf of the user and the keep-alive of sessions.
    \<^item> \<open>DiagnosticsTools\<close>: the operator tools, from the scoped token of the gateway to the reports.
    \<^item> \<open>Webhook\<close>: stream events, signed request, one attempt, retries, dead letters and the batch.
    \<^item> \<open>AgentManifest\<close>, \<open>AgentRegistration\<close>: \<open>scripts/agent_manifest.py\<close> and \<open>scripts/register_agent.py\<close>: the manifest's
      contract, the body the script posts and its way through registry and bridge.

  \<^bold>\<open>What the lemmas show.\<close> Isolation (no operation of a tenant's client, of the API or of the provisioner touches or depends on
  another tenant's data), admission (necessary conditions of every Allow and of every call of a tool or runtime, read off the whole
  handler), the life cycle of agent versions as a refinement of its state machine, the budget of a window under any series of requests,
  the amounts that are recorded and billed, exactness of encoders, validators and filters, behaviour on errors (what fails open, what fails
  closed, what is always answered), totality and termination. Components are also joined: provisioner and API, gateway and diagnostics
  tools, registration script, registry and bridge, and below bridge and billing. Where the code does less than it means to, a theorem
  states what happens instead.

  \<^bold>\<open>Bounds.\<close> Python integers are unbounded \<open>int\<close>; floats are exact rationals with the infinities and NaN apart. The
  counters of Lua are exact below \<open>2 ^ 53\<close>, which is the predicate \<open>lua_exact\<close> in the theorems that need it. The fuel of
  the JSON decoder and of the RESP reader is the length of the input plus one, and each theory shows that it is enough. Numbers that
  go to DynamoDB have at most 38 digits, a hypothesis where a row must be stored.

  \<^bold>\<open>Not modelled.\<close> Logging other than the entries that are the only trace of a violation; the cryptography of tokens, HMAC and SHA
  (parameters); AWS, Valkey's server, regular expressions (parameters, or the matchers of \<open>Arns\<close> for the patterns written in the code).
  The settings objects, which only carry environment variables, are fields of the components' configurations. The runtime orchestrator
  of the bridge is imported by its unit tests alone. The other scripts drive git, GitLab, containers and AWS from a developer's machine
  and hold no state of the platform; the example agents rest on a third-party framework; infrastructure and front end are TypeScript.
\<close>

section \<open>From an invocation to the bill\<close>

lemma optional_text_other: "k \<noteq> k' \<Longrightarrow> dget_or (optional_text k v d) k' x = dget_or d k' x"
  by (auto simp: optional_text_def dget_or_def split: option.split list.split)

lemma recorded_tokens:
  "py_int (dget_or (invocation_item r) ''input_tokens'' (PInt 0)) = Inr (inv_input_tokens r)"
  "py_int (dget_or (invocation_item r) ''output_tokens'' (PInt 0)) = Inr (inv_output_tokens r)"
  unfolding invocation_item_def by (simp_all add: optional_text_other) (simp_all add: dget_or_def)

lemma sum_of_texts:
  assumes "\<And>r. py_int (dget_or (f r) k (PInt 0)) = Inr (g r)"
  shows "sum_field k (map f rs) = Inr (sum_list (map g rs))"
proof -
  have "fold (\<lambda>inv acc. bind_res acc (\<lambda>n. bind_res (py_int (dget_or inv k (PInt 0))) (\<lambda>i. Inr (n + i)))) (map f rs) (Inr n)
    = Inr (n + sum_list (map g rs))" for n
    by (induction rs arbitrary: n) (simp_all add: assms bind_res_def add.assoc)
  then show ?thesis by (simp add: sum_field_def)
qed

lemmas recorded_sums = sum_of_texts[of invocation_item _ inv_input_tokens, OF recorded_tokens(1)]
  sum_of_texts[of invocation_item _ inv_output_tokens, OF recorded_tokens(2)]

text \<open>
  Property C12. What the bridge records is what billing books: when the rows of a day are records the bridge wrote, the totals of the
  tenant's month grow by the sums of their input and output tokens and by the cost of those sums, and no other row changes.
\<close>

theorem recorded_usage_is_billed:
  assumes "dynamo_ok (bd_aws deps) rows" and "bill_frame deps rows" and "billed_tenant_of tenant = Inr bt"
    and "ts_query_all (bd_aws deps) (bt_context bt) (bc_invocations_table cfg) (Some (day_window date)) None None True w
      = Some (Inr (map invocation_item rs), w1)" and "rows w1 = rows w"
    and "day_priced deps bt (sum_list (map inv_input_tokens rs)) (sum_list (map inv_output_tokens rs)) c w1"
    and "\<forall>f \<in> set summary_fields.
      month_total (old_row (rows w) (bc_tenants_table cfg) (tenant_pk (bt_id bt)) (''BILLING#'' @ year_month_of date)) f \<noteq> None"
  shows "\<exists>r w'. process_tenant deps cfg tenant date w = Some (r, w')
    \<and> day_booked cfg bt (dict_get tenant ''status'' = Some (PStr ''active'')) (year_month_of date)
        (day_amount (sum_list (map inv_input_tokens rs)) (sum_list (map inv_output_tokens rs)) (round4 c)) (rows w) (rows w')"
  using assms by (intro process_tenant_books[OF assms(1-5)] recorded_sums) simp_all

definition sample_usage_record :: invocation_record where
  "sample_usage_record = invocation_of_log (billing_context ''acme'' ''unknown'' BASIC) sample_agent 90
     ((plain_log ''c0ffee'' INV_SUCCESS 5 MODE_SYNC ''eu-west-1'' None)\<lparr>il_input_tokens := 2000, il_output_tokens := 500\<rparr>)"

definition sample_usage_billing :: "map_world billing_deps" where
  "sample_usage_billing = sample_billing\<lparr>bd_aws := map_aws\<lparr>aw_query := \<lambda>t kw w. (Inr (Some [invocation_item sample_usage_record], None), w)\<rparr>\<rparr>"

theorem recorded_usage_is_billed_witness:
  "\<exists>r w'. process_tenant sample_usage_billing sample_billing_config sample_tenant 1772841600 (no_rows, []) = Some (r, w')
    \<and> day_booked sample_billing_config sample_billed True (year_month_of 1772841600) (day_amount 2000 500 (round4 8)) no_rows (fst w')"
proof -
  have law: "dynamo_ok (bd_aws sample_usage_billing) fst" using map_dynamo_ok by (simp add: sample_usage_billing_def dynamo_ok_query)
  have frame: "bill_frame sample_usage_billing fst"
    using sample_billing_ok(2) by (simp add: sample_usage_billing_def bill_frame_def)
  have found: "ts_query_all (bd_aws sample_usage_billing) ctx t sk None None True w = Some (Inr (map invocation_item [sample_usage_record]), w)"
    for ctx t sk w
    by (simp add: ts_query_all_def page_loop.simps ts_query_def Let_def io_bind_def sample_usage_billing_def paginated_def no_more_pages_def)
  have priced: "day_priced sample_usage_billing sample_billed (sum_list (map inv_input_tokens [sample_usage_record]))
      (sum_list (map inv_output_tokens [sample_usage_record])) 8 w" for w
    using sample_billing_ok(6)[of w]
    by (simp add: day_priced_def sample_usage_billing_def sample_usage_record_def invocation_of_log_def plain_log_def get_pricing_def)
  from recorded_usage_is_billed[OF law frame sample_billing_ok(3) found refl priced, where cfg = sample_billing_config and date = 1772841600 and w = "(no_rows, [])"]
  show ?thesis
    by (simp add: sample_tenant_active old_row_def no_rows_def row_key_def month_total_def dget_or_def summary_fields_def
        sample_usage_record_def invocation_of_log_def plain_log_def)
qed

end
